(* ===== verification/Go_Base.thy ===== *)
theory Go_Base
  imports Main "HOL-Library.Word" "HOL-Library.Signed_Division" "HOL-Library.Sublist"
begin

text \<open>
  Prelude of the EdgeGuard development: the parts of the Go language that every component uses.
  It holds the collections of simplification rules, error values with wrapping and
  \<open>errors.Is\<close> / \<open>errors.As\<close>, 64-bit signed arithmetic, and \<open>time.Time\<close> / \<open>time.Duration\<close>.

  Conventions. A Go function that returns \<open>(T, error)\<close> returns a value of \<open>'e goerr + 'a\<close>,
  \<open>Inl\<close> for a non-nil error. Go's \<open>int\<close> and \<open>int64\<close> are values of type \<open>int\<close> on which the
  wrap-around \<open>wrap64\<close> is written out wherever the source multiplies or adds unchecked input.
\<close>

named_theorems go_time "unfolding rules for time.Time and time.Duration"
named_theorems go_str "rules for the strings package"
named_theorems go_enc "rules for encoding/hex and encoding/base64"

section \<open>Error values\<close>

text \<open>
  \<open>Sentinel e\<close> is a package-level \<open>errors.New\<close> value or a driver error identified by \<open>e\<close>;
  \<open>Errorf m es\<close> is \<open>fmt.Errorf\<close> with format text \<open>m\<close> and the operands \<open>es\<close> of its \<open>%w\<close>
  verbs (empty when there are none); \<open>Typed ty e\<close> is a struct error of type \<open>ty\<close> whose
  \<open>Unwrap\<close> returns \<open>e\<close>.
\<close>

datatype 'e goerr =
    Sentinel 'e
  | Errorf string "'e goerr list"
  | Typed string "'e goerr"

fun errors_is :: "'e goerr \<Rightarrow> 'e \<Rightarrow> bool" where
  "errors_is (Sentinel e) t = (e = t)"
| "errors_is (Errorf m es) t = list_ex (\<lambda>e. errors_is e t) es"
| "errors_is (Typed ty e) t = errors_is e t"

fun errors_as :: "'e goerr \<Rightarrow> string \<Rightarrow> bool" where
  "errors_as (Sentinel e) ty = False"
| "errors_as (Errorf m es) ty = list_ex (\<lambda>e. errors_as e ty) es"
| "errors_as (Typed ty' e) ty = (ty' = ty \<or> errors_as e ty)"

text \<open>The identities an error value carries, as \<open>errors.Is\<close> sees them.\<close>

fun err_ids :: "'e goerr \<Rightarrow> 'e set" where
  "err_ids (Sentinel e) = {e}"
| "err_ids (Errorf m es) = (\<Union>e\<in>set es. err_ids e)"
| "err_ids (Typed ty e) = err_ids e"

lemma errors_is_iff: "errors_is e t \<longleftrightarrow> t \<in> err_ids e"
  by (induction e) (auto simp: list_ex_iff)

section \<open>64-bit signed integers\<close>

definition wrap64 :: "int \<Rightarrow> int" where
  "wrap64 x = signed_take_bit 63 x"

definition int64_range :: "int \<Rightarrow> bool" where
  "int64_range x \<longleftrightarrow> - 9223372036854775808 \<le> x \<and> x < 9223372036854775808"

lemma wrap64_word: "wrap64 x = sint (word_of_int x :: 64 word)"
  by (simp add: wrap64_def sint_sbintrunc')

lemma wrap64_id [simp]: "int64_range x \<Longrightarrow> wrap64 x = x"
  by (simp add: wrap64_def int64_range_def signed_take_bit_int_eq_self_iff)

lemma wrap64_range [simp, intro]: "int64_range (wrap64 x)"
  using signed_take_bit_int_greater_eq_minus_exp [of 63 x] signed_take_bit_int_less_exp [of 63 x]
  by (simp add: wrap64_def int64_range_def)

text \<open>Go's integer division truncates towards zero; on non-negative operands it is \<open>div\<close>.\<close>

lemma sdiv_nonneg [simp]: "0 \<le> a \<Longrightarrow> 0 < b \<Longrightarrow> a sdiv b = a div (b::int)"
  by (cases "a = 0") (simp_all add: signed_divide_int_def)

section \<open>Time\<close>

text \<open>
  A \<open>time.Time\<close> is the number of nanoseconds since the zero time (1 January of year 1, UTC), so
  the zero value is \<open>0\<close>, comparison is comparison of integers and \<open>UTC()\<close> is the identity. A
  \<open>time.Duration\<close> is a signed 64-bit number of nanoseconds.
\<close>

type_synonym Time = int
type_synonym Duration = int

definition Millisecond :: Duration where [go_time]: "Millisecond = 1000000"
definition Second :: Duration where [go_time]: "Second = 1000000000"
definition Minute :: Duration where [go_time]: "Minute = 60000000000"
definition Hour :: Duration where [go_time]: "Hour = 3600000000000"

definition IsZero :: "Time \<Rightarrow> bool" where
  [go_time]: "IsZero t \<longleftrightarrow> t = 0"

definition time_Add :: "Time \<Rightarrow> Duration \<Rightarrow> Time" where
  [go_time]: "time_Add t d = t + d"

text \<open>\<open>Sub\<close> saturates at the bounds of a Duration.\<close>

definition time_Sub :: "Time \<Rightarrow> Time \<Rightarrow> Duration" where
  "time_Sub t u = max (- 9223372036854775808) (min 9223372036854775807 (t - u))"

lemma time_Sub_exact: "int64_range (t - u) \<Longrightarrow> time_Sub t u = t - u"
  by (simp add: time_Sub_def int64_range_def)

definition time_Truncate :: "Time \<Rightarrow> Duration \<Rightarrow> Time" where
  "time_Truncate t d = (if d \<le> 0 then t else t - t mod d)"

lemma time_Truncate_bounds:
  "0 < d \<Longrightarrow> time_Truncate t d \<le> t" "0 < d \<Longrightarrow> t < time_Truncate t d + d"
  by (simp_all add: time_Truncate_def)

lemma time_Truncate_dvd: "0 < d \<Longrightarrow> d dvd time_Truncate t d"
  by (simp add: time_Truncate_def mod_eq_0_iff_dvd flip: minus_mod_eq_div_mult)

lemma time_Truncate_self: "0 < d \<Longrightarrow> d dvd t \<Longrightarrow> time_Truncate t d = t"
  by (simp add: time_Truncate_def)

text \<open>Nanoseconds from the zero time to the Unix epoch.\<close>

definition unix_epoch :: Time where
  "unix_epoch = 62135596800000000000"

definition UnixMilli :: "Time \<Rightarrow> int" where
  "UnixMilli t = (t - unix_epoch) div 1000000"

definition time_of_UnixMilli :: "int \<Rightarrow> Time" where
  "time_of_UnixMilli ms = unix_epoch + ms * 1000000"

definition Unix :: "Time \<Rightarrow> int" where
  "Unix t = (t - unix_epoch) div 1000000000"

definition dur_Milliseconds :: "Duration \<Rightarrow> int" where
  "dur_Milliseconds d = d sdiv 1000000"

lemma UnixMilli_bounds:
  "time_of_UnixMilli (UnixMilli t) \<le> t" "t < time_of_UnixMilli (UnixMilli t) + 1000000"
  unfolding time_of_UnixMilli_def UnixMilli_def by linarith+

section \<open>Lookup in association lists and option helpers\<close>

text \<open>Tables keyed by a field are lists of rows in insertion order.\<close>

definition find_row :: "('r \<Rightarrow> bool) \<Rightarrow> 'r list \<Rightarrow> 'r option" where
  "find_row P rs = List.find P rs"

lemma find_row_Some: "find_row P rs = Some r \<Longrightarrow> r \<in> set rs \<and> P r"
  by (auto simp: find_row_def find_Some_iff)

lemma find_row_None: "find_row P rs = None \<longleftrightarrow> (\<forall>r\<in>set rs. \<not> P r)"
  by (induction rs) (auto simp: find_row_def)

lemma find_row_Nil [simp]: "find_row P [] = None"
  by (simp add: find_row_def)

lemma find_row_Cons [simp]: "find_row P (r # rs) = (if P r then Some r else find_row P rs)"
  by (simp add: find_row_def)

lemma find_row_append:
  "find_row P (rs @ ss) = (case find_row P rs of None \<Rightarrow> find_row P ss | Some r \<Rightarrow> Some r)"
  by (induction rs) auto

text \<open>An SQL \<open>UPDATE ... SET f WHERE P\<close>.\<close>

definition update_rows :: "('r \<Rightarrow> bool) \<Rightarrow> ('r \<Rightarrow> 'r) \<Rightarrow> 'r list \<Rightarrow> 'r list" where
  "update_rows P f rs = map (\<lambda>r. if P r then f r else r) rs"

lemma update_rows_Nil [simp]: "update_rows P f [] = []"
  by (simp add: update_rows_def)

lemma update_rows_Cons [simp]:
  "update_rows P f (r # rs) = (if P r then f r else r) # update_rows P f rs"
  by (simp add: update_rows_def)

lemma length_update_rows [simp]: "length (update_rows P f rs) = length rs"
  by (simp add: update_rows_def)

lemma in_update_rows:
  "r \<in> set (update_rows P f rs) \<longleftrightarrow> (\<exists>r0\<in>set rs. r = (if P r0 then f r0 else r0))"
  by (auto simp: update_rows_def)

lemma map_update_rows_same:
  "(\<And>r. r \<in> set rs \<Longrightarrow> P r \<Longrightarrow> k (f r) = k r) \<Longrightarrow> map k (update_rows P f rs) = map k rs"
  by (induction rs) auto

text \<open>Two rows of a table with a primary key are equal when their keys are.\<close>

lemma distinct_key_eq:
  "distinct (map k rs) \<Longrightarrow> r \<in> set rs \<Longrightarrow> r' \<in> set rs \<Longrightarrow> k r = k r' \<Longrightarrow> r = r'"
  by (metis distinct_map inj_onD)

lemma find_row_key:
  assumes "distinct (map k rs)" and "r \<in> set rs" and "k r = x"
  shows "find_row (\<lambda>r. k r = x) rs = Some r"
  using assms by (induction rs) auto

lemma find_row_update_key:
  assumes "\<And>r. P r \<Longrightarrow> k (f r) = k r"
  shows "find_row (\<lambda>r. k r = x) (update_rows P f rs) =
    map_option (\<lambda>r. if P r then f r else r) (find_row (\<lambda>r. k r = x) rs)"
  using assms by (induction rs) auto

text \<open>Results of state-passing calls.\<close>

lemma fst_Inr_pair: "\<not> isl (fst x) \<Longrightarrow> \<exists>a s. x = (Inr a, s)"
  by (cases x; cases "fst x") auto

lemma fst_None_pair: "fst x = None \<Longrightarrow> \<exists>s. x = (None, s)"
  by (cases x) auto

end
