(* ===== verification/Go_Strings.thy ===== *)
theory Go_Strings
  imports Go_Base
begin

text \<open>
  The functions of Go's \<open>strings\<close> and \<open>strconv\<close> packages that EdgeGuard calls. A Go string is a
  sequence of bytes, here a list of characters (an Isabelle \<open>char\<close> is one byte), so \<open>length\<close> is
  Go's \<open>len\<close>. \<open>TrimSpace\<close> and \<open>Fields\<close> follow \<open>unicode.IsSpace\<close> on the UTF-8 encodings of
  the white-space code points; \<open>ToLower\<close> and \<open>ToUpper\<close> are computed for ASCII strings and take
  the Unicode case tables for all others as a parameter.
\<close>

section \<open>Prefixes, suffixes and cutting\<close>

definition HasPrefix :: "string \<Rightarrow> string \<Rightarrow> bool" where
  [go_str]: "HasPrefix s p \<longleftrightarrow> prefix p s"

definition HasSuffix :: "string \<Rightarrow> string \<Rightarrow> bool" where
  [go_str]: "HasSuffix s p \<longleftrightarrow> suffix p s"

definition TrimPrefix :: "string \<Rightarrow> string \<Rightarrow> string" where
  "TrimPrefix s p = (if HasPrefix s p then drop (length p) s else s)"

lemma TrimPrefix_append [simp]: "TrimPrefix (p @ s) p = s"
  by (simp add: TrimPrefix_def HasPrefix_def)

text \<open>\<open>TrimRight(s, cutset)\<close> for a cutset of one byte.\<close>

definition TrimRightByte :: "string \<Rightarrow> char \<Rightarrow> string" where
  "TrimRightByte s c = rev (dropWhile (\<lambda>x. x = c) (rev s))"

lemma TrimRightByte_Nil [simp]: "TrimRightByte [] c = []"
  by (simp add: TrimRightByte_def)

lemma TrimRightByte_decomp: "\<exists>n. s = TrimRightByte s c @ replicate n c"
proof -
  let ?t = "takeWhile (\<lambda>x. x = c) (rev s)"
  have "rev s = ?t @ dropWhile (\<lambda>x. x = c) (rev s)" by simp
  then have "s = TrimRightByte s c @ rev ?t"
    by (metis TrimRightByte_def rev_append rev_rev_ident)
  moreover have "rev ?t = replicate (length ?t) c"
    using set_takeWhileD [of _ "\<lambda>x. x = c" "rev s"]
    by (metis length_rev replicate_length_same set_rev)
  ultimately show ?thesis by metis
qed

lemma TrimRightByte_last: "TrimRightByte s c \<noteq> [] \<Longrightarrow> last (TrimRightByte s c) \<noteq> c"
  using hd_dropWhile [of "\<lambda>x. x = c" "rev s"] by (simp add: TrimRightByte_def last_rev)

lemma TrimRightByte_id: "s = [] \<or> last s \<noteq> c \<Longrightarrow> TrimRightByte s c = s"
  unfolding TrimRightByte_def
  by (cases s rule: rev_cases) auto

lemma TrimRightByte_idem [simp]: "TrimRightByte (TrimRightByte s c) c = TrimRightByte s c"
  using TrimRightByte_last TrimRightByte_id by blast

lemma TrimRightByte_snoc [simp]: "TrimRightByte (s @ [c]) c = TrimRightByte s c"
  by (simp add: TrimRightByte_def)

lemma TrimRightByte_replicate [simp]: "TrimRightByte (s @ replicate n c) c = TrimRightByte s c"
proof (induction n)
  case (Suc n)
  have "s @ replicate (Suc n) c = (s @ replicate n c) @ [c]"
    by (simp add: replicate_append_same)
  then show ?case using Suc TrimRightByte_snoc by metis
qed simp

lemma length_TrimRightByte: "length (TrimRightByte s c) \<le> length s"
  by (metis TrimRightByte_def length_dropWhile_le length_rev)

text \<open>\<open>strings.Split\<close> and \<open>strings.SplitN\<close> on a one-byte separator.\<close>

fun split_byte :: "char \<Rightarrow> string \<Rightarrow> string list" where
  "split_byte c [] = [[]]"
| "split_byte c (x # xs) =
     (if x = c then [] # split_byte c xs
      else (case split_byte c xs of [] \<Rightarrow> [[x]] | y # ys \<Rightarrow> (x # y) # ys))"

fun cut_byte :: "char \<Rightarrow> string \<Rightarrow> (string \<times> string) option" where
  "cut_byte c [] = None"
| "cut_byte c (x # xs) =
     (if x = c then Some ([], xs) else map_option (\<lambda>(a, b). (x # a, b)) (cut_byte c xs))"

fun split_byte_n :: "nat \<Rightarrow> char \<Rightarrow> string \<Rightarrow> string list" where
  "split_byte_n 0 c s = []"
| "split_byte_n (Suc 0) c s = [s]"
| "split_byte_n (Suc (Suc n)) c s =
     (case cut_byte c s of None \<Rightarrow> [s] | Some (a, b) \<Rightarrow> a # split_byte_n (Suc n) c b)"

lemma cut_byte_append [simp]: "c \<notin> set a \<Longrightarrow> cut_byte c (a @ c # b) = Some (a, b)"
  by (induction a) auto

lemma cut_byte_Some: "cut_byte c s = Some (a, b) \<Longrightarrow> s = a @ c # b \<and> c \<notin> set a"
  by (induction s arbitrary: a b) (auto split: if_splits)

lemma split_byte_nonempty [simp]: "split_byte c s \<noteq> []"
  by (induction s) (auto split: list.splits)

lemma split_byte_no_sep: "x \<in> set (split_byte c s) \<Longrightarrow> c \<notin> set x"
  by (induction s arbitrary: x) (auto split: if_splits list.splits)

lemma split_byte_Cons_sep: "split_byte c (a @ c # b) = split_byte c a @ split_byte c b"
proof (induction a)
  case (Cons x a)
  then show ?case
    by (cases "split_byte c a") auto
qed simp

section \<open>White space\<close>

text \<open>The UTF-8 encodings of the code points for which \<open>unicode.IsSpace\<close> holds.\<close>

definition space_encodings :: "string list" where
  "space_encodings =
    [[CHR 0x20], [CHR 0x09], [CHR 0x0A], [CHR 0x0B], [CHR 0x0C], [CHR 0x0D],
     [CHR 0xC2, CHR 0x85], [CHR 0xC2, CHR 0xA0], [CHR 0xE1, CHR 0x9A, CHR 0x80],
     [CHR 0xE2, CHR 0x80, CHR 0x80], [CHR 0xE2, CHR 0x80, CHR 0x81],
     [CHR 0xE2, CHR 0x80, CHR 0x82], [CHR 0xE2, CHR 0x80, CHR 0x83],
     [CHR 0xE2, CHR 0x80, CHR 0x84], [CHR 0xE2, CHR 0x80, CHR 0x85],
     [CHR 0xE2, CHR 0x80, CHR 0x86], [CHR 0xE2, CHR 0x80, CHR 0x87],
     [CHR 0xE2, CHR 0x80, CHR 0x88], [CHR 0xE2, CHR 0x80, CHR 0x89],
     [CHR 0xE2, CHR 0x80, CHR 0x8A], [CHR 0xE2, CHR 0x80, CHR 0xA8],
     [CHR 0xE2, CHR 0x80, CHR 0xA9], [CHR 0xE2, CHR 0x80, CHR 0xAF],
     [CHR 0xE2, CHR 0x81, CHR 0x9F], [CHR 0xE3, CHR 0x80, CHR 0x80]]"

definition leading_token :: "string list \<Rightarrow> string \<Rightarrow> string option" where
  "leading_token ps s = List.find (\<lambda>p. p \<noteq> [] \<and> prefix p s) ps"

lemma leading_token_Some:
  "leading_token ps s = Some p \<Longrightarrow> p \<in> set ps \<and> p \<noteq> [] \<and> prefix p s"
  by (auto simp: leading_token_def find_Some_iff)

lemma leading_token_None:
  "leading_token ps s = None \<longleftrightarrow> (\<forall>p\<in>set ps. p \<noteq> [] \<longrightarrow> \<not> prefix p s)"
  by (auto simp: leading_token_def find_None_iff)

function trim_tokens :: "string list \<Rightarrow> string \<Rightarrow> string" where
  "trim_tokens ps s =
     (case leading_token ps s of
        None \<Rightarrow> s
      | Some p \<Rightarrow> trim_tokens ps (drop (length p) s))"
  by pat_completeness auto
termination
proof (relation "measure (\<lambda>(ps, s). length s)")
  fix ps s p
  assume "leading_token ps s = Some p"
  then have "p \<noteq> []" and "prefix p s" by (auto dest: leading_token_Some)
  then show "((ps, drop (length p) s), ps, s) \<in> measure (\<lambda>(ps, s). length s)"
    by (auto simp: prefix_def)
qed simp

declare trim_tokens.simps [simp del]

definition TrimLeftSpace :: "string \<Rightarrow> string" where
  "TrimLeftSpace s = trim_tokens space_encodings s"

definition TrimRightSpace :: "string \<Rightarrow> string" where
  "TrimRightSpace s = rev (trim_tokens (map rev space_encodings) (rev s))"

definition TrimSpace :: "string \<Rightarrow> string" where
  "TrimSpace s = TrimRightSpace (TrimLeftSpace s)"

lemma trim_tokens_stop: "leading_token ps (trim_tokens ps s) = None"
proof (induction ps s rule: trim_tokens.induct)
  case (1 ps s)
  then show ?case
    by (cases "leading_token ps s") (simp_all add: trim_tokens.simps [of ps s])
qed

lemma trim_tokens_fix: "leading_token ps s = None \<Longrightarrow> trim_tokens ps s = s"
  by (simp add: trim_tokens.simps)

lemma trim_tokens_suffix: "suffix (trim_tokens ps s) s"
proof (induction ps s rule: trim_tokens.induct)
  case (1 ps s)
  show ?case
  proof (cases "leading_token ps s")
    case None
    then show ?thesis by (simp add: trim_tokens_fix)
  next
    case (Some p)
    with 1 have "suffix (trim_tokens ps (drop (length p) s)) (drop (length p) s)" by simp
    then have "suffix (trim_tokens ps (drop (length p) s)) s"
      using suffix_drop suffix_order.trans by blast
    with Some show ?thesis by (simp add: trim_tokens.simps [of ps s])
  qed
qed

lemma TrimRightSpace_prefix: "prefix (TrimRightSpace s) s"
  using trim_tokens_suffix [of "map rev space_encodings" "rev s"]
  by (simp add: TrimRightSpace_def suffix_to_prefix)

lemma TrimLeftSpace_suffix: "suffix (TrimLeftSpace s) s"
  by (simp add: TrimLeftSpace_def trim_tokens_suffix)

lemma leading_token_prefix:
  "leading_token ps s = None \<Longrightarrow> prefix t s \<Longrightarrow> leading_token ps t = None"
  unfolding leading_token_None by (meson prefix_order.trans)

text \<open>Trimming leaves no white space at either end, so it is idempotent.\<close>

lemma TrimSpace_no_lead: "leading_token space_encodings (TrimSpace s) = None"
  unfolding TrimSpace_def
  using leading_token_prefix [OF _ TrimRightSpace_prefix] trim_tokens_stop TrimLeftSpace_def
  by metis

lemma TrimSpace_no_trail: "leading_token (map rev space_encodings) (rev (TrimSpace s)) = None"
  by (simp add: TrimSpace_def TrimRightSpace_def trim_tokens_stop)

lemma TrimSpace_fix:
  assumes "leading_token space_encodings s = None"
    and "leading_token (map rev space_encodings) (rev s) = None"
  shows "TrimSpace s = s"
  using assms by (simp add: TrimSpace_def TrimLeftSpace_def TrimRightSpace_def trim_tokens_fix)

lemma TrimSpace_idem [simp]: "TrimSpace (TrimSpace s) = TrimSpace s"
  by (rule TrimSpace_fix) (rule TrimSpace_no_lead, rule TrimSpace_no_trail)

lemma TrimSpace_Nil [simp]: "TrimSpace [] = []"
  by (rule TrimSpace_fix) (simp_all add: leading_token_None)

lemma TrimSpace_sublist: "sublist (TrimSpace s) s"
  unfolding TrimSpace_def
  using TrimRightSpace_prefix TrimLeftSpace_suffix
  by (meson prefix_imp_sublist suffix_imp_sublist sublist_order.order_trans)

lemma set_TrimSpace: "set (TrimSpace s) \<subseteq> set s"
  using TrimSpace_sublist set_mono_sublist by blast

lemma TrimSpace_nonempty_imp: "TrimSpace s \<noteq> [] \<Longrightarrow> s \<noteq> []"
  by auto

text \<open>Trimming removes no byte that occurs in no white-space encoding.\<close>

lemma trim_tokens_keeps:
  "c \<in> set s \<Longrightarrow> \<forall>p\<in>set ps. c \<notin> set p \<Longrightarrow> c \<in> set (trim_tokens ps s)"
proof (induction ps s rule: trim_tokens.induct)
  case (1 ps s)
  show ?case
  proof (cases "leading_token ps s")
    case None
    then show ?thesis using 1 by (simp add: trim_tokens_fix)
  next
    case (Some p)
    then have p: "p \<in> set ps" "prefix p s" by (auto dest: leading_token_Some)
    then obtain t where s: "s = p @ t" by (auto simp: prefix_def)
    have "trim_tokens ps s = trim_tokens ps t" using Some s by (simp add: trim_tokens.simps [of ps "p @ t"])
    with p 1 Some s show ?thesis by simp
  qed
qed

lemma TrimSpace_keeps:
  assumes "c \<in> set s" and "\<forall>p\<in>set space_encodings. c \<notin> set p"
  shows "c \<in> set (TrimSpace s)"
  using assms trim_tokens_keeps [of c s space_encodings]
    trim_tokens_keeps [of c "rev (trim_tokens space_encodings s)" "map rev space_encodings"]
  by (simp add: TrimSpace_def TrimLeftSpace_def TrimRightSpace_def)

text \<open>Strings whose first and last bytes are printable ASCII are their own trimmed form.\<close>

definition visible_ascii :: "char \<Rightarrow> bool" where
  "visible_ascii c \<longleftrightarrow> 33 \<le> (of_char c :: nat) \<and> (of_char c :: nat) \<le> 126"

lemma space_encodings_first:
  "\<forall>p\<in>set space_encodings. p \<noteq> [] \<and> \<not> visible_ascii (hd p) \<and> \<not> visible_ascii (last p)"
  by (simp add: space_encodings_def visible_ascii_def)

lemma TrimSpace_visible:
  assumes "visible_ascii (hd s)" and "visible_ascii (last s)"
  shows "TrimSpace s = s"
proof (cases "s = []")
  case False
  show ?thesis
  proof (rule TrimSpace_fix)
    show "leading_token space_encodings s = None"
      unfolding leading_token_None
    proof (intro ballI impI notI)
      fix p assume "p \<in> set space_encodings" and "prefix p s"
      with space_encodings_first have "hd p = hd s" "\<not> visible_ascii (hd p)"
        by (auto simp: prefix_def)
      with assms show False by simp
    qed
    show "leading_token (map rev space_encodings) (rev s) = None"
      unfolding leading_token_None
    proof (intro ballI impI notI)
      fix p assume "p \<in> set (map rev space_encodings)" and pre: "prefix p (rev s)"
      then obtain q where q: "q \<in> set space_encodings" "p = rev q" by auto
      with space_encodings_first have "q \<noteq> []" "\<not> visible_ascii (last q)" by auto
      moreover from pre q have "suffix q s" by (simp add: suffix_to_prefix)
      then have "q \<noteq> [] \<Longrightarrow> last q = last s" by (auto simp: suffix_def)
      ultimately show False using assms by simp
    qed
  qed
qed simp

text \<open>\<open>strings.Fields\<close>: the maximal runs of bytes that are not part of white space.\<close>

fun take_word :: "string \<Rightarrow> string" where
  "take_word [] = []"
| "take_word (c # cs) =
     (if leading_token space_encodings (c # cs) \<noteq> None then [] else c # take_word cs)"

lemma take_word_length: "length (take_word s) \<le> length s"
  by (induction s rule: take_word.induct) auto

function Fields :: "string \<Rightarrow> string list" where
  "Fields s =
     (let t = TrimLeftSpace s in
      if t = [] then [] else take_word t # Fields (drop (length (take_word t)) t))"
  by pat_completeness auto
termination
proof (relation "measure length")
  fix s t
  assume t: "t = TrimLeftSpace s" and "t \<noteq> []"
  have "leading_token space_encodings t = None"
    using t by (simp add: TrimLeftSpace_def trim_tokens_stop)
  with \<open>t \<noteq> []\<close> have "take_word t \<noteq> []" by (cases t) auto
  moreover have "length t \<le> length s"
    using t TrimLeftSpace_suffix suffix_length_le by blast
  moreover have "0 < length (take_word t)" using calculation(1) by simp
  ultimately show "(drop (length (take_word t)) t, s) \<in> measure length"
    using \<open>t \<noteq> []\<close> by (simp add: less_le_trans [OF diff_less])
qed simp

declare Fields.simps [simp del]

section \<open>Letter case\<close>

definition is_ascii :: "char \<Rightarrow> bool" where
  "is_ascii c \<longleftrightarrow> (of_char c :: nat) < 128"

definition ascii_lower :: "char \<Rightarrow> char" where
  "ascii_lower c = (let n = of_char c :: nat in if 65 \<le> n \<and> n \<le> 90 then char_of (n + 32) else c)"

definition ascii_upper :: "char \<Rightarrow> char" where
  "ascii_upper c = (let n = of_char c :: nat in if 97 \<le> n \<and> n \<le> 122 then char_of (n - 32) else c)"

text \<open>The Unicode case mappings of strings that are not pure ASCII.\<close>

record case_tables =
  uni_lower :: "string \<Rightarrow> string"
  uni_upper :: "string \<Rightarrow> string"

definition ToLower :: "case_tables \<Rightarrow> string \<Rightarrow> string" where
  "ToLower ct s = (if list_all is_ascii s then map ascii_lower s else uni_lower ct s)"

definition ToUpper :: "case_tables \<Rightarrow> string \<Rightarrow> string" where
  "ToUpper ct s = (if list_all is_ascii s then map ascii_upper s else uni_upper ct s)"

text \<open>\<open>EqualFold(s, t)\<close> for an ASCII \<open>t\<close> without the letters k and s, which alone have
  non-ASCII case folds.\<close>

definition EqualFoldASCII :: "string \<Rightarrow> string \<Rightarrow> bool" where
  "EqualFoldASCII s t \<longleftrightarrow> map ascii_lower s = map ascii_lower t"

section \<open>Decimal integers\<close>

definition digit_char :: "nat \<Rightarrow> char" where
  "digit_char d = char_of (48 + d)"

definition char_digit :: "char \<Rightarrow> nat option" where
  "char_digit c = (let n = of_char c :: nat in if 48 \<le> n \<and> n \<le> 57 then Some (n - 48) else None)"

fun digits10 :: "nat \<Rightarrow> string" where
  "digits10 n = (if n < 10 then [digit_char n] else digits10 (n div 10) @ [digit_char (n mod 10)])"

declare digits10.simps [simp del]

definition Itoa :: "int \<Rightarrow> string" where
  "Itoa z = (if z < 0 then CHR ''-'' # digits10 (nat (- z)) else digits10 (nat z))"

fun parse_digits :: "nat \<Rightarrow> string \<Rightarrow> nat option" where
  "parse_digits acc [] = Some acc"
| "parse_digits acc (c # cs) =
     (case char_digit c of None \<Rightarrow> None | Some d \<Rightarrow> parse_digits (acc * 10 + d) cs)"

text \<open>\<open>strconv.Atoi\<close>: an optional sign, at least one digit, and a value in the 64-bit range.\<close>

definition Atoi :: "string \<Rightarrow> int option" where
  "Atoi s =
     (let neg = (s \<noteq> [] \<and> hd s = CHR ''-'');
          ds = (if s \<noteq> [] \<and> (hd s = CHR ''-'' \<or> hd s = CHR ''+'') then tl s else s)
      in if ds = [] then None
         else (case parse_digits 0 ds of
                 None \<Rightarrow> None
               | Some n \<Rightarrow> (let v = (if neg then - int n else int n)
                            in if int64_range v then Some v else None)))"

lemma char_digit_digit_char [simp]: "d < 10 \<Longrightarrow> char_digit (digit_char d) = Some d"
  by (simp add: char_digit_def digit_char_def)

lemma parse_digits_snoc:
  "d < 10 \<Longrightarrow> parse_digits acc (xs @ [digit_char d]) =
     map_option (\<lambda>n. n * 10 + d) (parse_digits acc xs)"
  by (induction acc xs rule: parse_digits.induct) (auto split: option.splits)

lemma parse_digits_digits10 [simp]: "parse_digits 0 (digits10 n) = Some n"
proof (induction n rule: digits10.induct)
  case (1 n)
  show ?case
  proof (cases "n < 10")
    case True
    then show ?thesis by (subst digits10.simps) simp
  next
    case False
    with 1 show ?thesis by (subst digits10.simps) (simp add: parse_digits_snoc)
  qed
qed

lemma digits10_nonempty [simp]: "digits10 n \<noteq> []"
  by (subst digits10.simps) simp

lemma digits10_digit: "c \<in> set (digits10 n) \<Longrightarrow> \<exists>d<10. c = digit_char d"
proof (induction n rule: digits10.induct)
  case (1 n)
  then show ?case
    by (cases "n < 10") (auto simp: digits10.simps [of n] intro: exI [of _ "n mod 10"])
qed

lemma digit_char_sign: "d < 10 \<Longrightarrow> digit_char d \<noteq> CHR ''-'' \<and> digit_char d \<noteq> CHR ''+''"
proof -
  assume "d < 10"
  then have "char_digit (digit_char d) = Some d" by simp
  moreover have "char_digit (CHR ''-'') = None" "char_digit (CHR ''+'') = None"
    by (simp_all add: char_digit_def)
  ultimately show ?thesis by auto
qed

lemma hd_digits10: "hd (digits10 n) \<noteq> CHR ''-''" "hd (digits10 n) \<noteq> CHR ''+''"
  using digits10_digit [of "hd (digits10 n)" n] digit_char_sign
  by (metis digits10_nonempty hd_in_set)+

theorem Atoi_Itoa: "int64_range z \<Longrightarrow> Atoi (Itoa z) = Some z"
  by (auto simp: Atoi_def Itoa_def Let_def hd_digits10)

lemma digits10_inj: "digits10 m = digits10 n \<Longrightarrow> m = n"
  by (metis option.inject parse_digits_digits10)

lemma Itoa_inj: "Itoa a = Itoa b \<Longrightarrow> a = b"
proof -
  assume eq: "Itoa a = Itoa b"
  have *: "\<And>m n. CHR ''-'' # digits10 m \<noteq> digits10 n"
    by (metis hd_digits10(1) list.sel(1))
  from eq show ?thesis
    by (auto simp: Itoa_def * *[symmetric] split: if_splits dest!: digits10_inj)
qed

end
