(* ===== verification/Go_Encoding.thy ===== *)
theory Go_Encoding
  imports Go_Strings
begin

text \<open>
  The functions of \<open>encoding/hex\<close> and \<open>encoding/base64\<close> (\<open>RawURLEncoding\<close>) that API keys,
  tokens, request ids and rate-limit keys go through, with their round trips. A \<open>[]byte\<close> is, like
  a string, a list of characters.
\<close>

abbreviation byte_val :: "char \<Rightarrow> nat" where
  "byte_val c \<equiv> of_char c"

section \<open>Hexadecimal\<close>

definition hex_digit :: "nat \<Rightarrow> char" where
  "hex_digit n = (if n < 10 then char_of (48 + n) else char_of (87 + n))"

definition hex_val :: "char \<Rightarrow> nat option" where
  "hex_val c =
     (let n = byte_val c in
      if 48 \<le> n \<and> n \<le> 57 then Some (n - 48)
      else if 97 \<le> n \<and> n \<le> 102 then Some (n - 87)
      else if 65 \<le> n \<and> n \<le> 70 then Some (n - 55)
      else None)"

definition hex_EncodeToString :: "string \<Rightarrow> string" where
  "hex_EncodeToString bs =
     concat (map (\<lambda>b. [hex_digit (byte_val b div 16), hex_digit (byte_val b mod 16)]) bs)"

fun hex_DecodeString :: "string \<Rightarrow> string option" where
  "hex_DecodeString [] = Some []"
| "hex_DecodeString [c] = None"
| "hex_DecodeString (c # d # r) =
     (case (hex_val c, hex_val d, hex_DecodeString r) of
        (Some h, Some l, Some bs) \<Rightarrow> Some (char_of (h * 16 + l) # bs)
      | _ \<Rightarrow> None)"

lemma hex_val_digit [simp]: "n < 16 \<Longrightarrow> hex_val (hex_digit n) = Some n"
  by (auto simp: hex_val_def hex_digit_def Let_def)

lemma hex_val_less: "hex_val c = Some n \<Longrightarrow> n < 16"
  by (auto simp: hex_val_def Let_def split: if_splits)

lemma hex_Encode_simps [simp]:
  "hex_EncodeToString [] = []"
  "hex_EncodeToString (b # bs) =
     hex_digit (byte_val b div 16) # hex_digit (byte_val b mod 16) # hex_EncodeToString bs"
  by (simp_all add: hex_EncodeToString_def)

lemma byte_div16 [simp]: "byte_val b div 16 < 16"
  by (simp add: less_mult_imp_div_less)

theorem hex_round_trip [simp]: "hex_DecodeString (hex_EncodeToString bs) = Some bs"
  by (induction bs) simp_all

lemma hex_Encode_length [simp]: "length (hex_EncodeToString bs) = 2 * length bs"
  by (induction bs) simp_all

lemma hex_Encode_inj: "hex_EncodeToString a = hex_EncodeToString b \<longleftrightarrow> a = b"
  by (metis hex_round_trip option.inject)

lemma hex_Decode_length: "hex_DecodeString s = Some bs \<Longrightarrow> length s = 2 * length bs"
  by (induction s arbitrary: bs rule: hex_DecodeString.induct) (auto split: option.splits)

lemma hex_Decode_chars: "hex_DecodeString s = Some bs \<Longrightarrow> c \<in> set s \<Longrightarrow> hex_val c \<noteq> None"
  by (induction s arbitrary: bs rule: hex_DecodeString.induct) (auto split: option.splits)

lemma hex_Encode_chars: "c \<in> set (hex_EncodeToString bs) \<Longrightarrow> hex_val c \<noteq> None"
  using hex_Decode_chars hex_round_trip by blast

lemma hex_val_special:
  "hex_val (CHR ''_'') = None" "hex_val (CHR '':'') = None" "hex_val (CHR ''-'') = None"
  "hex_val (CHR '' '') = None"
  by (simp_all add: hex_val_def)

lemma hex_Encode_no_special:
  "CHR ''_'' \<notin> set (hex_EncodeToString bs)" "CHR '':'' \<notin> set (hex_EncodeToString bs)"
  "CHR ''-'' \<notin> set (hex_EncodeToString bs)"
  using hex_Encode_chars hex_val_special by blast+

section \<open>Base64, URL alphabet, no padding\<close>

definition b64_char :: "nat \<Rightarrow> char" where
  "b64_char n =
     (if n < 26 then char_of (65 + n) else if n < 52 then char_of (71 + n)
      else if n < 62 then char_of (n - 4) else if n = 62 then CHR ''-'' else CHR ''_'')"

definition b64_val :: "char \<Rightarrow> nat option" where
  "b64_val c =
     (let n = byte_val c in
      if 65 \<le> n \<and> n \<le> 90 then Some (n - 65)
      else if 97 \<le> n \<and> n \<le> 122 then Some (n - 71)
      else if 48 \<le> n \<and> n \<le> 57 then Some (n + 4)
      else if n = 45 then Some 62 else if n = 95 then Some 63 else None)"

fun b64_groups :: "nat list \<Rightarrow> nat list" where
  "b64_groups [] = []"
| "b64_groups [a] = [a div 4, (a mod 4) * 16]"
| "b64_groups [a, b] = [a div 4, (a mod 4) * 16 + b div 16, (b mod 16) * 4]"
| "b64_groups (a # b # c # r) =
     [a div 4, (a mod 4) * 16 + b div 16, (b mod 16) * 4 + c div 64, c mod 64] @ b64_groups r"

fun b64_ungroups :: "nat list \<Rightarrow> nat list option" where
  "b64_ungroups [] = Some []"
| "b64_ungroups [p] = None"
| "b64_ungroups [p, q] = Some [p * 4 + q div 16]"
| "b64_ungroups [p, q, r] = Some [p * 4 + q div 16, (q mod 16) * 16 + r div 4]"
| "b64_ungroups (p # q # r # s # t) =
     map_option (\<lambda>bs. [p * 4 + q div 16, (q mod 16) * 16 + r div 4, (r mod 4) * 64 + s] @ bs)
       (b64_ungroups t)"

definition b64_EncodeToString :: "string \<Rightarrow> string" where
  "b64_EncodeToString bs = map b64_char (b64_groups (map byte_val bs))"

fun b64_vals :: "string \<Rightarrow> nat list option" where
  "b64_vals [] = Some []"
| "b64_vals (c # cs) =
     (if c = CHR 0x0A \<or> c = CHR 0x0D then b64_vals cs
      else (case (b64_val c, b64_vals cs) of (Some v, Some vs) \<Rightarrow> Some (v # vs) | _ \<Rightarrow> None))"

definition b64_DecodeString :: "string \<Rightarrow> string option" where
  "b64_DecodeString s =
     (case b64_vals s of None \<Rightarrow> None | Some vs \<Rightarrow> map_option (map char_of) (b64_ungroups vs))"

lemma b64_val_char [simp]: "n < 64 \<Longrightarrow> b64_val (b64_char n) = Some n"
  by (auto simp: b64_val_def b64_char_def Let_def)

lemma b64_char_newline: "n < 64 \<Longrightarrow> b64_char n \<noteq> CHR 0x0A \<and> b64_char n \<noteq> CHR 0x0D"
  using b64_val_char [of n] by (auto simp: b64_val_def)

lemma b64_groups_less: "\<forall>x\<in>set bs. x < 256 \<Longrightarrow> x \<in> set (b64_groups bs) \<Longrightarrow> x < 64"
  by (induction bs rule: b64_groups.induct) (auto simp: less_mult_imp_div_less)

lemma b64_vals_map: "\<forall>x\<in>set vs. x < 64 \<Longrightarrow> b64_vals (map b64_char vs) = Some vs"
  by (induction vs) (auto simp: b64_char_newline)

lemma b64_ungroups_groups:
  "\<forall>x\<in>set bs. x < 256 \<Longrightarrow> b64_ungroups (b64_groups bs) = Some bs"
  by (induction bs rule: b64_groups.induct) (auto simp: less_mult_imp_div_less)

theorem b64_round_trip [simp]: "b64_DecodeString (b64_EncodeToString bs) = Some bs"
proof -
  have lt: "\<forall>x\<in>set (map byte_val bs). x < 256" by simp
  then have "b64_vals (b64_EncodeToString bs) = Some (b64_groups (map byte_val bs))"
    unfolding b64_EncodeToString_def using b64_groups_less b64_vals_map by blast
  with b64_ungroups_groups [OF lt] show ?thesis
    by (simp add: b64_DecodeString_def comp_def)
qed

section \<open>Removing a byte\<close>

text \<open>\<open>strings.ReplaceAll(s, c, "")\<close> for one byte.\<close>

definition remove_byte :: "char \<Rightarrow> string \<Rightarrow> string" where
  "remove_byte c s = filter (\<lambda>x. x \<noteq> c) s"

end
