(* ===== verification/Platform_Postgres.thy ===== *)
theory Platform_Postgres
  imports Go_Encoding
begin

text \<open>
  How the repositories see PostgreSQL through \<open>pgx\<close>. A database is a value of the tables' type; a
  SQL statement of the source is a function on it that fails with a PostgreSQL error or gives its
  rows and the new tables. The environment supplies, per statement, the server's clock, a fresh
  UUID, and a fault: the connection may break before the statement runs or after it has run, in
  which case the client sees an error although the change is stored. All theorems hold for every
  environment. \<open>pe_uuid\<close> is the cast \<open>$1::uuid\<close> followed by \<open>::text\<close> (None: invalid syntax) and
  \<open>pe_lower\<close> the SQL function \<open>lower\<close>. Times stored in \<open>timestamptz\<close> columns are truncated to microseconds by \<open>pgx\<close>.
  A transaction is one step: it holds its row locks until it commits.
\<close>

datatype pg_error =
    ErrNoRows
  | PgError string string
  | ConnError string

definition uniqueViolationCode :: string where
  "uniqueViolationCode = ''23505''"

definition foreignKeyViolationCode :: string where
  "foreignKeyViolationCode = ''23503''"

definition checkViolationCode :: string where
  "checkViolationCode = ''23514''"

definition invalidTextCode :: string where
  "invalidTextCode = ''22P02''"

datatype pg_fault = NoFault | FailBefore pg_error | FailAfter pg_error

record pg_env =
  pe_fault :: "nat \<Rightarrow> pg_fault"
  pe_now :: "nat \<Rightarrow> Time"
  pe_newid :: "nat \<Rightarrow> string"
  pe_uuid :: "string \<Rightarrow> string option"
  pe_lower :: "string \<Rightarrow> string"

record 'db pg =
  pg_db :: 'db
  pg_tick :: nat

text \<open>A statement reads the tick for its clock and identifiers.\<close>

type_synonym ('db, 'a) sql = "nat \<Rightarrow> 'db \<Rightarrow> pg_error + 'a \<times> 'db"

definition pg_exec :: "pg_env \<Rightarrow> ('db, 'a) sql \<Rightarrow> ('db, 'z) pg_scheme \<Rightarrow> (pg_error + 'a) \<times> ('db, 'z) pg_scheme" where
  "pg_exec env stmt s =
     (let n = pg_tick s; s' = s\<lparr>pg_tick := Suc n\<rparr> in
      case pe_fault env n of
        FailBefore e \<Rightarrow> (Inl e, s')
      | NoFault \<Rightarrow>
          (case stmt n (pg_db s) of
             Inl e \<Rightarrow> (Inl e, s')
           | Inr (a, db) \<Rightarrow> (Inr a, s'\<lparr>pg_db := db\<rparr>))
      | FailAfter e \<Rightarrow>
          (case stmt n (pg_db s) of
             Inl e' \<Rightarrow> (Inl e', s')
           | Inr (a, db) \<Rightarrow> (Inl e, s'\<lparr>pg_db := db\<rparr>)))"

text \<open>What one statement can do to the tables: nothing, or what the statement says.\<close>

lemma pg_exec_cases:
  assumes "pg_exec env stmt s = (r, s')"
  shows "pg_tick s' = Suc (pg_tick s)"
    and "pg_db s' = pg_db s \<and> (\<forall>a. r \<noteq> Inr a) \<or>
         (\<exists>a db. stmt (pg_tick s) (pg_db s) = Inr (a, db) \<and> pg_db s' = db \<and> (r = Inr a \<or> (\<exists>e. r = Inl e)))"
  using assms unfolding pg_exec_def Let_def
  by (auto split: pg_fault.splits sum.splits prod.splits)

lemma pg_exec_Inr:
  assumes "pg_exec env stmt s = (Inr a, s')"
  shows "stmt (pg_tick s) (pg_db s) = Inr (a, pg_db s')"
  using assms unfolding pg_exec_def Let_def
  by (auto split: pg_fault.splits sum.splits prod.splits)

text \<open>Without a fault the result is the statement's.\<close>

lemma pg_exec_NoFault:
  "pe_fault env (pg_tick s) = NoFault \<Longrightarrow>
     pg_exec env stmt s =
       (case stmt (pg_tick s) (pg_db s) of
          Inl e \<Rightarrow> (Inl e, s\<lparr>pg_tick := Suc (pg_tick s)\<rparr>)
        | Inr (a, db) \<Rightarrow> (Inr a, s\<lparr>pg_tick := Suc (pg_tick s), pg_db := db\<rparr>))"
  by (simp add: pg_exec_def Let_def split: sum.split prod.split)

text \<open>An invariant of the tables that a statement keeps survives its execution, faults included.\<close>

lemma pg_exec_invariant:
  assumes "pg_exec env stmt s = (r, s')" and "I (pg_db s)"
    and "\<And>n a db. stmt n (pg_db s) = Inr (a, db) \<Longrightarrow> I db"
  shows "I (pg_db s')"
  using pg_exec_cases(2) [OF assms(1)] assms(2,3) by auto

text \<open>A transaction works on a private copy of the tables; a failure before the commit leaves the
  tables as they were when it began, the commit publishes the copy.\<close>

definition pg_begin :: "pg_env \<Rightarrow> ('db, 'z) pg_scheme \<Rightarrow> (pg_error + unit) \<times> ('db, 'z) pg_scheme" where
  "pg_begin env s = pg_exec env (\<lambda>n db. Inr ((), db)) s"

definition pg_rollback :: "('db, 'z) pg_scheme \<Rightarrow> ('db, 'z) pg_scheme \<Rightarrow> ('db, 'z) pg_scheme" where
  "pg_rollback before s = s\<lparr>pg_db := pg_db before\<rparr>"

definition pg_commit :: "pg_env \<Rightarrow> ('db, 'z) pg_scheme \<Rightarrow> ('db, 'z) pg_scheme \<Rightarrow> (pg_error + unit) \<times> ('db, 'z) pg_scheme" where
  "pg_commit env before s = pg_exec env (\<lambda>n db. Inr ((), pg_db s)) (pg_rollback before s)"

lemma pg_begin_db: "pg_db (snd (pg_begin env s)) = pg_db s"
  by (auto simp: pg_begin_def pg_exec_def Let_def split: pg_fault.splits)

lemma pg_commit_db: "pg_db (snd (pg_commit env before s)) \<in> {pg_db before, pg_db s}"
  by (auto simp: pg_commit_def pg_exec_def pg_rollback_def Let_def split: pg_fault.splits)

lemma pg_commit_Inr: "pg_commit env before s = (Inr x, s') \<Longrightarrow> pg_db s' = pg_db s"
  by (auto simp: pg_commit_def pg_exec_def pg_rollback_def Let_def split: pg_fault.splits)

text \<open>\<open>pgx\<close> refuses to send a Go \<open>int\<close> that does not fit an \<open>integer\<close> parameter.\<close>

definition int4_ok :: "int \<Rightarrow> bool" where
  "int4_ok x \<longleftrightarrow> - 2147483648 \<le> x \<and> x < 2147483648"

definition int4_error :: pg_error where
  "int4_error = ConnError ''out of range for int4''"

text \<open>\<open>pgx\<close> sends a time as whole microseconds.\<close>

definition pg_time :: "Time \<Rightarrow> Time" where
  "pg_time t = t div 1000 * 1000"

lemma pg_time_le: "pg_time t \<le> t" "t < pg_time t + 1000"
  unfolding pg_time_def by linarith+

lemma pg_time_mono: "a \<le> b \<Longrightarrow> pg_time a \<le> pg_time b"
  by (simp add: pg_time_def zdiv_mono1)

lemma pg_time_idem [simp]: "pg_time (pg_time t) = pg_time t"
  by (simp add: pg_time_def)

section \<open>ORDER BY\<close>

text \<open>Rows sorted by a comparison: \<open>before a b\<close> says that \<open>a\<close> strictly precedes \<open>b\<close>.\<close>

fun insert_by :: "('r \<Rightarrow> 'r \<Rightarrow> bool) \<Rightarrow> 'r \<Rightarrow> 'r list \<Rightarrow> 'r list" where
  "insert_by before x [] = [x]"
| "insert_by before x (y # ys) = (if before y x then y # insert_by before x ys else x # y # ys)"

definition order_by :: "('r \<Rightarrow> 'r \<Rightarrow> bool) \<Rightarrow> 'r list \<Rightarrow> 'r list" where
  "order_by before rs = foldr (insert_by before) rs []"

lemma set_insert_by [simp]: "set (insert_by before x ys) = insert x (set ys)"
  by (induction ys) auto

lemma set_order_by [simp]: "set (order_by before rs) = set rs"
  unfolding order_by_def by (induction rs) auto

lemma length_insert_by [simp]: "length (insert_by before x ys) = Suc (length ys)"
  by (induction ys) auto

lemma length_order_by [simp]: "length (order_by before rs) = length rs"
  unfolding order_by_def by (induction rs) auto

lemma distinct_insert_by: "distinct (map f (insert_by before x ys)) \<longleftrightarrow> distinct (f x # map f ys)"
  by (induction ys) auto

lemma distinct_order_by: "distinct (map f (order_by before rs)) \<longleftrightarrow> distinct (map f rs)"
proof (induction rs)
  case (Cons r rs)
  have "order_by before (r # rs) = insert_by before r (order_by before rs)" by (simp add: order_by_def)
  moreover have "f ` set (order_by before rs) = f ` set rs" by simp
  ultimately show ?case using Cons by (simp add: distinct_insert_by)
qed (simp add: order_by_def)

lemma sorted_insert_by:
  assumes "\<And>a b. before a b \<Longrightarrow> \<not> before b a"
    and "\<And>a b c. \<not> before b a \<Longrightarrow> \<not> before c b \<Longrightarrow> \<not> before c a"
    and "sorted_wrt (\<lambda>a b. \<not> before b a) ys"
  shows "sorted_wrt (\<lambda>a b. \<not> before b a) (insert_by before x ys)"
  using assms(3)
proof (induction ys)
  case (Cons y ys)
  show ?case
  proof (cases "before y x")
    case True
    with Cons assms(1) [OF True] show ?thesis by simp
  next
    case False
    have "\<not> before z x" if "z \<in> set ys" for z
      using assms(2) [OF False, of z] Cons.prems that by simp
    with False Cons.prems show ?thesis by simp
  qed
qed simp

lemma sorted_order_by:
  assumes "\<And>a b. before a b \<Longrightarrow> \<not> before b a"
    and "\<And>a b c. \<not> before b a \<Longrightarrow> \<not> before c b \<Longrightarrow> \<not> before c a"
  shows "sorted_wrt (\<lambda>a b. \<not> before b a) (order_by before rs)"
proof (induction rs)
  case (Cons r rs)
  have "order_by before (r # rs) = insert_by before r (order_by before rs)" by (simp add: order_by_def)
  with sorted_insert_by [of before, OF assms Cons] show ?case by simp
qed (simp add: order_by_def)

text \<open>Byte order of text values.\<close>

fun bytes_less :: "string \<Rightarrow> string \<Rightarrow> bool" where
  "bytes_less [] [] = False"
| "bytes_less [] (y # ys) = True"
| "bytes_less (x # xs) [] = False"
| "bytes_less (x # xs) (y # ys) = (byte_val x < byte_val y \<or> (x = y \<and> bytes_less xs ys))"

lemma bytes_less_asym: "bytes_less a b \<Longrightarrow> \<not> bytes_less b a"
  by (induction a b rule: bytes_less.induct) auto

lemma bytes_less_total: "\<not> bytes_less a b \<Longrightarrow> \<not> bytes_less b a \<Longrightarrow> a = b"
  by (induction a b rule: bytes_less.induct) (auto simp: not_less)

lemma bytes_less_trans: "bytes_less a b \<Longrightarrow> bytes_less b c \<Longrightarrow> bytes_less a c"
proof (induction a b arbitrary: c rule: bytes_less.induct)
  case (2 y ys)
  then show ?case by (cases c) auto
next
  case (4 x xs y ys)
  then show ?case by (cases c) (auto intro: less_trans)
qed simp_all

section \<open>Growing tables\<close>

text \<open>Every row of the old table is still there, changed only as \<open>R\<close> allows.\<close>

definition rows_le :: "('r \<Rightarrow> 'r \<Rightarrow> bool) \<Rightarrow> 'r list \<Rightarrow> 'r list \<Rightarrow> bool" where
  "rows_le R xs ys \<longleftrightarrow> (\<forall>x\<in>set xs. \<exists>y\<in>set ys. R x y)"

lemma rows_le_refl: "(\<And>x. R x x) \<Longrightarrow> rows_le R xs xs"
  by (auto simp: rows_le_def)

lemma rows_le_append: "(\<And>x. R x x) \<Longrightarrow> rows_le R xs (xs @ ys)"
  by (auto simp: rows_le_def)

lemma rows_le_update:
  "(\<And>x. R x x) \<Longrightarrow> (\<And>x. x \<in> set xs \<Longrightarrow> P x \<Longrightarrow> R x (f x)) \<Longrightarrow> rows_le R xs (update_rows P f xs)"
proof (unfold rows_le_def, rule ballI)
  assume refl: "\<And>x. R x x" and step: "\<And>x. x \<in> set xs \<Longrightarrow> P x \<Longrightarrow> R x (f x)"
  fix x assume x: "x \<in> set xs"
  then have "(if P x then f x else x) \<in> set (update_rows P f xs)" by (auto simp: in_update_rows)
  moreover have "R x (if P x then f x else x)" using refl step [OF x] by simp
  ultimately show "\<exists>y\<in>set (update_rows P f xs). R x y" by blast
qed

lemma rows_le_trans:
  "(\<And>x y z. R x y \<Longrightarrow> R y z \<Longrightarrow> R x z) \<Longrightarrow> rows_le R xs ys \<Longrightarrow> rows_le R ys zs \<Longrightarrow> rows_le R xs zs"
  unfolding rows_le_def by blast

end
