(* ===== verification/Auth_Domain.thy ===== *)
theory Auth_Domain
  imports Platform_Postgres
begin

text \<open>
  \<open>internal/auth/domain\<close>: users, roles, refresh tokens and API keys with their constructors and
  activity tests, and all error values of the auth service. A \<open>*time.Time\<close> is an option. The
  address parser of \<open>net/mail\<close> and the Unicode case tables are parameters.
\<close>

section \<open>Errors\<close>

text \<open>\<open>domain/errors.go\<close>, \<open>usecase/errors.go\<close>, \<open>security/errors.go\<close>, the HTTP layer's
  \<open>errInvalidRequestBody\<close>, database errors and errors of other libraries.\<close>

datatype au_error =
    AErrInvalidEmail | AErrInvalidPasswordHash | AErrInvalidRole | AErrInvalidUserID
  | AErrInvalidProjectID | AErrInvalidName | AErrInvalidTokenHash | AErrInvalidKeyPrefix
  | AErrInvalidKeyHash | AErrInvalidExpiration
  | AErrInvalidPassword | AErrInvalidCredentials | AErrUserDisabled | AErrEmailAlreadyExists
  | AErrUserNotFound | AErrInvalidRefreshToken | AErrInvalidAccessToken | AErrRefreshTokenNotFound
  | AErrInvalidAPIKey | AErrInvalidAPIKeyID | AErrAPIKeyNotFound | AErrAPIKeyNameAlreadyExists
  | AErrProjectNotFound | AErrAPIKeyDependenciesMissing | AErrAccessTokenDependenciesMissing
  | SErrInvalidBcryptCost | SErrJWTSecretTooShort | SErrInvalidAccessTokenTTL
  | SErrInvalidRefreshTokenSize | SErrInvalidTokenUser | SErrInvalidAccessToken | SErrInvalidAPIKey
  | AErrInvalidRequestBody
  | AuPg pg_error
  | AuExternal string
  | AuNilDereference

type_synonym au_err = "au_error goerr"

section \<open>Users\<close>

datatype Role = RoleAdmin | RoleMember | RoleOther string

primrec role_IsValid :: "Role \<Rightarrow> bool" where
  "role_IsValid RoleAdmin = True"
| "role_IsValid RoleMember = True"
| "role_IsValid (RoleOther r) = False"

record User =
  us_ID :: string
  us_Email :: string
  us_PasswordHash :: string
  us_Role :: Role
  us_Enabled :: bool
  us_CreatedAt :: Time
  us_UpdatedAt :: Time

definition normalizeEmail :: "case_tables \<Rightarrow> string \<Rightarrow> string" where
  "normalizeEmail ct v = ToLower ct (TrimSpace v)"

text \<open>\<open>mail_ParseAddress\<close> gives the \<open>Address\<close> field of the parsed address.\<close>

definition isValidEmail :: "(string \<Rightarrow> string option) \<Rightarrow> string \<Rightarrow> bool" where
  "isValidEmail mail_ParseAddress v =
     (case mail_ParseAddress v of None \<Rightarrow> False | Some address \<Rightarrow> address = v)"

definition NewUser ::
  "case_tables \<Rightarrow> (string \<Rightarrow> string option) \<Rightarrow> string \<Rightarrow> string \<Rightarrow> Role \<Rightarrow> au_err + User" where
  "NewUser ct mail_ParseAddress email passwordHash role =
     (let email' = normalizeEmail ct email; passwordHash' = TrimSpace passwordHash in
      if \<not> isValidEmail mail_ParseAddress email' then Inl (Sentinel AErrInvalidEmail)
      else if passwordHash' = '''' then Inl (Sentinel AErrInvalidPasswordHash)
      else if \<not> role_IsValid role then Inl (Sentinel AErrInvalidRole)
      else Inr \<lparr>us_ID = '''', us_Email = email', us_PasswordHash = passwordHash', us_Role = role,
                us_Enabled = True, us_CreatedAt = 0, us_UpdatedAt = 0\<rparr>)"

section \<open>Refresh tokens\<close>

record RefreshToken =
  tok_ID :: string
  tok_UserID :: string
  tok_TokenHash :: string
  tok_ExpiresAt :: Time
  tok_RevokedAt :: "Time option"
  tok_CreatedAt :: Time

definition NewRefreshToken :: "string \<Rightarrow> string \<Rightarrow> Time \<Rightarrow> Time \<Rightarrow> au_err + RefreshToken" where
  "NewRefreshToken userID tokenHash expiresAt now =
     (let userID' = TrimSpace userID; tokenHash' = TrimSpace tokenHash in
      if userID' = '''' then Inl (Sentinel AErrInvalidUserID)
      else if tokenHash' = '''' then Inl (Sentinel AErrInvalidTokenHash)
      else if \<not> expiresAt > now then Inl (Sentinel AErrInvalidExpiration)
      else Inr \<lparr>tok_ID = '''', tok_UserID = userID', tok_TokenHash = tokenHash',
                tok_ExpiresAt = expiresAt, tok_RevokedAt = None, tok_CreatedAt = 0\<rparr>)"

definition refreshToken_IsActive :: "RefreshToken \<Rightarrow> Time \<Rightarrow> bool" where
  "refreshToken_IsActive t now \<longleftrightarrow> tok_RevokedAt t = None \<and> now < tok_ExpiresAt t"

section \<open>API keys\<close>

record APIKey =
  ak_ID :: string
  ak_ProjectID :: string
  ak_Name :: string
  ak_KeyPrefix :: string
  ak_KeyHash :: string
  ak_Enabled :: bool
  ak_ExpiresAt :: "Time option"
  ak_LastUsedAt :: "Time option"
  ak_CreatedAt :: Time
  ak_UpdatedAt :: Time

definition NewAPIKey ::
  "string \<Rightarrow> string \<Rightarrow> string \<Rightarrow> string \<Rightarrow> Time option \<Rightarrow> Time \<Rightarrow> au_err + APIKey" where
  "NewAPIKey projectID name keyPrefix keyHash expiresAt now =
     (let projectID' = TrimSpace projectID; name' = TrimSpace name;
          keyPrefix' = TrimSpace keyPrefix; keyHash' = TrimSpace keyHash in
      if projectID' = '''' then Inl (Sentinel AErrInvalidProjectID)
      else if name' = '''' then Inl (Sentinel AErrInvalidName)
      else if keyPrefix' = '''' then Inl (Sentinel AErrInvalidKeyPrefix)
      else if keyHash' = '''' then Inl (Sentinel AErrInvalidKeyHash)
      else if (case expiresAt of None \<Rightarrow> False | Some t \<Rightarrow> \<not> t > now) then Inl (Sentinel AErrInvalidExpiration)
      else Inr \<lparr>ak_ID = '''', ak_ProjectID = projectID', ak_Name = name', ak_KeyPrefix = keyPrefix',
                ak_KeyHash = keyHash', ak_Enabled = True, ak_ExpiresAt = expiresAt,
                ak_LastUsedAt = None, ak_CreatedAt = 0, ak_UpdatedAt = 0\<rparr>)"

definition apiKey_IsActive :: "APIKey \<Rightarrow> Time \<Rightarrow> bool" where
  "apiKey_IsActive k now =
     (if \<not> ak_Enabled k then False
      else (case ak_ExpiresAt k of None \<Rightarrow> True | Some t \<Rightarrow> now < t))"

text \<open>A constructed object is active at the time it was made for.\<close>

lemma NewRefreshToken_active:
  "NewRefreshToken u h e now = Inr t \<Longrightarrow> refreshToken_IsActive t now"
  by (auto simp: NewRefreshToken_def Let_def refreshToken_IsActive_def split: if_splits)

lemma NewAPIKey_active: "NewAPIKey p n kp kh e now = Inr k \<Longrightarrow> apiKey_IsActive k now"
  by (auto simp: NewAPIKey_def Let_def apiKey_IsActive_def split: if_splits option.splits)

lemma apiKey_disabled: "\<not> ak_Enabled k \<Longrightarrow> \<not> apiKey_IsActive k now"
  by (simp add: apiKey_IsActive_def)

end
