(* ===== verification/Auth_Store.thy ===== *)
theory Auth_Store
  imports Auth_Domain
begin

text \<open>
  \<open>internal/auth/infrastructure/postgres\<close>: the repository of users, refresh tokens and API keys. Each
  SQL text of the source is a statement on the tables of \<open>migrations/000002_create_auth_tables.sql\<close>,
  with their constraints; each repository method runs its statements and maps errors the way the
  source does.
\<close>

section \<open>Tables and statements\<close>

record auth_db =
  db_users :: "User list"
  db_tokens :: "RefreshToken list"
  db_keys :: "APIKey list"
  db_projects :: "string list"

type_synonym 'z auth_state = "(auth_db, 'z) pg_scheme"

definition createUserQuery :: "pg_env \<Rightarrow> User \<Rightarrow> (auth_db, User) sql" where
  "createUserQuery env user n db =
     (let row = \<lparr>us_ID = pe_newid env n, us_Email = us_Email user, us_PasswordHash = us_PasswordHash user,
                 us_Role = us_Role user, us_Enabled = us_Enabled user,
                 us_CreatedAt = pg_time (pe_now env n), us_UpdatedAt = pg_time (pe_now env n)\<rparr> in
      if us_PasswordHash user = '''' then Inl (PgError checkViolationCode ''users_password_hash_check'')
      else if \<not> role_IsValid (us_Role user) then Inl (PgError checkViolationCode ''users_role_check'')
      else if us_ID row \<in> us_ID ` set (db_users db) then Inl (PgError uniqueViolationCode ''users_pkey'')
      else if \<exists>u\<in>set (db_users db). pe_lower env (us_Email u) = pe_lower env (us_Email user)
        then Inl (PgError uniqueViolationCode ''idx_users_email_normalized'')
      else Inr (row, db\<lparr>db_users := db_users db @ [row]\<rparr>))"

definition getUserByEmailQuery :: "pg_env \<Rightarrow> string \<Rightarrow> (auth_db, User) sql" where
  "getUserByEmailQuery env email n db =
     (case find_row (\<lambda>u. pe_lower env (us_Email u) = pe_lower env email) (db_users db) of
        None \<Rightarrow> Inl ErrNoRows | Some u \<Rightarrow> Inr (u, db))"

definition getUserByIDQuery :: "pg_env \<Rightarrow> string \<Rightarrow> (auth_db, User) sql" where
  "getUserByIDQuery env i n db =
     (case pe_uuid env i of
        None \<Rightarrow> Inl (PgError invalidTextCode '''')
      | Some uid \<Rightarrow>
          (case find_row (\<lambda>u. us_ID u = uid) (db_users db) of
             None \<Rightarrow> Inl ErrNoRows | Some u \<Rightarrow> Inr (u, db)))"

definition createRefreshTokenQuery :: "pg_env \<Rightarrow> RefreshToken \<Rightarrow> (auth_db, RefreshToken) sql" where
  "createRefreshTokenQuery env token n db =
     (case pe_uuid env (tok_UserID token) of
        None \<Rightarrow> Inl (PgError invalidTextCode '''')
      | Some uid \<Rightarrow>
          (let row = \<lparr>tok_ID = pe_newid env n, tok_UserID = uid, tok_TokenHash = tok_TokenHash token,
                      tok_ExpiresAt = pg_time (tok_ExpiresAt token), tok_RevokedAt = None,
                      tok_CreatedAt = pg_time (pe_now env n)\<rparr> in
           if \<not> tok_ExpiresAt row > tok_CreatedAt row
             then Inl (PgError checkViolationCode ''refresh_tokens_check'')
           else if tok_ID row \<in> tok_ID ` set (db_tokens db)
             then Inl (PgError uniqueViolationCode ''refresh_tokens_pkey'')
           else if tok_TokenHash row \<in> tok_TokenHash ` set (db_tokens db)
             then Inl (PgError uniqueViolationCode ''refresh_tokens_token_hash_key'')
           else if uid \<notin> us_ID ` set (db_users db)
             then Inl (PgError foreignKeyViolationCode ''refresh_tokens_user_id_fkey'')
           else Inr (row, db\<lparr>db_tokens := db_tokens db @ [row]\<rparr>)))"

definition getRefreshTokenByHashQuery :: "string \<Rightarrow> (auth_db, RefreshToken) sql" where
  "getRefreshTokenByHashQuery tokenHash n db =
     (case find_row (\<lambda>t. tok_TokenHash t = tokenHash) (db_tokens db) of
        None \<Rightarrow> Inl ErrNoRows | Some t \<Rightarrow> Inr (t, db))"

definition revokeRefreshTokenByIDQuery :: "pg_env \<Rightarrow> string \<Rightarrow> Time \<Rightarrow> (auth_db, string) sql" where
  "revokeRefreshTokenByIDQuery env i revokedAt n db =
     (case pe_uuid env i of
        None \<Rightarrow> Inl (PgError invalidTextCode '''')
      | Some tid \<Rightarrow>
          (let at = pg_time revokedAt;
               hit = (\<lambda>t. tok_ID t = tid \<and> tok_RevokedAt t = None \<and> tok_ExpiresAt t > at) in
           if \<exists>t\<in>set (db_tokens db). hit t
           then Inr (tid, db\<lparr>db_tokens := update_rows hit (\<lambda>t. t\<lparr>tok_RevokedAt := Some at\<rparr>) (db_tokens db)\<rparr>)
           else Inl ErrNoRows))"

definition revokeRefreshTokenByHashQuery :: "string \<Rightarrow> Time \<Rightarrow> (auth_db, string) sql" where
  "revokeRefreshTokenByHashQuery tokenHash revokedAt n db =
     (let hit = (\<lambda>t. tok_TokenHash t = tokenHash) in
      case find_row hit (db_tokens db) of
        None \<Rightarrow> Inl ErrNoRows
      | Some t \<Rightarrow>
          Inr (tok_ID t, db\<lparr>db_tokens := update_rows hit
            (\<lambda>t. t\<lparr>tok_RevokedAt := Some (case tok_RevokedAt t of None \<Rightarrow> pg_time revokedAt | Some r \<Rightarrow> r)\<rparr>)
            (db_tokens db)\<rparr>))"

definition createAPIKeyQuery :: "pg_env \<Rightarrow> APIKey \<Rightarrow> (auth_db, APIKey) sql" where
  "createAPIKeyQuery env key n db =
     (case pe_uuid env (ak_ProjectID key) of
        None \<Rightarrow> Inl (PgError invalidTextCode '''')
      | Some pid \<Rightarrow>
          (let row = key\<lparr>ak_ID := pe_newid env n, ak_ProjectID := pid,
                         ak_ExpiresAt := map_option pg_time (ak_ExpiresAt key), ak_LastUsedAt := None,
                         ak_CreatedAt := pg_time (pe_now env n), ak_UpdatedAt := pg_time (pe_now env n)\<rparr> in
           if (case ak_ExpiresAt row of None \<Rightarrow> False | Some t \<Rightarrow> \<not> t > ak_CreatedAt row)
             then Inl (PgError checkViolationCode ''api_keys_check'')
           else if ak_ID row \<in> ak_ID ` set (db_keys db)
             then Inl (PgError uniqueViolationCode ''api_keys_pkey'')
           else if ak_KeyPrefix row \<in> ak_KeyPrefix ` set (db_keys db)
             then Inl (PgError uniqueViolationCode ''api_keys_key_prefix_key'')
           else if ak_KeyHash row \<in> ak_KeyHash ` set (db_keys db)
             then Inl (PgError uniqueViolationCode ''api_keys_key_hash_key'')
           else if \<exists>k\<in>set (db_keys db). ak_ProjectID k = pid \<and> ak_Name k = ak_Name row
             then Inl (PgError uniqueViolationCode ''api_keys_project_id_name_key'')
           else if pid \<notin> set (db_projects db)
             then Inl (PgError foreignKeyViolationCode ''api_keys_project_id_fkey'')
           else Inr (row, db\<lparr>db_keys := db_keys db @ [row]\<rparr>)))"

definition newer_key :: "APIKey \<Rightarrow> APIKey \<Rightarrow> bool" where
  "newer_key a b \<longleftrightarrow> ak_CreatedAt a > ak_CreatedAt b \<or>
     (ak_CreatedAt a = ak_CreatedAt b \<and> bytes_less (ak_ID b) (ak_ID a))"

definition listAPIKeysByProjectIDQuery :: "pg_env \<Rightarrow> string \<Rightarrow> (auth_db, APIKey list) sql" where
  "listAPIKeysByProjectIDQuery env projectID n db =
     (case pe_uuid env projectID of
        None \<Rightarrow> Inl (PgError invalidTextCode '''')
      | Some pid \<Rightarrow> Inr (order_by newer_key (filter (\<lambda>k. ak_ProjectID k = pid) (db_keys db)), db))"

definition getAPIKeyByPrefixQuery :: "string \<Rightarrow> (auth_db, APIKey) sql" where
  "getAPIKeyByPrefixQuery keyPrefix n db =
     (case find_row (\<lambda>k. ak_KeyPrefix k = keyPrefix) (db_keys db) of
        None \<Rightarrow> Inl ErrNoRows | Some k \<Rightarrow> Inr (k, db))"

definition disableAPIKeyQuery :: "pg_env \<Rightarrow> string \<Rightarrow> string \<Rightarrow> Time \<Rightarrow> (auth_db, string) sql" where
  "disableAPIKeyQuery env apiKeyID projectID disabledAt n db =
     (case (pe_uuid env apiKeyID, pe_uuid env projectID) of
        (Some kid, Some pid) \<Rightarrow>
          (let hit = (\<lambda>k. ak_ID k = kid \<and> ak_ProjectID k = pid) in
           if \<exists>k\<in>set (db_keys db). hit k
           then Inr (kid, db\<lparr>db_keys := update_rows hit
                  (\<lambda>k. k\<lparr>ak_Enabled := False, ak_UpdatedAt := pg_time disabledAt\<rparr>) (db_keys db)\<rparr>)
           else Inl ErrNoRows)
      | _ \<Rightarrow> Inl (PgError invalidTextCode ''''))"

definition updateAPIKeyLastUsedAtQuery :: "pg_env \<Rightarrow> string \<Rightarrow> Time \<Rightarrow> (auth_db, string) sql" where
  "updateAPIKeyLastUsedAtQuery env apiKeyID usedAt n db =
     (case pe_uuid env apiKeyID of
        None \<Rightarrow> Inl (PgError invalidTextCode '''')
      | Some kid \<Rightarrow>
          (let hit = (\<lambda>k. ak_ID k = kid \<and> ak_Enabled k) in
           if \<exists>k\<in>set (db_keys db). hit k
           then Inr (kid, db\<lparr>db_keys := update_rows hit
                  (\<lambda>k. k\<lparr>ak_LastUsedAt := Some (pg_time usedAt)\<rparr>) (db_keys db)\<rparr>)
           else Inl ErrNoRows))"

section \<open>Repository methods\<close>

primrec isUniqueViolation :: "pg_error \<Rightarrow> bool" where
  "isUniqueViolation ErrNoRows = False"
| "isUniqueViolation (PgError code c) = (code = uniqueViolationCode)"
| "isUniqueViolation (ConnError m) = False"

primrec isUniqueConstraintViolation :: "pg_error \<Rightarrow> string \<Rightarrow> bool" where
  "isUniqueConstraintViolation ErrNoRows name = False"
| "isUniqueConstraintViolation (PgError code c) name = (code = uniqueViolationCode \<and> c = name)"
| "isUniqueConstraintViolation (ConnError m) name = False"

primrec isForeignKeyViolation :: "pg_error \<Rightarrow> bool" where
  "isForeignKeyViolation ErrNoRows = False"
| "isForeignKeyViolation (PgError code c) = (code = foreignKeyViolationCode)"
| "isForeignKeyViolation (ConnError m) = False"

definition wrap_pg :: "string \<Rightarrow> pg_error \<Rightarrow> au_err" where
  "wrap_pg msg e = Errorf msg [Sentinel (AuPg e)]"

definition repo_CreateUser :: "pg_env \<Rightarrow> User \<Rightarrow> 'z auth_state \<Rightarrow> (au_err + User) \<times> 'z auth_state" where
  "repo_CreateUser env user s =
     (case pg_exec env (createUserQuery env user) s of
        (Inr created, s1) \<Rightarrow> (Inr created, s1)
      | (Inl err, s1) \<Rightarrow>
          if isUniqueViolation err then (Inl (Sentinel AErrEmailAlreadyExists), s1)
          else (Inl (wrap_pg ''create user: %w'' err), s1))"

definition repo_GetUserByEmail :: "pg_env \<Rightarrow> string \<Rightarrow> 'z auth_state \<Rightarrow> (au_err + User) \<times> 'z auth_state" where
  "repo_GetUserByEmail env email s =
     (case pg_exec env (getUserByEmailQuery env email) s of
        (Inr user, s1) \<Rightarrow> (Inr user, s1)
      | (Inl err, s1) \<Rightarrow>
          if err = ErrNoRows then (Inl (Sentinel AErrUserNotFound), s1)
          else (Inl (wrap_pg ''get user by email: %w'' err), s1))"

definition repo_GetUserByID :: "pg_env \<Rightarrow> string \<Rightarrow> 'z auth_state \<Rightarrow> (au_err + User) \<times> 'z auth_state" where
  "repo_GetUserByID env i s =
     (case pg_exec env (getUserByIDQuery env i) s of
        (Inr user, s1) \<Rightarrow> (Inr user, s1)
      | (Inl err, s1) \<Rightarrow>
          if err = ErrNoRows then (Inl (Sentinel AErrUserNotFound), s1)
          else (Inl (wrap_pg ''get user by id: %w'' err), s1))"

definition repo_CreateRefreshToken ::
  "pg_env \<Rightarrow> RefreshToken \<Rightarrow> 'z auth_state \<Rightarrow> (au_err + RefreshToken) \<times> 'z auth_state" where
  "repo_CreateRefreshToken env token s =
     (case pg_exec env (createRefreshTokenQuery env token) s of
        (Inr created, s1) \<Rightarrow> (Inr created, s1)
      | (Inl err, s1) \<Rightarrow> (Inl (wrap_pg ''create refresh token: %w'' err), s1))"

definition repo_GetRefreshTokenByHash ::
  "pg_env \<Rightarrow> string \<Rightarrow> 'z auth_state \<Rightarrow> (au_err + RefreshToken) \<times> 'z auth_state" where
  "repo_GetRefreshTokenByHash env tokenHash s =
     (case pg_exec env (getRefreshTokenByHashQuery tokenHash) s of
        (Inr token, s1) \<Rightarrow> (Inr token, s1)
      | (Inl err, s1) \<Rightarrow>
          if err = ErrNoRows then (Inl (Sentinel AErrRefreshTokenNotFound), s1)
          else (Inl (wrap_pg ''get refresh token by hash: %w'' err), s1))"

definition repo_RotateRefreshToken ::
  "pg_env \<Rightarrow> string \<Rightarrow> RefreshToken \<Rightarrow> Time \<Rightarrow> 'z auth_state \<Rightarrow> (au_err + RefreshToken) \<times> 'z auth_state" where
  "repo_RotateRefreshToken env currentTokenID replacement revokedAt s =
     (case pg_begin env s of
        (Inl err, s1) \<Rightarrow> (Inl (wrap_pg ''begin refresh token rotation: %w'' err), s1)
      | (Inr _, s1) \<Rightarrow>
          (case pg_exec env (revokeRefreshTokenByIDQuery env currentTokenID revokedAt) s1 of
             (Inl err, s2) \<Rightarrow>
               (if err = ErrNoRows then (Inl (Sentinel AErrInvalidRefreshToken), pg_rollback s1 s2)
                else (Inl (wrap_pg ''revoke current refresh token: %w'' err), pg_rollback s1 s2))
           | (Inr _, s2) \<Rightarrow>
               (case pg_exec env (createRefreshTokenQuery env replacement) s2 of
                  (Inl err, s3) \<Rightarrow>
                    (Inl (wrap_pg ''create replacement refresh token: %w'' err), pg_rollback s1 s3)
                | (Inr created, s3) \<Rightarrow>
                    (case pg_commit env s1 s3 of
                       (Inl err, s4) \<Rightarrow> (Inl (wrap_pg ''commit refresh token rotation: %w'' err), s4)
                     | (Inr _, s4) \<Rightarrow> (Inr created, s4)))))"

definition repo_RevokeRefreshTokenByHash ::
  "pg_env \<Rightarrow> string \<Rightarrow> Time \<Rightarrow> 'z auth_state \<Rightarrow> au_err option \<times> 'z auth_state" where
  "repo_RevokeRefreshTokenByHash env tokenHash revokedAt s =
     (case pg_exec env (revokeRefreshTokenByHashQuery tokenHash revokedAt) s of
        (Inr _, s1) \<Rightarrow> (None, s1)
      | (Inl err, s1) \<Rightarrow>
          if err = ErrNoRows then (Some (Sentinel AErrRefreshTokenNotFound), s1)
          else (Some (wrap_pg ''revoke refresh token by hash: %w'' err), s1))"

definition repo_CreateAPIKey :: "pg_env \<Rightarrow> APIKey \<Rightarrow> 'z auth_state \<Rightarrow> (au_err + APIKey) \<times> 'z auth_state" where
  "repo_CreateAPIKey env key s =
     (case pg_exec env (createAPIKeyQuery env key) s of
        (Inr created, s1) \<Rightarrow> (Inr created, s1)
      | (Inl err, s1) \<Rightarrow>
          if isUniqueConstraintViolation err ''api_keys_project_id_name_key''
            then (Inl (Sentinel AErrAPIKeyNameAlreadyExists), s1)
          else if isForeignKeyViolation err then (Inl (Sentinel AErrProjectNotFound), s1)
          else (Inl (wrap_pg ''create api key: %w'' err), s1))"

definition repo_ListAPIKeysByProjectID ::
  "pg_env \<Rightarrow> string \<Rightarrow> 'z auth_state \<Rightarrow> (au_err + APIKey list) \<times> 'z auth_state" where
  "repo_ListAPIKeysByProjectID env projectID s =
     (case pg_exec env (listAPIKeysByProjectIDQuery env projectID) s of
        (Inr keys, s1) \<Rightarrow> (Inr keys, s1)
      | (Inl err, s1) \<Rightarrow> (Inl (wrap_pg ''list api keys by project id: %w'' err), s1))"

definition repo_GetAPIKeyByPrefix :: "pg_env \<Rightarrow> string \<Rightarrow> 'z auth_state \<Rightarrow> (au_err + APIKey) \<times> 'z auth_state" where
  "repo_GetAPIKeyByPrefix env keyPrefix s =
     (case pg_exec env (getAPIKeyByPrefixQuery keyPrefix) s of
        (Inr key, s1) \<Rightarrow> (Inr key, s1)
      | (Inl err, s1) \<Rightarrow>
          if err = ErrNoRows then (Inl (Sentinel AErrAPIKeyNotFound), s1)
          else (Inl (wrap_pg ''get api key by prefix: %w'' err), s1))"

definition repo_DisableAPIKey ::
  "pg_env \<Rightarrow> string \<Rightarrow> string \<Rightarrow> Time \<Rightarrow> 'z auth_state \<Rightarrow> au_err option \<times> 'z auth_state" where
  "repo_DisableAPIKey env projectID apiKeyID disabledAt s =
     (case pg_exec env (disableAPIKeyQuery env apiKeyID projectID disabledAt) s of
        (Inr _, s1) \<Rightarrow> (None, s1)
      | (Inl err, s1) \<Rightarrow>
          if err = ErrNoRows then (Some (Sentinel AErrAPIKeyNotFound), s1)
          else (Some (wrap_pg ''disable api key: %w'' err), s1))"

definition repo_UpdateAPIKeyLastUsedAt ::
  "pg_env \<Rightarrow> string \<Rightarrow> Time \<Rightarrow> 'z auth_state \<Rightarrow> au_err option \<times> 'z auth_state" where
  "repo_UpdateAPIKeyLastUsedAt env apiKeyID usedAt s =
     (case pg_exec env (updateAPIKeyLastUsedAtQuery env apiKeyID usedAt) s of
        (Inr _, s1) \<Rightarrow> (None, s1)
      | (Inl err, s1) \<Rightarrow>
          if err = ErrNoRows then (Some (Sentinel AErrAPIKeyNotFound), s1)
          else (Some (wrap_pg ''update api key last used at: %w'' err), s1))"

section \<open>Constraints and monotonicity\<close>

definition auth_wf :: "auth_db \<Rightarrow> bool" where
  "auth_wf db \<longleftrightarrow>
     distinct (map us_ID (db_users db)) \<and>
     distinct (map tok_ID (db_tokens db)) \<and> distinct (map tok_TokenHash (db_tokens db)) \<and>
     distinct (map ak_ID (db_keys db)) \<and> distinct (map ak_KeyPrefix (db_keys db)) \<and>
     distinct (map ak_KeyHash (db_keys db))"

text \<open>Rows keep their identity; a revocation and a disabled key are final.\<close>

definition tok_le :: "RefreshToken \<Rightarrow> RefreshToken \<Rightarrow> bool" where
  "tok_le t t' \<longleftrightarrow> tok_ID t' = tok_ID t \<and> tok_UserID t' = tok_UserID t \<and>
     tok_TokenHash t' = tok_TokenHash t \<and> tok_ExpiresAt t' = tok_ExpiresAt t \<and>
     (tok_RevokedAt t \<noteq> None \<longrightarrow> tok_RevokedAt t' = tok_RevokedAt t)"

definition key_le :: "APIKey \<Rightarrow> APIKey \<Rightarrow> bool" where
  "key_le k k' \<longleftrightarrow> ak_ID k' = ak_ID k \<and> ak_ProjectID k' = ak_ProjectID k \<and> ak_Name k' = ak_Name k \<and>
     ak_KeyPrefix k' = ak_KeyPrefix k \<and> ak_KeyHash k' = ak_KeyHash k \<and>
     ak_ExpiresAt k' = ak_ExpiresAt k \<and> (\<not> ak_Enabled k \<longrightarrow> \<not> ak_Enabled k')"

definition auth_le :: "auth_db \<Rightarrow> auth_db \<Rightarrow> bool" where
  "auth_le db db' \<longleftrightarrow> (auth_wf db \<longrightarrow> auth_wf db') \<and>
     rows_le tok_le (db_tokens db) (db_tokens db') \<and> rows_le key_le (db_keys db) (db_keys db')"

lemma tok_le_refl [simp]: "tok_le t t" and key_le_refl [simp]: "key_le k k"
  by (simp_all add: tok_le_def key_le_def)

lemma auth_le_refl [simp]: "auth_le db db"
  by (simp add: auth_le_def rows_le_refl)

lemma auth_le_trans: "auth_le a b \<Longrightarrow> auth_le b c \<Longrightarrow> auth_le a c"
  unfolding auth_le_def
  by (auto elim!: rows_le_trans [rotated] simp: tok_le_def key_le_def)

lemma createUser_le: "createUserQuery env u n db = Inr (r, db') \<Longrightarrow> auth_le db db'"
  by (auto simp: createUserQuery_def Let_def auth_le_def auth_wf_def rows_le_refl image_iff split: if_splits)

lemma getUser_le:
  "getUserByEmailQuery env e n db = Inr (r, db') \<Longrightarrow> db' = db"
  "getUserByIDQuery env i n db = Inr (r, db') \<Longrightarrow> db' = db"
  by (auto simp: getUserByEmailQuery_def getUserByIDQuery_def split: option.splits)

lemma createRefreshToken_le: "createRefreshTokenQuery env t n db = Inr (r, db') \<Longrightarrow> auth_le db db'"
  by (auto simp: createRefreshTokenQuery_def Let_def auth_le_def auth_wf_def rows_le_refl rows_le_append
      image_iff split: if_splits option.splits)

lemma getRefreshToken_same: "getRefreshTokenByHashQuery h n db = Inr (r, db') \<Longrightarrow> db' = db"
  by (auto simp: getRefreshTokenByHashQuery_def split: option.splits)

lemma revokeByID_le:
  assumes "revokeRefreshTokenByIDQuery env i at n db = Inr (r, db')"
  shows "auth_le db db'"
  using assms
  by (auto simp: revokeRefreshTokenByIDQuery_def Let_def auth_le_def auth_wf_def map_update_rows_same
      tok_le_def intro!: rows_le_refl rows_le_update split: if_splits option.splits)

lemma revokeByHash_le:
  assumes "revokeRefreshTokenByHashQuery h at n db = Inr (r, db')"
  shows "auth_le db db'"
  using assms
  by (auto simp: revokeRefreshTokenByHashQuery_def Let_def auth_le_def auth_wf_def map_update_rows_same
      tok_le_def intro!: rows_le_refl rows_le_update split: if_splits option.splits)

lemma createAPIKey_le: "createAPIKeyQuery env k n db = Inr (r, db') \<Longrightarrow> auth_le db db'"
  by (auto simp: createAPIKeyQuery_def Let_def auth_le_def auth_wf_def rows_le_refl rows_le_append
      image_iff split: if_splits option.splits)

lemma readKeys_same:
  "listAPIKeysByProjectIDQuery env p n db = Inr (ks, db') \<Longrightarrow> db' = db"
  "getAPIKeyByPrefixQuery kp n db = Inr (r, db') \<Longrightarrow> db' = db"
  by (auto simp: listAPIKeysByProjectIDQuery_def getAPIKeyByPrefixQuery_def split: option.splits)

lemma disableKey_le: "disableAPIKeyQuery env k p at n db = Inr (r, db') \<Longrightarrow> auth_le db db'"
  by (auto simp: disableAPIKeyQuery_def Let_def auth_le_def auth_wf_def map_update_rows_same key_le_def
      intro!: rows_le_refl rows_le_update split: if_splits option.splits)

lemma touchKey_le: "updateAPIKeyLastUsedAtQuery env k at n db = Inr (r, db') \<Longrightarrow> auth_le db db'"
  by (auto simp: updateAPIKeyLastUsedAtQuery_def Let_def auth_le_def auth_wf_def map_update_rows_same
      key_le_def intro!: rows_le_refl rows_le_update split: if_splits option.splits)

text \<open>The facts every repository method rests on.\<close>

lemmas auth_sql_le =
  createUser_le createRefreshToken_le revokeByID_le revokeByHash_le createAPIKey_le disableKey_le touchKey_le

lemma auth_exec_le:
  assumes "pg_exec env stmt s = (r, s')" and "\<And>n a db'. stmt n (pg_db s) = Inr (a, db') \<Longrightarrow> auth_le (pg_db s) db'"
  shows "auth_le (pg_db s) (pg_db s')"
  using pg_exec_invariant [OF assms(1), of "auth_le (pg_db s)"] assms(2) by auto

section \<open>Repository methods and the tables\<close>

lemma repo_users_le:
  "auth_le (pg_db s) (pg_db (snd (repo_CreateUser env u s)))"
  "pg_db (snd (repo_GetUserByEmail env e s)) = pg_db s"
  "pg_db (snd (repo_GetUserByID env i s)) = pg_db s"
proof -
  obtain r s1 where x: "pg_exec env (createUserQuery env u) s = (r, s1)" by fastforce
  with auth_exec_le [OF x] show "auth_le (pg_db s) (pg_db (snd (repo_CreateUser env u s)))"
    by (cases r) (auto simp: repo_CreateUser_def dest: createUser_le)
  obtain r s1 where x: "pg_exec env (getUserByEmailQuery env e) s = (r, s1)" by fastforce
  with pg_exec_invariant [OF x, of "\<lambda>db. db = pg_db s"]
  show "pg_db (snd (repo_GetUserByEmail env e s)) = pg_db s"
    by (cases r) (auto simp: repo_GetUserByEmail_def dest: getUser_le)
  obtain r s1 where x: "pg_exec env (getUserByIDQuery env i) s = (r, s1)" by fastforce
  with pg_exec_invariant [OF x, of "\<lambda>db. db = pg_db s"]
  show "pg_db (snd (repo_GetUserByID env i s)) = pg_db s"
    by (cases r) (auto simp: repo_GetUserByID_def dest: getUser_le)
qed

lemma repo_tokens_le:
  "auth_le (pg_db s) (pg_db (snd (repo_CreateRefreshToken env t s)))"
  "pg_db (snd (repo_GetRefreshTokenByHash env h s)) = pg_db s"
  "auth_le (pg_db s) (pg_db (snd (repo_RevokeRefreshTokenByHash env h at s)))"
proof -
  obtain r s1 where x: "pg_exec env (createRefreshTokenQuery env t) s = (r, s1)" by fastforce
  with auth_exec_le [OF x] show "auth_le (pg_db s) (pg_db (snd (repo_CreateRefreshToken env t s)))"
    by (cases r) (auto simp: repo_CreateRefreshToken_def dest: createRefreshToken_le)
  obtain r s1 where x: "pg_exec env (getRefreshTokenByHashQuery h) s = (r, s1)" by fastforce
  with pg_exec_invariant [OF x, of "\<lambda>db. db = pg_db s"]
  show "pg_db (snd (repo_GetRefreshTokenByHash env h s)) = pg_db s"
    by (cases r) (auto simp: repo_GetRefreshTokenByHash_def dest: getRefreshToken_same)
  obtain r s1 where x: "pg_exec env (revokeRefreshTokenByHashQuery h at) s = (r, s1)" by fastforce
  with auth_exec_le [OF x] show "auth_le (pg_db s) (pg_db (snd (repo_RevokeRefreshTokenByHash env h at s)))"
    by (cases r) (auto simp: repo_RevokeRefreshTokenByHash_def dest: revokeByHash_le)
qed

lemma repo_keys_le:
  "auth_le (pg_db s) (pg_db (snd (repo_CreateAPIKey env k s)))"
  "pg_db (snd (repo_ListAPIKeysByProjectID env p s)) = pg_db s"
  "pg_db (snd (repo_GetAPIKeyByPrefix env kp s)) = pg_db s"
  "auth_le (pg_db s) (pg_db (snd (repo_DisableAPIKey env p i at s)))"
  "auth_le (pg_db s) (pg_db (snd (repo_UpdateAPIKeyLastUsedAt env i at s)))"
proof -
  obtain r s1 where x: "pg_exec env (createAPIKeyQuery env k) s = (r, s1)" by fastforce
  with auth_exec_le [OF x] show "auth_le (pg_db s) (pg_db (snd (repo_CreateAPIKey env k s)))"
    by (cases r) (auto simp: repo_CreateAPIKey_def dest: createAPIKey_le)
  obtain r s1 where x: "pg_exec env (listAPIKeysByProjectIDQuery env p) s = (r, s1)" by fastforce
  with pg_exec_invariant [OF x, of "\<lambda>db. db = pg_db s"]
  show "pg_db (snd (repo_ListAPIKeysByProjectID env p s)) = pg_db s"
    by (cases r) (auto simp: repo_ListAPIKeysByProjectID_def dest: readKeys_same)
  obtain r s1 where x: "pg_exec env (getAPIKeyByPrefixQuery kp) s = (r, s1)" by fastforce
  with pg_exec_invariant [OF x, of "\<lambda>db. db = pg_db s"]
  show "pg_db (snd (repo_GetAPIKeyByPrefix env kp s)) = pg_db s"
    by (cases r) (auto simp: repo_GetAPIKeyByPrefix_def dest: readKeys_same)
  obtain r s1 where x: "pg_exec env (disableAPIKeyQuery env i p at) s = (r, s1)" by fastforce
  with auth_exec_le [OF x] show "auth_le (pg_db s) (pg_db (snd (repo_DisableAPIKey env p i at s)))"
    by (cases r) (auto simp: repo_DisableAPIKey_def dest: disableKey_le)
  obtain r s1 where x: "pg_exec env (updateAPIKeyLastUsedAtQuery env i at) s = (r, s1)" by fastforce
  with auth_exec_le [OF x] show "auth_le (pg_db s) (pg_db (snd (repo_UpdateAPIKeyLastUsedAt env i at s)))"
    by (cases r) (auto simp: repo_UpdateAPIKeyLastUsedAt_def dest: touchKey_le)
qed

text \<open>A rotation commits both changes or none.\<close>

lemma rotate_cases:
  assumes "repo_RotateRefreshToken env i repl at s = (res, s')"
  shows "pg_db s' = pg_db s \<and> (\<forall>c. res \<noteq> Inr c) \<or>
    (\<exists>n1 n2 tid db1 c. revokeRefreshTokenByIDQuery env i at n1 (pg_db s) = Inr (tid, db1) \<and>
       createRefreshTokenQuery env repl n2 db1 = Inr (c, pg_db s') \<and> (res = Inr c \<or> (\<exists>e. res = Inl e)))"
proof -
  obtain b s1 where b: "pg_begin env s = (b, s1)" by fastforce
  then have db1: "pg_db s1 = pg_db s" using pg_begin_db [of env s] by simp
  show ?thesis
  proof (cases b)
    case (Inl e)
    with assms b db1 show ?thesis by (auto simp: repo_RotateRefreshToken_def)
  next
    case (Inr u)
    obtain r s2 where r: "pg_exec env (revokeRefreshTokenByIDQuery env i at) s1 = (r, s2)" by fastforce
    show ?thesis
    proof (cases r)
      case (Inl e)
      with assms b Inr r db1 show ?thesis
        by (auto simp: repo_RotateRefreshToken_def pg_rollback_def split: if_splits)
    next
      case r': (Inr tid)
      with r have rev: "revokeRefreshTokenByIDQuery env i at (pg_tick s1) (pg_db s) = Inr (tid, pg_db s2)"
        using pg_exec_Inr db1 by metis
      obtain c s3 where c: "pg_exec env (createRefreshTokenQuery env repl) s2 = (c, s3)" by fastforce
      show ?thesis
      proof (cases c)
        case (Inl e)
        with assms b Inr r r' c db1 show ?thesis by (auto simp: repo_RotateRefreshToken_def pg_rollback_def)
      next
        case c': (Inr created)
        with c have ins: "createRefreshTokenQuery env repl (pg_tick s2) (pg_db s2) = Inr (created, pg_db s3)"
          using pg_exec_Inr by metis
        obtain k s4 where k: "pg_commit env s1 s3 = (k, s4)" by fastforce
        have s': "s' = s4" "res = (case k of Inl e \<Rightarrow> Inl (wrap_pg ''commit refresh token rotation: %w'' e) | Inr _ \<Rightarrow> Inr created)"
          using assms b Inr r r' c c' k by (auto simp: repo_RotateRefreshToken_def split: sum.splits)
        have "pg_db s4 = pg_db s \<or> pg_db s4 = pg_db s3"
          using pg_commit_db [of env s1 s3] k db1 by simp
        moreover have "k = Inr y \<Longrightarrow> pg_db s4 = pg_db s3" for y using k pg_commit_Inr by blast
        ultimately show ?thesis using rev ins s' by (cases k) auto
      qed
    qed
  qed
qed

lemma repo_rotate_le: "auth_le (pg_db s) (pg_db (snd (repo_RotateRefreshToken env i repl at s)))"
proof -
  obtain res s' where x: "repo_RotateRefreshToken env i repl at s = (res, s')" by fastforce
  from rotate_cases [OF x] show ?thesis
    using x by (auto dest!: revokeByID_le createRefreshToken_le intro: auth_le_trans)
qed

section \<open>Reachable states\<close>

text \<open>The states that repository calls lead to, by any clients in any order and with any faults; steps
  outside the tables are allowed too.\<close>

inductive auth_reach :: "pg_env \<Rightarrow> 'z auth_state \<Rightarrow> 'z auth_state \<Rightarrow> bool" for env where
  reach_refl: "auth_reach env s s"
| reach_other: "auth_reach env s s1 \<Longrightarrow> pg_db s2 = pg_db s1 \<Longrightarrow> auth_reach env s s2"
| reach_createUser: "auth_reach env s s1 \<Longrightarrow> auth_reach env s (snd (repo_CreateUser env u s1))"
| reach_createToken: "auth_reach env s s1 \<Longrightarrow> auth_reach env s (snd (repo_CreateRefreshToken env t s1))"
| reach_rotate: "auth_reach env s s1 \<Longrightarrow> auth_reach env s (snd (repo_RotateRefreshToken env i t at s1))"
| reach_revoke: "auth_reach env s s1 \<Longrightarrow> auth_reach env s (snd (repo_RevokeRefreshTokenByHash env h at s1))"
| reach_createKey: "auth_reach env s s1 \<Longrightarrow> auth_reach env s (snd (repo_CreateAPIKey env k s1))"
| reach_disableKey: "auth_reach env s s1 \<Longrightarrow> auth_reach env s (snd (repo_DisableAPIKey env p i at s1))"
| reach_touchKey: "auth_reach env s s1 \<Longrightarrow> auth_reach env s (snd (repo_UpdateAPIKeyLastUsedAt env i at s1))"

inductive_cases auth_reachE: "auth_reach env s s'"

lemma auth_reach_le: "auth_reach env s s' \<Longrightarrow> auth_le (pg_db s) (pg_db s')"
proof (induction rule: auth_reach.induct)
  case (reach_refl s)
  show ?case by simp
next
  case (reach_other s s1 s2)
  then show ?case by simp
qed (rule auth_le_trans, assumption, rule repo_users_le repo_tokens_le repo_rotate_le repo_keys_le)+

section \<open>The refresh-token interface\<close>

text \<open>What rotation promises: a token id that has been rotated or revoked is spent, stays spent, and a
  spent id cannot be rotated.\<close>

locale refresh_token_repository =
  fixes rotate :: "string \<Rightarrow> RefreshToken \<Rightarrow> Time \<Rightarrow> 's \<Rightarrow> (au_err + RefreshToken) \<times> 's"
    and reach :: "'s \<Rightarrow> 's \<Rightarrow> bool"
    and ok :: "'s \<Rightarrow> bool"
    and spent :: "'s \<Rightarrow> string \<Rightarrow> bool"
  assumes reach_ok: "ok s \<Longrightarrow> reach s s' \<Longrightarrow> ok s'"
    and spent_reach: "ok s \<Longrightarrow> reach s s' \<Longrightarrow> spent s i \<Longrightarrow> spent s' i"
    and rotate_reach: "reach s (snd (rotate i r at s))"
    and rotate_spends: "ok s \<Longrightarrow> rotate i r at s = (Inr c, s') \<Longrightarrow> \<not> spent s i \<and> spent s' i"
begin

lemma rotate_once:
  assumes "ok s" and "rotate i r1 at1 s = (Inr c1, s1)" and "reach s1 s2"
  shows "rotate i r2 at2 s2 \<noteq> (Inr c2, s3)"
proof
  assume second: "rotate i r2 at2 s2 = (Inr c2, s3)"
  have "reach s s1" using rotate_reach [of s i r1 at1] assms(2) by simp
  with assms(1) have "ok s1" by (rule reach_ok)
  moreover from this assms(3) have "ok s2" by (rule reach_ok)
  moreover have "spent s1 i" using rotate_spends [OF assms(1,2)] by simp
  ultimately show False using spent_reach [OF _ assms(3)] rotate_spends [OF _ second] by blast
qed

lemma spent_not_rotated: "ok s \<Longrightarrow> spent s i \<Longrightarrow> rotate i r at s \<noteq> (Inr c, s')"
  using rotate_spends by blast

end

definition token_spent :: "pg_env \<Rightarrow> 'z auth_state \<Rightarrow> string \<Rightarrow> bool" where
  "token_spent env s i \<longleftrightarrow>
     (\<exists>tid. pe_uuid env i = Some tid \<and> (\<exists>t\<in>set (db_tokens (pg_db s)). tok_ID t = tid \<and> tok_RevokedAt t \<noteq> None))"

lemma revoked_row_le:
  assumes "auth_le db db'" and "t \<in> set (db_tokens db)" and "tok_RevokedAt t \<noteq> None"
  shows "\<exists>t'\<in>set (db_tokens db'). tok_ID t' = tok_ID t \<and> tok_TokenHash t' = tok_TokenHash t \<and>
    tok_RevokedAt t' \<noteq> None"
proof -
  from assms(1,2) obtain t' where "t' \<in> set (db_tokens db')" "tok_le t t'"
    unfolding auth_le_def rows_le_def by blast
  with assms(3) show ?thesis unfolding tok_le_def by metis
qed

lemma token_spent_le:
  assumes "auth_le (pg_db s) (pg_db s')" and "token_spent env s i"
  shows "token_spent env s' i"
  using assms(2) revoked_row_le [OF assms(1)] unfolding token_spent_def by metis

lemma revokeByID_spends:
  assumes "revokeRefreshTokenByIDQuery env i at n db = Inr (tid, db')" and "auth_wf db"
  shows "pe_uuid env i = Some tid"
    and "t \<in> set (db_tokens db) \<Longrightarrow> tok_ID t = tid \<Longrightarrow> tok_RevokedAt t = None"
    and "\<exists>t\<in>set (db_tokens db'). tok_ID t = tid \<and> tok_RevokedAt t \<noteq> None"
proof -
  from assms(1) obtain u where u: "u \<in> set (db_tokens db)" "tok_ID u = tid" "tok_RevokedAt u = None"
      "tok_ExpiresAt u > pg_time at" and pid: "pe_uuid env i = Some tid"
    and db': "db_tokens db' = update_rows (\<lambda>t. tok_ID t = tid \<and> tok_RevokedAt t = None \<and> tok_ExpiresAt t > pg_time at)
        (\<lambda>t. t\<lparr>tok_RevokedAt := Some (pg_time at)\<rparr>) (db_tokens db)"
    by (auto simp: revokeRefreshTokenByIDQuery_def Let_def split: option.splits if_splits)
  show "pe_uuid env i = Some tid" by (rule pid)
  show "t \<in> set (db_tokens db) \<Longrightarrow> tok_ID t = tid \<Longrightarrow> tok_RevokedAt t = None"
    using assms(2) u distinct_key_eq [of tok_ID "db_tokens db" t u] by (auto simp: auth_wf_def)
  have "u\<lparr>tok_RevokedAt := Some (pg_time at)\<rparr> \<in> set (db_tokens db')"
    using u by (auto simp: db' in_update_rows intro!: bexI [of _ u])
  with u(2) show "\<exists>t\<in>set (db_tokens db'). tok_ID t = tid \<and> tok_RevokedAt t \<noteq> None"
    by (intro bexI [of _ "u\<lparr>tok_RevokedAt := Some (pg_time at)\<rparr>"]) simp_all
qed

interpretation pg_tokens: refresh_token_repository
  "repo_RotateRefreshToken env" "auth_reach env" "\<lambda>s. auth_wf (pg_db s)" "token_spent env"
proof
  fix s s' :: "'z auth_state" and i
  assume "auth_wf (pg_db s)" and "auth_reach env s s'"
  then show "auth_wf (pg_db s')" using auth_reach_le by (auto simp: auth_le_def)
  assume "token_spent env s i"
  with \<open>auth_reach env s s'\<close> show "token_spent env s' i" using token_spent_le auth_reach_le by blast
next
  fix s :: "'z auth_state" and i r at
  show "auth_reach env s (snd (repo_RotateRefreshToken env i r at s))"
    by (rule auth_reach.reach_rotate [OF auth_reach.reach_refl])
next
  fix s s' :: "'z auth_state" and i r at c
  assume wf: "auth_wf (pg_db s)" and rot: "repo_RotateRefreshToken env i r at s = (Inr c, s')"
  then obtain n1 n2 tid db1 where rev: "revokeRefreshTokenByIDQuery env i at n1 (pg_db s) = Inr (tid, db1)"
    and ins: "createRefreshTokenQuery env r n2 db1 = Inr (c, pg_db s')"
    using rotate_cases [OF rot] by auto
  note sp = revokeByID_spends [OF rev wf]
  from sp(3) revoked_row_le [OF createRefreshToken_le [OF ins]]
  have "\<exists>t\<in>set (db_tokens (pg_db s')). tok_ID t = tid \<and> tok_RevokedAt t \<noteq> None" by metis
  with sp(1,2) show "\<not> token_spent env s i \<and> token_spent env s' i"
    by (auto simp: token_spent_def)
qed

section \<open>Properties\<close>

text \<open>A refresh token is rotated at most once: after a successful rotation no later rotation of the
  same token succeeds, whatever repository calls, by whichever clients, with whichever database
  faults, come in between.\<close>

lemma rotation_single_use:
  assumes "auth_wf (pg_db s)" and "repo_RotateRefreshToken env i r1 at1 s = (Inr c1, s1)"
    and "auth_reach env s1 s2"
  shows "\<not> (\<exists>c2. fst (repo_RotateRefreshToken env i r2 at2 s2) = Inr c2)"
  using pg_tokens.rotate_once [OF assms] by (metis prod.collapse)

text \<open>A database with one user and one token, and a server that never fails.\<close>

definition calm_env :: pg_env where
  "calm_env = \<lparr>pe_fault = (\<lambda>_. NoFault), pe_now = (\<lambda>n. 1000000), pe_newid = (\<lambda>n. CHR ''i'' # replicate n (CHR ''i'')),
     pe_uuid = Some, pe_lower = (\<lambda>x. x)\<rparr>"

definition one_token_db :: auth_db where
  "one_token_db = \<lparr>db_users = [\<lparr>us_ID = ''u1'', us_Email = ''a@b'', us_PasswordHash = ''h'', us_Role = RoleMember,
        us_Enabled = True, us_CreatedAt = 0, us_UpdatedAt = 0\<rparr>],
     db_tokens = [\<lparr>tok_ID = ''t1'', tok_UserID = ''u1'', tok_TokenHash = ''h1'', tok_ExpiresAt = 9000000,
        tok_RevokedAt = None, tok_CreatedAt = 0\<rparr>],
     db_keys = [], db_projects = [''p1'']\<rparr>"

definition next_token :: "string \<Rightarrow> RefreshToken" where
  "next_token h = \<lparr>tok_ID = '''', tok_UserID = ''u1'', tok_TokenHash = h, tok_ExpiresAt = 9000000,
     tok_RevokedAt = None, tok_CreatedAt = 0\<rparr>"

lemma rotation_example:
  "\<exists>c s1. repo_RotateRefreshToken calm_env ''t1'' (next_token ''h2'') 2000000 \<lparr>pg_db = one_token_db, pg_tick = 0\<rparr> = (Inr c, s1)"
  by (simp add: repo_RotateRefreshToken_def pg_begin_def pg_exec_def calm_env_def revokeRefreshTokenByIDQuery_def
      one_token_db_def createRefreshTokenQuery_def next_token_def pg_time_def Let_def pg_commit_def pg_rollback_def)

lemma rotation_single_use_witness:
  "(\<exists>c1. fst (repo_RotateRefreshToken calm_env ''t1'' (next_token ''h2'') 2000000
       \<lparr>pg_db = one_token_db, pg_tick = 0\<rparr>) = Inr c1) \<and>
   \<not> (\<exists>c2. fst (repo_RotateRefreshToken calm_env ''t1'' (next_token ''h3'') 3000000
       (snd (repo_RotateRefreshToken calm_env ''t1'' (next_token ''h2'') 2000000 \<lparr>pg_db = one_token_db, pg_tick = 0\<rparr>))) = Inr c2)"
proof -
  obtain c s1 where rot: "repo_RotateRefreshToken calm_env ''t1'' (next_token ''h2'') 2000000
      \<lparr>pg_db = one_token_db, pg_tick = 0\<rparr> = (Inr c, s1)" using rotation_example by blast
  have "auth_wf (pg_db \<lparr>pg_db = one_token_db, pg_tick = 0\<rparr>)" by (simp add: auth_wf_def one_token_db_def)
  from rotation_single_use [OF this rot auth_reach.reach_refl, of "next_token ''h3''" 3000000] rot
  show ?thesis by simp
qed

end
