(* ===== verification/Auth_Security.thy ===== *)
theory Auth_Security
  imports Auth_Domain
begin

text \<open>
  \<open>internal/auth/infrastructure/security\<close>: API keys, JWT access tokens, refresh tokens and password
  hashes. SHA-256, bcrypt, the JWT library and the random source are parameters. A random source is
  a state-passing function that returns the requested number of bytes or an error.
\<close>

type_synonym 's rand_reader = "nat \<Rightarrow> 's \<Rightarrow> (au_err + string) \<times> 's"

text \<open>\<open>io.ReadFull\<close> over a reader that may return too few bytes.\<close>

definition io_ReadFull :: "'s rand_reader \<Rightarrow> 's rand_reader" where
  "io_ReadFull reader n s =
     (case reader n s of
        (Inl err, s1) \<Rightarrow> (Inl err, s1)
      | (Inr bytes, s1) \<Rightarrow>
          if length bytes < n then (Inl (Sentinel (AuExternal ''unexpected EOF'')), s1)
          else (Inr (take n bytes), s1))"

lemma io_ReadFull_length: "io_ReadFull reader n s = (Inr bytes, s1) \<Longrightarrow> length bytes = n"
  by (auto simp: io_ReadFull_def split: prod.splits sum.splits if_splits)

text \<open>\<open>sha256.Sum256\<close> returns an array of 32 bytes whatever the digest function computes.\<close>

definition Sum256 :: "(string \<Rightarrow> string) \<Rightarrow> string \<Rightarrow> string" where
  "Sum256 sha256 v = take 32 (sha256 v @ replicate 32 (CHR 0x00))"

lemma Sum256_length [simp]: "length (Sum256 sha256 v) = 32"
  by (simp add: Sum256_def min_def)

lemma Sum256_nonempty [simp]: "Sum256 sha256 v \<noteq> []"
  by (metis Sum256_length list.size(3) zero_neq_numeral)

section \<open>API keys\<close>

record GeneratedAPIKey =
  gen_Value :: string
  gen_Prefix :: string
  gen_Hash :: string

record ParsedAPIKey =
  par_Prefix :: string
  par_Hash :: string

definition apiKeyEnvironment :: string where
  "apiKeyEnvironment = ''live''"

definition apiKeyPrefixSize :: nat where
  "apiKeyPrefixSize = 8"

definition apiKeySecretSize :: nat where
  "apiKeySecretSize = 32"

definition hashAPIKey :: "(string \<Rightarrow> string) \<Rightarrow> string \<Rightarrow> string" where
  "hashAPIKey sha256 rawAPIKey = hex_EncodeToString (Sum256 sha256 rawAPIKey)"

text \<open>\<open>fmt.Sprintf("eg_%s_%s_%s", apiKeyEnvironment, prefix, secret)\<close>.\<close>

definition format_api_key :: "string \<Rightarrow> string \<Rightarrow> string" where
  "format_api_key keyPrefix secret = ''eg_'' @ apiKeyEnvironment @ ''_'' @ keyPrefix @ ''_'' @ secret"

definition GenerateAPIKey ::
  "(string \<Rightarrow> string) \<Rightarrow> 's rand_reader \<Rightarrow> 's \<Rightarrow> (au_err + GeneratedAPIKey) \<times> 's" where
  "GenerateAPIKey sha256 random s =
     (case io_ReadFull random apiKeyPrefixSize s of
        (Inl err, s1) \<Rightarrow> (Inl (Errorf ''generate api key prefix: %w'' [err]), s1)
      | (Inr prefixBytes, s1) \<Rightarrow>
          (case io_ReadFull random apiKeySecretSize s1 of
             (Inl err, s2) \<Rightarrow> (Inl (Errorf ''generate api key secret: %w'' [err]), s2)
           | (Inr secretBytes, s2) \<Rightarrow>
               (let keyPrefix = hex_EncodeToString prefixBytes;
                    secret = b64_EncodeToString secretBytes;
                    v = format_api_key keyPrefix secret
                in (Inr \<lparr>gen_Value = v, gen_Prefix = keyPrefix, gen_Hash = hashAPIKey sha256 v\<rparr>, s2))))"

definition ParseAPIKey :: "(string \<Rightarrow> string) \<Rightarrow> string \<Rightarrow> au_err + ParsedAPIKey" where
  "ParseAPIKey sha256 rawAPIKey =
     (let raw = TrimSpace rawAPIKey; parts = split_byte_n 4 (CHR ''_'') raw in
      if length parts \<noteq> 4 \<or> parts ! 0 \<noteq> ''eg'' \<or> parts ! 1 \<noteq> apiKeyEnvironment
        then Inl (Sentinel SErrInvalidAPIKey)
      else (case hex_DecodeString (parts ! 2) of
              None \<Rightarrow> Inl (Sentinel SErrInvalidAPIKey)
            | Some prefixBytes \<Rightarrow>
                if length prefixBytes \<noteq> apiKeyPrefixSize then Inl (Sentinel SErrInvalidAPIKey)
                else (case b64_DecodeString (parts ! 3) of
                        None \<Rightarrow> Inl (Sentinel SErrInvalidAPIKey)
                      | Some secretBytes \<Rightarrow>
                          if length secretBytes \<noteq> apiKeySecretSize then Inl (Sentinel SErrInvalidAPIKey)
                          else Inr \<lparr>par_Prefix = parts ! 2, par_Hash = hashAPIKey sha256 raw\<rparr>)))"

definition MatchAPIKeyHash :: "string \<Rightarrow> string \<Rightarrow> bool" where
  "MatchAPIKeyHash actualHash expectedHash =
     (case hex_DecodeString actualHash of
        None \<Rightarrow> False
      | Some actual \<Rightarrow>
          (case hex_DecodeString expectedHash of
             None \<Rightarrow> False
           | Some expected \<Rightarrow> length actual = length expected \<and> actual = expected))"

section \<open>Passwords\<close>

record PasswordHasher =
  ph_cost :: int

definition NewPasswordHasher :: "int \<Rightarrow> au_err + PasswordHasher" where
  "NewPasswordHasher cost =
     (let cost' = (if cost = 0 then 10 else cost) in
      if cost' < 4 \<or> cost' > 31 then Inl (Sentinel SErrInvalidBcryptCost)
      else Inr \<lparr>ph_cost = cost'\<rparr>)"

definition hasher_Hash ::
  "(int \<Rightarrow> string \<Rightarrow> 's \<Rightarrow> (au_err + string) \<times> 's) \<Rightarrow> PasswordHasher \<Rightarrow> string \<Rightarrow> 's \<Rightarrow> (au_err + string) \<times> 's" where
  "hasher_Hash bcrypt_Generate h password s = bcrypt_Generate (ph_cost h) password s"

definition hasher_Matches :: "(string \<Rightarrow> string \<Rightarrow> bool) \<Rightarrow> string \<Rightarrow> string \<Rightarrow> bool" where
  "hasher_Matches bcrypt_Compare passwordHash password = bcrypt_Compare passwordHash password"

section \<open>Access tokens\<close>

text \<open>The claims; a \<open>NumericDate\<close> is a time truncated to seconds.\<close>

record AccessTokenClaims =
  cl_Role :: Role
  cl_Issuer :: string
  cl_Subject :: string
  cl_Audience :: "string list"
  cl_ExpiresAt :: "Time option"
  cl_IssuedAt :: "Time option"
  cl_NotBefore :: "Time option"

definition NewNumericDate :: "Time \<Rightarrow> Time" where
  "NewNumericDate t = time_Truncate t Second"

record IssuedAccessToken =
  iat_Value :: string
  iat_ExpiresAt :: Time

record AccessTokenPrincipal =
  atp_UserID :: string
  atp_Role :: Role
  atp_ExpiresAt :: Time

text \<open>The options that \<open>ParseAccessToken\<close> passes to \<open>jwt.ParseWithClaims\<close>, and its key function.\<close>

record jwt_options =
  jo_ValidMethods :: "string list"
  jo_Issuer :: string
  jo_Audience :: string
  jo_Now :: Time
  jo_Key :: "string \<Rightarrow> au_err + string"

text \<open>\<open>jwt_Sign\<close> signs claims with HS256 and a secret; \<open>jwt_Parse\<close> checks a token under the
  options (expiry and not-before required, issued-at checked) and gives its claims and the
  library's \<open>Valid\<close> flag.\<close>

record jwt_lib =
  jwt_Sign :: "string \<Rightarrow> AccessTokenClaims \<Rightarrow> au_err + string"
  jwt_Parse :: "jwt_options \<Rightarrow> string \<Rightarrow> au_err + AccessTokenClaims \<times> bool"

record 's TokenService =
  ts_secret :: string
  ts_issuer :: string
  ts_audience :: string
  ts_accessTokenTTL :: Duration
  ts_refreshTokenSize :: int
  ts_random :: "'s rand_reader"

record TokenServiceConfig =
  tc_JWTSecret :: string
  tc_JWTIssuer :: string
  tc_JWTAudience :: string
  tc_AccessTokenTTL :: Duration
  tc_RefreshTokenSize :: int

definition NewTokenService :: "'s rand_reader \<Rightarrow> TokenServiceConfig \<Rightarrow> au_err + 's TokenService" where
  "NewTokenService rand config =
     (if length (tc_JWTSecret config) < 32 then Inl (Sentinel SErrJWTSecretTooShort)
      else
        let issuer0 = TrimSpace (tc_JWTIssuer config);
            issuer = (if issuer0 = '''' then ''edgeguard-auth'' else issuer0);
            audience0 = TrimSpace (tc_JWTAudience config);
            audience = (if audience0 = '''' then ''edgeguard'' else audience0);
            ttl = (if tc_AccessTokenTTL config = 0 then 15 * Minute else tc_AccessTokenTTL config) in
        if ttl < 0 then Inl (Sentinel SErrInvalidAccessTokenTTL)
        else
          let size = (if tc_RefreshTokenSize config = 0 then 32 else tc_RefreshTokenSize config) in
          if size < 16 \<or> size > 128 then Inl (Sentinel SErrInvalidRefreshTokenSize)
          else Inr \<lparr>ts_secret = tc_JWTSecret config, ts_issuer = issuer, ts_audience = audience,
                    ts_accessTokenTTL = ttl, ts_refreshTokenSize = size, ts_random = rand\<rparr>)"

definition IssueAccessToken :: "jwt_lib \<Rightarrow> 's TokenService \<Rightarrow> User \<Rightarrow> Time \<Rightarrow> au_err + IssuedAccessToken" where
  "IssueAccessToken jwt ts user now =
     (let userID = TrimSpace (us_ID user) in
      if userID = '''' \<or> \<not> role_IsValid (us_Role user) \<or> \<not> us_Enabled user \<or> IsZero now
        then Inl (Sentinel SErrInvalidTokenUser)
      else
        let expiresAt = time_Add now (ts_accessTokenTTL ts);
            claims = \<lparr>cl_Role = us_Role user, cl_Issuer = ts_issuer ts, cl_Subject = userID,
                      cl_Audience = [ts_audience ts],
                      cl_ExpiresAt = Some (NewNumericDate expiresAt),
                      cl_IssuedAt = Some (NewNumericDate now),
                      cl_NotBefore = Some (NewNumericDate now)\<rparr> in
        case jwt_Sign jwt (ts_secret ts) claims of
          Inl err \<Rightarrow> Inl (Errorf ''sign access token: %w'' [err])
        | Inr rawToken \<Rightarrow> Inr \<lparr>iat_Value = rawToken, iat_ExpiresAt = expiresAt\<rparr>)"

definition parse_options :: "'s TokenService \<Rightarrow> Time \<Rightarrow> jwt_options" where
  "parse_options ts now =
     \<lparr>jo_ValidMethods = [''HS256''], jo_Issuer = ts_issuer ts, jo_Audience = ts_audience ts,
      jo_Now = now,
      jo_Key = (\<lambda>alg. if alg \<noteq> ''HS256'' then Inl (Sentinel SErrInvalidAccessToken) else Inr (ts_secret ts))\<rparr>"

definition ParseAccessToken :: "jwt_lib \<Rightarrow> 's TokenService \<Rightarrow> string \<Rightarrow> Time \<Rightarrow> au_err + AccessTokenPrincipal" where
  "ParseAccessToken jwt ts rawToken now =
     (let raw = TrimSpace rawToken in
      if raw = '''' \<or> IsZero now then Inl (Sentinel SErrInvalidAccessToken)
      else case jwt_Parse jwt (parse_options ts now) raw of
             Inl err \<Rightarrow> Inl (Errorf ''%w: %v'' [Sentinel SErrInvalidAccessToken])
           | Inr (claims, valid) \<Rightarrow>
               if \<not> valid then Inl (Sentinel SErrInvalidAccessToken)
               else
                 let userID = TrimSpace (cl_Subject claims) in
                 if userID = '''' \<or> \<not> role_IsValid (cl_Role claims) then Inl (Sentinel SErrInvalidAccessToken)
                 else (case cl_ExpiresAt claims of
                         None \<Rightarrow> Inl (Sentinel SErrInvalidAccessToken)
                       | Some e \<Rightarrow> Inr \<lparr>atp_UserID = userID, atp_Role = cl_Role claims, atp_ExpiresAt = e\<rparr>))"

section \<open>Refresh tokens\<close>

definition HashRefreshToken :: "(string \<Rightarrow> string) \<Rightarrow> string \<Rightarrow> string" where
  "HashRefreshToken sha256 rawToken = hex_EncodeToString (Sum256 sha256 rawToken)"

definition GenerateRefreshToken ::
  "(string \<Rightarrow> string) \<Rightarrow> 's TokenService \<Rightarrow> 's \<Rightarrow> (au_err + string \<times> string) \<times> 's" where
  "GenerateRefreshToken sha256 ts s =
     (case io_ReadFull (ts_random ts) (nat (ts_refreshTokenSize ts)) s of
        (Inl err, s1) \<Rightarrow> (Inl (Errorf ''generate refresh token: %w'' [err]), s1)
      | (Inr randomBytes, s1) \<Rightarrow>
          (let rawToken = b64_EncodeToString randomBytes
           in (Inr (rawToken, HashRefreshToken sha256 rawToken), s1)))"

section \<open>Round trips\<close>

lemma b64_val_visible: "b64_val c \<noteq> None \<Longrightarrow> visible_ascii c"
  by (auto simp: b64_val_def visible_ascii_def Let_def split: if_splits)

lemma b64_Encode_chars: "c \<in> set (b64_EncodeToString bs) \<Longrightarrow> b64_val c \<noteq> None"
proof -
  assume "c \<in> set (b64_EncodeToString bs)"
  then obtain g where g: "g \<in> set (b64_groups (map byte_val bs))" and c: "c = b64_char g"
    by (auto simp: b64_EncodeToString_def)
  have "g < 64" by (rule b64_groups_less [OF _ g]) simp
  with c show ?thesis by simp
qed

lemma b64_Encode_nonempty: "bs \<noteq> [] \<Longrightarrow> b64_EncodeToString bs \<noteq> []"
  by (cases "map byte_val bs" rule: b64_groups.cases) (auto simp: b64_EncodeToString_def)

lemma b64_Encode_trim [simp]: "TrimSpace (b64_EncodeToString bs) = b64_EncodeToString bs"
proof (cases "b64_EncodeToString bs = []")
  case False
  then have "hd (b64_EncodeToString bs) \<in> set (b64_EncodeToString bs)"
    "last (b64_EncodeToString bs) \<in> set (b64_EncodeToString bs)" by simp_all
  then show ?thesis by (intro TrimSpace_visible b64_val_visible b64_Encode_chars)
qed simp

lemma hex_visible: "hex_val c \<noteq> None \<Longrightarrow> visible_ascii c"
  by (auto simp: hex_val_def visible_ascii_def Let_def split: if_splits)

lemma hex_Encode_trim [simp]: "TrimSpace (hex_EncodeToString bs) = hex_EncodeToString bs"
proof (cases "hex_EncodeToString bs = []")
  case False
  then have "hd (hex_EncodeToString bs) \<in> set (hex_EncodeToString bs)"
    "last (hex_EncodeToString bs) \<in> set (hex_EncodeToString bs)" by simp_all
  then show ?thesis by (intro TrimSpace_visible hex_visible hex_Encode_chars)
qed simp

lemma hex_Encode_eq_Nil [simp]: "hex_EncodeToString bs = [] \<longleftrightarrow> bs = []"
  by (cases bs) simp_all

lemma format_api_key_trim:
  assumes "secret \<noteq> []" and "visible_ascii (last secret)"
  shows "TrimSpace (format_api_key p secret) = format_api_key p secret"
  using assms by (intro TrimSpace_visible) (auto simp: format_api_key_def visible_ascii_def)

lemma split_api_key:
  assumes "CHR ''_'' \<notin> set p"
  shows "split_byte_n 4 (CHR ''_'') (format_api_key p secret) = [''eg'', ''live'', p, secret]"
proof -
  have four: "(4 :: nat) = Suc (Suc (Suc (Suc 0)))" by simp
  have "format_api_key p secret = ''eg'' @ CHR ''_'' # (''live'' @ CHR ''_'' # (p @ CHR ''_'' # secret))"
    by (simp add: format_api_key_def apiKeyEnvironment_def)
  then show ?thesis
    using assms unfolding four
    by (simp only: split_byte_n.simps cut_byte_append option.case prod.case) simp
qed

lemma ParseAPIKey_format:
  assumes "length pb = 8" and "length sb = 32"
  shows "ParseAPIKey sha256 (format_api_key (hex_EncodeToString pb) (b64_EncodeToString sb)) =
    Inr \<lparr>par_Prefix = hex_EncodeToString pb,
         par_Hash = hashAPIKey sha256 (format_api_key (hex_EncodeToString pb) (b64_EncodeToString sb))\<rparr>"
proof -
  have "b64_EncodeToString sb \<noteq> []" using assms(2) by (intro b64_Encode_nonempty) auto
  then have trim: "TrimSpace (format_api_key (hex_EncodeToString pb) (b64_EncodeToString sb)) =
      format_api_key (hex_EncodeToString pb) (b64_EncodeToString sb)"
    by (intro format_api_key_trim b64_val_visible b64_Encode_chars [of _ sb]) simp_all
  show ?thesis
    by (simp add: ParseAPIKey_def Let_def trim split_api_key hex_Encode_no_special apiKeyEnvironment_def
        apiKeyPrefixSize_def apiKeySecretSize_def assms)
qed

lemma GenerateAPIKey_cases:
  assumes "GenerateAPIKey sha256 random s = (Inr g, s1)"
  obtains pb sb where "length pb = 8" "length sb = 32"
    "gen_Prefix g = hex_EncodeToString pb"
    "gen_Value g = format_api_key (hex_EncodeToString pb) (b64_EncodeToString sb)"
    "gen_Hash g = hashAPIKey sha256 (gen_Value g)"
  using assms unfolding GenerateAPIKey_def Let_def
  by (auto simp: apiKeyPrefixSize_def apiKeySecretSize_def split: prod.splits sum.splits
      dest!: io_ReadFull_length)

lemma MatchAPIKeyHash_iff:
  "MatchAPIKeyHash a b \<longleftrightarrow> hex_DecodeString a \<noteq> None \<and> hex_DecodeString a = hex_DecodeString b"
  by (auto simp: MatchAPIKeyHash_def split: option.splits)

section \<open>The key-service interface\<close>

text \<open>What the use case relies on: a generated key parses to its own prefix and hash, both of which
  survive trimming, and a hash matches itself and nothing that decodes differently.\<close>

locale api_key_service =
  fixes generate :: "'s \<Rightarrow> (au_err + GeneratedAPIKey) \<times> 's"
    and parse :: "string \<Rightarrow> au_err + ParsedAPIKey"
    and matches :: "string \<Rightarrow> string \<Rightarrow> bool"
  assumes parse_generated: "generate s = (Inr g, s1) \<Longrightarrow>
      parse (gen_Value g) = Inr \<lparr>par_Prefix = gen_Prefix g, par_Hash = gen_Hash g\<rparr>"
    and generated_trimmed: "generate s = (Inr g, s1) \<Longrightarrow>
      TrimSpace (gen_Prefix g) = gen_Prefix g \<and> gen_Prefix g \<noteq> '''' \<and>
      TrimSpace (gen_Hash g) = gen_Hash g \<and> gen_Hash g \<noteq> ''''"
    and generated_matches: "generate s = (Inr g, s1) \<Longrightarrow> matches (gen_Hash g) (gen_Hash g)"
begin

lemma new_key_of_generated:
  assumes "generate s = (Inr g, s1)" and "TrimSpace projectID \<noteq> ''''" and "TrimSpace name \<noteq> ''''"
    and "\<And>t. expiresAt = Some t \<Longrightarrow> now < t"
  shows "NewAPIKey projectID name (gen_Prefix g) (gen_Hash g) expiresAt now =
    Inr \<lparr>ak_ID = '''', ak_ProjectID = TrimSpace projectID, ak_Name = TrimSpace name,
         ak_KeyPrefix = gen_Prefix g, ak_KeyHash = gen_Hash g, ak_Enabled = True,
         ak_ExpiresAt = expiresAt, ak_LastUsedAt = None, ak_CreatedAt = 0, ak_UpdatedAt = 0\<rparr>"
  using generated_trimmed [OF assms(1)] assms(2-4)
  by (auto simp: NewAPIKey_def Let_def split: option.splits)

end

interpretation key_service: api_key_service "GenerateAPIKey sha256 random" "ParseAPIKey sha256" MatchAPIKeyHash
proof
  fix s g s1
  assume gen: "GenerateAPIKey sha256 random s = (Inr g, s1)"
  then obtain pb sb where k: "length pb = 8" "length sb = 32" "gen_Prefix g = hex_EncodeToString pb"
    "gen_Value g = format_api_key (hex_EncodeToString pb) (b64_EncodeToString sb)"
    "gen_Hash g = hashAPIKey sha256 (gen_Value g)" by (rule GenerateAPIKey_cases)
  have ne: "pb \<noteq> []" using k(1) by auto
  show "ParseAPIKey sha256 (gen_Value g) = Inr \<lparr>par_Prefix = gen_Prefix g, par_Hash = gen_Hash g\<rparr>"
    using ParseAPIKey_format [OF k(1,2), of sha256] k(3-5) by simp
  show "TrimSpace (gen_Prefix g) = gen_Prefix g \<and> gen_Prefix g \<noteq> '''' \<and>
      TrimSpace (gen_Hash g) = gen_Hash g \<and> gen_Hash g \<noteq> ''''"
    using k ne by (simp add: hashAPIKey_def)
  show "MatchAPIKeyHash (gen_Hash g) (gen_Hash g)"
    by (simp add: MatchAPIKeyHash_iff k(5) hashAPIKey_def)
qed

section \<open>Properties\<close>

text \<open>C26. Every generated API key is accepted by the parser, which recovers its prefix and its hash,
  and the two hashes match.\<close>

theorem api_key_round_trip:
  assumes "GenerateAPIKey sha random s = (Inr g, s1)"
  shows "ParseAPIKey sha (gen_Value g) = Inr \<lparr>par_Prefix = gen_Prefix g, par_Hash = gen_Hash g\<rparr> \<and>
    MatchAPIKeyHash (gen_Hash g) (gen_Hash g) \<and> length (gen_Prefix g) = 16"
proof -
  from assms obtain pb where "length pb = 8" "gen_Prefix g = hex_EncodeToString pb"
    by (rule GenerateAPIKey_cases)
  with key_service.parse_generated [OF assms] key_service.generated_matches [OF assms]
  show ?thesis by simp
qed

definition constant_random :: "unit rand_reader" where
  "constant_random n s = (Inr (replicate n (CHR ''z'')), s)"

theorem api_key_round_trip_witness:
  "\<exists>g s1. GenerateAPIKey (\<lambda>x. x) constant_random () = (Inr g, s1) \<and>
     ParseAPIKey (\<lambda>x. x) (gen_Value g) = Inr \<lparr>par_Prefix = gen_Prefix g, par_Hash = gen_Hash g\<rparr>"
proof -
  obtain g s1 where "GenerateAPIKey (\<lambda>x. x) constant_random () = (Inr g, s1)"
    by (simp add: GenerateAPIKey_def io_ReadFull_def constant_random_def Let_def)
  with api_key_round_trip [OF this] show ?thesis by blast
qed

text \<open>
  What the JWT library documents: a token signed with a secret is accepted under options whose key
  function gives that secret, whose issuer and audience are the token's, and whose time is not
  before \<open>nbf\<close> and \<open>iat\<close> and before \<open>exp\<close>; it never returns blank text for a token.
\<close>

definition jwt_accepts :: "jwt_lib \<Rightarrow> bool" where
  "jwt_accepts jwt \<longleftrightarrow>
     (\<forall>secret claims raw opts e.
        jwt_Sign jwt secret claims = Inr raw \<and> jo_Key opts ''HS256'' = Inr secret \<and>
        ''HS256'' \<in> set (jo_ValidMethods opts) \<and> cl_Issuer claims = jo_Issuer opts \<and>
        jo_Audience opts \<in> set (cl_Audience claims) \<and>
        cl_ExpiresAt claims = Some e \<and> jo_Now opts < e \<and>
        (\<exists>n. cl_NotBefore claims = Some n \<and> n \<le> jo_Now opts) \<and>
        (\<exists>i. cl_IssuedAt claims = Some i \<and> i \<le> jo_Now opts) \<longrightarrow>
        TrimSpace raw = raw \<and> raw \<noteq> '''' \<and> jwt_Parse jwt opts raw = Inr (claims, True))"

text \<open>C25. An access token issued for a user authenticates that user with the same role from the
  moment it is issued until its expiry, rounded down to whole seconds.\<close>

theorem access_token_round_trip:
  assumes "jwt_accepts jwt" and "IssueAccessToken jwt ts user now = Inr tok"
    and "now \<le> later" and "later < time_Truncate (iat_ExpiresAt tok) Second" and "0 < now"
  shows "ParseAccessToken jwt ts (iat_Value tok) later =
    Inr \<lparr>atp_UserID = TrimSpace (us_ID user), atp_Role = us_Role user,
         atp_ExpiresAt = time_Truncate (iat_ExpiresAt tok) Second\<rparr>"
proof -
  let ?claims = "\<lparr>cl_Role = us_Role user, cl_Issuer = ts_issuer ts, cl_Subject = TrimSpace (us_ID user),
    cl_Audience = [ts_audience ts], cl_ExpiresAt = Some (NewNumericDate (now + ts_accessTokenTTL ts)),
    cl_IssuedAt = Some (NewNumericDate now), cl_NotBefore = Some (NewNumericDate now)\<rparr>"
  from assms(2) have ok: "TrimSpace (us_ID user) \<noteq> ''''" "role_IsValid (us_Role user)"
    and sign: "jwt_Sign jwt (ts_secret ts) ?claims = Inr (iat_Value tok)"
    and exp: "iat_ExpiresAt tok = now + ts_accessTokenTTL ts"
    by (auto simp: IssueAccessToken_def Let_def time_Add_def split: if_splits sum.splits)
  have "NewNumericDate now \<le> later"
    using assms(3) time_Truncate_bounds(1) [of Second now] by (simp add: NewNumericDate_def Second_def)
  moreover have "later < NewNumericDate (now + ts_accessTokenTTL ts)"
    using assms(4) by (simp add: NewNumericDate_def exp)
  ultimately have "TrimSpace (iat_Value tok) = iat_Value tok \<and> iat_Value tok \<noteq> '''' \<and>
      jwt_Parse jwt (parse_options ts later) (iat_Value tok) = Inr (?claims, True)"
    using assms(1) [unfolded jwt_accepts_def, rule_format, of "ts_secret ts" ?claims "iat_Value tok"
        "parse_options ts later" "NewNumericDate (now + ts_accessTokenTTL ts)"] sign
    by (simp add: parse_options_def)
  with ok assms(3,5) exp show ?thesis
    by (simp add: ParseAccessToken_def Let_def IsZero_def NewNumericDate_def)
qed

text \<open>A JWT library that writes one letter per token and remembers the claims in it.\<close>

definition toy_claims :: AccessTokenClaims where
  "toy_claims = \<lparr>cl_Role = RoleMember, cl_Issuer = ''edgeguard-auth'', cl_Subject = ''u1'',
     cl_Audience = [''edgeguard''], cl_ExpiresAt = Some 960000000000,
     cl_IssuedAt = Some 60000000000, cl_NotBefore = Some 60000000000\<rparr>"

definition toy_jwt :: jwt_lib where
  "toy_jwt =
     \<lparr>jwt_Sign = (\<lambda>secret claims. if claims = toy_claims then Inr ''t'' else Inl (Sentinel (AuExternal ''sign''))),
      jwt_Parse = (\<lambda>opts raw. if raw = ''t'' then Inr (toy_claims, True) else Inl (Sentinel (AuExternal ''parse'')))\<rparr>"

definition toy_token_service :: "unit TokenService" where
  "toy_token_service = \<lparr>ts_secret = ''s'', ts_issuer = ''edgeguard-auth'', ts_audience = ''edgeguard'',
     ts_accessTokenTTL = 900000000000, ts_refreshTokenSize = 32, ts_random = constant_random\<rparr>"

definition toy_user :: User where
  "toy_user = \<lparr>us_ID = ''u1'', us_Email = ''a@b'', us_PasswordHash = ''h'', us_Role = RoleMember,
     us_Enabled = True, us_CreatedAt = 0, us_UpdatedAt = 0\<rparr>"

theorem access_token_round_trip_witness:
  "ParseAccessToken toy_jwt toy_token_service ''t'' 100000000000 =
     Inr \<lparr>atp_UserID = ''u1'', atp_Role = RoleMember, atp_ExpiresAt = 960000000000\<rparr>"
proof -
  have trims: "TrimSpace ''u1'' = ''u1''" "TrimSpace ''t'' = ''t''"
    by (simp_all add: TrimSpace_visible visible_ascii_def)
  have acc: "jwt_accepts toy_jwt"
    by (auto simp: jwt_accepts_def toy_jwt_def trims split: if_splits)
  have iss: "IssueAccessToken toy_jwt toy_token_service toy_user 60000000000 =
      Inr \<lparr>iat_Value = ''t'', iat_ExpiresAt = 960000000000\<rparr>"
    by (simp add: IssueAccessToken_def toy_user_def toy_token_service_def toy_jwt_def toy_claims_def trims
        IsZero_def NewNumericDate_def time_Truncate_def Second_def time_Add_def)
  from access_token_round_trip [OF acc iss, of 100000000000] show ?thesis
    by (simp add: time_Truncate_def Second_def toy_user_def trims)
qed

end
