(* ===== verification/Auth_Usecase.thy ===== *)
theory Auth_Usecase
  imports Auth_Store Auth_Security
begin

text \<open>
  \<open>internal/auth/usecase\<close>: registration, login, refresh-token rotation, logout, access-token
  authentication and the API-key life cycle, over the ports of \<open>ports.go\<close>. A port is a record of
  operations on a state \<open>'s\<close>; a port the code compares with nil is an option. \<open>pg_usecase\<close> is the
  wiring of \<open>internal/auth/app\<close>: the PostgreSQL repositories, the security services and a clock.
\<close>

section \<open>Ports\<close>

record 's UserRepository =
  ur_CreateUser :: "User \<Rightarrow> 's \<Rightarrow> (au_err + User) \<times> 's"
  ur_GetUserByEmail :: "string \<Rightarrow> 's \<Rightarrow> (au_err + User) \<times> 's"
  ur_GetUserByID :: "string \<Rightarrow> 's \<Rightarrow> (au_err + User) \<times> 's"

record 's RefreshTokenRepository =
  rtr_CreateRefreshToken :: "RefreshToken \<Rightarrow> 's \<Rightarrow> (au_err + RefreshToken) \<times> 's"
  rtr_GetRefreshTokenByHash :: "string \<Rightarrow> 's \<Rightarrow> (au_err + RefreshToken) \<times> 's"
  rtr_RotateRefreshToken :: "string \<Rightarrow> RefreshToken \<Rightarrow> Time \<Rightarrow> 's \<Rightarrow> (au_err + RefreshToken) \<times> 's"
  rtr_RevokeRefreshTokenByHash :: "string \<Rightarrow> Time \<Rightarrow> 's \<Rightarrow> au_err option \<times> 's"

record 's APIKeyRepository =
  akr_CreateAPIKey :: "APIKey \<Rightarrow> 's \<Rightarrow> (au_err + APIKey) \<times> 's"
  akr_ListAPIKeysByProjectID :: "string \<Rightarrow> 's \<Rightarrow> (au_err + APIKey list) \<times> 's"
  akr_GetAPIKeyByPrefix :: "string \<Rightarrow> 's \<Rightarrow> (au_err + APIKey) \<times> 's"
  akr_DisableAPIKey :: "string \<Rightarrow> string \<Rightarrow> Time \<Rightarrow> 's \<Rightarrow> au_err option \<times> 's"
  akr_UpdateAPIKeyLastUsedAt :: "string \<Rightarrow> Time \<Rightarrow> 's \<Rightarrow> au_err option \<times> 's"

record 's PasswordHasherPort =
  php_Hash :: "string \<Rightarrow> 's \<Rightarrow> (au_err + string) \<times> 's"
  php_Matches :: "string \<Rightarrow> string \<Rightarrow> bool"

record 's TokenServicePort =
  tsp_IssueAccessToken :: "User \<Rightarrow> Time \<Rightarrow> au_err + IssuedAccessToken"
  tsp_ParseAccessToken :: "string \<Rightarrow> Time \<Rightarrow> au_err + AccessTokenPrincipal"
  tsp_GenerateRefreshToken :: "'s \<Rightarrow> (au_err + string \<times> string) \<times> 's"
  tsp_HashRefreshToken :: "string \<Rightarrow> string"

record 's APIKeyServicePort =
  aks_GenerateAPIKey :: "'s \<Rightarrow> (au_err + GeneratedAPIKey) \<times> 's"
  aks_ParseAPIKey :: "string \<Rightarrow> au_err + ParsedAPIKey"
  aks_MatchAPIKeyHash :: "string \<Rightarrow> string \<Rightarrow> bool"

type_synonym 's Clock = "'s \<Rightarrow> Time \<times> 's"

section \<open>The use case object\<close>

definition DefaultRefreshTokenTTL :: Duration where
  "DefaultRefreshTokenTTL = 30 * 24 * Hour"

definition MinPasswordLength :: nat where
  "MinPasswordLength = 8"

definition MaxPasswordLength :: nat where
  "MaxPasswordLength = 72"

record 's AuthDependencies =
  dep_UserRepository :: "'s UserRepository option"
  dep_RefreshTokenRepository :: "'s RefreshTokenRepository"
  dep_APIKeyRepository :: "'s APIKeyRepository option"
  dep_PasswordHasher :: "'s PasswordHasherPort"
  dep_TokenService :: "'s TokenServicePort option"
  dep_APIKeyService :: "'s APIKeyServicePort option"
  dep_Clock :: "'s Clock option"

record 's AuthUsecase =
  auc_userRepository :: "'s UserRepository option"
  auc_refreshTokenRepository :: "'s RefreshTokenRepository"
  auc_apiKeyRepository :: "'s APIKeyRepository option"
  auc_passwordHasher :: "'s PasswordHasherPort"
  auc_tokenService :: "'s TokenServicePort option"
  auc_apiKeyService :: "'s APIKeyServicePort option"
  auc_clock :: "'s Clock"
  auc_refreshTokenTTL :: Duration

text \<open>\<open>systemClock\<close> is the clock that \<open>New\<close> falls back to.\<close>

definition auth_New :: "'s Clock \<Rightarrow> 's AuthDependencies \<Rightarrow> Duration \<Rightarrow> 's AuthUsecase" where
  "auth_New systemClock deps cfgTTL =
     (let refreshTokenTTL = (if cfgTTL \<le> 0 then DefaultRefreshTokenTTL else cfgTTL);
          clock = (case dep_Clock deps of None \<Rightarrow> systemClock | Some c \<Rightarrow> c) in
      \<lparr>auc_userRepository = dep_UserRepository deps,
       auc_refreshTokenRepository = dep_RefreshTokenRepository deps,
       auc_apiKeyRepository = dep_APIKeyRepository deps,
       auc_passwordHasher = dep_PasswordHasher deps,
       auc_tokenService = dep_TokenService deps,
       auc_apiKeyService = dep_APIKeyService deps,
       auc_clock = clock,
       auc_refreshTokenTTL = refreshTokenTTL\<rparr>)"

text \<open>A call through a nil interface panics.\<close>

definition nil_panic :: au_err where
  "nil_panic = Sentinel AuNilDereference"

record UserInfo =
  ui_ID :: string
  ui_Email :: string
  ui_Role :: Role
  ui_Enabled :: bool
  ui_CreatedAt :: Time
  ui_UpdatedAt :: Time

record TokenPair =
  tp_TokenType :: string
  tp_AccessToken :: string
  tp_AccessTokenExpiresAt :: Time
  tp_RefreshToken :: string
  tp_RefreshTokenExpiresAt :: Time

record Session =
  se_User :: UserInfo
  se_Tokens :: TokenPair

definition userInfoFromDomain :: "User \<Rightarrow> UserInfo" where
  "userInfoFromDomain user =
     \<lparr>ui_ID = us_ID user, ui_Email = us_Email user, ui_Role = us_Role user, ui_Enabled = us_Enabled user,
      ui_CreatedAt = us_CreatedAt user, ui_UpdatedAt = us_UpdatedAt user\<rparr>"

section \<open>Registration\<close>

definition isValidPassword :: "string \<Rightarrow> bool" where
  "isValidPassword password \<longleftrightarrow> length password \<ge> MinPasswordLength \<and> length password \<le> MaxPasswordLength"

definition Register ::
  "case_tables \<Rightarrow> (string \<Rightarrow> string option) \<Rightarrow> 's AuthUsecase \<Rightarrow> string \<Rightarrow> string \<Rightarrow> 's \<Rightarrow> (au_err + UserInfo) \<times> 's" where
  "Register ct mail_ParseAddress u email password s =
     (if \<not> isValidPassword password then (Inl (Sentinel AErrInvalidPassword), s)
      else
        case php_Hash (auc_passwordHasher u) password s of
          (Inl err, s1) \<Rightarrow> (Inl err, s1)
        | (Inr passwordHash, s1) \<Rightarrow>
            (case NewUser ct mail_ParseAddress email passwordHash RoleMember of
               Inl err \<Rightarrow> (Inl err, s1)
             | Inr user \<Rightarrow>
                 (case auc_userRepository u of
                    None \<Rightarrow> (Inl nil_panic, s1)
                  | Some repo \<Rightarrow>
                      (case ur_CreateUser repo user s1 of
                         (Inl err, s2) \<Rightarrow> (Inl err, s2)
                       | (Inr created, s2) \<Rightarrow> (Inr (userInfoFromDomain created), s2)))))"

section \<open>Tokens\<close>

definition buildTokens ::
  "'s AuthUsecase \<Rightarrow> User \<Rightarrow> Time \<Rightarrow> 's \<Rightarrow> (au_err + IssuedAccessToken \<times> string \<times> RefreshToken) \<times> 's" where
  "buildTokens u user now s =
     (case auc_tokenService u of
        None \<Rightarrow> (Inl nil_panic, s)
      | Some ts \<Rightarrow>
          (case tsp_IssueAccessToken ts user now of
             Inl err \<Rightarrow> (Inl err, s)
           | Inr accessToken \<Rightarrow>
               (case tsp_GenerateRefreshToken ts s of
                  (Inl err, s1) \<Rightarrow> (Inl err, s1)
                | (Inr (rawRefreshToken, refreshTokenHash), s1) \<Rightarrow>
                    (case NewRefreshToken (us_ID user) refreshTokenHash
                            (time_Add now (auc_refreshTokenTTL u)) now of
                       Inl err \<Rightarrow> (Inl err, s1)
                     | Inr refreshToken \<Rightarrow> (Inr (accessToken, rawRefreshToken, refreshToken), s1)))))"

definition tokenPair :: "IssuedAccessToken \<Rightarrow> string \<Rightarrow> Time \<Rightarrow> TokenPair" where
  "tokenPair accessToken rawRefreshToken refreshTokenExpiresAt =
     \<lparr>tp_TokenType = ''Bearer'', tp_AccessToken = iat_Value accessToken,
      tp_AccessTokenExpiresAt = iat_ExpiresAt accessToken,
      tp_RefreshToken = rawRefreshToken, tp_RefreshTokenExpiresAt = refreshTokenExpiresAt\<rparr>"

definition Login :: "case_tables \<Rightarrow> 's AuthUsecase \<Rightarrow> string \<Rightarrow> string \<Rightarrow> 's \<Rightarrow> (au_err + Session) \<times> 's" where
  "Login ct u inputEmail inputPassword s =
     (let email = ToLower ct (TrimSpace inputEmail) in
      case auc_userRepository u of
        None \<Rightarrow> (Inl nil_panic, s)
      | Some users \<Rightarrow>
          (case ur_GetUserByEmail users email s of
             (Inl err, s1) \<Rightarrow>
               (if errors_is err AErrUserNotFound then (Inl (Sentinel AErrInvalidCredentials), s1)
                else (Inl err, s1))
           | (Inr user, s1) \<Rightarrow>
               (if \<not> us_Enabled user then (Inl (Sentinel AErrUserDisabled), s1)
                else if \<not> php_Matches (auc_passwordHasher u) (us_PasswordHash user) inputPassword
                  then (Inl (Sentinel AErrInvalidCredentials), s1)
                else
                  let (now, s2) = auc_clock u s1 in
                  case buildTokens u user now s2 of
                    (Inl err, s3) \<Rightarrow> (Inl err, s3)
                  | (Inr (accessToken, rawRefreshToken, refreshToken), s3) \<Rightarrow>
                      (case rtr_CreateRefreshToken (auc_refreshTokenRepository u) refreshToken s3 of
                         (Inl err, s4) \<Rightarrow> (Inl err, s4)
                       | (Inr created, s4) \<Rightarrow>
                           (Inr \<lparr>se_User = userInfoFromDomain user,
                                 se_Tokens = tokenPair accessToken rawRefreshToken (tok_ExpiresAt created)\<rparr>, s4)))))"

definition Logout :: "'s AuthUsecase \<Rightarrow> string \<Rightarrow> 's \<Rightarrow> au_err option \<times> 's" where
  "Logout u inputRefreshToken s =
     (let raw = TrimSpace inputRefreshToken in
      if raw = '''' then (Some (Sentinel AErrInvalidRefreshToken), s)
      else
        case auc_tokenService u of
          None \<Rightarrow> (Some nil_panic, s)
        | Some ts \<Rightarrow>
            (let tokenHash = tsp_HashRefreshToken ts raw in
             if tokenHash = '''' then (Some (Sentinel AErrInvalidRefreshToken), s)
             else
               let (now, s1) = auc_clock u s in
               case rtr_RevokeRefreshTokenByHash (auc_refreshTokenRepository u) tokenHash now s1 of
                 (None, s2) \<Rightarrow> (None, s2)
               | (Some err, s2) \<Rightarrow>
                   (if errors_is err AErrRefreshTokenNotFound then (Some (Sentinel AErrInvalidRefreshToken), s2)
                    else (Some err, s2))))"

definition Refresh :: "'s AuthUsecase \<Rightarrow> string \<Rightarrow> 's \<Rightarrow> (au_err + TokenPair) \<times> 's" where
  "Refresh u inputRefreshToken s =
     (let raw = TrimSpace inputRefreshToken in
      if raw = '''' then (Inl (Sentinel AErrInvalidRefreshToken), s)
      else
        case auc_tokenService u of
          None \<Rightarrow> (Inl nil_panic, s)
        | Some ts \<Rightarrow>
            (let tokenHash = tsp_HashRefreshToken ts raw in
             if tokenHash = '''' then (Inl (Sentinel AErrInvalidRefreshToken), s)
             else
               case rtr_GetRefreshTokenByHash (auc_refreshTokenRepository u) tokenHash s of
                 (Inl err, s1) \<Rightarrow>
                   (if errors_is err AErrRefreshTokenNotFound then (Inl (Sentinel AErrInvalidRefreshToken), s1)
                    else (Inl err, s1))
               | (Inr currentToken, s1) \<Rightarrow>
                   (let (now, s2) = auc_clock u s1 in
                    if \<not> refreshToken_IsActive currentToken now then (Inl (Sentinel AErrInvalidRefreshToken), s2)
                    else
                      case auc_userRepository u of
                        None \<Rightarrow> (Inl nil_panic, s2)
                      | Some users \<Rightarrow>
                          (case ur_GetUserByID users (tok_UserID currentToken) s2 of
                             (Inl err, s3) \<Rightarrow>
                               (if errors_is err AErrUserNotFound then (Inl (Sentinel AErrInvalidRefreshToken), s3)
                                else (Inl err, s3))
                           | (Inr user, s3) \<Rightarrow>
                               (if \<not> us_Enabled user then (Inl (Sentinel AErrUserDisabled), s3)
                                else
                                  case buildTokens u user now s3 of
                                    (Inl err, s4) \<Rightarrow> (Inl err, s4)
                                  | (Inr (accessToken, replacementRaw, replacementToken), s4) \<Rightarrow>
                                      (case rtr_RotateRefreshToken (auc_refreshTokenRepository u)
                                              (tok_ID currentToken) replacementToken now s4 of
                                         (Inl err, s5) \<Rightarrow> (Inl err, s5)
                                       | (Inr created, s5) \<Rightarrow>
                                           (Inr (tokenPair accessToken replacementRaw (tok_ExpiresAt created)), s5)))))))"

definition AuthenticateAccessToken ::
  "'s AuthUsecase \<Rightarrow> string \<Rightarrow> 's \<Rightarrow> (au_err + AccessTokenPrincipal) \<times> 's" where
  "AuthenticateAccessToken u rawAccessToken s =
     (case (auc_tokenService u, auc_userRepository u) of
        (Some ts, Some users) \<Rightarrow>
          (let raw = TrimSpace rawAccessToken in
           if raw = '''' then (Inl (Sentinel AErrInvalidAccessToken), s)
           else
             let (now, s1) = auc_clock u s in
             case tsp_ParseAccessToken ts raw now of
               Inl err \<Rightarrow> (Inl (Sentinel AErrInvalidAccessToken), s1)
             | Inr p \<Rightarrow>
                 (case ur_GetUserByID users (atp_UserID p) s1 of
                    (Inl err, s2) \<Rightarrow>
                      (if errors_is err AErrUserNotFound then (Inl (Sentinel AErrInvalidAccessToken), s2)
                       else (Inl err, s2))
                  | (Inr user, s2) \<Rightarrow>
                      (if \<not> us_Enabled user then (Inl (Sentinel AErrUserDisabled), s2)
                       else if us_Role user \<noteq> atp_Role p then (Inl (Sentinel AErrInvalidAccessToken), s2)
                       else (Inr p, s2))))
      | _ \<Rightarrow> (Inl (Sentinel AErrAccessTokenDependenciesMissing), s))"

section \<open>API keys\<close>

record CreateAPIKeyInput =
  cki_ProjectID :: string
  cki_Name :: string
  cki_ExpiresAt :: "Time option"

record APIKeyInfo =
  aki_ID :: string
  aki_ProjectID :: string
  aki_Name :: string
  aki_KeyPrefix :: string
  aki_Enabled :: bool
  aki_ExpiresAt :: "Time option"
  aki_LastUsedAt :: "Time option"
  aki_CreatedAt :: Time
  aki_UpdatedAt :: Time

record CreatedAPIKey =
  ck_APIKey :: APIKeyInfo
  ck_Value :: string

record AuthKeyPrincipal =
  akp_APIKeyID :: string
  akp_ProjectID :: string

definition apiKeyInfoFromDomain :: "APIKey \<Rightarrow> APIKeyInfo" where
  "apiKeyInfoFromDomain key =
     \<lparr>aki_ID = ak_ID key, aki_ProjectID = ak_ProjectID key, aki_Name = ak_Name key,
      aki_KeyPrefix = ak_KeyPrefix key, aki_Enabled = ak_Enabled key, aki_ExpiresAt = ak_ExpiresAt key,
      aki_LastUsedAt = ak_LastUsedAt key, aki_CreatedAt = ak_CreatedAt key, aki_UpdatedAt = ak_UpdatedAt key\<rparr>"

definition CreateAPIKey :: "'s AuthUsecase \<Rightarrow> CreateAPIKeyInput \<Rightarrow> 's \<Rightarrow> (au_err + CreatedAPIKey) \<times> 's" where
  "CreateAPIKey u input s =
     (case (auc_apiKeyRepository u, auc_apiKeyService u) of
        (Some repo, Some svc) \<Rightarrow>
          (let (now, s1) = auc_clock u s;
               projectID = TrimSpace (cki_ProjectID input) in
           if projectID = '''' then (Inl (Sentinel AErrInvalidProjectID), s1)
           else
             let name = TrimSpace (cki_Name input) in
             if name = '''' then (Inl (Sentinel AErrInvalidName), s1)
             else if (case cki_ExpiresAt input of None \<Rightarrow> False | Some t \<Rightarrow> \<not> t > now)
               then (Inl (Sentinel AErrInvalidExpiration), s1)
             else
               case aks_GenerateAPIKey svc s1 of
                 (Inl err, s2) \<Rightarrow> (Inl (Errorf ''generate api key: %w'' [err]), s2)
               | (Inr generated, s2) \<Rightarrow>
                   (case NewAPIKey projectID name (gen_Prefix generated) (gen_Hash generated)
                           (cki_ExpiresAt input) now of
                      Inl err \<Rightarrow> (Inl err, s2)
                    | Inr key \<Rightarrow>
                        (case akr_CreateAPIKey repo key s2 of
                           (Inl err, s3) \<Rightarrow> (Inl err, s3)
                         | (Inr created, s3) \<Rightarrow>
                             (Inr \<lparr>ck_APIKey = apiKeyInfoFromDomain created, ck_Value = gen_Value generated\<rparr>, s3))))
      | _ \<Rightarrow> (Inl (Sentinel AErrAPIKeyDependenciesMissing), s))"

definition ListAPIKeys :: "'s AuthUsecase \<Rightarrow> string \<Rightarrow> 's \<Rightarrow> (au_err + APIKeyInfo list) \<times> 's" where
  "ListAPIKeys u inputProjectID s =
     (case auc_apiKeyRepository u of
        None \<Rightarrow> (Inl (Sentinel AErrAPIKeyDependenciesMissing), s)
      | Some repo \<Rightarrow>
          (let projectID = TrimSpace inputProjectID in
           if projectID = '''' then (Inl (Sentinel AErrInvalidProjectID), s)
           else
             case akr_ListAPIKeysByProjectID repo projectID s of
               (Inl err, s1) \<Rightarrow> (Inl err, s1)
             | (Inr keys, s1) \<Rightarrow> (Inr (map apiKeyInfoFromDomain keys), s1)))"

definition RevokeAPIKey :: "'s AuthUsecase \<Rightarrow> string \<Rightarrow> string \<Rightarrow> 's \<Rightarrow> au_err option \<times> 's" where
  "RevokeAPIKey u inputProjectID inputAPIKeyID s =
     (case auc_apiKeyRepository u of
        None \<Rightarrow> (Some (Sentinel AErrAPIKeyDependenciesMissing), s)
      | Some repo \<Rightarrow>
          (let projectID = TrimSpace inputProjectID in
           if projectID = '''' then (Some (Sentinel AErrInvalidProjectID), s)
           else
             let apiKeyID = TrimSpace inputAPIKeyID in
             if apiKeyID = '''' then (Some (Sentinel AErrInvalidAPIKeyID), s)
             else
               let (now, s1) = auc_clock u s in
               akr_DisableAPIKey repo projectID apiKeyID now s1))"

definition ValidateAPIKey :: "'s AuthUsecase \<Rightarrow> string \<Rightarrow> 's \<Rightarrow> (au_err + AuthKeyPrincipal) \<times> 's" where
  "ValidateAPIKey u rawAPIKey s =
     (case (auc_apiKeyRepository u, auc_apiKeyService u) of
        (Some repo, Some svc) \<Rightarrow>
          (case aks_ParseAPIKey svc rawAPIKey of
             Inl err \<Rightarrow> (Inl (Sentinel AErrInvalidAPIKey), s)
           | Inr parsed \<Rightarrow>
               (case akr_GetAPIKeyByPrefix repo (par_Prefix parsed) s of
                  (Inl err, s1) \<Rightarrow>
                    (if errors_is err AErrAPIKeyNotFound then (Inl (Sentinel AErrInvalidAPIKey), s1)
                     else (Inl err, s1))
                | (Inr key, s1) \<Rightarrow>
                    (let (now, s2) = auc_clock u s1 in
                     if \<not> aks_MatchAPIKeyHash svc (par_Hash parsed) (ak_KeyHash key) \<or> \<not> apiKey_IsActive key now
                       then (Inl (Sentinel AErrInvalidAPIKey), s2)
                     else
                       case akr_UpdateAPIKeyLastUsedAt repo (ak_ID key) now s2 of
                         (Some err, s3) \<Rightarrow>
                           (if errors_is err AErrAPIKeyNotFound then (Inl (Sentinel AErrInvalidAPIKey), s3)
                            else (Inl err, s3))
                       | (None, s3) \<Rightarrow>
                           (Inr \<lparr>akp_APIKeyID = ak_ID key, akp_ProjectID = ak_ProjectID key\<rparr>, s3))))
      | _ \<Rightarrow> (Inl (Sentinel AErrAPIKeyDependenciesMissing), s))"

section \<open>Wiring\<close>

text \<open>The libraries and devices the auth service uses: bcrypt, SHA-256, JWT, the operating system's
  random bytes and clock.\<close>

record 's auth_libs =
  lib_bcrypt_Generate :: "int \<Rightarrow> string \<Rightarrow> 's \<Rightarrow> (au_err + string) \<times> 's"
  lib_bcrypt_Compare :: "string \<Rightarrow> string \<Rightarrow> bool"
  lib_sha :: "string \<Rightarrow> string"
  lib_jwt :: jwt_lib
  lib_random :: "'s rand_reader"
  lib_clock :: "'s Clock"

definition pg_users :: "pg_env \<Rightarrow> 'z auth_state UserRepository" where
  "pg_users env = \<lparr>ur_CreateUser = repo_CreateUser env, ur_GetUserByEmail = repo_GetUserByEmail env,
     ur_GetUserByID = repo_GetUserByID env\<rparr>"

definition pg_refresh_tokens :: "pg_env \<Rightarrow> 'z auth_state RefreshTokenRepository" where
  "pg_refresh_tokens env = \<lparr>rtr_CreateRefreshToken = repo_CreateRefreshToken env,
     rtr_GetRefreshTokenByHash = repo_GetRefreshTokenByHash env,
     rtr_RotateRefreshToken = repo_RotateRefreshToken env,
     rtr_RevokeRefreshTokenByHash = repo_RevokeRefreshTokenByHash env\<rparr>"

definition pg_api_keys :: "pg_env \<Rightarrow> 'z auth_state APIKeyRepository" where
  "pg_api_keys env = \<lparr>akr_CreateAPIKey = repo_CreateAPIKey env,
     akr_ListAPIKeysByProjectID = repo_ListAPIKeysByProjectID env,
     akr_GetAPIKeyByPrefix = repo_GetAPIKeyByPrefix env,
     akr_DisableAPIKey = repo_DisableAPIKey env,
     akr_UpdateAPIKeyLastUsedAt = repo_UpdateAPIKeyLastUsedAt env\<rparr>"

definition hasher_port :: "'s auth_libs \<Rightarrow> PasswordHasher \<Rightarrow> 's PasswordHasherPort" where
  "hasher_port libs h = \<lparr>php_Hash = hasher_Hash (lib_bcrypt_Generate libs) h,
     php_Matches = hasher_Matches (lib_bcrypt_Compare libs)\<rparr>"

definition token_port :: "'s auth_libs \<Rightarrow> 's TokenService \<Rightarrow> 's TokenServicePort" where
  "token_port libs ts = \<lparr>tsp_IssueAccessToken = IssueAccessToken (lib_jwt libs) ts,
     tsp_ParseAccessToken = ParseAccessToken (lib_jwt libs) ts,
     tsp_GenerateRefreshToken = GenerateRefreshToken (lib_sha libs) ts,
     tsp_HashRefreshToken = HashRefreshToken (lib_sha libs)\<rparr>"

definition key_port :: "'s auth_libs \<Rightarrow> 's APIKeyServicePort" where
  "key_port libs = \<lparr>aks_GenerateAPIKey = GenerateAPIKey (lib_sha libs) (lib_random libs),
     aks_ParseAPIKey = ParseAPIKey (lib_sha libs), aks_MatchAPIKeyHash = MatchAPIKeyHash\<rparr>"

definition pg_usecase ::
  "pg_env \<Rightarrow> 'z auth_state auth_libs \<Rightarrow> PasswordHasher \<Rightarrow> 'z auth_state TokenService \<Rightarrow> Duration \<Rightarrow> 'z auth_state AuthUsecase" where
  "pg_usecase env libs h ts ttl =
     auth_New (lib_clock libs)
       \<lparr>dep_UserRepository = Some (pg_users env), dep_RefreshTokenRepository = pg_refresh_tokens env,
        dep_APIKeyRepository = Some (pg_api_keys env), dep_PasswordHasher = hasher_port libs h,
        dep_TokenService = Some (token_port libs ts), dep_APIKeyService = Some (key_port libs),
        dep_Clock = None\<rparr> ttl"

text \<open>The use cases on the wired object, with the ports unfolded.\<close>

lemmas pg_port_defs = pg_users_def pg_refresh_tokens_def pg_api_keys_def hasher_port_def token_port_def key_port_def

lemma pg_usecase_simps [simp]:
  "auc_userRepository (pg_usecase env libs h ts ttl) = Some (pg_users env)"
  "auc_refreshTokenRepository (pg_usecase env libs h ts ttl) = pg_refresh_tokens env"
  "auc_apiKeyRepository (pg_usecase env libs h ts ttl) = Some (pg_api_keys env)"
  "auc_passwordHasher (pg_usecase env libs h ts ttl) = hasher_port libs h"
  "auc_tokenService (pg_usecase env libs h ts ttl) = Some (token_port libs ts)"
  "auc_apiKeyService (pg_usecase env libs h ts ttl) = Some (key_port libs)"
  "auc_clock (pg_usecase env libs h ts ttl) = lib_clock libs"
  "auc_refreshTokenTTL (pg_usecase env libs h ts ttl) = (if ttl \<le> 0 then DefaultRefreshTokenTTL else ttl)"
  by (simp_all add: pg_usecase_def auth_New_def Let_def)

section \<open>Interleaving\<close>

text \<open>
  Between the repository calls of one request, other requests run: the clock, the random source and
  bcrypt may take any time, during which any repository calls of other clients may happen.
\<close>

definition interleaved :: "pg_env \<Rightarrow> 'z auth_state auth_libs \<Rightarrow> 'z auth_state TokenService \<Rightarrow> bool" where
  "interleaved env libs ts \<longleftrightarrow>
     (\<forall>s. auth_reach env s (snd (lib_clock libs s))) \<and>
     (\<forall>n s. auth_reach env s (snd (lib_random libs n s))) \<and>
     (\<forall>n s. auth_reach env s (snd (ts_random ts n s))) \<and>
     (\<forall>c p s. auth_reach env s (snd (lib_bcrypt_Generate libs c p s)))"

lemma auth_reach_trans:
  assumes "auth_reach env b c" and "auth_reach env a b"
  shows "auth_reach env a c"
  using assms by (induction rule: auth_reach.induct) (blast intro: auth_reach.intros)+

lemma reach_same_db: "pg_db s' = pg_db s \<Longrightarrow> auth_reach env s s'"
  using reach_other [OF reach_refl] by metis

lemma interleavedD:
  assumes "interleaved env libs ts"
  shows "lib_clock libs s = (t, s') \<Longrightarrow> auth_reach env s s'"
    and "io_ReadFull (ts_random ts) n s = (x, s') \<Longrightarrow> auth_reach env s s'"
    and "io_ReadFull (lib_random libs) n s = (x, s') \<Longrightarrow> auth_reach env s s'"
proof -
  show "lib_clock libs s = (t, s') \<Longrightarrow> auth_reach env s s'"
    using assms by (metis interleaved_def snd_conv)
  show "io_ReadFull (ts_random ts) n s = (x, s') \<Longrightarrow> auth_reach env s s'"
    using assms reach_refl unfolding interleaved_def io_ReadFull_def
    by (smt (verit, best) case_prod_unfold snd_conv surjective_pairing sum.case_eq_if)
  show "io_ReadFull (lib_random libs) n s = (x, s') \<Longrightarrow> auth_reach env s s'"
    using assms reach_refl unfolding interleaved_def io_ReadFull_def
    by (smt (verit, best) case_prod_unfold snd_conv surjective_pairing sum.case_eq_if)
qed

section \<open>What the calls find\<close>

lemma GetRefreshTokenByHash_Inr:
  assumes "repo_GetRefreshTokenByHash env h s = (Inr t, s')"
  shows "t \<in> set (db_tokens (pg_db s)) \<and> tok_TokenHash t = h \<and> pg_db s' = pg_db s"
proof -
  obtain r s1 where x: "pg_exec env (getRefreshTokenByHashQuery h) s = (r, s1)" by fastforce
  with assms have r: "r = Inr t" "s' = s1"
    by (auto simp: repo_GetRefreshTokenByHash_def split: sum.splits if_splits)
  from pg_exec_Inr [OF x [unfolded r]] show ?thesis
    by (auto simp: getRefreshTokenByHashQuery_def r split: option.splits dest: find_row_Some)
qed

lemma GetUserByID_Inr:
  assumes "repo_GetUserByID env i s = (Inr user, s')"
  shows "user \<in> set (db_users (pg_db s)) \<and> pe_uuid env i = Some (us_ID user) \<and> pg_db s' = pg_db s"
proof -
  obtain r s1 where x: "pg_exec env (getUserByIDQuery env i) s = (r, s1)" by fastforce
  with assms have r: "r = Inr user" "s' = s1"
    by (auto simp: repo_GetUserByID_def split: sum.splits if_splits)
  from pg_exec_Inr [OF x [unfolded r]] show ?thesis
    by (auto simp: getUserByIDQuery_def r split: option.splits dest: find_row_Some)
qed

lemma GetUserByEmail_Inr:
  assumes "repo_GetUserByEmail env e s = (Inr user, s')"
  shows "user \<in> set (db_users (pg_db s)) \<and> pe_lower env (us_Email user) = pe_lower env e \<and> pg_db s' = pg_db s"
proof -
  obtain r s1 where x: "pg_exec env (getUserByEmailQuery env e) s = (r, s1)" by fastforce
  with assms have r: "r = Inr user" "s' = s1"
    by (auto simp: repo_GetUserByEmail_def split: sum.splits if_splits)
  from pg_exec_Inr [OF x [unfolded r]] show ?thesis
    by (auto simp: getUserByEmailQuery_def r split: option.splits dest: find_row_Some)
qed

lemma GetAPIKeyByPrefix_Inr:
  assumes "repo_GetAPIKeyByPrefix env kp s = (Inr k, s')"
  shows "k \<in> set (db_keys (pg_db s)) \<and> ak_KeyPrefix k = kp \<and> pg_db s' = pg_db s"
proof -
  obtain r s1 where x: "pg_exec env (getAPIKeyByPrefixQuery kp) s = (r, s1)" by fastforce
  with assms have r: "r = Inr k" "s' = s1"
    by (auto simp: repo_GetAPIKeyByPrefix_def split: sum.splits if_splits)
  from pg_exec_Inr [OF x [unfolded r]] show ?thesis
    by (auto simp: getAPIKeyByPrefixQuery_def r split: option.splits dest: find_row_Some)
qed

text \<open>The statement that stamps a key succeeds on enabled keys only.\<close>

lemma UpdateAPIKeyLastUsedAt_None:
  assumes "repo_UpdateAPIKeyLastUsedAt env i at s = (None, s')"
  shows "\<exists>k\<in>set (db_keys (pg_db s)). pe_uuid env i = Some (ak_ID k) \<and> ak_Enabled k"
proof -
  obtain r s1 where x: "pg_exec env (updateAPIKeyLastUsedAtQuery env i at) s = (r, s1)" by fastforce
  with assms obtain kid where r: "r = Inr kid"
    by (auto simp: repo_UpdateAPIKeyLastUsedAt_def split: sum.splits if_splits)
  from pg_exec_Inr [OF x [unfolded r]] show ?thesis
    by (auto simp: updateAPIKeyLastUsedAtQuery_def Let_def split: option.splits if_splits)
qed

lemma DisableAPIKey_None:
  assumes "repo_DisableAPIKey env p i at s = (None, s')"
  shows "\<exists>k\<in>set (db_keys (pg_db s')). pe_uuid env i = Some (ak_ID k) \<and> \<not> ak_Enabled k"
proof -
  obtain r s1 where x: "pg_exec env (disableAPIKeyQuery env i p at) s = (r, s1)" by fastforce
  with assms obtain kid where r: "r = Inr kid" "s' = s1"
    by (auto simp: repo_DisableAPIKey_def split: sum.splits if_splits)
  from pg_exec_Inr [OF x [unfolded r(1)]] obtain pid k where
    k: "pe_uuid env i = Some kid" "pe_uuid env p = Some pid" "k \<in> set (db_keys (pg_db s))" "ak_ID k = kid" "ak_ProjectID k = pid"
    and db: "db_keys (pg_db s1) = update_rows (\<lambda>k. ak_ID k = kid \<and> ak_ProjectID k = pid)
      (\<lambda>k. k\<lparr>ak_Enabled := False, ak_UpdatedAt := pg_time at\<rparr>) (db_keys (pg_db s))"
    by (auto simp: disableAPIKeyQuery_def Let_def split: option.splits if_splits dest!: sym [of _ "pg_db s1"])
  let ?k = "k\<lparr>ak_Enabled := False, ak_UpdatedAt := pg_time at\<rparr>"
  have "?k \<in> set (db_keys (pg_db s1))"
    using k(3-5) by (auto simp: db in_update_rows intro!: bexI [of _ k])
  moreover have "pe_uuid env i = Some (ak_ID ?k)" and "\<not> ak_Enabled ?k" using k(1,4) by simp_all
  ultimately show ?thesis using r(2) by blast
qed

lemma RevokeByHash_None:
  assumes "repo_RevokeRefreshTokenByHash env h at s = (None, s')"
  shows "\<exists>t\<in>set (db_tokens (pg_db s')). tok_TokenHash t = h \<and> tok_RevokedAt t \<noteq> None"
proof -
  obtain r s1 where x: "pg_exec env (revokeRefreshTokenByHashQuery h at) s = (r, s1)" by fastforce
  with assms obtain tid where r: "r = Inr tid" "s' = s1"
    by (auto simp: repo_RevokeRefreshTokenByHash_def split: sum.splits if_splits)
  from pg_exec_Inr [OF x [unfolded r(1)]] obtain t where t: "t \<in> set (db_tokens (pg_db s))" "tok_TokenHash t = h"
    and db: "db_tokens (pg_db s1) = update_rows (\<lambda>t. tok_TokenHash t = h)
      (\<lambda>t. t\<lparr>tok_RevokedAt := Some (case tok_RevokedAt t of None \<Rightarrow> pg_time at | Some r \<Rightarrow> r)\<rparr>) (db_tokens (pg_db s))"
    by (auto simp: revokeRefreshTokenByHashQuery_def Let_def split: option.splits
        dest: find_row_Some dest!: sym [of _ "pg_db s1"])
  let ?t = "t\<lparr>tok_RevokedAt := Some (case tok_RevokedAt t of None \<Rightarrow> pg_time at | Some r \<Rightarrow> r)\<rparr>"
  have "?t \<in> set (db_tokens (pg_db s1))"
    using t by (auto simp: db in_update_rows intro!: bexI [of _ t])
  moreover have "tok_TokenHash ?t = h" and "tok_RevokedAt ?t \<noteq> None" using t(2) by simp_all
  ultimately show ?thesis using r(2) by blast
qed

section \<open>Refresh\<close>

lemma buildTokens_reach:
  assumes "buildTokens (pg_usecase env libs h ts ttl) user now s = (r, s')" and "interleaved env libs ts"
  shows "auth_reach env s s'"
proof -
  obtain x s1 where x: "io_ReadFull (ts_random ts) (nat (ts_refreshTokenSize ts)) s = (x, s1)" by fastforce
  with assms(1) have "s' = s \<or> s' = s1"
    by (auto simp: buildTokens_def pg_port_defs GenerateRefreshToken_def Let_def split: sum.splits prod.splits)
  with interleavedD(2) [OF assms(2) x] reach_refl show ?thesis by blast
qed

lemma Refresh_Inr:
  assumes ref: "Refresh (pg_usecase env libs h ts ttl) raw s = (Inr tp, s')" and il: "interleaved env libs ts"
  obtains t now repl c s3 where
    "t \<in> set (db_tokens (pg_db s))" "tok_TokenHash t = HashRefreshToken (lib_sha libs) (TrimSpace raw)"
    "refreshToken_IsActive t now" "auth_reach env s s3"
    "repo_RotateRefreshToken env (tok_ID t) repl now s3 = (Inr c, s')"
proof -
  let ?h = "HashRefreshToken (lib_sha libs) (TrimSpace raw)"
  let ?u = "pg_usecase env libs h ts ttl"
  note defs = Refresh_def pg_port_defs Let_def
  obtain r1 s1 where g: "repo_GetRefreshTokenByHash env ?h s = (r1, s1)" by fastforce
  with ref obtain t where t: "r1 = Inr t" by (cases r1) (auto simp: defs split: if_splits)
  obtain now s2 where ck: "lib_clock libs s1 = (now, s2)" by fastforce
  have act: "refreshToken_IsActive t now" using ref g t ck by (auto simp: defs split: if_splits)
  obtain r3 s3 where gu: "repo_GetUserByID env (tok_UserID t) s2 = (r3, s3)" by fastforce
  with ref g t ck obtain user where us: "r3 = Inr user" by (cases r3) (auto simp: defs split: if_splits)
  obtain r4 s4 where bt: "buildTokens ?u user now s3 = (r4, s4)" by fastforce
  with ref g t ck gu us obtain a raw2 repl where b: "r4 = Inr (a, raw2, repl)"
    by (cases r4) (auto simp: defs split: if_splits)
  obtain r5 s5 where rot: "repo_RotateRefreshToken env (tok_ID t) repl now s4 = (r5, s5)" by fastforce
  with ref g t ck gu us bt b obtain c where c: "r5 = Inr c" "s5 = s'"
    by (cases r5) (auto simp: defs split: if_splits)
  note row = GetRefreshTokenByHash_Inr [OF g [unfolded t]]
  have "auth_reach env s s1" using row by (blast intro: reach_same_db)
  moreover have "auth_reach env s1 s2" by (rule interleavedD(1) [OF il ck])
  moreover have "auth_reach env s2 s3" using GetUserByID_Inr [OF gu [unfolded us]] by (blast intro: reach_same_db)
  moreover have "auth_reach env s3 s4" by (rule buildTokens_reach [OF bt il])
  ultimately have "auth_reach env s s4" by (blast intro: auth_reach_trans)
  with that row act rot c show thesis by blast
qed

text \<open>A token row keeps its hash, so that a hash always finds the same row.\<close>

lemma token_row_later:
  assumes "auth_wf (pg_db s)" and "auth_reach env s s'" and "t \<in> set (db_tokens (pg_db s))"
    and "t' \<in> set (db_tokens (pg_db s'))" and "tok_TokenHash t' = tok_TokenHash t"
  shows "tok_le t t'"
proof -
  note le = auth_reach_le [OF assms(2)]
  then have wf: "auth_wf (pg_db s')" using assms(1) by (simp add: auth_le_def)
  from le assms(3) obtain u where u: "u \<in> set (db_tokens (pg_db s'))" "tok_le t u"
    unfolding auth_le_def rows_le_def by blast
  then have "tok_TokenHash u = tok_TokenHash t'" using assms(5) by (simp add: tok_le_def)
  with wf u(1) assms(4) have "u = t'" using distinct_key_eq unfolding auth_wf_def by metis
  with u(2) show ?thesis by simp
qed

lemma key_row_later:
  assumes "auth_wf (pg_db s)" and "auth_reach env s s'" and "k \<in> set (db_keys (pg_db s))"
    and "k' \<in> set (db_keys (pg_db s'))" and "ak_ID k' = ak_ID k"
  shows "key_le k k'"
proof -
  note le = auth_reach_le [OF assms(2)]
  then have wf: "auth_wf (pg_db s')" using assms(1) by (simp add: auth_le_def)
  from le assms(3) obtain u where u: "u \<in> set (db_keys (pg_db s'))" "key_le k u"
    unfolding auth_le_def rows_le_def by blast
  then have "ak_ID u = ak_ID k'" using assms(5) by (simp add: key_le_def)
  with wf u(1) assms(4) have "u = k'" using distinct_key_eq unfolding auth_wf_def by metis
  with u(2) show ?thesis by simp
qed

section \<open>Properties\<close>

text \<open>C3. Refresh tokens are single-use at the level of the API: after a successful \<open>Refresh\<close> with a
  raw token, no later \<open>Refresh\<close> with it succeeds, with any requests of other clients before, between
  and during the two calls and with any database faults.\<close>

theorem refresh_single_use:
  assumes "auth_wf (pg_db s)" and "interleaved env libs ts"
    and "Refresh (pg_usecase env libs h ts ttl) raw s = (Inr tp, s1)" and "auth_reach env s1 s2"
  shows "\<not> (\<exists>tp'. fst (Refresh (pg_usecase env libs h ts ttl) raw s2) = Inr tp')"
proof
  assume "\<exists>tp'. fst (Refresh (pg_usecase env libs h ts ttl) raw s2) = Inr tp'"
  then obtain tp' s3 where second: "Refresh (pg_usecase env libs h ts ttl) raw s2 = (Inr tp', s3)"
    by (metis prod.collapse)
  from Refresh_Inr [OF assms(3,2)] obtain t now repl c sr where
    t: "t \<in> set (db_tokens (pg_db s))" "tok_TokenHash t = HashRefreshToken (lib_sha libs) (TrimSpace raw)"
    and sr: "auth_reach env s sr" and rot: "repo_RotateRefreshToken env (tok_ID t) repl now sr = (Inr c, s1)" by metis
  from Refresh_Inr [OF second assms(2)] obtain t' now' repl' c' sr' where
    t': "t' \<in> set (db_tokens (pg_db s2))" "tok_TokenHash t' = HashRefreshToken (lib_sha libs) (TrimSpace raw)"
    and sr': "auth_reach env s2 sr'" and rot': "repo_RotateRefreshToken env (tok_ID t') repl' now' sr' = (Inr c', s3)"
    by metis
  have "auth_reach env sr s1" using pg_tokens.rotate_reach [of env sr "tok_ID t" repl now] rot by simp
  then have "auth_reach env s s2" using sr assms(4) by (blast intro: auth_reach_trans)
  then have "tok_le t t'" using token_row_later assms(1) t t' by metis
  then have "tok_ID t' = tok_ID t" by (simp add: tok_le_def)
  moreover have "auth_wf (pg_db sr)" by (rule pg_tokens.reach_ok [OF assms(1) sr])
  moreover have "auth_reach env s1 sr'" using assms(4) sr' by (blast intro: auth_reach_trans)
  ultimately show False using pg_tokens.rotate_once rot rot' by metis
qed

text \<open>C23. Logout ends the session: after a successful \<open>Logout\<close> with a refresh token no \<open>Refresh\<close> with it
  ever succeeds.\<close>

theorem logout_ends_session:
  assumes "auth_wf (pg_db s)" and "interleaved env libs ts"
    and "Logout (pg_usecase env libs h ts ttl) raw s = (None, s1)" and "auth_reach env s1 s2"
  shows "\<not> (\<exists>tp. fst (Refresh (pg_usecase env libs h ts ttl) raw s2) = Inr tp)"
proof
  assume "\<exists>tp. fst (Refresh (pg_usecase env libs h ts ttl) raw s2) = Inr tp"
  then obtain tp s3 where ref: "Refresh (pg_usecase env libs h ts ttl) raw s2 = (Inr tp, s3)"
    by (metis prod.collapse)
  let ?h = "HashRefreshToken (lib_sha libs) (TrimSpace raw)"
  from Refresh_Inr [OF ref assms(2)] obtain t now where
    t: "t \<in> set (db_tokens (pg_db s2))" "tok_TokenHash t = ?h" "refreshToken_IsActive t now" by metis
  obtain at s0 where ck: "lib_clock libs s = (at, s0)" by fastforce
  obtain r s1' where rv: "repo_RevokeRefreshTokenByHash env ?h at s0 = (r, s1')" by fastforce
  with assms(3) ck have "r = None" "s1' = s1"
    by (auto simp: Logout_def pg_port_defs Let_def split: if_splits option.splits)
  with RevokeByHash_None [of env ?h at s0 s1] rv obtain t0 where
    t0: "t0 \<in> set (db_tokens (pg_db s1))" "tok_TokenHash t0 = ?h" "tok_RevokedAt t0 \<noteq> None" by auto
  have "auth_wf (pg_db s1)"
    using pg_tokens.reach_ok [OF assms(1) interleavedD(1) [OF assms(2) ck]] repo_tokens_le(3) [of s0 env ?h at]
      rv \<open>s1' = s1\<close> by (simp add: auth_le_def)
  from token_row_later [OF this assms(4) t0(1) t(1)] t(2) t0(2) have "tok_le t0 t" by simp
  with t0(3) t(3) show False by (auto simp: tok_le_def refreshToken_IsActive_def)
qed

lemma ValidateAPIKey_Inr:
  assumes val: "ValidateAPIKey (pg_usecase env libs h ts ttl) raw s = (Inr p, s')" and il: "interleaved env libs ts"
  obtains parsed k s1 now s2 where
    "ParseAPIKey (lib_sha libs) raw = Inr parsed" "k \<in> set (db_keys (pg_db s))" "ak_KeyPrefix k = par_Prefix parsed"
    "MatchAPIKeyHash (par_Hash parsed) (ak_KeyHash k)" "apiKey_IsActive k now" "lib_clock libs s1 = (now, s2)"
    "auth_reach env s s2" "repo_UpdateAPIKeyLastUsedAt env (ak_ID k) now s2 = (None, s')"
    "p = \<lparr>akp_APIKeyID = ak_ID k, akp_ProjectID = ak_ProjectID k\<rparr>"
proof -
  note defs = ValidateAPIKey_def pg_port_defs Let_def
  from val obtain parsed where ps: "ParseAPIKey (lib_sha libs) raw = Inr parsed"
    by (cases "ParseAPIKey (lib_sha libs) raw") (auto simp: defs)
  obtain r1 s1 where g: "repo_GetAPIKeyByPrefix env (par_Prefix parsed) s = (r1, s1)" by fastforce
  with val ps obtain k where k: "r1 = Inr k" by (cases r1) (auto simp: defs split: if_splits)
  obtain now s2 where ck: "lib_clock libs s1 = (now, s2)" by fastforce
  obtain r3 s3 where up: "repo_UpdateAPIKeyLastUsedAt env (ak_ID k) now s2 = (r3, s3)" by fastforce
  from val ps g k ck have m: "MatchAPIKeyHash (par_Hash parsed) (ak_KeyHash k)" "apiKey_IsActive k now"
    by (auto simp: defs split: if_splits)
  with val ps g k ck up have r3: "r3 = None" "s3 = s'" "p = \<lparr>akp_APIKeyID = ak_ID k, akp_ProjectID = ak_ProjectID k\<rparr>"
    by (auto simp: defs split: option.splits if_splits)
  note row = GetAPIKeyByPrefix_Inr [OF g [unfolded k]]
  have "auth_reach env s s1" using row by (blast intro: reach_same_db)
  with interleavedD(1) [OF il ck] have "auth_reach env s s2" by (blast intro: auth_reach_trans)
  with that ps row m ck up r3 show thesis by blast
qed

text \<open>After a successful revocation the key is disabled for good, and no validation yields it.\<close>

lemma revoked_key_off:
  assumes "auth_wf (pg_db s)" and "interleaved env libs ts"
    and "RevokeAPIKey (pg_usecase env libs h ts ttl) projectID keyID s = (None, s1)" and "auth_reach env s1 s2"
    and "pe_uuid env (TrimSpace keyID) = Some kid" and "k \<in> set (db_keys (pg_db s2))" and "ak_ID k = kid"
  shows "\<not> ak_Enabled k"
proof -
  obtain at s0 where ck: "lib_clock libs s = (at, s0)" by fastforce
  with assms(3) have dis: "repo_DisableAPIKey env (TrimSpace projectID) (TrimSpace keyID) at s0 = (None, s1)"
    by (auto simp: RevokeAPIKey_def pg_port_defs Let_def split: if_splits)
  from DisableAPIKey_None [OF this] assms(5) obtain k0 where
    k0: "k0 \<in> set (db_keys (pg_db s1))" "ak_ID k0 = kid" "\<not> ak_Enabled k0" by auto
  have wf: "auth_wf (pg_db s1)"
    using pg_tokens.reach_ok [OF assms(1) interleavedD(1) [OF assms(2) ck]]
      repo_keys_le(4) [of s0 env "TrimSpace projectID" "TrimSpace keyID" at] dis by (simp add: auth_le_def)
  show ?thesis
    using key_row_later [OF wf assms(4) k0(1) assms(6)] assms(7) k0(2,3) by (simp add: key_le_def)
qed

lemma revoked_key_rejected:
  assumes "auth_wf (pg_db s)" and "interleaved env libs ts"
    and "RevokeAPIKey (pg_usecase env libs h ts ttl) projectID keyID s = (None, s1)" and "auth_reach env s1 s2"
    and "pe_uuid env (TrimSpace keyID) = Some kid"
    and "fst (ValidateAPIKey (pg_usecase env libs h ts ttl) raw s2) = Inr p"
  shows "akp_APIKeyID p \<noteq> kid"
proof -
  from assms(6) obtain s3 where "ValidateAPIKey (pg_usecase env libs h ts ttl) raw s2 = (Inr p, s3)"
    by (metis prod.collapse)
  from ValidateAPIKey_Inr [OF this assms(2)] obtain k now where
    k: "k \<in> set (db_keys (pg_db s2))" "apiKey_IsActive k now" "p = \<lparr>akp_APIKeyID = ak_ID k, akp_ProjectID = ak_ProjectID k\<rparr>"
    by metis
  with revoked_key_off [OF assms(1-5) k(1)] show ?thesis by (auto simp: apiKey_IsActive_def)
qed

text \<open>C4. A revoked API key is never accepted again: after \<open>RevokeAPIKey\<close> has reported success, no
  \<open>ValidateAPIKey\<close>, of whatever key text and at whatever later time, returns that key's identifier;
  and a validation that had already read the key when the revocation came in fails too, since its
  last step, the statement that stamps the key, no longer finds it.\<close>

theorem revoked_key_never_validates:
  assumes "auth_wf (pg_db s)" and "interleaved env libs ts"
    and "RevokeAPIKey (pg_usecase env libs h ts ttl) projectID keyID s = (None, s1)" and "auth_reach env s1 s2"
    and "pe_uuid env (TrimSpace keyID) = Some kid"
  shows "(\<forall>raw p. fst (ValidateAPIKey (pg_usecase env libs h ts ttl) raw s2) = Inr p \<longrightarrow> akp_APIKeyID p \<noteq> kid) \<and>
    (\<forall>i at. pe_uuid env i = Some kid \<longrightarrow> fst (repo_UpdateAPIKeyLastUsedAt env i at s2) \<noteq> None)"
proof (intro conjI allI impI)
  fix raw p
  assume "fst (ValidateAPIKey (pg_usecase env libs h ts ttl) raw s2) = Inr p"
  then show "akp_APIKeyID p \<noteq> kid" by (rule revoked_key_rejected [OF assms])
next
  fix i at
  assume i: "pe_uuid env i = Some kid"
  show "fst (repo_UpdateAPIKeyLastUsedAt env i at s2) \<noteq> None"
  proof
    assume "fst (repo_UpdateAPIKeyLastUsedAt env i at s2) = None"
    then obtain s3 where "repo_UpdateAPIKeyLastUsedAt env i at s2 = (None, s3)" by (metis prod.collapse)
    from UpdateAPIKeyLastUsedAt_None [OF this] i revoked_key_off [OF assms] show False by auto
  qed
qed

lemma CreateAPIKey_Inr:
  assumes cr: "CreateAPIKey (pg_usecase env libs h ts ttl) input s = (Inr ck, s')" and il: "interleaved env libs ts"
  obtains g s1 s2 key created where
    "GenerateAPIKey (lib_sha libs) (lib_random libs) s1 = (Inr g, s2)"
    "ck = \<lparr>ck_APIKey = apiKeyInfoFromDomain created, ck_Value = gen_Value g\<rparr>"
    "created \<in> set (db_keys (pg_db s'))" "ak_KeyPrefix created = gen_Prefix g" "ak_KeyHash created = gen_Hash g"
    "ak_Enabled created" "ak_ExpiresAt created = map_option pg_time (cki_ExpiresAt input)"
    "pe_uuid env (TrimSpace (cki_ProjectID input)) = Some (ak_ProjectID created)"
    "ak_ID created \<in> range (pe_newid env)" "auth_reach env s s'"
proof -
  note defs = CreateAPIKey_def pg_port_defs Let_def
  obtain now s1 where ck: "lib_clock libs s = (now, s1)" by fastforce
  obtain r s2 where g0: "GenerateAPIKey (lib_sha libs) (lib_random libs) s1 = (r, s2)" by fastforce
  with cr ck obtain g where g: "r = Inr g" by (cases r) (auto simp: defs split: if_splits)
  let ?p = "TrimSpace (cki_ProjectID input)" and ?n = "TrimSpace (cki_Name input)"
  from cr ck have ok: "?p \<noteq> ''''" "?n \<noteq> ''''" "\<And>t. cki_ExpiresAt input = Some t \<Longrightarrow> now < t"
    by (auto simp: defs split: if_splits)
  note nk = key_service.new_key_of_generated [OF g0 [unfolded g], of ?p ?n "cki_ExpiresAt input" now]
  obtain r3 s3 where ins: "repo_CreateAPIKey env \<lparr>ak_ID = '''', ak_ProjectID = TrimSpace ?p, ak_Name = TrimSpace ?n,
         ak_KeyPrefix = gen_Prefix g, ak_KeyHash = gen_Hash g, ak_Enabled = True,
         ak_ExpiresAt = cki_ExpiresAt input, ak_LastUsedAt = None, ak_CreatedAt = 0, ak_UpdatedAt = 0\<rparr> s2 = (r3, s3)"
      (is "repo_CreateAPIKey env ?key s2 = _") by fastforce
  from cr ck g0 g ok nk ins obtain created where r3: "r3 = Inr created" "s3 = s'"
      "ck = \<lparr>ck_APIKey = apiKeyInfoFromDomain created, ck_Value = gen_Value g\<rparr>"
    by (cases r3) (auto simp: defs split: if_splits)
  obtain r4 s4 where ex: "pg_exec env (createAPIKeyQuery env ?key) s2 = (r4, s4)" by fastforce
  with ins r3 have r4: "r4 = Inr created" "s4 = s'"
    by (auto simp: repo_CreateAPIKey_def split: sum.splits if_splits)
  from pg_exec_Inr [OF ex [unfolded r4]]
  have "created \<in> set (db_keys (pg_db s'))" "ak_KeyPrefix created = gen_Prefix g" "ak_KeyHash created = gen_Hash g"
    "ak_Enabled created" "ak_ExpiresAt created = map_option pg_time (cki_ExpiresAt input)"
    "pe_uuid env ?p = Some (ak_ProjectID created)" "ak_ID created \<in> range (pe_newid env)"
    by (auto simp: createAPIKeyQuery_def Let_def split: option.splits if_splits
        dest!: sym [of _ "pg_db s'"])
  moreover have "auth_reach env s s'"
  proof -
    have "auth_reach env s1 s2"
    proof -
      obtain x1 t1 where x1: "io_ReadFull (lib_random libs) apiKeyPrefixSize s1 = (x1, t1)" by fastforce
      obtain x2 t2 where x2: "io_ReadFull (lib_random libs) apiKeySecretSize t1 = (x2, t2)" by fastforce
      from g0 x1 x2 have "s2 = t1 \<or> s2 = t2"
        by (auto simp: GenerateAPIKey_def Let_def split: sum.splits)
      with interleavedD(3) [OF il x1] interleavedD(3) [OF il x2] show ?thesis by (blast intro: auth_reach_trans)
    qed
    with interleavedD(1) [OF il ck] have "auth_reach env s s2" by (blast intro: auth_reach_trans)
    from reach_createKey [OF this, of ?key] ins r3 show ?thesis by simp
  qed
  ultimately show thesis using that g0 g r3(3) by blast
qed

text \<open>C22. A created key works: its value, given back once by \<open>CreateAPIKey\<close>, validates at every later
  moment before its expiry as long as nobody revokes it, and yields the key's identifier and project;
  here the server answers and nothing else touches the tables during the validation.\<close>

theorem created_key_validates:
  assumes "auth_wf (pg_db s)" and "interleaved env libs ts"
    and "CreateAPIKey (pg_usecase env libs h ts ttl) input s = (Inr ck, s1)" and "auth_reach env s1 s2"
    and "\<forall>n. pe_fault env n = NoFault" and "\<forall>n. pe_uuid env (pe_newid env n) = Some (pe_newid env n)"
    and "\<forall>x. pg_db (snd (lib_clock libs x)) = pg_db x"
    and "\<forall>k\<in>set (db_keys (pg_db s2)). ak_ID k = aki_ID (ck_APIKey ck) \<longrightarrow> ak_Enabled k"
    and "\<forall>t x. cki_ExpiresAt input = Some t \<longrightarrow> fst (lib_clock libs x) < pg_time t"
  shows "fst (ValidateAPIKey (pg_usecase env libs h ts ttl) (ck_Value ck) s2) =
    Inr \<lparr>akp_APIKeyID = aki_ID (ck_APIKey ck), akp_ProjectID = aki_ProjectID (ck_APIKey ck)\<rparr>"
proof -
  from CreateAPIKey_Inr [OF assms(3,2)] obtain g a1 a2 c where
    g: "GenerateAPIKey (lib_sha libs) (lib_random libs) a1 = (Inr g, a2)"
    and ck: "ck = \<lparr>ck_APIKey = apiKeyInfoFromDomain c, ck_Value = gen_Value g\<rparr>"
    and c: "c \<in> set (db_keys (pg_db s1))" "ak_KeyPrefix c = gen_Prefix g" "ak_KeyHash c = gen_Hash g"
    "ak_ExpiresAt c = map_option pg_time (cki_ExpiresAt input)" "ak_ID c \<in> range (pe_newid env)"
    and r: "auth_reach env s s1" by metis
  have wf1: "auth_wf (pg_db s1)" by (rule pg_tokens.reach_ok [OF assms(1) r])
  then have wf2: "auth_wf (pg_db s2)" by (rule pg_tokens.reach_ok [OF _ assms(4)])
  from auth_reach_le [OF assms(4)] c(1) obtain k where k: "k \<in> set (db_keys (pg_db s2))" "key_le c k"
    unfolding auth_le_def rows_le_def by blast
  have "find_row (\<lambda>x. ak_KeyPrefix x = gen_Prefix g) (db_keys (pg_db s2)) = Some k"
    using find_row_key [of ak_KeyPrefix "db_keys (pg_db s2)" k] wf2 k c(2) by (auto simp: auth_wf_def key_le_def)
  then have get: "repo_GetAPIKeyByPrefix env (gen_Prefix g) s2 = (Inr k, s2\<lparr>pg_tick := Suc (pg_tick s2), pg_db := pg_db s2\<rparr>)"
    using assms(5) by (simp add: repo_GetAPIKeyByPrefix_def pg_exec_NoFault getAPIKeyByPrefixQuery_def)
  obtain now s3 where clk: "lib_clock libs (s2\<lparr>pg_tick := Suc (pg_tick s2), pg_db := pg_db s2\<rparr>) = (now, s3)" by fastforce
  then have db3: "pg_db s3 = pg_db s2" using assms(7) by (metis pg.select_convs(1) pg.surjective pg.update_convs(1) snd_conv)
  have en: "ak_Enabled k" using assms(8) k by (auto simp: ck apiKeyInfoFromDomain_def key_le_def)
  have "now < pg_time t" if "cki_ExpiresAt input = Some t" for t
    using assms(9) that clk by (metis fst_conv)
  then have act: "apiKey_IsActive k now" using en k(2) c(4)
    by (auto simp: apiKey_IsActive_def key_le_def split: option.splits)
  have uu: "pe_uuid env (ak_ID k) = Some (ak_ID k)" using assms(6) c(5) k(2) by (auto simp: key_le_def)
  have up: "fst (repo_UpdateAPIKeyLastUsedAt env (ak_ID k) now s3) = None"
    using assms(5) uu en k(1) db3
    by (auto simp: repo_UpdateAPIKeyLastUsedAt_def pg_exec_NoFault updateAPIKeyLastUsedAtQuery_def Let_def)
  from key_service.generated_matches [OF g] key_service.parse_generated [OF g] get clk act up k(2) c(3)
  show ?thesis
    by (auto simp: ValidateAPIKey_def pg_port_defs ck apiKeyInfoFromDomain_def key_le_def Let_def
        split: option.splits prod.splits)
qed

lemma buildTokens_Inr:
  assumes "buildTokens (pg_usecase env libs h ts ttl) user now s = (Inr (a, raw, repl), s')"
  shows "tok_TokenHash repl = HashRefreshToken (lib_sha libs) raw \<and> tok_UserID repl = TrimSpace (us_ID user)"
  using assms
  by (auto simp: buildTokens_def pg_port_defs GenerateRefreshToken_def NewRefreshToken_def HashRefreshToken_def Let_def
      split: sum.splits prod.splits if_splits)

lemma CreateRefreshToken_Inr:
  assumes "repo_CreateRefreshToken env t s = (Inr c, s')"
  shows "c \<in> set (db_tokens (pg_db s')) \<and> tok_TokenHash c = tok_TokenHash t \<and> tok_RevokedAt c = None \<and>
    pe_uuid env (tok_UserID t) = Some (tok_UserID c)"
proof -
  obtain r s1 where x: "pg_exec env (createRefreshTokenQuery env t) s = (r, s1)" by fastforce
  with assms have r: "r = Inr c" "s1 = s'" by (auto simp: repo_CreateRefreshToken_def split: sum.splits)
  from pg_exec_Inr [OF x [unfolded r]] show ?thesis
    by (auto simp: createRefreshTokenQuery_def Let_def split: option.splits if_splits dest!: sym [of _ "pg_db s'"])
qed

text \<open>C24. A login succeeds only for an enabled user of the database, found by the normalised email, whose
  stored hash accepts the password, and it leaves an unrevoked refresh-token row of that user holding
  the hash, not the text, of the token it returns.\<close>

theorem Login_sound:
  assumes "Login ct (pg_usecase env libs h ts ttl) email password s = (Inr sess, s')"
  shows "\<exists>user\<in>set (db_users (pg_db s)). \<exists>t\<in>set (db_tokens (pg_db s')).
    pe_lower env (us_Email user) = pe_lower env (ToLower ct (TrimSpace email)) \<and> us_Enabled user \<and>
    lib_bcrypt_Compare libs (us_PasswordHash user) password \<and> se_User sess = userInfoFromDomain user \<and>
    tok_TokenHash t = HashRefreshToken (lib_sha libs) (tp_RefreshToken (se_Tokens sess)) \<and>
    pe_uuid env (TrimSpace (us_ID user)) = Some (tok_UserID t) \<and> tok_RevokedAt t = None"
proof -
  note defs = Login_def pg_port_defs hasher_Matches_def Let_def
  let ?e = "ToLower ct (TrimSpace email)"
  obtain r1 s1 where g: "repo_GetUserByEmail env ?e s = (r1, s1)" by fastforce
  with assms obtain user where us: "r1 = Inr user" by (cases r1) (auto simp: defs split: if_splits)
  with assms g have ok: "us_Enabled user" "lib_bcrypt_Compare libs (us_PasswordHash user) password"
    by (auto simp: defs split: if_splits)
  obtain now s2 where ck: "lib_clock libs s1 = (now, s2)" by fastforce
  obtain r3 s3 where bt: "buildTokens (pg_usecase env libs h ts ttl) user now s2 = (r3, s3)" by fastforce
  with assms g us ok ck obtain a raw t where b: "r3 = Inr (a, raw, t)"
    by (cases r3) (auto simp: defs split: if_splits)
  obtain r4 s4 where ins: "repo_CreateRefreshToken env t s3 = (r4, s4)" by fastforce
  with assms g us ok ck bt b obtain c where c: "r4 = Inr c" "s4 = s'"
      "sess = \<lparr>se_User = userInfoFromDomain user, se_Tokens = tokenPair a raw (tok_ExpiresAt c)\<rparr>"
    by (cases r4) (auto simp: defs split: if_splits)
  from GetUserByEmail_Inr [OF g [unfolded us]] buildTokens_Inr [OF bt [unfolded b]]
    CreateRefreshToken_Inr [OF ins [unfolded c]] ok c(3)
  show ?thesis by (auto simp: tokenPair_def)
qed

lemma AuthenticateAccessToken_Inr:
  assumes "AuthenticateAccessToken (pg_usecase env libs h ts ttl) raw s = (Inr p, s')"
  shows "\<exists>user\<in>set (db_users (pg_db (snd (lib_clock libs s)))).
    ParseAccessToken (lib_jwt libs) ts (TrimSpace raw) (fst (lib_clock libs s)) = Inr p \<and>
    pe_uuid env (atp_UserID p) = Some (us_ID user) \<and> us_Enabled user \<and> us_Role user = atp_Role p"
proof -
  note defs = AuthenticateAccessToken_def pg_port_defs Let_def
  obtain now s1 where ck: "lib_clock libs s = (now, s1)" by fastforce
  with assms obtain p0 where p0: "ParseAccessToken (lib_jwt libs) ts (TrimSpace raw) now = Inr p0"
    by (cases "ParseAccessToken (lib_jwt libs) ts (TrimSpace raw) now") (auto simp: defs split: if_splits)
  obtain r s2 where g: "repo_GetUserByID env (atp_UserID p0) s1 = (r, s2)" by fastforce
  with assms ck p0 obtain user where us: "r = Inr user" by (cases r) (auto simp: defs split: if_splits)
  with assms ck p0 g have ok: "p0 = p" "us_Enabled user" "us_Role user = atp_Role p"
    by (auto simp: defs split: if_splits)
  from GetUserByID_Inr [OF g [unfolded us]] ck p0 ok show ?thesis by auto
qed

text \<open>An access token is accepted only if the token service accepts it at the current time, and its
  subject is at this moment an enabled user of the database with the role the token states.\<close>

theorem AuthenticateAccessToken_sound:
  assumes "AuthenticateAccessToken (pg_usecase env libs h ts ttl) raw s = (Inr p, s')"
  shows "\<exists>user\<in>set (db_users (pg_db (snd (lib_clock libs s)))).
    ParseAccessToken (lib_jwt libs) ts (TrimSpace raw) (fst (lib_clock libs s)) = Inr p \<and>
    pe_uuid env (atp_UserID p) = Some (us_ID user) \<and> us_Enabled user \<and> us_Role user = atp_Role p"
  by (rule AuthenticateAccessToken_Inr [OF assms])

section \<open>A concrete service\<close>

text \<open>Libraries that leave the tables alone, and a database with one user, one project, one refresh
  token and one API key.\<close>

definition demo_random :: "(auth_db pg) rand_reader" where
  "demo_random n s = (Inr (replicate n (CHR ''z'')), s)"

definition demo_libs :: "(auth_db pg) auth_libs" where
  "demo_libs = \<lparr>lib_bcrypt_Generate = (\<lambda>c p s. (Inr p, s)), lib_bcrypt_Compare = (\<lambda>hash p. hash = p), lib_sha = (\<lambda>x. x),
     lib_jwt = toy_jwt, lib_random = demo_random, lib_clock = (\<lambda>s. (60000000000, s))\<rparr>"

definition demo_ts :: "(auth_db pg) TokenService" where
  "demo_ts = \<lparr>ts_secret = ''s'', ts_issuer = ''edgeguard-auth'', ts_audience = ''edgeguard'',
     ts_accessTokenTTL = 900000000000, ts_refreshTokenSize = 16, ts_random = demo_random\<rparr>"

definition demo_case :: case_tables where
  "demo_case = \<lparr>uni_lower = (\<lambda>x. x), uni_upper = (\<lambda>x. x)\<rparr>"

definition demo_usecase :: "(auth_db pg) AuthUsecase" where
  "demo_usecase = pg_usecase calm_env demo_libs \<lparr>ph_cost = 10\<rparr> demo_ts 0"

definition demo_state :: "auth_db pg" where
  "demo_state = \<lparr>pg_db = \<lparr>db_users = [toy_user],
      db_tokens = [\<lparr>tok_ID = ''t1'', tok_UserID = ''u1'', tok_TokenHash = HashRefreshToken (\<lambda>x. x) ''rt'',
         tok_ExpiresAt = 90000000000, tok_RevokedAt = None, tok_CreatedAt = 0\<rparr>],
      db_keys = [\<lparr>ak_ID = ''k1'', ak_ProjectID = ''p1'', ak_Name = ''first'', ak_KeyPrefix = ''0011223344556677'',
         ak_KeyHash = ''00'', ak_Enabled = True, ak_ExpiresAt = None, ak_LastUsedAt = None, ak_CreatedAt = 0,
         ak_UpdatedAt = 0\<rparr>],
      db_projects = [''p1'']\<rparr>, pg_tick = 0\<rparr>"

lemma demo_interleaved: "interleaved calm_env demo_libs demo_ts"
  by (auto simp: interleaved_def demo_libs_def demo_ts_def demo_random_def intro: auth_reach.reach_refl)

lemma demo_wf: "auth_wf (pg_db demo_state)"
  by (simp add: auth_wf_def demo_state_def)

lemma demo_refresh: "\<not> isl (fst (Refresh demo_usecase ''rt'' demo_state))"
  by code_simp

lemma demo_logout: "fst (Logout demo_usecase ''rt'' demo_state) = None"
  by code_simp

lemma demo_revoke: "fst (RevokeAPIKey demo_usecase ''p1'' ''k1'' demo_state) = None"
  by code_simp

definition demo_input :: CreateAPIKeyInput where
  "demo_input = \<lparr>cki_ProjectID = ''p1'', cki_Name = ''second'', cki_ExpiresAt = Some 90000000000\<rparr>"

lemma demo_create:
  "case CreateAPIKey demo_usecase demo_input demo_state of
     (Inl e, s) \<Rightarrow> False | (Inr ck, s) \<Rightarrow> list_all ak_Enabled (db_keys (pg_db s))"
  by code_simp

lemma demo_login: "\<not> isl (fst (Login demo_case demo_usecase '' a@b'' ''h'' demo_state))"
  by code_simp

lemma demo_authenticate: "\<not> isl (fst (AuthenticateAccessToken demo_usecase ''t'' demo_state))"
  by code_simp

theorem refresh_single_use_witness:
  "\<not> isl (fst (Refresh demo_usecase ''rt'' demo_state)) \<and>
   \<not> (\<exists>tp'. fst (Refresh demo_usecase ''rt'' (snd (Refresh demo_usecase ''rt'' demo_state))) = Inr tp')"
proof -
  from demo_refresh obtain tp s1 where r: "Refresh demo_usecase ''rt'' demo_state = (Inr tp, s1)"
    using fst_Inr_pair by blast
  from refresh_single_use [OF demo_wf demo_interleaved r [unfolded demo_usecase_def] auth_reach.reach_refl] r demo_refresh
  show ?thesis by (simp add: demo_usecase_def)
qed

theorem logout_ends_session_witness:
  "fst (Logout demo_usecase ''rt'' demo_state) = None \<and>
   \<not> (\<exists>tp'. fst (Refresh demo_usecase ''rt'' (snd (Logout demo_usecase ''rt'' demo_state))) = Inr tp')"
proof -
  from demo_logout obtain s1 where r: "Logout demo_usecase ''rt'' demo_state = (None, s1)"
    using fst_None_pair by blast
  from logout_ends_session [OF demo_wf demo_interleaved r [unfolded demo_usecase_def] auth_reach.reach_refl] r
  show ?thesis by (simp add: demo_usecase_def)
qed

theorem revoked_key_never_validates_witness:
  "fst (RevokeAPIKey demo_usecase ''p1'' ''k1'' demo_state) = None \<and>
   fst (repo_UpdateAPIKeyLastUsedAt calm_env ''k1'' 70000000000 (snd (RevokeAPIKey demo_usecase ''p1'' ''k1'' demo_state))) \<noteq> None"
proof -
  from demo_revoke obtain s1 where r: "RevokeAPIKey demo_usecase ''p1'' ''k1'' demo_state = (None, s1)"
    using fst_None_pair by blast
  have "pe_uuid calm_env (TrimSpace ''k1'') = Some ''k1''"
    by (simp add: calm_env_def TrimSpace_visible visible_ascii_def)
  from revoked_key_never_validates [OF demo_wf demo_interleaved r [unfolded demo_usecase_def] auth_reach.reach_refl this] r
  show ?thesis by (simp add: calm_env_def)
qed

theorem created_key_validates_witness:
  "\<exists>ck s1. CreateAPIKey demo_usecase demo_input demo_state = (Inr ck, s1) \<and>
     fst (ValidateAPIKey demo_usecase (ck_Value ck) s1) =
       Inr \<lparr>akp_APIKeyID = aki_ID (ck_APIKey ck), akp_ProjectID = aki_ProjectID (ck_APIKey ck)\<rparr>"
proof -
  from demo_create obtain ck s1 where c: "CreateAPIKey demo_usecase demo_input demo_state = (Inr ck, s1)"
    and l: "list_all ak_Enabled (db_keys (pg_db s1))" by (auto split: prod.splits sum.splits)
  then have en: "\<forall>k\<in>set (db_keys (pg_db s1)). ak_ID k = aki_ID (ck_APIKey ck) \<longrightarrow> ak_Enabled k"
    by (simp add: list_all_iff)
  have "fst (ValidateAPIKey (pg_usecase calm_env demo_libs \<lparr>ph_cost = 10\<rparr> demo_ts 0) (ck_Value ck) s1) =
      Inr \<lparr>akp_APIKeyID = aki_ID (ck_APIKey ck), akp_ProjectID = aki_ProjectID (ck_APIKey ck)\<rparr>"
    by (rule created_key_validates [OF demo_wf demo_interleaved c [unfolded demo_usecase_def] auth_reach.reach_refl _ _ _ en])
      (simp_all add: calm_env_def demo_libs_def demo_input_def pg_time_def)
  with c show ?thesis by (auto simp: demo_usecase_def)
qed

theorem Login_sound_witness:
  "\<exists>sess s1. Login demo_case demo_usecase '' a@b'' ''h'' demo_state = (Inr sess, s1) \<and>
     (\<exists>t\<in>set (db_tokens (pg_db s1)). tok_TokenHash t = HashRefreshToken (\<lambda>x. x) (tp_RefreshToken (se_Tokens sess)))"
proof -
  from demo_login obtain sess s1 where l: "Login demo_case demo_usecase '' a@b'' ''h'' demo_state = (Inr sess, s1)"
    using fst_Inr_pair by blast
  from Login_sound [OF l [unfolded demo_usecase_def]] l show ?thesis by (auto simp: demo_libs_def)
qed

theorem AuthenticateAccessToken_sound_witness:
  "\<exists>p s1. AuthenticateAccessToken demo_usecase ''t'' demo_state = (Inr p, s1) \<and> atp_Role p = RoleMember"
proof -
  from demo_authenticate obtain p s1 where a: "AuthenticateAccessToken demo_usecase ''t'' demo_state = (Inr p, s1)"
    using fst_Inr_pair by blast
  from AuthenticateAccessToken_sound [OF a [unfolded demo_usecase_def]] a
  show ?thesis by (auto simp: demo_libs_def demo_state_def toy_user_def)
qed

end
