(* ===== verification/Platform_Jobs.thy ===== *)
theory Platform_Jobs
  imports Platform_Postgres
begin

text \<open>
  \<open>internal/platform/jobs\<close>: the job envelope that the jobs service publishes and the notification
  worker consumes, its three payloads and its validation; and the error values of the jobs service
  and the worker. \<open>json.Marshal\<close> and \<open>json.Valid\<close> are parameters.
\<close>

section \<open>Errors\<close>

text \<open>\<open>platform/jobs/envelope.go\<close> (\<open>P\<close>), \<open>jobs/domain/errors.go\<close> and the HTTP layer (\<open>J\<close>), the publisher
  and the consumer (\<open>Q\<close>), the worker and its executors (\<open>W\<close>), the configurations (\<open>C\<close>), database errors
  and errors of other libraries.\<close>

datatype jb_error =
    PErrInvalidID | PErrInvalidType | PErrInvalidCreatedAt | PErrInvalidAttempt
  | PErrInvalidMaxAttempts | PErrInvalidPayload
  | JErrInvalidWebhookURL | JErrInvalidHTTPMethod | JErrInvalidWebhookBody | JErrInvalidProjectID
  | JErrInvalidReportRange | JErrInvalidReportFormat | JErrInvalidCleanupTime | JErrInvalidBatchSize
  | JErrInvalidMaxAttempts | JErrJobNotFound | JErrInvalidRequestBody
  | QErrPublishNotConfirmed | QErrPublisherClosed | QErrConsumerClosed
  | WErrInvalidJobPayload | WErrInvalidURL | WErrInvalidMethod | WErrBlockedTarget
  | WErrUnexpectedStatus | WErrNonRetryableStatus | WErrProjectNotFound | WErrInvalidProjectID
  | WErrInvalidReportRange | WErrInvalidFormat
  | CErrInvalidPublishTimeout | CErrInvalidPrefetch | CErrInvalidRetryMin | CErrInvalidRetryMax
  | CErrInvalidProcessTimeout | CErrInvalidWebhookTimeout | CErrInvalidPolicyInstallTimeout
  | JbPg pg_error
  | JbExternal string

type_synonym jb_err = "jb_error goerr"

section \<open>Payloads\<close>

text \<open>A Go map of headers is a list of pairs with distinct names; a nil map is the empty list.\<close>

record WebhookPayload =
  wp_URL :: string
  wp_Method :: string
  wp_Headers :: "(string \<times> string) list"
  wp_Body :: string

record ReportPayload =
  rp_ProjectID :: string
  rp_From :: Time
  rp_To :: Time
  rp_Format :: string

record CleanupPayload =
  cp_Before :: Time
  cp_BatchSize :: int

datatype job_payload = PWebhook WebhookPayload | PReport ReportPayload | PCleanup CleanupPayload

section \<open>Envelopes\<close>

definition SchemaVersion :: int where
  "SchemaVersion = 1"

definition TypeWebhookDeliver :: string where
  "TypeWebhookDeliver = ''jobs.webhook.deliver''"

definition TypeReportGenerate :: string where
  "TypeReportGenerate = ''jobs.report.generate''"

definition TypeCleanupExpiredTokens :: string where
  "TypeCleanupExpiredTokens = ''jobs.cleanup.expired_tokens''"

lemmas job_type_defs = TypeWebhookDeliver_def TypeReportGenerate_def TypeCleanupExpiredTokens_def

record Envelope =
  en_SchemaVersion :: int
  en_ID :: string
  en_Type :: string
  en_CreatedAt :: Time
  en_Attempt :: int
  en_MaxAttempts :: int
  en_Payload :: string

definition type_Valid :: "string \<Rightarrow> bool" where
  "type_Valid t \<longleftrightarrow> t = TypeWebhookDeliver \<or> t = TypeReportGenerate \<or> t = TypeCleanupExpiredTokens"

definition envelope_Validate :: "(string \<Rightarrow> bool) \<Rightarrow> Envelope \<Rightarrow> jb_err option" where
  "envelope_Validate json_Valid e =
     (if en_SchemaVersion e \<noteq> SchemaVersion then Some (Sentinel PErrInvalidPayload)
      else if TrimSpace (en_ID e) = '''' then Some (Sentinel PErrInvalidID)
      else if \<not> type_Valid (en_Type e) then Some (Sentinel PErrInvalidType)
      else if IsZero (en_CreatedAt e) then Some (Sentinel PErrInvalidCreatedAt)
      else if en_Attempt e < 1 then Some (Sentinel PErrInvalidAttempt)
      else if en_MaxAttempts e < en_Attempt e then Some (Sentinel PErrInvalidMaxAttempts)
      else if en_Payload e = '''' \<or> \<not> json_Valid (en_Payload e) then Some (Sentinel PErrInvalidPayload)
      else None)"

definition NewEnvelope ::
  "(string \<Rightarrow> bool) \<Rightarrow> (job_payload \<Rightarrow> string option) \<Rightarrow> string \<Rightarrow> string \<Rightarrow> Time \<Rightarrow> int \<Rightarrow> job_payload \<Rightarrow> jb_err + Envelope" where
  "NewEnvelope json_Valid json_Marshal i jobType createdAt maxAttempts payload =
     (case json_Marshal payload of
        None \<Rightarrow> Inl (Sentinel PErrInvalidPayload)
      | Some payloadJSON \<Rightarrow>
          (let envelope = \<lparr>en_SchemaVersion = SchemaVersion, en_ID = TrimSpace i, en_Type = jobType,
                           en_CreatedAt = createdAt, en_Attempt = 1, en_MaxAttempts = maxAttempts,
                           en_Payload = payloadJSON\<rparr> in
           case envelope_Validate json_Valid envelope of
             Some err \<Rightarrow> Inl err
           | None \<Rightarrow> Inr envelope))"

lemma envelope_valid_iff:
  "envelope_Validate jv e = None \<longleftrightarrow>
     en_SchemaVersion e = 1 \<and> TrimSpace (en_ID e) \<noteq> '''' \<and> type_Valid (en_Type e) \<and> \<not> IsZero (en_CreatedAt e) \<and>
     1 \<le> en_Attempt e \<and> en_Attempt e \<le> en_MaxAttempts e \<and> en_Payload e \<noteq> '''' \<and> jv (en_Payload e)"
  by (auto simp: envelope_Validate_def SchemaVersion_def)

lemma NewEnvelope_Inr:
  assumes "NewEnvelope jv jm i ty t m p = Inr e"
  shows "envelope_Validate jv e = None \<and> en_ID e = TrimSpace i \<and> en_Type e = ty \<and> en_CreatedAt e = t \<and>
    en_Attempt e = 1 \<and> en_MaxAttempts e = m \<and> jm p = Some (en_Payload e)"
  using assms by (auto simp: NewEnvelope_def Let_def split: option.splits)

end
