(* ===== verification/Jobs_Domain.thy ===== *)
theory Jobs_Domain
  imports Platform_Jobs
begin

text \<open>
  \<open>internal/jobs/domain\<close>: the payload constructors with their limits, jobs and their statuses.
  \<open>url.ParseRequestURI\<close> and \<open>json.Valid\<close> are parameters.
\<close>

section \<open>Limits\<close>

definition DefaultMaxAttempts :: int where "DefaultMaxAttempts = 5"
definition MaxMaxAttempts :: int where "MaxMaxAttempts = 10"
definition DefaultBatchSize :: int where "DefaultBatchSize = 500"
definition MaxBatchSize :: int where "MaxBatchSize = 5000"

record Receipt =
  rc_ID :: string
  rc_Type :: string
  rc_Status :: string
  rc_CreatedAt :: Time

section \<open>Payload constructors\<close>

text \<open>What the code reads of a parsed \<open>url.URL\<close>.\<close>

record web_url =
  wu_Scheme :: string
  wu_Host :: string
  wu_Hostname :: string
  wu_HasUser :: bool
  wu_String :: string

definition cloneHeaders :: "(string \<times> string) list \<Rightarrow> (string \<times> string) list" where
  "cloneHeaders source = source"

definition NewWebhookPayload ::
  "case_tables \<Rightarrow> (string \<Rightarrow> web_url option) \<Rightarrow> (string \<Rightarrow> bool) \<Rightarrow> string \<Rightarrow> string \<Rightarrow> (string \<times> string) list \<Rightarrow> string \<Rightarrow>
   jb_err + WebhookPayload" where
  "NewWebhookPayload ct url_ParseRequestURI json_Valid rawURL method headers body =
     (case url_ParseRequestURI (TrimSpace rawURL) of
        None \<Rightarrow> Inl (Sentinel JErrInvalidWebhookURL)
      | Some parsedURL \<Rightarrow>
          if wu_Host parsedURL = '''' \<or> (wu_Scheme parsedURL \<noteq> ''http'' \<and> wu_Scheme parsedURL \<noteq> ''https'')
            then Inl (Sentinel JErrInvalidWebhookURL)
          else
            let method0 = ToUpper ct (TrimSpace method);
                method' = (if method0 = '''' then ''POST'' else method0) in
            if method' \<noteq> ''POST'' \<and> method' \<noteq> ''PUT'' \<and> method' \<noteq> ''PATCH'' then Inl (Sentinel JErrInvalidHTTPMethod)
            else if body \<noteq> '''' \<and> \<not> json_Valid body then Inl (Sentinel JErrInvalidWebhookBody)
            else Inr \<lparr>wp_URL = wu_String parsedURL, wp_Method = method', wp_Headers = cloneHeaders headers, wp_Body = body\<rparr>)"

definition NewReportPayload :: "case_tables \<Rightarrow> string \<Rightarrow> Time \<Rightarrow> Time \<Rightarrow> string \<Rightarrow> jb_err + ReportPayload" where
  "NewReportPayload ct projectID fromT toT format =
     (let projectID' = TrimSpace projectID in
      if projectID' = '''' then Inl (Sentinel JErrInvalidProjectID)
      else if IsZero fromT \<or> IsZero toT \<or> \<not> fromT < toT then Inl (Sentinel JErrInvalidReportRange)
      else
        let format0 = ToLower ct (TrimSpace format);
            format' = (if format0 = '''' then ''json'' else format0) in
        if format' \<noteq> ''json'' \<and> format' \<noteq> ''csv'' then Inl (Sentinel JErrInvalidReportFormat)
        else Inr \<lparr>rp_ProjectID = projectID', rp_From = fromT, rp_To = toT, rp_Format = format'\<rparr>)"

definition NewCleanupPayload :: "Time \<Rightarrow> int \<Rightarrow> jb_err + CleanupPayload" where
  "NewCleanupPayload before batchSize =
     (if IsZero before then Inl (Sentinel JErrInvalidCleanupTime)
      else
        let batchSize' = (if batchSize = 0 then DefaultBatchSize else batchSize) in
        if batchSize' < 1 \<or> batchSize' > MaxBatchSize then Inl (Sentinel JErrInvalidBatchSize)
        else Inr \<lparr>cp_Before = before, cp_BatchSize = batchSize'\<rparr>)"

definition NormalizeMaxAttempts :: "int \<Rightarrow> jb_err + int" where
  "NormalizeMaxAttempts v =
     (if v = 0 then Inr DefaultMaxAttempts
      else if v < 1 \<or> v > MaxMaxAttempts then Inl (Sentinel JErrInvalidMaxAttempts)
      else Inr v)"

lemma NormalizeMaxAttempts_range: "NormalizeMaxAttempts v = Inr m \<Longrightarrow> 1 \<le> m \<and> m \<le> 10"
  by (auto simp: NormalizeMaxAttempts_def DefaultMaxAttempts_def MaxMaxAttempts_def split: if_splits)

section \<open>Jobs\<close>

datatype Status =
    StatusPublishing | StatusPublishFailed | StatusQueued | StatusProcessing | StatusRetrying
  | StatusSucceeded | StatusFailed | StatusOther string

record Job =
  jo_ID :: string
  jo_Type :: string
  jo_Status :: Status
  jo_CurrentAttempt :: int
  jo_MaxAttempts :: int
  jo_CreatedAt :: Time
  jo_QueuedAt :: "Time option"
  jo_StartedAt :: "Time option"
  jo_CompletedAt :: "Time option"
  jo_UpdatedAt :: Time
  jo_LastError :: string
  jo_ResultMessage :: string
  jo_OutputPath :: string
  jo_AffectedRows :: int

record ExecutionResult =
  er_Message :: string
  er_OutputPath :: string
  er_AffectedRows :: int

definition NewPublishingJob :: "Envelope \<Rightarrow> Time \<Rightarrow> Job" where
  "NewPublishingJob envelope now =
     \<lparr>jo_ID = en_ID envelope, jo_Type = en_Type envelope, jo_Status = StatusPublishing,
      jo_CurrentAttempt = 0, jo_MaxAttempts = en_MaxAttempts envelope,
      jo_CreatedAt = en_CreatedAt envelope, jo_QueuedAt = None, jo_StartedAt = None,
      jo_CompletedAt = None, jo_UpdatedAt = now, jo_LastError = '''', jo_ResultMessage = '''',
      jo_OutputPath = '''', jo_AffectedRows = 0\<rparr>"

definition status_Final :: "Status \<Rightarrow> bool" where
  "status_Final s \<longleftrightarrow> s = StatusSucceeded \<or> s = StatusFailed"

definition NormalizeFailureMessage :: "string \<Rightarrow> string" where
  "NormalizeFailureMessage v = TrimSpace v"

end
