(* ===== verification/Jobs_Amqp.thy ===== *)
theory Jobs_Amqp
  imports Jobs_Domain
begin

text \<open>
  \<open>internal/jobs/infrastructure/rabbitmq/publisher.go\<close>: the publisher with broker confirmations. The AMQP
  client library is a record of operations on a state \<open>'s\<close>; a deferred confirmation is its delivery
  tag, None for nil. Trace headers are a parameter and spans are not modelled.
\<close>

section \<open>The AMQP library\<close>

datatype amqp_value =
    AInt int | AInt8 int | AInt16 int | AInt32 int | AInt64 int
  | AUint8 int | AUint16 int | AUint32 int | AUint64 int
  | AString string | ABytes string | AOther

record Publishing =
  pub_Headers :: "(string \<times> amqp_value) list"
  pub_ContentType :: string
  pub_DeliveryMode :: int
  pub_MessageId :: string
  pub_Type :: string
  pub_Timestamp :: Time
  pub_Body :: string

record 's amqp_ops =
  aq_Dial :: "string \<Rightarrow> 's \<Rightarrow> jb_err option \<times> 's"
  aq_Channel :: "'s \<Rightarrow> jb_err option \<times> 's"
  aq_ExchangeDeclare :: "string \<Rightarrow> string \<Rightarrow> 's \<Rightarrow> jb_err option \<times> 's"
  aq_QueueDeclare :: "string \<Rightarrow> string \<Rightarrow> 's \<Rightarrow> jb_err option \<times> 's"
  aq_QueueBind :: "string \<Rightarrow> string \<Rightarrow> string \<Rightarrow> 's \<Rightarrow> jb_err option \<times> 's"
  aq_Confirm :: "'s \<Rightarrow> jb_err option \<times> 's"
  aq_Qos :: "int \<Rightarrow> 's \<Rightarrow> jb_err option \<times> 's"
  aq_Publish :: "Duration option \<Rightarrow> string \<Rightarrow> string \<Rightarrow> Publishing \<Rightarrow> 's \<Rightarrow> (jb_err + nat option) \<times> 's"
  aq_Wait :: "Duration option \<Rightarrow> nat \<Rightarrow> 's \<Rightarrow> (jb_err + bool) \<times> 's"
  aq_CloseChannel :: "'s \<Rightarrow> jb_err option \<times> 's"
  aq_CloseConnection :: "'s \<Rightarrow> jb_err option \<times> 's"
  aq_ConnectionClosed :: "'s \<Rightarrow> bool"
  aq_ChannelClosed :: "'s \<Rightarrow> bool"

definition amqp_ErrClosed :: jb_error where
  "amqp_ErrClosed = JbExternal ''channel/connection is not open''"

definition amqp_Persistent :: int where
  "amqp_Persistent = 2"

text \<open>Go's conversion \<open>int32(x)\<close>.\<close>

definition wrap32 :: "int \<Rightarrow> int" where
  "wrap32 x = signed_take_bit 31 x"

lemma wrap32_id: "- 2147483648 \<le> x \<Longrightarrow> x < 2147483648 \<Longrightarrow> wrap32 x = x"
  unfolding wrap32_def by (rule signed_take_bit_int_eq_self) simp_all

text \<open>\<open>Close\<close> of the publisher and of the consumer: both ends are closed, the first error other than
  \<open>amqp.ErrClosed\<close> is kept.\<close>

definition amqp_close_both :: "'s amqp_ops \<Rightarrow> 's \<Rightarrow> jb_err option \<times> 's" where
  "amqp_close_both ops s =
     (case aq_CloseChannel ops s of (cerr, s1) \<Rightarrow>
        let closeError = (case cerr of Some err \<Rightarrow> (if errors_is err amqp_ErrClosed then None else Some err) | None \<Rightarrow> None) in
        case aq_CloseConnection ops s1 of (xerr, s2) \<Rightarrow>
          (case xerr of
             Some err \<Rightarrow> (if \<not> errors_is err amqp_ErrClosed \<and> closeError = None then Some err else closeError)
           | None \<Rightarrow> closeError, s2))"

section \<open>The publisher\<close>

record PublisherConfig =
  pbc_URL :: string
  pbc_Exchange :: string
  pbc_Queue :: string
  pbc_PublishTimeout :: Duration

record Publisher =
  pb_exchange :: string
  pb_publishTimeout :: Duration
  pb_closed :: bool

definition publisher_declareTopology :: "'s amqp_ops \<Rightarrow> Publisher \<Rightarrow> string \<Rightarrow> 's \<Rightarrow> jb_err option \<times> 's" where
  "publisher_declareTopology ops p queueName s =
     (case aq_ExchangeDeclare ops (pb_exchange p) ''topic'' s of
        (Some err, s1) \<Rightarrow> (Some (Errorf ''declare jobs exchange: %w'' [err]), s1)
      | (None, s1) \<Rightarrow>
          (case aq_QueueDeclare ops queueName ''quorum'' s1 of
             (Some err, s2) \<Rightarrow> (Some (Errorf ''declare jobs queue: %w'' [err]), s2)
           | (None, s2) \<Rightarrow>
               (case aq_QueueBind ops queueName ''jobs.#'' (pb_exchange p) s2 of
                  (Some err, s3) \<Rightarrow> (Some (Errorf ''bind jobs queue: %w'' [err]), s3)
                | (None, s3) \<Rightarrow> (None, s3))))"

definition NewPublisher :: "'s amqp_ops \<Rightarrow> PublisherConfig \<Rightarrow> 's \<Rightarrow> (jb_err + Publisher) \<times> 's" where
  "NewPublisher ops config s =
     (case aq_Dial ops (pbc_URL config) s of
        (Some err, s1) \<Rightarrow> (Inl (Errorf ''dial RabbitMQ: %w'' [err]), s1)
      | (None, s1) \<Rightarrow>
          (case aq_Channel ops s1 of
             (Some err, s2) \<Rightarrow> (Inl (Errorf ''open RabbitMQ channel: %w'' [err]), snd (aq_CloseConnection ops s2))
           | (None, s2) \<Rightarrow>
               (let p = \<lparr>pb_exchange = pbc_Exchange config, pb_publishTimeout = pbc_PublishTimeout config,
                         pb_closed = False\<rparr> in
                case publisher_declareTopology ops p (pbc_Queue config) s2 of
                  (Some err, s3) \<Rightarrow> (Inl err, snd (amqp_close_both ops s3))
                | (None, s3) \<Rightarrow>
                    (case aq_Confirm ops s3 of
                       (Some err, s4) \<Rightarrow>
                         (Inl (Errorf ''enable RabbitMQ publisher confirms: %w'' [err]), snd (amqp_close_both ops s4))
                     | (None, s4) \<Rightarrow> (Inr p, s4)))))"

definition publish_headers :: "(string \<times> string) list \<Rightarrow> Envelope \<Rightarrow> (string \<times> amqp_value) list" where
  "publish_headers trace envelope =
     map (\<lambda>(name, v). (name, AString v)) (rev trace) @
     [(''schema-version'', AInt32 (wrap32 (en_SchemaVersion envelope))),
      (''attempt'', AInt32 (wrap32 (en_Attempt envelope))),
      (''max-attempts'', AInt32 (wrap32 (en_MaxAttempts envelope)))]"

definition publish_message :: "(string \<times> string) list \<Rightarrow> Envelope \<Rightarrow> string \<Rightarrow> Publishing" where
  "publish_message trace envelope body =
     \<lparr>pub_Headers = publish_headers trace envelope, pub_ContentType = ''application/json'',
      pub_DeliveryMode = amqp_Persistent, pub_MessageId = en_ID envelope, pub_Type = en_Type envelope,
      pub_Timestamp = en_CreatedAt envelope, pub_Body = body\<rparr>"

definition publisher_Publish ::
  "(string \<Rightarrow> bool) \<Rightarrow> (Envelope \<Rightarrow> string option) \<Rightarrow> (string \<times> string) list \<Rightarrow> 's amqp_ops \<Rightarrow> Publisher \<Rightarrow>
   Envelope \<Rightarrow> 's \<Rightarrow> jb_err option \<times> 's" where
  "publisher_Publish json_Valid json_MarshalEnvelope trace ops p envelope s =
     (case envelope_Validate json_Valid envelope of
        Some err \<Rightarrow> (Some (Errorf ''validate job envelope: %w'' [err]), s)
      | None \<Rightarrow>
          (case json_MarshalEnvelope envelope of
             None \<Rightarrow> (Some (Errorf ''marshal job envelope: %w'' [Sentinel (JbExternal ''json'')]), s)
           | Some body \<Rightarrow>
               if pb_closed p then (Some (Sentinel QErrPublisherClosed), s)
               else
                 (let timeout = (if pb_publishTimeout p > 0 then Some (pb_publishTimeout p) else None) in
                 case aq_Publish ops timeout (pb_exchange p) (en_Type envelope) (publish_message trace envelope body) s of
                   (Inl err, s1) \<Rightarrow> (Some (Errorf ''publish RabbitMQ message: %w'' [err]), s1)
                 | (Inr None, s1) \<Rightarrow> (Some (Sentinel QErrPublishNotConfirmed), s1)
                 | (Inr (Some confirmation), s1) \<Rightarrow>
                     (case aq_Wait ops timeout confirmation s1 of
                        (Inl err, s2) \<Rightarrow> (Some (Errorf ''wait for RabbitMQ publish confirmation: %w'' [err]), s2)
                      | (Inr acknowledged, s2) \<Rightarrow>
                          (if \<not> acknowledged then (Some (Sentinel QErrPublishNotConfirmed), s2) else (None, s2))))))"

definition publisher_Ping :: "'s amqp_ops \<Rightarrow> Publisher \<Rightarrow> 's \<Rightarrow> jb_err option" where
  "publisher_Ping ops p s =
     (if pb_closed p \<or> aq_ConnectionClosed ops s \<or> aq_ChannelClosed ops s then Some (Sentinel QErrPublisherClosed)
      else None)"

definition publisher_Close :: "'s amqp_ops \<Rightarrow> Publisher \<Rightarrow> 's \<Rightarrow> jb_err option \<times> Publisher \<times> 's" where
  "publisher_Close ops p s =
     (if pb_closed p then (None, p, s)
      else case amqp_close_both ops s of (err, s1) \<Rightarrow> (err, p\<lparr>pb_closed := True\<rparr>, s1))"

text \<open>A nil error means that the broker has confirmed a persistent message for this envelope.\<close>

lemma Publish_confirmed:
  assumes "publisher_Publish jv jm trace ops p e s = (None, s')"
  obtains body tag s1 where "envelope_Validate jv e = None" "jm e = Some body" "\<not> pb_closed p"
    "aq_Publish ops (if pb_publishTimeout p > 0 then Some (pb_publishTimeout p) else None) (pb_exchange p) (en_Type e)
       (publish_message trace e body) s = (Inr (Some tag), s1)"
    "aq_Wait ops (if pb_publishTimeout p > 0 then Some (pb_publishTimeout p) else None) tag s1 = (Inr True, s')"
  using assms
  by (auto simp: publisher_Publish_def Let_def split: option.splits if_splits prod.splits sum.splits)

lemma Publish_closed: "pb_closed p \<Longrightarrow> \<exists>err. publisher_Publish jv jm trace ops p e s = (Some err, s)"
  by (auto simp: publisher_Publish_def split: option.splits)

end
