(* ===== verification/Platform_Events.thy ===== *)
theory Platform_Events
  imports Go_Encoding
begin

text \<open>
  \<open>internal/platform/events/gateway_access.go\<close>: the access event that the gateway publishes to
  Kafka and the analytics worker consumes, and its validation. \<open>Validate\<close> returns the reason of
  the first failed test; the constructors of \<open>event_error\<close> are its messages in the order of the
  source.
\<close>

definition GatewayAccessEventType :: string where
  "GatewayAccessEventType = ''gateway.access''"

definition GatewayAccessEventSchemaVersion :: int where
  "GatewayAccessEventSchemaVersion = 1"

definition ClientTypeAPIKey :: string where
  "ClientTypeAPIKey = ''api_key''"

definition ClientTypeIP :: string where
  "ClientTypeIP = ''ip''"

record GatewayAccessEvent =
  ev_SchemaVersion :: int
  ev_EventID :: string
  ev_OccurredAt :: Time
  ev_RequestID :: string
  ev_ProjectID :: string
  ev_RouteName :: string
  ev_RoutePathPrefix :: string
  ev_Method :: string
  ev_RequestPath :: string
  ev_StatusCode :: int
  ev_DurationMS :: int
  ev_ResponseBytes :: int
  ev_ClientType :: string
  ev_ClientID :: string
  ev_AuthRequired :: bool
  ev_RateLimitEnabled :: bool
  ev_RateLimited :: bool

datatype event_error =
    EvUnsupportedSchema int
  | EvIDRequired
  | EvOccurredAtRequired
  | EvRequestIDRequired
  | EvInvalidProjectID string
  | EvMethodRequired
  | EvRequestPathRequired
  | EvInvalidStatusCode int
  | EvNegativeDuration
  | EvNegativeResponseBytes
  | EvUnsupportedClientType string
  | EvClientIDRequired

definition isCanonicalUUID :: "string \<Rightarrow> bool" where
  "isCanonicalUUID value =
     (if length value \<noteq> 36 \<or> value ! 8 \<noteq> CHR ''-'' \<or> value ! 13 \<noteq> CHR ''-'' \<or>
         value ! 18 \<noteq> CHR ''-'' \<or> value ! 23 \<noteq> CHR ''-''
      then False
      else (let compact = remove_byte (CHR ''-'') value in
            if length compact \<noteq> 32 then False
            else hex_DecodeString compact \<noteq> None))"

definition event_Validate :: "GatewayAccessEvent \<Rightarrow> event_error option" where
  "event_Validate e =
     (if ev_SchemaVersion e \<noteq> GatewayAccessEventSchemaVersion
        then Some (EvUnsupportedSchema (ev_SchemaVersion e))
      else if TrimSpace (ev_EventID e) = '''' then Some EvIDRequired
      else if IsZero (ev_OccurredAt e) then Some EvOccurredAtRequired
      else if TrimSpace (ev_RequestID e) = '''' then Some EvRequestIDRequired
      else if TrimSpace (ev_ProjectID e) \<noteq> '''' \<and> \<not> isCanonicalUUID (TrimSpace (ev_ProjectID e))
        then Some (EvInvalidProjectID (TrimSpace (ev_ProjectID e)))
      else if TrimSpace (ev_Method e) = '''' then Some EvMethodRequired
      else if TrimSpace (ev_RequestPath e) = '''' then Some EvRequestPathRequired
      else if ev_StatusCode e < 100 \<or> ev_StatusCode e > 599
        then Some (EvInvalidStatusCode (ev_StatusCode e))
      else if ev_DurationMS e < 0 then Some EvNegativeDuration
      else if ev_ResponseBytes e < 0 then Some EvNegativeResponseBytes
      else if ev_ClientType e \<noteq> ClientTypeAPIKey \<and> ev_ClientType e \<noteq> ClientTypeIP
        then Some (EvUnsupportedClientType (ev_ClientType e))
      else if TrimSpace (ev_ClientID e) = '''' then Some EvClientIDRequired
      else None)"

text \<open>What a valid event satisfies, as one conjunction.\<close>

lemma event_valid_iff:
  "event_Validate e = None \<longleftrightarrow>
     ev_SchemaVersion e = 1 \<and> TrimSpace (ev_EventID e) \<noteq> '''' \<and> ev_OccurredAt e \<noteq> 0 \<and>
     TrimSpace (ev_RequestID e) \<noteq> '''' \<and>
     (TrimSpace (ev_ProjectID e) = '''' \<or> isCanonicalUUID (TrimSpace (ev_ProjectID e))) \<and>
     TrimSpace (ev_Method e) \<noteq> '''' \<and> TrimSpace (ev_RequestPath e) \<noteq> '''' \<and>
     100 \<le> ev_StatusCode e \<and> ev_StatusCode e \<le> 599 \<and> 0 \<le> ev_DurationMS e \<and>
     0 \<le> ev_ResponseBytes e \<and>
     (ev_ClientType e = ''api_key'' \<or> ev_ClientType e = ''ip'') \<and>
     TrimSpace (ev_ClientID e) \<noteq> ''''"
  unfolding event_Validate_def GatewayAccessEventSchemaVersion_def ClientTypeAPIKey_def
    ClientTypeIP_def IsZero_def
  by (auto split: if_splits)

text \<open>The UUID test accepts exactly the 8-4-4-4-12 shape over hexadecimal digits.\<close>

lemma hex_Decode_total:
  "(\<exists>bs. hex_DecodeString s = Some bs) \<longleftrightarrow> even (length s) \<and> (\<forall>c\<in>set s. hex_val c \<noteq> None)"
  by (induction s rule: hex_DecodeString.induct) (auto split: option.splits)

lemma isCanonicalUUID_chars:
  assumes "isCanonicalUUID v"
  shows "length v = 36" and "c \<in> set v \<Longrightarrow> c = CHR ''-'' \<or> hex_val c \<noteq> None"
proof -
  show "length v = 36" using assms by (simp add: isCanonicalUUID_def split: if_splits)
  assume c: "c \<in> set v"
  from assms obtain bs where "hex_DecodeString (remove_byte (CHR ''-'') v) = Some bs"
    by (auto simp: isCanonicalUUID_def Let_def split: if_splits)
  then have "\<forall>x\<in>set (remove_byte (CHR ''-'') v). hex_val x \<noteq> None"
    using hex_Decode_total by blast
  with c show "c = CHR ''-'' \<or> hex_val c \<noteq> None" by (auto simp: remove_byte_def)
qed

end
