(* ===== verification/Analytics_Store.thy ===== *)
theory Analytics_Store
  imports Platform_Events Platform_Postgres Complex_Main
begin

text \<open>
  \<open>internal/analytics/domain\<close> and \<open>internal/analytics/infrastructure/postgres\<close>: the tables of
  \<open>migrations/000004_create_gateway_analytics.sql\<close>, the ingestion of access events with the hourly
  statistics kept in the same transaction, and the two queries on the statistics. Averages are exact
  quotients; the rounding of \<open>double precision\<close> is not modelled. The collation of text in an ORDER BY
  is a parameter.
\<close>

section \<open>Errors and data\<close>

datatype an_error =
    NErrInvalidGatewayAccessEvent
  | NErrInvalidProjectID
  | NErrInvalidTimeRange
  | NErrAnalyticsRangeTooLarge
  | NErrInvalidLimit
  | NPg pg_error
  | NExternal string

type_synonym an_err = "an_error goerr"

record IngestionResult =
  ir_Duplicate :: bool
  ir_Aggregated :: bool

record RouteStatsFilter =
  rf_ProjectID :: string
  rf_From :: Time
  rf_To :: Time
  rf_RouteName :: string
  rf_Method :: string

record RouteStatsSummary =
  rs_RequestCount :: int
  rs_Status1xxCount :: int
  rs_Status2xxCount :: int
  rs_Status3xxCount :: int
  rs_Status4xxCount :: int
  rs_Status5xxCount :: int
  rs_RateLimitedCount :: int
  rs_AverageDurationMS :: rat
  rs_MaxDurationMS :: int
  rs_TotalResponseBytes :: int

record RouteStatsHourly =
  rh_BucketStart :: Time
  rh_RouteName :: string
  rh_RoutePathPrefix :: string
  rh_Method :: string
  rh_RequestCount :: int
  rh_Status1xxCount :: int
  rh_Status2xxCount :: int
  rh_Status3xxCount :: int
  rh_Status4xxCount :: int
  rh_Status5xxCount :: int
  rh_RateLimitedCount :: int
  rh_AverageDurationMS :: rat
  rh_MaxDurationMS :: int
  rh_TotalResponseBytes :: int

section \<open>Tables\<close>

record AccessRow =
  ae_event_id :: string
  ae_schema_version :: int
  ae_occurred_at :: Time
  ae_request_id :: string
  ae_project_id :: "string option"
  ae_route_name :: "string option"
  ae_route_path_prefix :: "string option"
  ae_method :: string
  ae_request_path :: string
  ae_status_code :: int
  ae_duration_ms :: int
  ae_response_bytes :: int
  ae_client_type :: string
  ae_client_id :: string
  ae_auth_required :: bool
  ae_rate_limit_enabled :: bool
  ae_rate_limited :: bool
  ae_ingested_at :: Time

record StatsRow =
  sr_bucket_start :: Time
  sr_project_id :: string
  sr_route_name :: string
  sr_route_path_prefix :: string
  sr_method :: string
  sr_request_count :: int
  sr_status_1xx_count :: int
  sr_status_2xx_count :: int
  sr_status_3xx_count :: int
  sr_status_4xx_count :: int
  sr_status_5xx_count :: int
  sr_rate_limited_count :: int
  sr_total_duration_ms :: int
  sr_max_duration_ms :: int
  sr_total_response_bytes :: int
  sr_updated_at :: Time

record analytics_db =
  db_events :: "AccessRow list"
  db_stats :: "StatsRow list"

type_synonym 'z analytics_state = "(analytics_db, 'z) pg_scheme"

type_synonym stats_id = "Time \<times> string \<times> string \<times> string \<times> string"

definition stats_key :: "StatsRow \<Rightarrow> stats_id" where
  "stats_key r = (sr_bucket_start r, sr_project_id r, sr_route_name r, sr_route_path_prefix r, sr_method r)"

definition nullif_empty :: "string \<Rightarrow> string option" where
  "nullif_empty v = (if v = '''' then None else Some v)"

text \<open>The check constraints of the two tables and the range of \<open>bigint\<close>.\<close>

definition access_check :: "AccessRow \<Rightarrow> bool" where
  "access_check r \<longleftrightarrow> ae_schema_version r > 0 \<and> 100 \<le> ae_status_code r \<and> ae_status_code r \<le> 599 \<and>
     ae_duration_ms r \<ge> 0 \<and> ae_response_bytes r \<ge> 0 \<and> ae_client_type r \<in> {''api_key'', ''ip''}"

definition stats_counters :: "StatsRow \<Rightarrow> int list" where
  "stats_counters r = [sr_request_count r, sr_status_1xx_count r, sr_status_2xx_count r, sr_status_3xx_count r,
     sr_status_4xx_count r, sr_status_5xx_count r, sr_rate_limited_count r, sr_total_duration_ms r,
     sr_max_duration_ms r, sr_total_response_bytes r]"

section \<open>Statements\<close>

definition insertGatewayAccessEventQuery :: "pg_env \<Rightarrow> GatewayAccessEvent \<Rightarrow> (analytics_db, string) sql" where
  "insertGatewayAccessEventQuery env p n db =
     (if \<not> int4_ok (ev_SchemaVersion p) \<or> \<not> int4_ok (ev_StatusCode p) then Inl int4_error
      else
        case (case nullif_empty (ev_ProjectID p) of None \<Rightarrow> Some None | Some v \<Rightarrow> map_option Some (pe_uuid env v)) of
          None \<Rightarrow> Inl (PgError invalidTextCode '''')
        | Some project \<Rightarrow>
            (let row = \<lparr>ae_event_id = ev_EventID p, ae_schema_version = ev_SchemaVersion p,
                        ae_occurred_at = pg_time (ev_OccurredAt p), ae_request_id = ev_RequestID p,
                        ae_project_id = project, ae_route_name = nullif_empty (ev_RouteName p),
                        ae_route_path_prefix = nullif_empty (ev_RoutePathPrefix p), ae_method = ev_Method p,
                        ae_request_path = ev_RequestPath p, ae_status_code = ev_StatusCode p,
                        ae_duration_ms = ev_DurationMS p, ae_response_bytes = ev_ResponseBytes p,
                        ae_client_type = ev_ClientType p, ae_client_id = ev_ClientID p,
                        ae_auth_required = ev_AuthRequired p, ae_rate_limit_enabled = ev_RateLimitEnabled p,
                        ae_rate_limited = ev_RateLimited p, ae_ingested_at = pe_now env n\<rparr> in
             if \<not> access_check row then Inl (PgError checkViolationCode ''gateway_access_events_check'')
             else if ae_event_id row \<in> ae_event_id ` set (db_events db) then Inl ErrNoRows
             else Inr (ae_event_id row, db\<lparr>db_events := db_events db @ [row]\<rparr>)))"

definition numericOutOfRangeCode :: string where
  "numericOutOfRangeCode = ''22003''"

text \<open>The right-hand sides of DO UPDATE SET.\<close>

definition add_stats :: "StatsRow \<Rightarrow> StatsRow \<Rightarrow> StatsRow" where
  "add_stats ex r = r\<lparr>
     sr_request_count := sr_request_count r + 1,
     sr_status_1xx_count := sr_status_1xx_count r + sr_status_1xx_count ex,
     sr_status_2xx_count := sr_status_2xx_count r + sr_status_2xx_count ex,
     sr_status_3xx_count := sr_status_3xx_count r + sr_status_3xx_count ex,
     sr_status_4xx_count := sr_status_4xx_count r + sr_status_4xx_count ex,
     sr_status_5xx_count := sr_status_5xx_count r + sr_status_5xx_count ex,
     sr_rate_limited_count := sr_rate_limited_count r + sr_rate_limited_count ex,
     sr_total_duration_ms := sr_total_duration_ms r + sr_total_duration_ms ex,
     sr_max_duration_ms := max (sr_max_duration_ms r) (sr_max_duration_ms ex),
     sr_total_response_bytes := sr_total_response_bytes r + sr_total_response_bytes ex,
     sr_updated_at := sr_updated_at ex\<rparr>"

text \<open>The argument carries the parameters of the statement in the columns they are inserted into.\<close>

definition upsertGatewayRouteStatsHourlyQuery :: "pg_env \<Rightarrow> StatsRow \<Rightarrow> (analytics_db, unit) sql" where
  "upsertGatewayRouteStatsHourlyQuery env p n db =
     (case pe_uuid env (sr_project_id p) of
        None \<Rightarrow> Inl (PgError invalidTextCode '''')
      | Some project \<Rightarrow>
          (let row = p\<lparr>sr_bucket_start := pg_time (sr_bucket_start p), sr_project_id := project,
                       sr_request_count := 1, sr_max_duration_ms := sr_total_duration_ms p, sr_updated_at := pe_now env n\<rparr>;
               same = (\<lambda>r. stats_key r = stats_key row) in
           if \<exists>x\<in>set (stats_counters row). x < 0 \<or> \<not> int64_range x
             then Inl (PgError checkViolationCode ''gateway_route_stats_hourly_check'')
           else
             (case find_row same (db_stats db) of
                None \<Rightarrow> Inr ((), db\<lparr>db_stats := db_stats db @ [row]\<rparr>)
              | Some old \<Rightarrow>
                  if \<exists>x\<in>set (stats_counters (add_stats row old)). \<not> int64_range x
                    then Inl (PgError numericOutOfRangeCode '''')
                  else Inr ((), db\<lparr>db_stats := update_rows same (add_stats row) (db_stats db)\<rparr>))))"

definition in_filter :: "pg_env \<Rightarrow> string \<Rightarrow> RouteStatsFilter \<Rightarrow> StatsRow \<Rightarrow> bool" where
  "in_filter env project f r \<longleftrightarrow> sr_project_id r = project \<and> sr_bucket_start r \<ge> pg_time (rf_From f) \<and>
     sr_bucket_start r < pg_time (rf_To f) \<and> (rf_RouteName f = '''' \<or> sr_route_name r = rf_RouteName f) \<and>
     (rf_Method f = '''' \<or> sr_method r = rf_Method f)"

definition average :: "int \<Rightarrow> int \<Rightarrow> rat" where
  "average t n = (if n = 0 then 0 else of_int t / of_int n)"

text \<open>A sum of \<open>bigint\<close> values is \<open>numeric\<close>; reading it back into an \<open>int64\<close> fails outside its range.\<close>

definition getRouteStatsSummaryQuery :: "pg_env \<Rightarrow> RouteStatsFilter \<Rightarrow> (analytics_db, RouteStatsSummary) sql" where
  "getRouteStatsSummaryQuery env f n db =
     (case pe_uuid env (rf_ProjectID f) of
        None \<Rightarrow> Inl (PgError invalidTextCode '''')
      | Some project \<Rightarrow>
          (let rows = filter (in_filter env project f) (db_stats db);
               colsum = (\<lambda>c. sum_list (map c rows));
               res = \<lparr>rs_RequestCount = colsum sr_request_count, rs_Status1xxCount = colsum sr_status_1xx_count,
                      rs_Status2xxCount = colsum sr_status_2xx_count, rs_Status3xxCount = colsum sr_status_3xx_count,
                      rs_Status4xxCount = colsum sr_status_4xx_count, rs_Status5xxCount = colsum sr_status_5xx_count,
                      rs_RateLimitedCount = colsum sr_rate_limited_count,
                      rs_AverageDurationMS = average (colsum sr_total_duration_ms) (colsum sr_request_count),
                      rs_MaxDurationMS = (case map sr_max_duration_ms rows of [] \<Rightarrow> 0 | x # xs \<Rightarrow> fold max xs x),
                      rs_TotalResponseBytes = colsum sr_total_response_bytes\<rparr> in
           if \<forall>x\<in>set [rs_RequestCount res, rs_Status1xxCount res, rs_Status2xxCount res, rs_Status3xxCount res,
                rs_Status4xxCount res, rs_Status5xxCount res, rs_RateLimitedCount res, rs_TotalResponseBytes res].
                int64_range x
           then Inr (res, db) else Inl (ConnError ''scan numeric into int64'')))"

definition hourly_item :: "StatsRow \<Rightarrow> RouteStatsHourly" where
  "hourly_item r = \<lparr>rh_BucketStart = sr_bucket_start r, rh_RouteName = sr_route_name r,
     rh_RoutePathPrefix = sr_route_path_prefix r, rh_Method = sr_method r, rh_RequestCount = sr_request_count r,
     rh_Status1xxCount = sr_status_1xx_count r, rh_Status2xxCount = sr_status_2xx_count r,
     rh_Status3xxCount = sr_status_3xx_count r, rh_Status4xxCount = sr_status_4xx_count r,
     rh_Status5xxCount = sr_status_5xx_count r, rh_RateLimitedCount = sr_rate_limited_count r,
     rh_AverageDurationMS = average (sr_total_duration_ms r) (sr_request_count r),
     rh_MaxDurationMS = sr_max_duration_ms r, rh_TotalResponseBytes = sr_total_response_bytes r\<rparr>"

definition stats_before :: "(string \<Rightarrow> string \<Rightarrow> bool) \<Rightarrow> StatsRow \<Rightarrow> StatsRow \<Rightarrow> bool" where
  "stats_before collate a b \<longleftrightarrow> sr_bucket_start a < sr_bucket_start b \<or>
     sr_bucket_start a = sr_bucket_start b \<and>
     (collate (sr_route_name a) (sr_route_name b) \<or>
      sr_route_name a = sr_route_name b \<and> collate (sr_method a) (sr_method b))"

definition listRouteStatsHourlyQuery ::
  "pg_env \<Rightarrow> (string \<Rightarrow> string \<Rightarrow> bool) \<Rightarrow> RouteStatsFilter \<Rightarrow> int \<Rightarrow> (analytics_db, RouteStatsHourly list) sql" where
  "listRouteStatsHourlyQuery env collate f limit n db =
     (case pe_uuid env (rf_ProjectID f) of
        None \<Rightarrow> Inl (PgError invalidTextCode '''')
      | Some project \<Rightarrow>
          if limit < 0 then Inl (PgError ''2201W'' '''')
          else Inr (map hourly_item (take (nat limit) (order_by (stats_before collate)
                      (filter (in_filter env project f) (db_stats db)))), db))"

section \<open>Repository methods\<close>

text \<open>The pool of a repository; None for a nil repository or pool.\<close>

type_synonym analytics_pool = "pg_env option"

definition an_pg :: "string \<Rightarrow> pg_error \<Rightarrow> an_err" where
  "an_pg msg err = Errorf msg [Sentinel (NPg err)]"

definition shouldAggregate :: "GatewayAccessEvent \<Rightarrow> bool" where
  "shouldAggregate event \<longleftrightarrow> TrimSpace (ev_ProjectID event) \<noteq> '''' \<and> TrimSpace (ev_RouteName event) \<noteq> '''' \<and>
     TrimSpace (ev_RoutePathPrefix event) \<noteq> ''''"

record statusCounts =
  sc_status1xx :: int
  sc_status2xx :: int
  sc_status3xx :: int
  sc_status4xx :: int
  sc_status5xx :: int

definition statusClassCounts :: "int \<Rightarrow> statusCounts" where
  "statusClassCounts statusCode =
     (let counts = \<lparr>sc_status1xx = 0, sc_status2xx = 0, sc_status3xx = 0, sc_status4xx = 0, sc_status5xx = 0\<rparr>;
          class = statusCode sdiv 100 in
      if class = 1 then counts\<lparr>sc_status1xx := 1\<rparr>
      else if class = 2 then counts\<lparr>sc_status2xx := 1\<rparr>
      else if class = 3 then counts\<lparr>sc_status3xx := 1\<rparr>
      else if class = 4 then counts\<lparr>sc_status4xx := 1\<rparr>
      else if class = 5 then counts\<lparr>sc_status5xx := 1\<rparr>
      else counts)"

definition access_params :: "case_tables \<Rightarrow> GatewayAccessEvent \<Rightarrow> GatewayAccessEvent" where
  "access_params tab event = event\<lparr>ev_ProjectID := TrimSpace (ev_ProjectID event),
     ev_RouteName := TrimSpace (ev_RouteName event), ev_RoutePathPrefix := TrimSpace (ev_RoutePathPrefix event),
     ev_Method := ToUpper tab (TrimSpace (ev_Method event))\<rparr>"

definition stats_params :: "case_tables \<Rightarrow> GatewayAccessEvent \<Rightarrow> StatsRow" where
  "stats_params tab event =
     (let counts = statusClassCounts (ev_StatusCode event) in
      \<lparr>sr_bucket_start = time_Truncate (ev_OccurredAt event) Hour, sr_project_id = TrimSpace (ev_ProjectID event),
       sr_route_name = TrimSpace (ev_RouteName event), sr_route_path_prefix = TrimSpace (ev_RoutePathPrefix event),
       sr_method = ToUpper tab (TrimSpace (ev_Method event)), sr_request_count = 1,
       sr_status_1xx_count = sc_status1xx counts, sr_status_2xx_count = sc_status2xx counts,
       sr_status_3xx_count = sc_status3xx counts, sr_status_4xx_count = sc_status4xx counts,
       sr_status_5xx_count = sc_status5xx counts, sr_rate_limited_count = (if ev_RateLimited event then 1 else 0),
       sr_total_duration_ms = ev_DurationMS event, sr_max_duration_ms = ev_DurationMS event,
       sr_total_response_bytes = ev_ResponseBytes event, sr_updated_at = 0\<rparr>)"

definition StoreGatewayAccess ::
  "case_tables \<Rightarrow> analytics_pool \<Rightarrow> GatewayAccessEvent \<Rightarrow> 'z analytics_state \<Rightarrow>
   (an_err + IngestionResult) \<times> 'z analytics_state" where
  "StoreGatewayAccess tab pool event s =
     (case pool of
        None \<Rightarrow> (Inl (Errorf ''postgres pool is required'' []), s)
      | Some env \<Rightarrow>
          (case pg_begin env s of
             (Inl err, s1) \<Rightarrow> (Inl (an_pg ''begin gateway analytics transaction: %w'' err), s1)
           | (Inr _, s1) \<Rightarrow>
               (case pg_exec env (insertGatewayAccessEventQuery env (access_params tab event)) s1 of
                  (Inl err, s2) \<Rightarrow>
                    (if err = ErrNoRows then (Inr \<lparr>ir_Duplicate = True, ir_Aggregated = False\<rparr>, pg_rollback s1 s2)
                     else (Inl (an_pg ''insert gateway access event: %w'' err), pg_rollback s1 s2))
                | (Inr _, s2) \<Rightarrow>
                    (let aggregated = shouldAggregate event in
                     case (if aggregated
                           then pg_exec env (upsertGatewayRouteStatsHourlyQuery env (stats_params tab event)) s2
                           else (Inr (), s2)) of
                       (Inl err, s3) \<Rightarrow> (Inl (an_pg ''upsert gateway route hourly stats: %w'' err), pg_rollback s1 s3)
                     | (Inr _, s3) \<Rightarrow>
                         (case pg_commit env s1 s3 of
                            (Inl err, s4) \<Rightarrow> (Inl (an_pg ''commit gateway analytics transaction: %w'' err), s4)
                          | (Inr _, s4) \<Rightarrow> (Inr \<lparr>ir_Duplicate = False, ir_Aggregated = aggregated\<rparr>, s4))))))"

definition repo_GetRouteStatsSummary ::
  "analytics_pool \<Rightarrow> RouteStatsFilter \<Rightarrow> 'z analytics_state \<Rightarrow> (an_err + RouteStatsSummary) \<times> 'z analytics_state" where
  "repo_GetRouteStatsSummary pool f s =
     (case pool of
        None \<Rightarrow> (Inl (Errorf ''postgres pool is required'' []), s)
      | Some env \<Rightarrow>
          (case pg_exec env (getRouteStatsSummaryQuery env f) s of
             (Inl err, s1) \<Rightarrow> (Inl (an_pg ''query route stats summary: %w'' err), s1)
           | (Inr summary, s1) \<Rightarrow> (Inr summary, s1)))"

definition repo_ListRouteStatsHourly ::
  "(string \<Rightarrow> string \<Rightarrow> bool) \<Rightarrow> analytics_pool \<Rightarrow> RouteStatsFilter \<Rightarrow> int \<Rightarrow> 'z analytics_state \<Rightarrow>
   (an_err + RouteStatsHourly list) \<times> 'z analytics_state" where
  "repo_ListRouteStatsHourly collate pool f limit s =
     (case pool of
        None \<Rightarrow> (Inl (Errorf ''postgres pool is required'' []), s)
      | Some env \<Rightarrow>
          (case pg_exec env (listRouteStatsHourlyQuery env collate f limit) s of
             (Inl err, s1) \<Rightarrow> (Inl (an_pg ''query hourly route stats: %w'' err), s1)
           | (Inr items, s1) \<Rightarrow> (Inr items, s1)))"

section \<open>The statistics as a function of the events\<close>

text \<open>The hourly statistics an event belongs to; None when it is not aggregated.\<close>

definition event_key :: "AccessRow \<Rightarrow> stats_id option" where
  "event_key e =
     (case (ae_project_id e, ae_route_name e, ae_route_path_prefix e) of
        (Some p, Some n, Some x) \<Rightarrow> Some (time_Truncate (ae_occurred_at e) Hour, p, n, x, ae_method e)
      | _ \<Rightarrow> None)"

definition status_class :: "int \<Rightarrow> AccessRow \<Rightarrow> bool" where
  "status_class k e \<longleftrightarrow> ae_status_code e div 100 = k"

definition tally :: "('a \<Rightarrow> bool) \<Rightarrow> 'a list \<Rightarrow> int" where
  "tally P xs = int (length (filter P xs))"

text \<open>A row of statistics is exact when each of its columns is computed from the events of its key.\<close>

definition stats_exact :: "AccessRow list \<Rightarrow> StatsRow \<Rightarrow> bool" where
  "stats_exact evs r \<longleftrightarrow>
     (let m = filter (\<lambda>e. event_key e = Some (stats_key r)) evs in
      sr_request_count r = int (length m) \<and> sr_status_1xx_count r = tally (status_class 1) m \<and>
      sr_status_2xx_count r = tally (status_class 2) m \<and> sr_status_3xx_count r = tally (status_class 3) m \<and>
      sr_status_4xx_count r = tally (status_class 4) m \<and> sr_status_5xx_count r = tally (status_class 5) m \<and>
      sr_rate_limited_count r = tally ae_rate_limited m \<and>
      sr_total_duration_ms r = sum_list (map ae_duration_ms m) \<and>
      sr_max_duration_ms r = fold max (map ae_duration_ms m) 0 \<and>
      sr_total_response_bytes r = sum_list (map ae_response_bytes m))"

definition analytics_ok :: "analytics_db \<Rightarrow> bool" where
  "analytics_ok db \<longleftrightarrow> distinct (map ae_event_id (db_events db)) \<and> distinct (map stats_key (db_stats db)) \<and>
     (\<forall>e\<in>set (db_events db). access_check e) \<and>
     (\<forall>r\<in>set (db_stats db). stats_exact (db_events db) r) \<and>
     (\<forall>e\<in>set (db_events db). \<forall>k. event_key e = Some k \<longrightarrow> k \<in> stats_key ` set (db_stats db))"

section \<open>One more event\<close>

lemma tally_append [simp]: "tally P (xs @ [x]) = tally P xs + (if P x then 1 else 0)"
  by (simp add: tally_def)

lemma tally_Nil [simp]: "tally P [] = 0"
  by (simp add: tally_def)

lemma time_Truncate_pg_time: "time_Truncate (pg_time t) Hour = time_Truncate t Hour"
proof -
  have "t div 1000 * 1000 div 3600000000000 = t div 3600000000000" for t :: int
    using zdiv_zmult2_eq [of 3600000000 "t div 1000 * 1000" 1000] zdiv_zmult2_eq [of 3600000000 t 1000] by simp
  then show ?thesis by (simp add: time_Truncate_def pg_time_def Hour_def minus_mod_eq_mult_div mult.commute)
qed

lemma pg_time_Truncate: "pg_time (time_Truncate t Hour) = time_Truncate t Hour"
proof -
  have "1000 dvd time_Truncate t Hour"
    using dvd_trans [of 1000 Hour] time_Truncate_dvd [of Hour t] by (simp add: Hour_def)
  then show ?thesis by (simp add: pg_time_def)
qed

text \<open>What the row of one event contributes to the statistics.\<close>

definition event_stats :: "AccessRow \<Rightarrow> StatsRow \<Rightarrow> bool" where
  "event_stats e x \<longleftrightarrow> sr_status_1xx_count x = (if status_class 1 e then 1 else 0) \<and>
     sr_status_2xx_count x = (if status_class 2 e then 1 else 0) \<and>
     sr_status_3xx_count x = (if status_class 3 e then 1 else 0) \<and>
     sr_status_4xx_count x = (if status_class 4 e then 1 else 0) \<and>
     sr_status_5xx_count x = (if status_class 5 e then 1 else 0) \<and>
     sr_rate_limited_count x = (if ae_rate_limited e then 1 else 0) \<and>
     sr_total_duration_ms x = ae_duration_ms e \<and> sr_max_duration_ms x = ae_duration_ms e \<and>
     sr_total_response_bytes x = ae_response_bytes e"

lemma stats_key_add [simp]: "stats_key (add_stats x r) = stats_key r"
  by (simp add: stats_key_def add_stats_def)

lemma stats_exact_other:
  "stats_exact evs r \<Longrightarrow> event_key e \<noteq> Some (stats_key r) \<Longrightarrow> stats_exact (evs @ [e]) r"
  by (simp add: stats_exact_def)

lemma stats_exact_add:
  assumes "stats_exact evs r" and "event_key e = Some (stats_key r)" and "event_stats e x"
  shows "stats_exact (evs @ [e]) (add_stats x r)"
  using assms by (simp add: stats_exact_def Let_def event_stats_def add_stats_def stats_key_def max.commute)

lemma stats_exact_new:
  assumes "\<forall>e'\<in>set evs. event_key e' \<noteq> Some (stats_key x)" and "event_key e = Some (stats_key x)"
    and "event_stats e x" and "sr_request_count x = 1" and "ae_duration_ms e \<ge> 0"
  shows "stats_exact (evs @ [e]) x"
proof -
  have "filter (\<lambda>e. event_key e = Some (stats_key x)) evs = []" using assms(1) by (simp add: filter_empty_conv)
  with assms show ?thesis by (simp add: stats_exact_def Let_def event_stats_def tally_def)
qed

text \<open>Inserting an event together with the matching upsert keeps the tables exact.\<close>

lemma analytics_ok_skip:
  assumes "analytics_ok db" and "ae_event_id e \<notin> ae_event_id ` set (db_events db)" and "access_check e"
    and "event_key e = None"
  shows "analytics_ok (db\<lparr>db_events := db_events db @ [e]\<rparr>)"
  using assms by (auto simp: analytics_ok_def stats_exact_other)

lemma analytics_ok_insert:
  assumes ok: "analytics_ok db" and id: "ae_event_id e \<notin> ae_event_id ` set (db_events db)" and chk: "access_check e"
    and k: "event_key e = Some (stats_key x)" and x: "event_stats e x" "sr_request_count x = 1"
    and st: "stats' = (case find_row (\<lambda>r. stats_key r = stats_key x) (db_stats db) of
               None \<Rightarrow> db_stats db @ [x]
             | Some _ \<Rightarrow> update_rows (\<lambda>r. stats_key r = stats_key x) (add_stats x) (db_stats db))"
  shows "analytics_ok (db\<lparr>db_events := db_events db @ [e], db_stats := stats'\<rparr>)"
proof (cases "find_row (\<lambda>r. stats_key r = stats_key x) (db_stats db)")
  case None
  then have new: "stats_key x \<notin> stats_key ` set (db_stats db)" by (auto simp: find_row_None)
  with ok have "\<forall>e'\<in>set (db_events db). event_key e' \<noteq> Some (stats_key x)" unfolding analytics_ok_def by blast
  then have "stats_exact (db_events db @ [e]) x"
    using k x chk by (intro stats_exact_new) (simp_all add: access_check_def)
  moreover have "\<forall>r\<in>set (db_stats db). stats_exact (db_events db @ [e]) r"
    using ok new k by (auto simp: analytics_ok_def image_iff intro!: stats_exact_other)
  ultimately show ?thesis using ok id chk k new st None by (auto simp: analytics_ok_def)
next
  case (Some old)
  note old = find_row_Some [OF Some]
  let ?st = "update_rows (\<lambda>r. stats_key r = stats_key x) (add_stats x) (db_stats db)"
  have keys: "map stats_key ?st = map stats_key (db_stats db)" by (rule map_update_rows_same) simp
  then have kset: "stats_key ` set ?st = stats_key ` set (db_stats db)" by (metis set_map)
  have "stats_exact (db_events db @ [e]) (if stats_key r = stats_key x then add_stats x r else r)"
    if "r \<in> set (db_stats db)" for r
    using that ok k x(1) by (simp add: analytics_ok_def stats_exact_add stats_exact_other)
  then have "\<forall>r\<in>set ?st. stats_exact (db_events db @ [e]) r" by (auto simp: in_update_rows)
  moreover have "stats_key x \<in> stats_key ` set ?st" using old by (auto simp: kset image_iff) metis
  ultimately show ?thesis using ok id chk k st Some keys kset by (auto simp: analytics_ok_def)
qed

section \<open>Ingestion\<close>

text \<open>The two statements of the transaction.\<close>

lemma insert_event_Inr:
  assumes "insertGatewayAccessEventQuery env (access_params tab ev) n db = Inr (i, db1)"
  obtains e where "db1 = db\<lparr>db_events := db_events db @ [e]\<rparr>" and "i = ev_EventID ev" and "ae_event_id e = ev_EventID ev"
    and "ae_event_id e \<notin> ae_event_id ` set (db_events db)" and "access_check e"
    and "shouldAggregate ev \<Longrightarrow> \<exists>p. pe_uuid env (TrimSpace (ev_ProjectID ev)) = Some p \<and>
          event_key e = Some (time_Truncate (ev_OccurredAt ev) Hour, p, TrimSpace (ev_RouteName ev),
            TrimSpace (ev_RoutePathPrefix ev), ToUpper tab (TrimSpace (ev_Method ev)))"
    and "\<not> shouldAggregate ev \<Longrightarrow> event_key e = None"
    and "ae_status_code e = ev_StatusCode ev" "ae_rate_limited e = ev_RateLimited ev"
      "ae_duration_ms e = ev_DurationMS ev" "ae_response_bytes e = ev_ResponseBytes ev"
  using assms
  by (auto simp: insertGatewayAccessEventQuery_def access_params_def Let_def nullif_empty_def event_key_def
      shouldAggregate_def time_Truncate_pg_time split: if_splits option.splits)

lemma statusClassCounts_class:
  assumes "100 \<le> ae_status_code e" and "ae_status_code e \<le> 599"
  shows "sc_status1xx (statusClassCounts (ae_status_code e)) = (if status_class 1 e then 1 else 0)"
    "sc_status2xx (statusClassCounts (ae_status_code e)) = (if status_class 2 e then 1 else 0)"
    "sc_status3xx (statusClassCounts (ae_status_code e)) = (if status_class 3 e then 1 else 0)"
    "sc_status4xx (statusClassCounts (ae_status_code e)) = (if status_class 4 e then 1 else 0)"
    "sc_status5xx (statusClassCounts (ae_status_code e)) = (if status_class 5 e then 1 else 0)"
  using assms by (simp_all add: statusClassCounts_def Let_def status_class_def)

lemma upsert_keeps_exact:
  assumes ok: "analytics_ok db" and ins: "insertGatewayAccessEventQuery env (access_params tab ev) n db = Inr (i, db1)"
    and agg: "shouldAggregate ev"
    and up: "upsertGatewayRouteStatsHourlyQuery env (stats_params tab ev) n' db1 = Inr (u, db2)"
  shows "analytics_ok db2 \<and> db_events db2 = db_events db1"
  using ins
proof (rule insert_event_Inr)
  fix e
  assume e: "db1 = db\<lparr>db_events := db_events db @ [e]\<rparr>" "ae_event_id e \<notin> ae_event_id ` set (db_events db)"
    "access_check e" "ae_status_code e = ev_StatusCode ev" "ae_rate_limited e = ev_RateLimited ev"
    "ae_duration_ms e = ev_DurationMS ev" "ae_response_bytes e = ev_ResponseBytes ev"
    and "shouldAggregate ev \<Longrightarrow> \<exists>p. pe_uuid env (TrimSpace (ev_ProjectID ev)) = Some p \<and>
          event_key e = Some (time_Truncate (ev_OccurredAt ev) Hour, p, TrimSpace (ev_RouteName ev),
            TrimSpace (ev_RoutePathPrefix ev), ToUpper tab (TrimSpace (ev_Method ev)))"
  with agg obtain p where p: "pe_uuid env (TrimSpace (ev_ProjectID ev)) = Some p"
    and key: "event_key e = Some (time_Truncate (ev_OccurredAt ev) Hour, p, TrimSpace (ev_RouteName ev),
            TrimSpace (ev_RoutePathPrefix ev), ToUpper tab (TrimSpace (ev_Method ev)))" by blast
  define x where "x = (stats_params tab ev)\<lparr>sr_bucket_start := pg_time (sr_bucket_start (stats_params tab ev)),
     sr_project_id := p, sr_request_count := 1, sr_max_duration_ms := sr_total_duration_ms (stats_params tab ev),
     sr_updated_at := pe_now env n'\<rparr>"
  have sel: "sr_request_count x = 1" "event_key e = Some (stats_key x)"
    using key by (simp_all add: x_def stats_params_def Let_def stats_key_def pg_time_Truncate)
  have range: "100 \<le> ae_status_code e" "ae_status_code e \<le> 599" using e(3) by (simp_all add: access_check_def)
  have st: "event_stats e x" unfolding event_stats_def statusClassCounts_class [OF range, symmetric]
    by (simp add: x_def stats_params_def Let_def e)
  let ?stats = "case find_row (\<lambda>r. stats_key r = stats_key x) (db_stats db) of
      None \<Rightarrow> db_stats db @ [x]
    | Some _ \<Rightarrow> update_rows (\<lambda>r. stats_key r = stats_key x) (add_stats x) (db_stats db)"
  have "sr_project_id (stats_params tab ev) = TrimSpace (ev_ProjectID ev)" by (simp add: stats_params_def Let_def)
  with up p e(1) have db2: "db2 = db1\<lparr>db_stats := ?stats\<rparr>"
    by (auto simp: upsertGatewayRouteStatsHourlyQuery_def Let_def simp flip: x_def split: if_splits option.splits)
  have "analytics_ok (db\<lparr>db_events := db_events db @ [e], db_stats := ?stats\<rparr>)"
    by (rule analytics_ok_insert [OF ok e(2,3) sel(2) st sel(1) refl])
  with db2 e(1) show ?thesis by simp
qed

text \<open>What one call can do: nothing, or the whole transaction.\<close>

definition stored_event :: "case_tables \<Rightarrow> pg_env \<Rightarrow> GatewayAccessEvent \<Rightarrow> analytics_db \<Rightarrow> analytics_db \<Rightarrow> bool" where
  "stored_event tab env ev db db' \<longleftrightarrow>
     (\<exists>n i db1. insertGatewayAccessEventQuery env (access_params tab ev) n db = Inr (i, db1) \<and>
        (if shouldAggregate ev
         then \<exists>n' u. upsertGatewayRouteStatsHourlyQuery env (stats_params tab ev) n' db1 = Inr (u, db')
         else db' = db1))"

lemma Store_cases:
  assumes "StoreGatewayAccess tab (Some env) ev s = (r, s')"
  shows "pg_db s' = pg_db s \<and> (\<forall>x. r = Inr x \<longrightarrow> ir_Duplicate x) \<or>
    stored_event tab env ev (pg_db s) (pg_db s') \<and> (\<forall>x. r = Inr x \<longrightarrow> \<not> ir_Duplicate x \<and> ir_Aggregated x = shouldAggregate ev)"
proof -
  obtain b s1 where b: "pg_begin env s = (b, s1)" by fastforce
  then have db1: "pg_db s1 = pg_db s" using pg_begin_db [of env s] by simp
  obtain q s2 where q: "pg_exec env (insertGatewayAccessEventQuery env (access_params tab ev)) s1 = (q, s2)" by fastforce
  obtain t s3 where t: "(if shouldAggregate ev
      then pg_exec env (upsertGatewayRouteStatsHourlyQuery env (stats_params tab ev)) s2 else (Inr (), s2)) = (t, s3)" by fastforce
  obtain c s4 where c: "pg_commit env s1 s3 = (c, s4)" by fastforce
  note run = StoreGatewayAccess_def b q t c Let_def pg_rollback_def
  show ?thesis
  proof (cases "isl b \<or> isl q \<or> isl t")
    case True
    with assms db1 show ?thesis by (cases b; cases q; cases t) (auto simp: run split: if_splits)
  next
    case False
    then obtain i where q': "q = Inr i" and tr: "\<exists>u. t = Inr u" and br: "\<exists>u. b = Inr u"
      by (cases b; cases q; cases t) auto
    from q q' have ins: "insertGatewayAccessEventQuery env (access_params tab ev) (pg_tick s1) (pg_db s) = Inr (i, pg_db s2)"
      using pg_exec_Inr [of env _ s1 i s2] db1 by simp
    have "if shouldAggregate ev
         then \<exists>n' u. upsertGatewayRouteStatsHourlyQuery env (stats_params tab ev) n' (pg_db s2) = Inr (u, pg_db s3)
         else pg_db s3 = pg_db s2"
      using t tr pg_exec_Inr by (fastforce split: if_splits)
    with ins have st: "stored_event tab env ev (pg_db s) (pg_db s3)" unfolding stored_event_def by blast
    have res: "s' = s4" "\<forall>x. r = Inr x \<longrightarrow> (\<exists>u. c = Inr u) \<and> \<not> ir_Duplicate x \<and> ir_Aggregated x = shouldAggregate ev"
      using assms q' tr br by (auto simp: run split: sum.splits)
    show ?thesis
    proof (cases c)
      case (Inl err)
      then show ?thesis using res st pg_commit_db [of env s1 s3] c db1 by auto
    next
      case (Inr u)
      then show ?thesis using res st pg_commit_Inr [of env s1 s3 u s4] c by auto
    qed
  qed
qed

lemma stored_event_ok:
  assumes "stored_event tab env ev db db'" and "analytics_ok db"
  shows "analytics_ok db'"
proof -
  from assms(1) obtain n i db1 where ins: "insertGatewayAccessEventQuery env (access_params tab ev) n db = Inr (i, db1)"
    and rest: "if shouldAggregate ev
         then \<exists>n' u. upsertGatewayRouteStatsHourlyQuery env (stats_params tab ev) n' db1 = Inr (u, db') else db' = db1"
    unfolding stored_event_def by blast
  show ?thesis
  proof (cases "shouldAggregate ev")
    case True
    with rest upsert_keeps_exact [OF assms(2) ins True] show ?thesis by auto
  next
    case False
    with rest have db': "db' = db1" by simp
    from ins show ?thesis unfolding db'
      by (rule insert_event_Inr) (use False assms(2) analytics_ok_skip in auto)
  qed
qed

lemma stored_event_appends:
  assumes "stored_event tab env ev db db'" and "analytics_ok db"
  shows "ev_EventID ev \<notin> ae_event_id ` set (db_events db) \<and>
    (\<exists>e. ae_event_id e = ev_EventID ev \<and> db_events db' = db_events db @ [e])"
proof -
  from assms(1) obtain n i db1 where ins: "insertGatewayAccessEventQuery env (access_params tab ev) n db = Inr (i, db1)"
    and rest: "if shouldAggregate ev
         then \<exists>n' u. upsertGatewayRouteStatsHourlyQuery env (stats_params tab ev) n' db1 = Inr (u, db') else db' = db1"
    unfolding stored_event_def by blast
  have "db_events db' = db_events db1"
  proof (cases "shouldAggregate ev")
    case True
    with rest upsert_keeps_exact [OF assms(2) ins True] show ?thesis by auto
  next
    case False
    with rest show ?thesis by simp
  qed
  with ins show ?thesis by (auto elim!: insert_event_Inr)
qed

text \<open>A broken connection is never reported as an empty result.\<close>

definition faults_proper :: "pg_env \<Rightarrow> bool" where
  "faults_proper env \<longleftrightarrow> (\<forall>n. pe_fault env n \<noteq> FailBefore ErrNoRows \<and> pe_fault env n \<noteq> FailAfter ErrNoRows)"

lemma insert_ErrNoRows:
  assumes "faults_proper env" and "pg_exec env (insertGatewayAccessEventQuery env p) s = (Inl ErrNoRows, s')"
  shows "ev_EventID p \<in> ae_event_id ` set (db_events (pg_db s))"
  using assms unfolding pg_exec_def faults_proper_def
  by (auto simp: Let_def insertGatewayAccessEventQuery_def int4_error_def
      split: pg_fault.splits sum.splits if_splits option.splits; metis)

lemma Store_duplicate:
  assumes "faults_proper env" and "StoreGatewayAccess tab (Some env) ev s = (Inr x, s')" and "ir_Duplicate x"
  shows "ev_EventID ev \<in> ae_event_id ` set (db_events (pg_db s))"
proof -
  obtain b s1 where b: "pg_begin env s = (b, s1)" by fastforce
  then have db1: "pg_db s1 = pg_db s" using pg_begin_db [of env s] by simp
  obtain q s2 where q: "pg_exec env (insertGatewayAccessEventQuery env (access_params tab ev)) s1 = (q, s2)" by fastforce
  have "q = Inl ErrNoRows"
    using assms(2,3) b q by (auto simp: StoreGatewayAccess_def Let_def split: sum.splits if_splits prod.splits)
  with insert_ErrNoRows [OF assms(1), of "access_params tab ev" s1 s2] q db1 show ?thesis by (simp add: access_params_def)
qed

section \<open>Summaries\<close>

text \<open>Summing a column over rows with different keys sums over the events of these keys.\<close>

lemma sum_by_key:
  fixes f :: "'e \<Rightarrow> int"
  assumes "distinct (map key rows)"
  shows "sum_list (map (\<lambda>r. sum_list (map f (filter (\<lambda>e. k e = Some (key r)) evs))) rows) =
    sum_list (map f (filter (\<lambda>e. \<exists>r\<in>set rows. k e = Some (key r)) evs))"
  using assms
proof (induction rows)
  case (Cons r rows)
  have "(\<exists>x\<in>set (r # rows). k e = Some (key x)) \<longleftrightarrow> k e = Some (key r) \<or> (\<exists>x\<in>set rows. k e = Some (key x))"
    "k e = Some (key r) \<Longrightarrow> \<not> (\<exists>x\<in>set rows. k e = Some (key x))" for e
    using Cons.prems by (auto simp: image_iff)
  then have split: "(if \<exists>x\<in>set (r # rows). k e = Some (key x) then f e else 0) =
      (if k e = Some (key r) then f e else 0) + (if \<exists>x\<in>set rows. k e = Some (key x) then f e else 0)" for e
    by auto
  show ?case
    using Cons by (simp add: sum_list_map_filter' split sum_list_addf del: set_simps bex_simps)
qed simp

lemma tally_sum: "tally P xs = sum_list (map (\<lambda>x. if P x then 1 else 0) xs)"
  by (induction xs) (simp_all add: tally_def)

lemma length_sum: "int (length xs) = sum_list (map (\<lambda>x. 1) xs)"
  by (induction xs) simp_all

lemma fold_max_le: "fold max xs (a::int) \<le> b \<longleftrightarrow> a \<le> b \<and> (\<forall>x\<in>set xs. x \<le> b)"
  by (induction xs arbitrary: a) auto

lemma Truncate_less: "Hour dvd u \<Longrightarrow> time_Truncate t Hour < u \<longleftrightarrow> t < u"
proof -
  assume "Hour dvd u"
  then obtain q where u: "u = 3600000000000 * q" by (auto simp: Hour_def)
  define d m where "d = t div 3600000000000" and "m = t mod 3600000000000"
  have t: "t = 3600000000000 * d + m" "0 \<le> m" "m < 3600000000000" by (simp_all add: d_def m_def)
  have "time_Truncate t Hour = 3600000000000 * d"
    by (simp add: time_Truncate_def Hour_def minus_mod_eq_mult_div d_def)
  moreover have "3600000000000 * d < 3600000000000 * q \<longleftrightarrow> d + 1 \<le> q" by auto
  moreover have "t < 3600000000000 * q \<Longrightarrow> d + 1 \<le> q" and "d + 1 \<le> q \<Longrightarrow> t < 3600000000000 * q"
    using t by linarith+
  ultimately show ?thesis unfolding u by auto
qed

text \<open>The events a request for statistics is about: those of the project, route and method that happened
  in the interval.\<close>

definition event_in :: "string \<Rightarrow> RouteStatsFilter \<Rightarrow> AccessRow \<Rightarrow> bool" where
  "event_in project f e \<longleftrightarrow>
     (case event_key e of
        None \<Rightarrow> False
      | Some (b, p, n, x, m) \<Rightarrow> p = project \<and> (rf_RouteName f = '''' \<or> n = rf_RouteName f) \<and>
          (rf_Method f = '''' \<or> m = rf_Method f)) \<and>
     rf_From f \<le> ae_occurred_at e \<and> ae_occurred_at e < rf_To f"

lemma event_key_bucket: "event_key e = Some (b, p, n, x, m) \<Longrightarrow> b = time_Truncate (ae_occurred_at e) Hour"
  by (auto simp: event_key_def split: option.splits)

lemma in_filter_event:
  assumes "Hour dvd rf_From f" and "Hour dvd rf_To f" and "event_key e = Some (stats_key r)"
  shows "in_filter env project f r \<longleftrightarrow> event_in project f e"
proof -
  have b: "sr_bucket_start r = time_Truncate (ae_occurred_at e) Hour"
    using assms(3) event_key_bucket [of e] by (simp add: stats_key_def)
  have pg: "pg_time (rf_From f) = rf_From f" "pg_time (rf_To f) = rf_To f"
    using pg_time_Truncate [of "rf_From f"] pg_time_Truncate [of "rf_To f"] assms(1,2)
    by (simp_all add: time_Truncate_self Hour_def)
  have "sr_bucket_start r \<ge> pg_time (rf_From f) \<longleftrightarrow> rf_From f \<le> ae_occurred_at e"
    "sr_bucket_start r < pg_time (rf_To f) \<longleftrightarrow> ae_occurred_at e < rf_To f"
    using Truncate_less [OF assms(1), of "ae_occurred_at e"] Truncate_less [OF assms(2), of "ae_occurred_at e"]
    unfolding b pg by linarith+
  then show ?thesis using assms(3) by (auto simp: in_filter_def event_in_def stats_key_def)
qed

text \<open>The selected rows cover exactly the selected events.\<close>

lemma in_filter_covers:
  assumes "analytics_ok db" and "Hour dvd rf_From f" and "Hour dvd rf_To f" and "e \<in> set (db_events db)"
  shows "(\<exists>r\<in>set (filter (in_filter env project f) (db_stats db)). event_key e = Some (stats_key r)) \<longleftrightarrow>
    event_in project f e"
proof
  assume "event_in project f e"
  then obtain key where k: "event_key e = Some key" by (auto simp: event_in_def split: option.splits)
  with assms(1,4) have "key \<in> stats_key ` set (db_stats db)" unfolding analytics_ok_def by blast
  then obtain r where r: "r \<in> set (db_stats db)" "key = stats_key r" by auto
  with in_filter_event [OF assms(2,3)] k \<open>event_in project f e\<close>
  show "\<exists>r\<in>set (filter (in_filter env project f) (db_stats db)). event_key e = Some (stats_key r)" by auto
qed (use in_filter_event [OF assms(2,3)] in auto)

lemma summary_sum:
  fixes c :: "StatsRow \<Rightarrow> int"
  assumes ok: "analytics_ok db" and al: "Hour dvd rf_From f" "Hour dvd rf_To f"
    and c: "\<And>r. stats_exact (db_events db) r \<Longrightarrow>
      c r = sum_list (map g (filter (\<lambda>e. event_key e = Some (stats_key r)) (db_events db)))"
  shows "sum_list (map c (filter (in_filter env project f) (db_stats db))) =
    sum_list (map g (filter (event_in project f) (db_events db)))"
proof -
  let ?rows = "filter (in_filter env project f) (db_stats db)"
  have "map c ?rows = map (\<lambda>r. sum_list (map g (filter (\<lambda>e. event_key e = Some (stats_key r)) (db_events db)))) ?rows"
    using ok c by (auto simp: analytics_ok_def)
  moreover have "distinct (map stats_key ?rows)" using ok by (simp add: analytics_ok_def distinct_map_filter)
  moreover have "filter (\<lambda>e. \<exists>r\<in>set ?rows. event_key e = Some (stats_key r)) (db_events db) =
      filter (event_in project f) (db_events db)"
    by (rule filter_cong [OF refl in_filter_covers [OF ok al]])
  ultimately show ?thesis using sum_by_key [of stats_key ?rows g event_key "db_events db"] by presburger
qed

definition summary_of :: "AccessRow list \<Rightarrow> RouteStatsSummary" where
  "summary_of evs =
     \<lparr>rs_RequestCount = int (length evs), rs_Status1xxCount = tally (status_class 1) evs,
      rs_Status2xxCount = tally (status_class 2) evs, rs_Status3xxCount = tally (status_class 3) evs,
      rs_Status4xxCount = tally (status_class 4) evs, rs_Status5xxCount = tally (status_class 5) evs,
      rs_RateLimitedCount = tally ae_rate_limited evs,
      rs_AverageDurationMS = average (sum_list (map ae_duration_ms evs)) (int (length evs)),
      rs_MaxDurationMS = fold max (map ae_duration_ms evs) 0,
      rs_TotalResponseBytes = sum_list (map ae_response_bytes evs)\<rparr>"

lemma int_eq_by_le: "(\<And>b. (x::int) \<le> b \<longleftrightarrow> y \<le> b) \<Longrightarrow> x = y"
  by (meson dual_order.antisym order_refl)

lemma summary_max:
  assumes "analytics_ok db" and "Hour dvd rf_From f" and "Hour dvd rf_To f"
  shows "(case map sr_max_duration_ms (filter (in_filter env project f) (db_stats db)) of [] \<Rightarrow> 0 | x # xs \<Rightarrow> fold max xs x) =
    fold max (map ae_duration_ms (filter (event_in project f) (db_events db))) 0"
proof (rule int_eq_by_le)
  fix b :: int
  let ?rows = "filter (in_filter env project f) (db_stats db)"
  let ?evs = "filter (event_in project f) (db_events db)"
  let ?of = "\<lambda>r. filter (\<lambda>e. event_key e = Some (stats_key r)) (db_events db)"
  have row: "sr_max_duration_ms r \<le> b \<longleftrightarrow> 0 \<le> b \<and> (\<forall>e\<in>set (?of r). ae_duration_ms e \<le> b)" if "r \<in> set ?rows" for r
    using that assms(1) by (simp add: analytics_ok_def stats_exact_def Let_def fold_max_le)
  have cover: "(\<exists>r\<in>set ?rows. e \<in> set (?of r)) \<longleftrightarrow> e \<in> set ?evs" for e
    using in_filter_covers [OF assms, of e env project] by auto
  have "(case map sr_max_duration_ms ?rows of [] \<Rightarrow> 0 | x # xs \<Rightarrow> fold max xs x) \<le> b \<longleftrightarrow>
      (?rows = [] \<longrightarrow> 0 \<le> b) \<and> (\<forall>r\<in>set ?rows. sr_max_duration_ms r \<le> b)"
    by (cases ?rows) (auto simp: fold_max_le)
  also have "\<dots> \<longleftrightarrow> 0 \<le> b \<and> (\<forall>r\<in>set ?rows. \<forall>e\<in>set (?of r). ae_duration_ms e \<le> b)"
    using row by (cases ?rows) auto
  also have "\<dots> \<longleftrightarrow> 0 \<le> b \<and> (\<forall>e\<in>set ?evs. ae_duration_ms e \<le> b)" using cover by blast
  also have "\<dots> \<longleftrightarrow> fold max (map ae_duration_ms ?evs) 0 \<le> b" by (simp add: fold_max_le)
  finally show "(case map sr_max_duration_ms ?rows of [] \<Rightarrow> 0 | x # xs \<Rightarrow> fold max xs x) \<le> b \<longleftrightarrow>
      fold max (map ae_duration_ms ?evs) 0 \<le> b" .
qed

lemma summary_query_exact:
  assumes ok: "analytics_ok db" and al: "Hour dvd rf_From f" "Hour dvd rf_To f"
    and q: "getRouteStatsSummaryQuery env f n db = Inr (res, db')"
  obtains project where "pe_uuid env (rf_ProjectID f) = Some project"
    and "res = summary_of (filter (event_in project f) (db_events db))"
proof -
  from q obtain project where p: "pe_uuid env (rf_ProjectID f) = Some project"
    by (auto simp: getRouteStatsSummaryQuery_def split: option.splits)
  note sum = summary_sum [OF ok al, of _ _ env project]
  have sums: "sum_list (map sr_request_count (filter (in_filter env project f) (db_stats db))) =
        int (length (filter (event_in project f) (db_events db)))"
      "sum_list (map sr_status_1xx_count (filter (in_filter env project f) (db_stats db))) =
        tally (status_class 1) (filter (event_in project f) (db_events db))"
      "sum_list (map sr_status_2xx_count (filter (in_filter env project f) (db_stats db))) =
        tally (status_class 2) (filter (event_in project f) (db_events db))"
      "sum_list (map sr_status_3xx_count (filter (in_filter env project f) (db_stats db))) =
        tally (status_class 3) (filter (event_in project f) (db_events db))"
      "sum_list (map sr_status_4xx_count (filter (in_filter env project f) (db_stats db))) =
        tally (status_class 4) (filter (event_in project f) (db_events db))"
      "sum_list (map sr_status_5xx_count (filter (in_filter env project f) (db_stats db))) =
        tally (status_class 5) (filter (event_in project f) (db_events db))"
      "sum_list (map sr_rate_limited_count (filter (in_filter env project f) (db_stats db))) =
        tally ae_rate_limited (filter (event_in project f) (db_events db))"
      "sum_list (map sr_total_duration_ms (filter (in_filter env project f) (db_stats db))) =
        sum_list (map ae_duration_ms (filter (event_in project f) (db_events db)))"
      "sum_list (map sr_total_response_bytes (filter (in_filter env project f) (db_stats db))) =
        sum_list (map ae_response_bytes (filter (event_in project f) (db_events db)))"
    unfolding tally_sum length_sum
    by (rule sum, simp add: stats_exact_def Let_def tally_sum length_sum)+
  have "res = summary_of (filter (event_in project f) (db_events db))"
    using q unfolding getRouteStatsSummaryQuery_def p option.simps Let_def sums summary_max [OF ok al, of env project]
    by (auto simp: summary_of_def split: if_splits)
  with p show thesis by (rule that)
qed

lemma statistics_exact_step:
  assumes "analytics_ok (pg_db s)"
  shows "analytics_ok (pg_db (snd (StoreGatewayAccess tab pool ev s)))"
proof (cases pool)
  case (Some env)
  obtain r s' where run: "StoreGatewayAccess tab (Some env) ev s = (r, s')" by fastforce
  show ?thesis using Store_cases [OF run] stored_event_ok assms run Some by fastforce
qed (use assms in \<open>simp add: StoreGatewayAccess_def\<close>)

lemma counted_once_step:
  assumes "faults_proper env" and "analytics_ok (pg_db s)" and "StoreGatewayAccess tab (Some env) ev s = (r, s')"
  shows "(ev_EventID ev \<in> ae_event_id ` set (db_events (pg_db s)) \<longrightarrow> pg_db s' = pg_db s) \<and>
    (pg_db s' = pg_db s \<or> (\<exists>e. ae_event_id e = ev_EventID ev \<and> db_events (pg_db s') = db_events (pg_db s) @ [e])) \<and>
    (\<forall>x. r = Inr x \<longrightarrow> ev_EventID ev \<in> ae_event_id ` set (db_events (pg_db s')) \<and>
       (ir_Duplicate x \<longleftrightarrow> ev_EventID ev \<in> ae_event_id ` set (db_events (pg_db s))))"
  using Store_cases [OF assms(3)]
proof (elim disjE conjE)
  assume same: "pg_db s' = pg_db s" and "\<forall>x. r = Inr x \<longrightarrow> ir_Duplicate x"
  with Store_duplicate [OF assms(1)] assms(3) show ?thesis by auto
next
  assume "stored_event tab env ev (pg_db s) (pg_db s')"
    and "\<forall>x. r = Inr x \<longrightarrow> \<not> ir_Duplicate x \<and> ir_Aggregated x = shouldAggregate ev"
  with stored_event_appends [OF _ assms(2)] show ?thesis by (fastforce simp: image_iff)
qed

section \<open>Properties\<close>

text \<open>C12. The hourly statistics are exact: whatever is ingested and however the database fails, every row of
  the statistics holds exactly the counts, sums and the maximum of the stored events of its hour,
  project, route and method, and every event with a route belongs to such a row.\<close>

theorem statistics_exact:
  assumes "analytics_ok (pg_db s)"
  shows "analytics_ok (pg_db (snd (StoreGatewayAccess tab pool ev s)))"
  by (rule statistics_exact_step [OF assms])

text \<open>C11. An access event is counted once: a call that reports success leaves the event stored, reports a
  duplicate exactly when it was stored before and then changes nothing, and otherwise adds one row;
  a call that reports an error changes nothing or stores the event, so that a retry is safe.\<close>

theorem event_counted_once:
  assumes "faults_proper env" and "analytics_ok (pg_db s)" and "StoreGatewayAccess tab (Some env) ev s = (r, s')"
  shows "(ev_EventID ev \<in> ae_event_id ` set (db_events (pg_db s)) \<longrightarrow> pg_db s' = pg_db s) \<and>
    (pg_db s' = pg_db s \<or> (\<exists>e. ae_event_id e = ev_EventID ev \<and> db_events (pg_db s') = db_events (pg_db s) @ [e])) \<and>
    (\<forall>x. r = Inr x \<longrightarrow> ev_EventID ev \<in> ae_event_id ` set (db_events (pg_db s')) \<and>
       (ir_Duplicate x \<longleftrightarrow> ev_EventID ev \<in> ae_event_id ` set (db_events (pg_db s))))"
  by (rule counted_once_step [OF assms])

text \<open>One event on empty tables.\<close>

definition demo_tables :: case_tables where
  "demo_tables = \<lparr>uni_lower = (\<lambda>x. x), uni_upper = (\<lambda>x. x)\<rparr>"

definition demo_event :: GatewayAccessEvent where
  "demo_event = \<lparr>ev_SchemaVersion = 1, ev_EventID = ''e1'', ev_OccurredAt = 7200000000500, ev_RequestID = ''r1'',
     ev_ProjectID = ''p'', ev_RouteName = ''n'', ev_RoutePathPrefix = ''/x'', ev_Method = ''get'',
     ev_RequestPath = ''/x/y'', ev_StatusCode = 404, ev_DurationMS = 12, ev_ResponseBytes = 34,
     ev_ClientType = ''ip'', ev_ClientID = ''c'', ev_AuthRequired = False, ev_RateLimitEnabled = False,
     ev_RateLimited = False\<rparr>"

definition demo_analytics_pg :: pg_env where
  "demo_analytics_pg = \<lparr>pe_fault = (\<lambda>n. if n = 2 then FailAfter (ConnError ''reset'') else NoFault), pe_now = (\<lambda>n. 0),
     pe_newid = (\<lambda>n. ''''), pe_uuid = Some, pe_lower = (\<lambda>x. x)\<rparr>"

definition empty_analytics :: "nat \<Rightarrow> analytics_db pg" where
  "empty_analytics n = \<lparr>pg_db = \<lparr>db_events = [], db_stats = []\<rparr>, pg_tick = n\<rparr>"

lemma empty_analytics_ok: "analytics_ok (pg_db (empty_analytics n))"
  by (simp add: analytics_ok_def empty_analytics_def)

lemma demo_store:
  "let s' = snd (StoreGatewayAccess demo_tables (Some demo_analytics_pg) demo_event (empty_analytics 3)) in
   map ae_event_id (db_events (pg_db s')) = [''e1''] \<and> map sr_status_4xx_count (db_stats (pg_db s')) = [1] \<and>
   fst (StoreGatewayAccess demo_tables (Some demo_analytics_pg) demo_event (empty_analytics 3)) =
     Inr \<lparr>ir_Duplicate = False, ir_Aggregated = True\<rparr>"
  by code_simp

theorem statistics_exact_witness:
  "let s' = snd (StoreGatewayAccess demo_tables (Some demo_analytics_pg) demo_event (empty_analytics 3)) in
   analytics_ok (pg_db s') \<and> map sr_status_4xx_count (db_stats (pg_db s')) = [1]"
  using statistics_exact [OF empty_analytics_ok, of demo_tables "Some demo_analytics_pg" demo_event 3] demo_store
  by (simp add: Let_def)

lemma demo_faults_proper: "faults_proper demo_analytics_pg"
  by (simp add: faults_proper_def demo_analytics_pg_def)

theorem event_counted_once_witness:
  "\<exists>s'. StoreGatewayAccess demo_tables (Some demo_analytics_pg) demo_event (empty_analytics 3) =
       (Inr \<lparr>ir_Duplicate = False, ir_Aggregated = True\<rparr>, s') \<and>
     ''e1'' \<in> ae_event_id ` set (db_events (pg_db s'))"
proof -
  obtain s' where run: "StoreGatewayAccess demo_tables (Some demo_analytics_pg) demo_event (empty_analytics 3) =
       (Inr \<lparr>ir_Duplicate = False, ir_Aggregated = True\<rparr>, s')"
    using demo_store by (auto simp: Let_def prod_eq_iff)
  from event_counted_once [OF demo_faults_proper empty_analytics_ok run] run show ?thesis by (simp add: demo_event_def)
qed

end
