(* ===== verification/Analytics_Usecase.thy ===== *)
theory Analytics_Usecase
  imports Analytics_Store
begin

text \<open>
  \<open>internal/analytics/usecase\<close>: ingestion of one access event and the two statistics queries with the
  normalisation of their filter, over the repository ports, and their wiring on PostgreSQL.
\<close>

section \<open>Ports\<close>

record 's GatewayStatsRepository =
  gs_GetRouteStatsSummary :: "RouteStatsFilter \<Rightarrow> 's \<Rightarrow> (an_err + RouteStatsSummary) \<times> 's"
  gs_ListRouteStatsHourly :: "RouteStatsFilter \<Rightarrow> int \<Rightarrow> 's \<Rightarrow> (an_err + RouteStatsHourly list) \<times> 's"

type_synonym 's GatewayAccessRepository = "GatewayAccessEvent \<Rightarrow> 's \<Rightarrow> (an_err + IngestionResult) \<times> 's"

record 's AnalyticsUsecase =
  anu_gatewayAccessRepository :: "'s GatewayAccessRepository option"
  anu_gatewayStatsRepository :: "'s GatewayStatsRepository option"

section \<open>Use cases\<close>

definition ProcessGatewayAccess ::
  "'s AnalyticsUsecase \<Rightarrow> GatewayAccessEvent \<Rightarrow> 's \<Rightarrow> (an_err + IngestionResult) \<times> 's" where
  "ProcessGatewayAccess u event s =
     (case event_Validate event of
        Some err \<Rightarrow> (Inl (Errorf ''%w: %v'' [Sentinel NErrInvalidGatewayAccessEvent]), s)
      | None \<Rightarrow>
          (case anu_gatewayAccessRepository u of
             None \<Rightarrow> (Inl (Errorf ''gateway access repository is not configured'' []), s)
           | Some store \<Rightarrow>
               (case store event s of
                  (Inl err, s1) \<Rightarrow> (Inl (Errorf ''store gateway access event: %w'' [err]), s1)
                | (Inr result, s1) \<Rightarrow> (Inr result, s1))))"

definition maxAnalyticsRange :: Duration where
  "maxAnalyticsRange = 90 * 24 * Hour"

definition isUUID :: "string \<Rightarrow> bool" where
  "isUUID value =
     (if length value \<noteq> 36 \<or> value ! 8 \<noteq> CHR ''-'' \<or> value ! 13 \<noteq> CHR ''-'' \<or>
         value ! 18 \<noteq> CHR ''-'' \<or> value ! 23 \<noteq> CHR ''-''
      then False
      else (let compact = remove_byte (CHR ''-'') value in
            if length compact \<noteq> 32 then False
            else hex_DecodeString compact \<noteq> None))"

definition ceilHour :: "Time \<Rightarrow> Time" where
  "ceilHour value =
     (let truncated = time_Truncate value Hour in
      if value = truncated then truncated else time_Add truncated Hour)"

definition normalizeStatsFilter :: "case_tables \<Rightarrow> RouteStatsFilter \<Rightarrow> an_err + RouteStatsFilter" where
  "normalizeStatsFilter tab f =
     (let project = TrimSpace (rf_ProjectID f) in
      if \<not> isUUID project then Inl (Sentinel NErrInvalidProjectID)
      else if IsZero (rf_From f) \<or> IsZero (rf_To f) \<or> \<not> rf_From f < rf_To f then Inl (Sentinel NErrInvalidTimeRange)
      else if time_Sub (rf_To f) (rf_From f) > maxAnalyticsRange then Inl (Sentinel NErrAnalyticsRangeTooLarge)
      else Inr \<lparr>rf_ProjectID = project, rf_From = time_Truncate (rf_From f) Hour, rf_To = ceilHour (rf_To f),
                rf_RouteName = TrimSpace (rf_RouteName f), rf_Method = ToUpper tab (TrimSpace (rf_Method f))\<rparr>)"

text \<open>A nil use case is None.\<close>

definition stats_repository :: "'s AnalyticsUsecase option \<Rightarrow> 's GatewayStatsRepository option" where
  "stats_repository u = (case u of None \<Rightarrow> None | Some u' \<Rightarrow> anu_gatewayStatsRepository u')"

definition GetRouteStatsSummary ::
  "case_tables \<Rightarrow> 's AnalyticsUsecase option \<Rightarrow> RouteStatsFilter \<Rightarrow> 's \<Rightarrow> (an_err + RouteStatsSummary) \<times> 's" where
  "GetRouteStatsSummary tab u f s =
     (case normalizeStatsFilter tab f of
        Inl err \<Rightarrow> (Inl err, s)
      | Inr filter' \<Rightarrow>
          (case stats_repository u of
             None \<Rightarrow> (Inl (Errorf ''gateway stats repository is required'' []), s)
           | Some repo \<Rightarrow>
               (case gs_GetRouteStatsSummary repo filter' s of
                  (Inl err, s1) \<Rightarrow> (Inl (Errorf ''get route stats summary: %w'' [err]), s1)
                | (Inr summary, s1) \<Rightarrow> (Inr summary, s1))))"

definition ListRouteStatsHourly ::
  "case_tables \<Rightarrow> 's AnalyticsUsecase option \<Rightarrow> RouteStatsFilter \<Rightarrow> int \<Rightarrow> 's \<Rightarrow>
   (an_err + RouteStatsHourly list) \<times> 's" where
  "ListRouteStatsHourly tab u f limit s =
     (case normalizeStatsFilter tab f of
        Inl err \<Rightarrow> (Inl err, s)
      | Inr filter' \<Rightarrow>
          if limit \<le> 0 \<or> limit > 1000 then (Inl (Sentinel NErrInvalidLimit), s)
          else
            (case stats_repository u of
               None \<Rightarrow> (Inl (Errorf ''gateway stats repository is required'' []), s)
             | Some repo \<Rightarrow>
                 (case gs_ListRouteStatsHourly repo filter' limit s of
                    (Inl err, s1) \<Rightarrow> (Inl (Errorf ''list hourly route stats: %w'' [err]), s1)
                  | (Inr items, s1) \<Rightarrow> (Inr items, s1))))"

text \<open>The wiring of \<open>app.go\<close>.\<close>

definition pg_analytics_usecase ::
  "case_tables \<Rightarrow> (string \<Rightarrow> string \<Rightarrow> bool) \<Rightarrow> pg_env \<Rightarrow> 'z analytics_state AnalyticsUsecase" where
  "pg_analytics_usecase tab collate env =
     \<lparr>anu_gatewayAccessRepository = Some (StoreGatewayAccess tab (Some env)),
      anu_gatewayStatsRepository = Some \<lparr>gs_GetRouteStatsSummary = repo_GetRouteStatsSummary (Some env),
        gs_ListRouteStatsHourly = repo_ListRouteStatsHourly collate (Some env)\<rparr>\<rparr>"

section \<open>The normalised filter\<close>

lemma ceilHour_aligned: "Hour dvd ceilHour t"
proof -
  have "Hour dvd time_Truncate t Hour" by (rule time_Truncate_dvd) (simp add: Hour_def)
  then show ?thesis unfolding ceilHour_def Let_def time_Add_def by (metis dvd_add dvd_refl)
qed

lemma ceilHour_bounds: "t \<le> ceilHour t" "ceilHour t < t + Hour"
  using time_Truncate_bounds [of Hour t] by (auto simp: ceilHour_def Let_def time_Add_def Hour_def)

lemma normalizeStatsFilter_Inr:
  assumes "normalizeStatsFilter tab f = Inr f'"
  shows "Hour dvd rf_From f'" "Hour dvd rf_To f'" "rf_From f' \<le> rf_From f" "rf_From f < rf_From f' + Hour"
    "rf_To f \<le> rf_To f'" "rf_To f' < rf_To f + Hour" "rf_From f < rf_To f"
    "rf_ProjectID f' = TrimSpace (rf_ProjectID f)" "isUUID (rf_ProjectID f')"
  using assms time_Truncate_dvd [of Hour "rf_From f"] time_Truncate_bounds [of Hour "rf_From f"]
    ceilHour_aligned [of "rf_To f"] ceilHour_bounds [of "rf_To f"]
  by (auto simp: normalizeStatsFilter_def Let_def Hour_def split: if_splits)

section \<open>Properties\<close>

text \<open>C13. A summary is exact: when the query succeeds, its counts, total, maximum and average are those of
  the stored events of the project, route and method that happened in the requested interval widened
  to full hours, by less than an hour at each end.\<close>

theorem summary_counts_events:
  assumes "analytics_ok (pg_db s)"
    and "GetRouteStatsSummary tab (Some (pg_analytics_usecase tab collate env)) f s = (Inr res, s')"
  shows "\<exists>f' project. normalizeStatsFilter tab f = Inr f' \<and> pe_uuid env (TrimSpace (rf_ProjectID f)) = Some project \<and>
    res = summary_of (filter (event_in project f') (db_events (pg_db s))) \<and>
    rf_From f' \<le> rf_From f \<and> rf_From f < rf_From f' + Hour \<and> rf_To f \<le> rf_To f' \<and> rf_To f' < rf_To f + Hour"
proof -
  from assms(2) obtain f' where f': "normalizeStatsFilter tab f = Inr f'"
    by (cases "normalizeStatsFilter tab f") (simp_all add: GetRouteStatsSummary_def)
  with assms(2) obtain s1 where "pg_exec env (getRouteStatsSummaryQuery env f') s = (Inr res, s1)"
    by (auto simp: GetRouteStatsSummary_def stats_repository_def pg_analytics_usecase_def repo_GetRouteStatsSummary_def
        split: prod.splits sum.splits)
  from pg_exec_Inr [OF this]
  obtain project where "pe_uuid env (rf_ProjectID f') = Some project"
    "res = summary_of (filter (event_in project f') (db_events (pg_db s)))"
    by (rule summary_query_exact [OF assms(1) normalizeStatsFilter_Inr(1,2) [OF f']])
  with f' normalizeStatsFilter_Inr [OF f'] show ?thesis by auto
qed

definition demo_filter :: RouteStatsFilter where
  "demo_filter = \<lparr>rf_ProjectID = ''00000000-0000-0000-0000-00000000000a'', rf_From = 7300000000000, rf_To = 7400000000000,
     rf_RouteName = '''', rf_Method = ''get''\<rparr>"

definition demo_summary_run :: "(an_err + RouteStatsSummary) \<times> analytics_db pg" where
  "demo_summary_run =
     (let event = demo_event\<lparr>ev_ProjectID := rf_ProjectID demo_filter\<rparr> in
      GetRouteStatsSummary demo_tables (Some (pg_analytics_usecase demo_tables bytes_less demo_analytics_pg)) demo_filter
        (snd (StoreGatewayAccess demo_tables (Some demo_analytics_pg) event (empty_analytics 3))))"

lemma demo_summary_result: "map_sum (\<lambda>e. ()) (\<lambda>r. (rs_RequestCount r, rs_MaxDurationMS r)) (fst demo_summary_run) = Inr (1, 12)"
  by code_simp

theorem summary_counts_events_witness:
  "\<exists>res s' f'. demo_summary_run = (Inr res, s') \<and> rs_RequestCount res = 1 \<and>
     normalizeStatsFilter demo_tables demo_filter = Inr f' \<and> rf_From f' \<le> rf_From demo_filter"
proof -
  obtain r s' where r: "demo_summary_run = (r, s')" by (cases demo_summary_run)
  have "\<exists>res. r = Inr res \<and> rs_RequestCount res = 1"
    using demo_summary_result unfolding r by (cases r) simp_all
  with r obtain res where run: "demo_summary_run = (Inr res, s')" and "rs_RequestCount res = 1" by blast
  moreover from run summary_counts_events [OF statistics_exact_step [OF empty_analytics_ok]]
  obtain f' where "normalizeStatsFilter demo_tables demo_filter = Inr f'" "rf_From f' \<le> rf_From demo_filter"
    unfolding demo_summary_run_def Let_def by blast
  ultimately show ?thesis by blast
qed

end
