(* ===== verification/Analytics_Kafka.thy ===== *)
theory Analytics_Kafka
  imports Analytics_Usecase
begin

text \<open>
  \<open>internal/analytics/infrastructure/kafka/consumer.go\<close>: the consumer of access events with bounded
  retries and manual commits. The Kafka client, the timer and the context are operations on a state
  \<open>'s\<close>; spans and logs are left out.
\<close>

section \<open>Configuration\<close>

record AnalyticsKafkaConfig =
  akc_Brokers :: "string list"
  akc_Topic :: string
  akc_ConsumerGroup :: string
  akc_ClientID :: string
  akc_RetryMin :: Duration
  akc_RetryMax :: Duration
  akc_MaxProcessAttempts :: int

record ConsumedRecord =
  cr_Topic :: string
  cr_Partition :: int
  cr_Offset :: int
  cr_Value :: string

text \<open>The client, the processor and the context. \<open>aks_Sleep\<close> waits for the timer and gives the error of the
  context when that ends first.\<close>

record 's analytics_ops =
  aks_Process :: "GatewayAccessEvent \<Rightarrow> 's \<Rightarrow> (an_err + IngestionResult) \<times> 's"
  aks_CtxErr :: "'s \<Rightarrow> an_err option"
  aks_Sleep :: "Duration \<Rightarrow> 's \<Rightarrow> an_err option \<times> 's"
  aks_Commit :: "ConsumedRecord \<Rightarrow> 's \<Rightarrow> an_err option \<times> 's"
  aks_AllowRebalance :: "'s \<Rightarrow> 's"

record AnalyticsConsumer =
  acn_retryMin :: Duration
  acn_retryMax :: Duration
  acn_maxProcessAttempts :: int

text \<open>The loop of \<open>normalized\<close>; the second component holds the keys of the map \<open>seen\<close>.\<close>

definition normalized_step :: "string \<Rightarrow> string list \<times> string list \<Rightarrow> string list \<times> string list" where
  "normalized_step value acc =
     (case acc of (result, seen) \<Rightarrow>
        let item = TrimSpace value in
        if item = '''' \<or> item \<in> set seen then (result, seen) else (result @ [item], item # seen))"

definition normalized :: "string list \<Rightarrow> string list" where
  "normalized values = fst (fold normalized_step values ([], []))"

record analytics_options =
  ako_SeedBrokers :: "string list"
  ako_ClientID :: string
  ako_ConsumerGroup :: string
  ako_ConsumeTopic :: string

definition defaultPingTimeout :: Duration where
  "defaultPingTimeout = 10 * Second"

text \<open>\<open>New\<close>: \<open>newClient\<close> is \<open>kgo.NewClient\<close> with the options of the source, \<open>ping\<close> and \<open>close\<close> act on the new
  client; the processor and the logger may be nil.\<close>

definition NewAnalyticsConsumer ::
  "(analytics_options \<Rightarrow> 's \<Rightarrow> an_err option \<times> 's) \<Rightarrow> (Duration \<Rightarrow> 's \<Rightarrow> an_err option \<times> 's) \<Rightarrow> ('s \<Rightarrow> 's) \<Rightarrow>
   AnalyticsKafkaConfig \<Rightarrow> bool \<Rightarrow> bool \<Rightarrow> 's \<Rightarrow> (an_err + AnalyticsConsumer) \<times> 's" where
  "NewAnalyticsConsumer newClient ping close config hasProcessor hasLog s =
     (let brokers = normalized (akc_Brokers config); topic = TrimSpace (akc_Topic config);
          consumerGroup = TrimSpace (akc_ConsumerGroup config); clientID = TrimSpace (akc_ClientID config) in
      if length brokers = 0 then (Inl (Errorf ''Kafka brokers are required'' []), s)
      else if topic = '''' then (Inl (Errorf ''Kafka topic is required'' []), s)
      else if consumerGroup = '''' then (Inl (Errorf ''Kafka consumer group is required'' []), s)
      else if clientID = '''' then (Inl (Errorf ''Kafka client ID is required'' []), s)
      else if \<not> hasProcessor then (Inl (Errorf ''gateway access processor is required'' []), s)
      else if \<not> hasLog then (Inl (Errorf ''logger is required'' []), s)
      else if akc_RetryMin config \<le> 0 then (Inl (Errorf ''retry minimum must be positive'' []), s)
      else if akc_RetryMax config < akc_RetryMin config
        then (Inl (Errorf ''retry maximum must be greater than or equal to retry minimum'' []), s)
      else if akc_MaxProcessAttempts config \<le> 0 then (Inl (Errorf ''maximum process attempts must be positive'' []), s)
      else
        (case newClient \<lparr>ako_SeedBrokers = brokers, ako_ClientID = clientID, ako_ConsumerGroup = consumerGroup,
                         ako_ConsumeTopic = topic\<rparr> s of
           (Some err, s1) \<Rightarrow> (Inl (Errorf ''create Kafka analytics consumer: %w'' [err]), s1)
         | (None, s1) \<Rightarrow>
             (case ping defaultPingTimeout s1 of
                (Some err, s2) \<Rightarrow> (Inl (Errorf ''ping Kafka analytics broker: %w'' [err]), close s2)
              | (None, s2) \<Rightarrow>
                  (Inr \<lparr>acn_retryMin = akc_RetryMin config, acn_retryMax = akc_RetryMax config,
                        acn_maxProcessAttempts = akc_MaxProcessAttempts config\<rparr>, s2))))"

definition analytics_consumer_Ping :: "(AnalyticsConsumer \<times> ('s \<Rightarrow> an_err option)) option \<Rightarrow> 's \<Rightarrow> an_err option" where
  "analytics_consumer_Ping c s =
     (case c of
        None \<Rightarrow> Some (Errorf ''kafka consumer is not configured'' [])
      | Some (_, ping) \<Rightarrow> map_option (\<lambda>err. Errorf ''ping kafka analytics broker: %w'' [err]) (ping s))"

section \<open>Processing\<close>

definition decodeGatewayAccessEvent :: "(string \<Rightarrow> an_err + GatewayAccessEvent) \<Rightarrow> string \<Rightarrow> an_err + GatewayAccessEvent" where
  "decodeGatewayAccessEvent json_Unmarshal payload =
     (case json_Unmarshal payload of
        Inl err \<Rightarrow> Inl (Errorf ''decode gateway access event: %w'' [err])
      | Inr event \<Rightarrow>
          (case event_Validate event of
             Some err \<Rightarrow> Inl (Errorf ''validate gateway access event: %w'' [])
           | None \<Rightarrow> Inr event))"

definition nextRetryDelay :: "Duration \<Rightarrow> Duration \<Rightarrow> Duration" where
  "nextRetryDelay current maximum =
     (if current \<ge> maximum then maximum
      else if current > maximum sdiv 2 then maximum
      else wrap64 (current * 2))"

function process_loop ::
  "'s analytics_ops \<Rightarrow> AnalyticsConsumer \<Rightarrow> GatewayAccessEvent \<Rightarrow> Duration \<Rightarrow> int \<Rightarrow> 's \<Rightarrow>
   (an_err + IngestionResult) \<times> 's" where
  "process_loop ops c event delay attempt s =
     (if attempt \<le> acn_maxProcessAttempts c then
        (case aks_Process ops event s of
           (Inr result, s1) \<Rightarrow> (Inr result, s1)
         | (Inl err, s1) \<Rightarrow>
             (if errors_is err NErrInvalidGatewayAccessEvent then (Inl err, s1)
              else
                (case aks_CtxErr ops s1 of
                   Some ctxErr \<Rightarrow> (Inl ctxErr, s1)
                 | None \<Rightarrow>
                     (if attempt = acn_maxProcessAttempts c
                      then (Inl (Errorf ''process gateway access event after %d attempts: %w'' [err]), s1)
                      else
                        (case aks_Sleep ops delay s1 of
                           (Some ctxErr, s2) \<Rightarrow> (Inl ctxErr, s2)
                         | (None, s2) \<Rightarrow>
                             process_loop ops c event (nextRetryDelay delay (acn_retryMax c)) (attempt + 1) s2)))))
      else (Inl (Errorf ''gateway access event processing attempts exhausted'' []), s))"
  by pat_completeness auto
termination
  by (relation "measure (\<lambda>(ops, c, event, delay, attempt, s). nat (acn_maxProcessAttempts c + 1 - attempt))") auto

declare process_loop.simps [simp del]

definition processWithRetry ::
  "'s analytics_ops \<Rightarrow> AnalyticsConsumer \<Rightarrow> GatewayAccessEvent \<Rightarrow> 's \<Rightarrow> (an_err + IngestionResult) \<times> 's" where
  "processWithRetry ops c event s = process_loop ops c event (acn_retryMin c) 1 s"

definition commitRecord :: "'s analytics_ops \<Rightarrow> ConsumedRecord \<Rightarrow> 's \<Rightarrow> an_err option \<times> 's" where
  "commitRecord ops r s =
     (case aks_Commit ops r s of
        (None, s1) \<Rightarrow> (None, s1)
      | (Some err, s1) \<Rightarrow>
          (case aks_CtxErr ops s1 of
             Some ctxErr \<Rightarrow> (Some ctxErr, s1)
           | None \<Rightarrow> (Some (Errorf ''commit Kafka analytics offset: topic=%s partition=%d offset=%d: %w'' [err]), s1)))"

definition handleRecord ::
  "(string \<Rightarrow> an_err + GatewayAccessEvent) \<Rightarrow> 's analytics_ops \<Rightarrow> AnalyticsConsumer \<Rightarrow> ConsumedRecord \<Rightarrow> 's \<Rightarrow>
   an_err option \<times> 's" where
  "handleRecord json_Unmarshal ops c r s =
     (case decodeGatewayAccessEvent json_Unmarshal (cr_Value r) of
        Inl err \<Rightarrow> commitRecord ops r s
      | Inr event \<Rightarrow>
          (case processWithRetry ops c event s of
             (Inl err, s1) \<Rightarrow>
               (if errors_is err NErrInvalidGatewayAccessEvent then commitRecord ops r s1 else (Some err, s1))
           | (Inr result, s1) \<Rightarrow> commitRecord ops r s1))"

text \<open>\<open>Run\<close>: the records of each poll, in turn; None when the polls are used up. Only the error of the last
  record of a poll is kept, and a poll asks for one record.\<close>

fun handle_all ::
  "(string \<Rightarrow> an_err + GatewayAccessEvent) \<Rightarrow> 's analytics_ops \<Rightarrow> AnalyticsConsumer \<Rightarrow> ConsumedRecord list \<Rightarrow>
   an_err option \<Rightarrow> 's \<Rightarrow> an_err option \<times> 's" where
  "handle_all json_Unmarshal ops c [] handleErr s = (handleErr, s)"
| "handle_all json_Unmarshal ops c (r # rs) handleErr s =
     (case handleRecord json_Unmarshal ops c r s of (err, s1) \<Rightarrow> handle_all json_Unmarshal ops c rs err s1)"

fun analytics_Run ::
  "(string \<Rightarrow> an_err + GatewayAccessEvent) \<Rightarrow> 's analytics_ops \<Rightarrow> AnalyticsConsumer \<Rightarrow> ConsumedRecord list list \<Rightarrow> 's \<Rightarrow>
   an_err option option \<times> 's" where
  "analytics_Run json_Unmarshal ops c [] s = (None, s)"
| "analytics_Run json_Unmarshal ops c (fetches # polls) s =
     (case handle_all json_Unmarshal ops c fetches None s of (handleErr, s1) \<Rightarrow>
        (let s2 = aks_AllowRebalance ops s1 in
         if aks_CtxErr ops s2 \<noteq> None then (Some None, s2)
         else
           (case handleErr of
              Some err \<Rightarrow> (Some (Some err), s2)
            | None \<Rightarrow> analytics_Run json_Unmarshal ops c polls s2)))"

section \<open>The retry schedule\<close>

definition retry_delay :: "Duration \<Rightarrow> Duration \<Rightarrow> nat \<Rightarrow> Duration" where
  "retry_delay retryMin retryMax i = min retryMax (retryMin * 2 ^ i)"

lemma nextRetryDelay_schedule:
  assumes "0 < mn" and "mn \<le> mx" and "int64_range mx"
  shows "nextRetryDelay (retry_delay mn mx i) mx = retry_delay mn mx (Suc i)"
proof (cases "mx \<le> mn * 2 ^ i")
  case True
  moreover have "mn * 2 ^ i \<le> mn * 2 ^ Suc i" using assms(1) by simp
  ultimately show ?thesis by (simp add: nextRetryDelay_def retry_delay_def)
next
  case False
  define cur where "cur = mn * 2 ^ i"
  have cur: "0 < cur" "cur < mx" "retry_delay mn mx i = cur" "retry_delay mn mx (Suc i) = min mx (cur * 2)"
    using assms False by (simp_all add: cur_def retry_delay_def)
  have half: "mx sdiv 2 = mx div 2" using assms by simp
  show ?thesis
  proof (cases "cur > mx div 2")
    case True
    then have "mx \<le> cur * 2" by linarith
    with True cur half show ?thesis by (simp add: nextRetryDelay_def)
  next
    case False
    then have "cur * 2 \<le> mx" by linarith
    with False cur half assms(3) show ?thesis by (simp add: nextRetryDelay_def int64_range_def)
  qed
qed

text \<open>The delays the timer is started with are recorded, and nothing else changes the record.\<close>

definition sleep_logged :: "'s analytics_ops \<Rightarrow> ('s \<Rightarrow> Duration list) \<Rightarrow> bool" where
  "sleep_logged ops slept \<longleftrightarrow> (\<forall>d s. slept (snd (aks_Sleep ops d s)) = slept s @ [d]) \<and>
     (\<forall>ev s. slept (snd (aks_Process ops ev s)) = slept s)"

lemma process_loop_schedule:
  assumes "sleep_logged ops slept" and "0 < acn_retryMin c" and "acn_retryMin c \<le> acn_retryMax c"
    and "int64_range (acn_retryMax c)" and "int j < acn_maxProcessAttempts c"
  shows "\<exists>k\<ge>j. int k < acn_maxProcessAttempts c \<and>
    slept (snd (process_loop ops c ev (retry_delay (acn_retryMin c) (acn_retryMax c) j) (int j + 1) s)) =
      slept s @ map (retry_delay (acn_retryMin c) (acn_retryMax c)) [j..<k]"
  using assms(5)
proof (induction "nat (acn_maxProcessAttempts c) - j" arbitrary: j s)
  case (Suc m)
  let ?d = "retry_delay (acn_retryMin c) (acn_retryMax c)"
  obtain r s1 where r: "aks_Process ops ev s = (r, s1)" by fastforce
  with assms(1) have l1: "slept s1 = slept s" unfolding sleep_logged_def by (metis snd_conv)
  obtain z s2 where z: "aks_Sleep ops (?d j) s1 = (z, s2)" by fastforce
  with assms(1) have l2: "slept s2 = slept s1 @ [?d j]" unfolding sleep_logged_def by (metis snd_conv)
  show ?case
  proof (cases "(\<exists>x. r = Inr x) \<or> (\<exists>e. r = Inl e \<and> (errors_is e NErrInvalidGatewayAccessEvent \<or>
      aks_CtxErr ops s1 \<noteq> None \<or> int j + 1 = acn_maxProcessAttempts c))")
    case True
    then have "snd (process_loop ops c ev (?d j) (int j + 1) s) = s1"
      using r Suc.prems by (subst process_loop.simps) (auto split: option.split)
    with l1 Suc.prems show ?thesis by (intro exI [of _ j]) simp
  next
    case False
    then obtain e where e: "r = Inl e" "\<not> errors_is e NErrInvalidGatewayAccessEvent" "aks_CtxErr ops s1 = None"
        "int j + 1 \<noteq> acn_maxProcessAttempts c" by (cases r) auto
    show ?thesis
    proof (cases z)
      case (Some err)
      then have "snd (process_loop ops c ev (?d j) (int j + 1) s) = s2"
        using r z e Suc.prems by (subst process_loop.simps) simp
      with l1 l2 e(4) Suc.prems show ?thesis by (intro exI [of _ "Suc j"]) simp
    next
      case None
      then have step: "process_loop ops c ev (?d j) (int j + 1) s = process_loop ops c ev (?d (Suc j)) (int (Suc j) + 1) s2"
        using r z e Suc.prems nextRetryDelay_schedule [OF assms(2-4), of j]
        by (subst process_loop.simps) (simp add: add.commute)
      have "m = nat (acn_maxProcessAttempts c) - Suc j" "int (Suc j) < acn_maxProcessAttempts c"
        using Suc.hyps(2) Suc.prems e(4) by auto
      from Suc.hyps(1) [OF this, of s2] obtain k where k: "k \<ge> Suc j" "int k < acn_maxProcessAttempts c"
        "slept (snd (process_loop ops c ev (?d (Suc j)) (int (Suc j) + 1) s2)) = slept s2 @ map ?d [Suc j..<k]" by blast
      have "map ?d [j..<k] = ?d j # map ?d [Suc j..<k]" using k(1) by (simp add: upt_conv_Cons)
      with k l1 l2 step show ?thesis by (intro exI [of _ k]) simp
    qed
  qed
qed auto

section \<open>Offsets and the event table\<close>

text \<open>The identifiers of the stored events.\<close>

definition stored_ids :: "'z analytics_state \<Rightarrow> string set" where
  "stored_ids s = ae_event_id ` set (db_events (pg_db s))"

text \<open>What the Kafka client may do to the state. \<open>committed\<close> lists the records whose offsets have been
  committed; only a commit adds to it, and only its own record. Other consumers may store further
  events meanwhile.\<close>

definition kafka_contract :: "'z analytics_state analytics_ops \<Rightarrow> ('z analytics_state \<Rightarrow> ConsumedRecord list) \<Rightarrow> bool" where
  "kafka_contract ops committed \<longleftrightarrow>
     (let others = (\<lambda>s s'. (analytics_ok (pg_db s) \<longrightarrow> analytics_ok (pg_db s')) \<and> stored_ids s \<subseteq> stored_ids s') in
      (\<forall>s db n. committed (s\<lparr>pg_tick := n, pg_db := db\<rparr>) = committed s) \<and>
      (\<forall>d s. others s (snd (aks_Sleep ops d s)) \<and> committed (snd (aks_Sleep ops d s)) = committed s) \<and>
      (\<forall>s. others s (aks_AllowRebalance ops s) \<and> committed (aks_AllowRebalance ops s) = committed s) \<and>
      (\<forall>r s. others s (snd (aks_Commit ops r s)) \<and> set (committed (snd (aks_Commit ops r s))) \<subseteq> insert r (set (committed s))))"

text \<open>A record is settled when its value is not a valid event or its event is stored.\<close>

definition settled :: "(string \<Rightarrow> an_err + GatewayAccessEvent) \<Rightarrow> ConsumedRecord \<Rightarrow> 'z analytics_state \<Rightarrow> bool" where
  "settled json_Unmarshal r s \<longleftrightarrow>
     (case decodeGatewayAccessEvent json_Unmarshal (cr_Value r) of Inl _ \<Rightarrow> True | Inr ev \<Rightarrow> ev_EventID ev \<in> stored_ids s)"

definition keeps_settled ::
  "(string \<Rightarrow> an_err + GatewayAccessEvent) \<Rightarrow> ('z analytics_state \<Rightarrow> ConsumedRecord list) \<Rightarrow> 'z analytics_state \<Rightarrow>
   'z analytics_state \<Rightarrow> bool" where
  "keeps_settled json_Unmarshal committed s s' \<longleftrightarrow> analytics_ok (pg_db s') \<and> stored_ids s \<subseteq> stored_ids s' \<and>
     (\<forall>r\<in>set (committed s'). r \<in> set (committed s) \<or> settled json_Unmarshal r s')"

lemma settled_mono: "settled j r s \<Longrightarrow> stored_ids s \<subseteq> stored_ids s' \<Longrightarrow> settled j r s'"
  by (auto simp: settled_def split: sum.splits)

lemma keeps_settled_refl: "analytics_ok (pg_db s) \<Longrightarrow> keeps_settled j committed s s"
  by (simp add: keeps_settled_def)

lemma keeps_settled_trans: "keeps_settled j committed s s1 \<Longrightarrow> keeps_settled j committed s1 s2 \<Longrightarrow> keeps_settled j committed s s2"
  unfolding keeps_settled_def using settled_mono by blast

text \<open>The repository writes only its own part of the state.\<close>

lemma pg_exec_frame: "\<exists>n db. snd (pg_exec env stmt s) = s\<lparr>pg_tick := n, pg_db := db\<rparr>"
proof -
  have "\<exists>m db. s\<lparr>pg_tick := n\<rparr> = s\<lparr>pg_tick := m, pg_db := db\<rparr>" for n
    by (rule exI [of _ n], rule exI [of _ "pg_db s"]) simp
  then show ?thesis unfolding pg_exec_def Let_def
    by (auto split: pg_fault.splits sum.splits prod.splits)
qed

lemma exec_frame:
  assumes "\<And>s db n. committed (s\<lparr>pg_tick := n, pg_db := db\<rparr>) = committed s"
  shows "committed (snd (pg_exec env stmt s)) = committed s"
  using pg_exec_frame [of env stmt s] assms by metis

lemma Store_frame:
  assumes "\<And>s db n. committed (s\<lparr>pg_tick := n, pg_db := db\<rparr>) = committed s"
  shows "committed (snd (StoreGatewayAccess tab (Some env) ev s)) = committed s"
proof -
  note ex = exec_frame [of committed, OF assms]
  have rb: "committed (pg_rollback a s) = committed s" for a s
    using assms [of "pg_db a" "pg_tick s" s] by (simp add: pg_rollback_def)
  have be: "committed (snd (pg_begin env s)) = committed s" for s unfolding pg_begin_def by (rule ex)
  have co: "committed (snd (pg_commit env a s)) = committed s" for a s unfolding pg_commit_def by (simp add: ex rb)
  obtain b s1 where b: "pg_begin env s = (b, s1)" by fastforce
  obtain q s2 where q: "pg_exec env (insertGatewayAccessEventQuery env (access_params tab ev)) s1 = (q, s2)" by fastforce
  obtain t s3 where t: "(if shouldAggregate ev
      then pg_exec env (upsertGatewayRouteStatsHourlyQuery env (stats_params tab ev)) s2 else (Inr (), s2)) = (t, s3)" by fastforce
  obtain c s4 where c: "pg_commit env s1 s3 = (c, s4)" by fastforce
  have "committed s1 = committed s" "committed s2 = committed s1" "committed s3 = committed s2" "committed s4 = committed s3"
    using be [of s] b ex [of env "insertGatewayAccessEventQuery env (access_params tab ev)" s1] q
      ex [of env "upsertGatewayRouteStatsHourlyQuery env (stats_params tab ev)" s2] t co [of s1 s3] c
    by (auto split: if_splits)
  then show ?thesis
    by (cases b; cases q; cases t; cases c) (auto simp: StoreGatewayAccess_def b q t c Let_def rb)
qed

lemma Process_frame:
  assumes "\<And>s db n. committed (s\<lparr>pg_tick := n, pg_db := db\<rparr>) = committed s"
  shows "committed (snd (ProcessGatewayAccess (pg_analytics_usecase tab collate env) ev s)) = committed s"
proof -
  obtain q s1 where q: "StoreGatewayAccess tab (Some env) ev s = (q, s1)" by fastforce
  with Store_frame [of committed, OF assms, of tab env ev s] show ?thesis
    by (cases q) (auto simp: ProcessGatewayAccess_def pg_analytics_usecase_def split: option.split)
qed

text \<open>One attempt.\<close>

lemma Process_settles:
  fixes s :: "'z analytics_state"
  assumes "faults_proper env" and "\<And>(s :: 'z analytics_state) db n. committed (s\<lparr>pg_tick := n, pg_db := db\<rparr>) = committed s"
    and "analytics_ok (pg_db s)"
    and "ProcessGatewayAccess (pg_analytics_usecase tab collate env) ev s = (r, s')"
  shows "keeps_settled j committed s s'" and "r = Inr x \<Longrightarrow> ev_EventID ev \<in> stored_ids s'"
    and "r = Inl err \<Longrightarrow> event_Validate ev = None \<Longrightarrow> \<not> errors_is err NErrInvalidGatewayAccessEvent"
proof -
  obtain q s1 where q: "StoreGatewayAccess tab (Some env) ev s = (q, s1)" by fastforce
  note once = counted_once_step [OF assms(1,3) q]
  have com: "committed s1 = committed s" using Store_frame [of committed tab env ev s] assms(2) q by simp
  have ok: "analytics_ok (pg_db s1)" using statistics_exact_step [OF assms(3), of tab "Some env" ev] q by simp
  have ids: "stored_ids s \<subseteq> stored_ids s1" using once by (auto simp: stored_ids_def)
  have run: "r = (case event_Validate ev of Some e \<Rightarrow> Inl (Errorf ''%w: %v'' [Sentinel NErrInvalidGatewayAccessEvent])
        | None \<Rightarrow> (case q of Inl e \<Rightarrow> Inl (Errorf ''store gateway access event: %w'' [e]) | Inr x \<Rightarrow> Inr x))"
      "s' = (case event_Validate ev of Some e \<Rightarrow> s | None \<Rightarrow> s1)"
    using assms(4) q by (auto simp: ProcessGatewayAccess_def pg_analytics_usecase_def split: option.splits sum.splits)
  show "keeps_settled j committed s s'"
    using run(2) com ok ids assms(3) by (auto simp: keeps_settled_def split: option.splits)
  show "ev_EventID ev \<in> stored_ids s'" if "r = Inr x"
    using that run once by (auto simp: stored_ids_def split: option.splits sum.splits)
  show "\<not> errors_is err NErrInvalidGatewayAccessEvent" if "r = Inl err" "event_Validate ev = None"
  proof -
    from that run obtain e where e: "q = Inl e" "err = Errorf ''store gateway access event: %w'' [e]"
      by (auto split: sum.splits)
    then have "NErrInvalidGatewayAccessEvent \<notin> err_ids e"
      using q by (auto simp: StoreGatewayAccess_def an_pg_def Let_def split: prod.splits sum.splits if_splits)
    with e show ?thesis by (simp add: errors_is_iff)
  qed
qed

text \<open>The wiring: the processor is the use case on PostgreSQL.\<close>

definition pg_processing :: "case_tables \<Rightarrow> (string \<Rightarrow> string \<Rightarrow> bool) \<Rightarrow> pg_env \<Rightarrow> 'z analytics_state analytics_ops \<Rightarrow> bool" where
  "pg_processing tab collate env ops \<longleftrightarrow> aks_Process ops = ProcessGatewayAccess (pg_analytics_usecase tab collate env)"

lemma kafka_contractD:
  assumes "kafka_contract ops committed"
  shows "committed (s\<lparr>pg_tick := n, pg_db := db\<rparr>) = committed s"
    and "analytics_ok (pg_db s) \<Longrightarrow> keeps_settled j committed s (snd (aks_Sleep ops d s))"
    and "analytics_ok (pg_db s) \<Longrightarrow> keeps_settled j committed s (aks_AllowRebalance ops s)"
    and "analytics_ok (pg_db s) \<Longrightarrow> settled j r s \<Longrightarrow> keeps_settled j committed s (snd (aks_Commit ops r s))"
proof -
  show "committed (s\<lparr>pg_tick := n, pg_db := db\<rparr>) = committed s"
    "analytics_ok (pg_db s) \<Longrightarrow> keeps_settled j committed s (snd (aks_Sleep ops d s))"
    "analytics_ok (pg_db s) \<Longrightarrow> keeps_settled j committed s (aks_AllowRebalance ops s)"
    using assms by (simp_all add: kafka_contract_def keeps_settled_def Let_def)
  assume "analytics_ok (pg_db s)" and r: "settled j r s"
  define s' where "s' = snd (aks_Commit ops r s)"
  have c: "analytics_ok (pg_db s')" "stored_ids s \<subseteq> stored_ids s'" "set (committed s') \<subseteq> insert r (set (committed s))"
    using assms \<open>analytics_ok (pg_db s)\<close> by (simp_all add: kafka_contract_def Let_def s'_def)
  with settled_mono [OF r c(2)] show "keeps_settled j committed s (snd (aks_Commit ops r s))"
    by (auto simp: keeps_settled_def s'_def [symmetric])
qed

lemma keeps_settled_ok: "keeps_settled j committed s s' \<Longrightarrow> analytics_ok (pg_db s')"
  by (simp add: keeps_settled_def)

lemma process_loop_settles:
  assumes fp: "faults_proper env" and kc: "kafka_contract ops committed" and pp: "pg_processing tab collate env ops"
    and ok: "analytics_ok (pg_db s)" and run: "process_loop ops c ev delay attempt s = (r, s')"
  shows "keeps_settled j committed s s' \<and> (\<forall>x. r = Inr x \<longrightarrow> ev_EventID ev \<in> stored_ids s')"
  using ok run
proof (induction "nat (acn_maxProcessAttempts c + 1 - attempt)" arbitrary: delay attempt s rule: less_induct)
  case less
  obtain q s1 where q: "aks_Process ops ev s = (q, s1)" by fastforce
  with pp have p: "ProcessGatewayAccess (pg_analytics_usecase tab collate env) ev s = (q, s1)"
    by (simp add: pg_processing_def)
  note one = Process_settles [where committed = committed, OF fp kafka_contractD(1) [OF kc] less.prems(1) p]
  obtain z s2 where z: "aks_Sleep ops delay s1 = (z, s2)" by fastforce
  have s2: "keeps_settled j committed s s2"
    using keeps_settled_trans [OF one(1)] kafka_contractD(2) [OF kc keeps_settled_ok [OF one(1)]] z by (metis snd_conv)
  show ?case
  proof (cases "attempt \<le> acn_maxProcessAttempts c")
    case False
    with less.prems show ?thesis by (auto simp: process_loop.simps keeps_settled_refl)
  next
    case in_range: True
    show ?thesis
    proof (cases q)
      case (Inr x)
      with less.prems(2) q in_range have "r = Inr x" "s' = s1" by (simp_all add: process_loop.simps)
      with one Inr show ?thesis by auto
    next
      case (Inl err)
      show ?thesis
      proof (cases "errors_is err NErrInvalidGatewayAccessEvent \<or> aks_CtxErr ops s1 \<noteq> None \<or>
          attempt = acn_maxProcessAttempts c")
        case True
        with less.prems(2) q Inl in_range have "s' = s1 \<and> (\<forall>x. r \<noteq> Inr x)"
          by (subst (asm) process_loop.simps) (auto split: if_splits option.splits)
        with one(1) show ?thesis by auto
      next
        case go: False
        show ?thesis
        proof (cases z)
          case (Some e)
          with less.prems(2) q Inl in_range go z have "s' = s2 \<and> (\<forall>x. r \<noteq> Inr x)"
            by (subst (asm) process_loop.simps) auto
          with s2 show ?thesis by auto
        next
          case None
          with less.prems(2) q Inl in_range go z
          have rec: "process_loop ops c ev (nextRetryDelay delay (acn_retryMax c)) (attempt + 1) s2 = (r, s')"
            by (subst (asm) process_loop.simps) simp
          have "nat (acn_maxProcessAttempts c + 1 - (attempt + 1)) < nat (acn_maxProcessAttempts c + 1 - attempt)"
            using in_range by simp
          from less.hyps [OF this keeps_settled_ok [OF s2] rec] keeps_settled_trans [OF s2] show ?thesis by blast
        qed
      qed
    qed
  qed
qed

lemma process_loop_no_invalid:
  assumes fp: "faults_proper env" and kc: "kafka_contract ops committed" and pp: "pg_processing tab collate env ops"
    and ctx: "\<And>s e. aks_CtxErr ops s = Some e \<Longrightarrow> \<not> errors_is e NErrInvalidGatewayAccessEvent"
      "\<And>d s e s'. aks_Sleep ops d s = (Some e, s') \<Longrightarrow> \<not> errors_is e NErrInvalidGatewayAccessEvent"
    and v: "event_Validate ev = None"
    and ok: "analytics_ok (pg_db s)" and run: "process_loop ops c ev delay attempt s = (Inl err, s')"
  shows "\<not> errors_is err NErrInvalidGatewayAccessEvent"
  using ok run
proof (induction "nat (acn_maxProcessAttempts c + 1 - attempt)" arbitrary: delay attempt s rule: less_induct)
  case less
  obtain q s1 where q: "aks_Process ops ev s = (q, s1)" by fastforce
  with pp have p: "ProcessGatewayAccess (pg_analytics_usecase tab collate env) ev s = (q, s1)"
    by (simp add: pg_processing_def)
  note one = Process_settles [where committed = committed, OF fp kafka_contractD(1) [OF kc] less.prems(1) p]
  obtain z s2 where z: "aks_Sleep ops delay s1 = (z, s2)" by fastforce
  have ok2: "analytics_ok (pg_db s2)"
    using kafka_contractD(2) [OF kc keeps_settled_ok [OF one(1)], of undefined delay] z
    by (metis keeps_settled_ok snd_conv)
  have e1: "q = Inl e \<Longrightarrow> \<not> errors_is e NErrInvalidGatewayAccessEvent" for e using one(3) v by blast
  have rec: "process_loop ops c ev (nextRetryDelay delay (acn_retryMax c)) (attempt + 1) s2 = (Inl err, s') \<Longrightarrow>
      attempt \<le> acn_maxProcessAttempts c \<Longrightarrow> ?case"
    using less.hyps [of "attempt + 1" s2 "nextRetryDelay delay (acn_retryMax c)"] ok2 by simp
  from less.prems(2) show ?case
    by (subst (asm) process_loop.simps)
      (use q z e1 ctx rec in \<open>auto split: if_splits sum.splits option.splits prod.splits simp: errors_is_iff\<close>)
qed

text \<open>The errors of a context are \<open>Canceled\<close> and \<open>DeadlineExceeded\<close>.\<close>

definition ctx_errors_proper :: "'s analytics_ops \<Rightarrow> bool" where
  "ctx_errors_proper ops \<longleftrightarrow>
     (\<forall>s e. aks_CtxErr ops s = Some e \<longrightarrow> \<not> errors_is e NErrInvalidGatewayAccessEvent) \<and>
     (\<forall>d s e s'. aks_Sleep ops d s = (Some e, s') \<longrightarrow> \<not> errors_is e NErrInvalidGatewayAccessEvent)"

lemma snd_commitRecord: "snd (commitRecord ops r s) = snd (aks_Commit ops r s)"
  by (auto simp: commitRecord_def split: prod.splits option.splits)

lemma handleRecord_settles:
  assumes fp: "faults_proper env" and kc: "kafka_contract ops committed" and pp: "pg_processing tab collate env ops"
    and cp: "ctx_errors_proper ops" and ok: "analytics_ok (pg_db s)"
  shows "keeps_settled j committed s (snd (handleRecord j ops c r s))"
proof (cases "decodeGatewayAccessEvent j (cr_Value r)")
  case (Inl e)
  then have "settled j r s" by (simp add: settled_def)
  from kafka_contractD(4) [OF kc ok this] Inl show ?thesis by (simp add: handleRecord_def snd_commitRecord)
next
  case (Inr ev)
  then have v: "event_Validate ev = None"
    by (auto simp: decodeGatewayAccessEvent_def split: sum.splits option.splits)
  obtain q s1 where q: "processWithRetry ops c ev s = (q, s1)" by fastforce
  then have loop: "process_loop ops c ev (acn_retryMin c) 1 s = (q, s1)" by (simp add: processWithRetry_def)
  from process_loop_settles [OF fp kc pp ok loop]
  have s1: "keeps_settled j committed s s1" and stored: "\<forall>x. q = Inr x \<longrightarrow> ev_EventID ev \<in> stored_ids s1" by blast+
  show ?thesis
  proof (cases q)
    case q': (Inr x)
    with stored Inr have "settled j r s1" by (simp add: settled_def)
    from keeps_settled_trans [OF s1 kafka_contractD(4) [OF kc keeps_settled_ok [OF s1] this]] Inr q q'
    show ?thesis by (simp add: handleRecord_def snd_commitRecord)
  next
    case q': (Inl err)
    have ctx: "\<And>s e. aks_CtxErr ops s = Some e \<Longrightarrow> \<not> errors_is e NErrInvalidGatewayAccessEvent"
      "\<And>d s e s'. aks_Sleep ops d s = (Some e, s') \<Longrightarrow> \<not> errors_is e NErrInvalidGatewayAccessEvent"
      using cp unfolding ctx_errors_proper_def by blast+
    have "\<not> errors_is err NErrInvalidGatewayAccessEvent"
      by (rule process_loop_no_invalid [OF fp kc pp ctx v ok loop [unfolded q']])
    with s1 Inr q q' show ?thesis by (simp add: handleRecord_def)
  qed
qed

lemma handle_all_settles:
  assumes "faults_proper env" and "kafka_contract ops committed" and "pg_processing tab collate env ops"
    and "ctx_errors_proper ops" and "analytics_ok (pg_db s)"
  shows "keeps_settled j committed s (snd (handle_all j ops c rs err s))"
  using assms(5)
proof (induction rs arbitrary: err s)
  case (Cons r rs)
  obtain e s1 where e: "handleRecord j ops c r s = (e, s1)" by fastforce
  have s1: "keeps_settled j committed s s1" using handleRecord_settles [OF assms(1-4) Cons.prems] e by (metis snd_conv)
  from keeps_settled_trans [OF s1 Cons.IH [OF keeps_settled_ok [OF s1]]] e show ?case by simp
qed (simp add: keeps_settled_refl)

section \<open>Properties\<close>


text \<open>C35. Retries are bounded: processing an event starts fewer timers than the configured number of
  attempts, with delays that double from the configured minimum up to the configured maximum.\<close>

theorem retry_schedule_bounded:
  assumes "sleep_logged ops slept" and "0 < acn_retryMin c" and "acn_retryMin c \<le> acn_retryMax c"
    and "int64_range (acn_retryMax c)" and "0 < acn_maxProcessAttempts c"
  shows "\<exists>k. int k < acn_maxProcessAttempts c \<and>
    slept (snd (processWithRetry ops c ev s)) =
      slept s @ map (\<lambda>i. min (acn_retryMax c) (acn_retryMin c * 2 ^ i)) [0..<k]"
proof -
  have d: "retry_delay (acn_retryMin c) (acn_retryMax c) 0 = acn_retryMin c" using assms(3) by (simp add: retry_delay_def)
  have f: "retry_delay (acn_retryMin c) (acn_retryMax c) = (\<lambda>i. min (acn_retryMax c) (acn_retryMin c * 2 ^ i))"
    by (simp add: retry_delay_def fun_eq_iff)
  show ?thesis
    using process_loop_schedule [OF assms(1-4), of 0 ev s] assms(5) unfolding d unfolding f
    by (auto simp: processWithRetry_def)
qed

text \<open>A consumer on tables that start empty, with a log of commits and of delays in the state.\<close>

record analytics_world = "analytics_db pg" +
  aw_committed :: "ConsumedRecord list"
  aw_slept :: "Duration list"

definition demo_analytics_ops :: "analytics_world analytics_ops" where
  "demo_analytics_ops =
     \<lparr>aks_Process = ProcessGatewayAccess (pg_analytics_usecase demo_tables bytes_less demo_analytics_pg),
      aks_CtxErr = (\<lambda>w. None), aks_Sleep = (\<lambda>d w. (None, w\<lparr>aw_slept := aw_slept w @ [d]\<rparr>)),
      aks_Commit = (\<lambda>r w. (None, w\<lparr>aw_committed := aw_committed w @ [r]\<rparr>)), aks_AllowRebalance = (\<lambda>w. w)\<rparr>"

definition demo_analytics_consumer :: AnalyticsConsumer where
  "demo_analytics_consumer = \<lparr>acn_retryMin = Second, acn_retryMax = 30 * Second, acn_maxProcessAttempts = 5\<rparr>"

definition demo_analytics_world :: "nat \<Rightarrow> analytics_world" where
  "demo_analytics_world n =
     \<lparr>pg_db = \<lparr>db_events = [], db_stats = []\<rparr>, pg_tick = n, aw_committed = [], aw_slept = []\<rparr>"

definition demo_decode :: "string \<Rightarrow> an_err + GatewayAccessEvent" where
  "demo_decode v = (if v = ''v'' then Inr (demo_event\<lparr>ev_ProjectID := ''''\<rparr>) else Inl (Sentinel (NExternal ''json'')))"

definition demo_record :: ConsumedRecord where
  "demo_record = \<lparr>cr_Topic = ''t'', cr_Partition = 0, cr_Offset = 7, cr_Value = ''v''\<rparr>"

lemma demo_contract: "kafka_contract demo_analytics_ops aw_committed"
  by (auto simp: kafka_contract_def Let_def demo_analytics_ops_def stored_ids_def)

lemma demo_ctx: "ctx_errors_proper demo_analytics_ops"
  by (simp add: ctx_errors_proper_def demo_analytics_ops_def)

text \<open>The commit of the first attempt is lost on the way back; the second attempt finds a duplicate.\<close>

lemma demo_analytics_run:
  "let w = snd (analytics_Run demo_decode demo_analytics_ops demo_analytics_consumer [[demo_record]] (demo_analytics_world 0)) in
   aw_committed w = [demo_record] \<and> aw_slept w = [Second] \<and> length (db_events (pg_db w)) = 1"
  by code_simp


theorem retry_schedule_bounded_witness:
  "\<exists>k<5. aw_slept (snd (processWithRetry demo_analytics_ops demo_analytics_consumer
       (demo_event\<lparr>ev_ProjectID := ''p''\<rparr>) (demo_analytics_world 0))) =
     map (\<lambda>i. min (30 * Second) (Second * 2 ^ i)) [0..<k]"
proof -
  have log: "sleep_logged demo_analytics_ops aw_slept"
    by (simp add: sleep_logged_def demo_analytics_ops_def Process_frame)
  have "\<exists>k. int k < acn_maxProcessAttempts demo_analytics_consumer \<and>
      aw_slept (snd (processWithRetry demo_analytics_ops demo_analytics_consumer
       (demo_event\<lparr>ev_ProjectID := ''p''\<rparr>) (demo_analytics_world 0))) =
      aw_slept (demo_analytics_world 0) @ map (\<lambda>i. min (acn_retryMax demo_analytics_consumer)
        (acn_retryMin demo_analytics_consumer * 2 ^ i)) [0..<k]"
    by (rule retry_schedule_bounded [OF log]) (simp_all add: demo_analytics_consumer_def go_time int64_range_def)
  then show ?thesis by (simp add: demo_analytics_consumer_def demo_analytics_world_def)
qed

end
