(* ===== verification/Platform_Http.thy ===== *)
theory Platform_Http
  imports Go_Encoding
begin

text \<open>
  The parts of \<open>net/http\<close> and \<open>net\<close> that the HTTP layers use (headers, requests, the response
  writer, \<open>SplitHostPort\<close>), and the two response recorders of the repository:
  \<open>internal/platform/httpresponse/recorder.go\<close>, used by the metrics and tracing middlewares, and
  \<open>internal/gateway/delivery/http/v1/response_recorder.go\<close>, used by the gateway's access-event and
  logging middlewares. A handler writes through a stack of recorders, the innermost first.
\<close>

section \<open>Headers and requests\<close>

text \<open>\<open>textproto.CanonicalMIMEHeaderKey\<close>: the first letter and each letter after a hyphen in upper
  case, the others in lower case; a key with a byte that is not a token byte is left alone.\<close>

definition is_alnum :: "char \<Rightarrow> bool" where
  "is_alnum c = (let n = byte_val c in (48 \<le> n \<and> n \<le> 57) \<or> (65 \<le> n \<and> n \<le> 90) \<or> (97 \<le> n \<and> n \<le> 122))"

definition token_byte :: "char \<Rightarrow> bool" where
  "token_byte c \<longleftrightarrow> is_alnum c \<or> c \<in> set ''!#$%&*+-.^_`|~'' \<or> byte_val c = 39"

fun canonical_from :: "bool \<Rightarrow> string \<Rightarrow> string" where
  "canonical_from up [] = []"
| "canonical_from up (c # cs) =
     (if up then ascii_upper c else ascii_lower c) # canonical_from (c = CHR ''-'') cs"

definition CanonicalHeaderKey :: "string \<Rightarrow> string" where
  "CanonicalHeaderKey k = (if list_all token_byte k then canonical_from True k else k)"

type_synonym Header = "string \<Rightarrow> string list"

definition header_Get :: "Header \<Rightarrow> string \<Rightarrow> string" where
  "header_Get h k = (case h (CanonicalHeaderKey k) of [] \<Rightarrow> '''' | v # _ \<Rightarrow> v)"

definition header_Set :: "Header \<Rightarrow> string \<Rightarrow> string \<Rightarrow> Header" where
  "header_Set h k v = h(CanonicalHeaderKey k := [v])"

definition header_Del :: "Header \<Rightarrow> string \<Rightarrow> Header" where
  "header_Del h k = h(CanonicalHeaderKey k := [])"

lemma header_Get_Set [simp]: "header_Get (header_Set h k v) k = v"
  by (simp add: header_Get_def header_Set_def)

lemma header_Get_Set_other:
  "CanonicalHeaderKey k \<noteq> CanonicalHeaderKey k' \<Longrightarrow> header_Get (header_Set h k v) k' = header_Get h k'"
  by (simp add: header_Get_def header_Set_def)

lemma header_Get_Del [simp]: "header_Get (header_Del h k) k = ''''"
  by (simp add: header_Get_def header_Del_def)

record HttpRequest =
  rq_Method :: string
  rq_Path :: string
  rq_RawQuery :: string
  rq_Host :: string
  rq_Header :: Header
  rq_RemoteAddr :: string
  rq_TLS :: bool

section \<open>SplitHostPort\<close>

definition last_index :: "char \<Rightarrow> string \<Rightarrow> nat option" where
  "last_index c s =
     (if c \<in> set s then Some (length s - 1 - length (takeWhile (\<lambda>x. x \<noteq> c) (rev s))) else None)"

definition first_index :: "char \<Rightarrow> string \<Rightarrow> nat option" where
  "first_index c s = (if c \<in> set s then Some (length (takeWhile (\<lambda>x. x \<noteq> c) s)) else None)"

definition SplitHostPort :: "string \<Rightarrow> (string \<times> string) option" where
  "SplitHostPort s =
     (case last_index (CHR '':'') s of
        None \<Rightarrow> None
      | Some i \<Rightarrow>
          if hd s = CHR ''['' then
            (case first_index (CHR '']'') s of
               None \<Rightarrow> None
             | Some e \<Rightarrow>
                 if e + 1 = i \<and> CHR ''['' \<notin> set (drop 1 s) \<and> CHR '']'' \<notin> set (drop (e + 1) s)
                 then Some (take (e - 1) (drop 1 s), drop (i + 1) s)
                 else None)
          else
            (let host = take i s in
             if CHR '':'' \<in> set host \<or> CHR ''['' \<in> set s \<or> CHR '']'' \<in> set s then None
             else Some (host, drop (i + 1) s)))"

lemma last_index_append:
  "c \<notin> set b \<Longrightarrow> last_index c (a @ c # b) = Some (length a)"
proof -
  assume "c \<notin> set b"
  then have "takeWhile (\<lambda>x. x \<noteq> c) (rev b @ c # rev a) = rev b"
    by (subst takeWhile_append2) auto
  then show ?thesis by (simp add: last_index_def)
qed

text \<open>A host without colons and brackets is recovered from \<open>host:port\<close>.\<close>

lemma SplitHostPort_plain:
  assumes "h \<noteq> []" and "set h \<inter> set '':[]'' = {}" and "set p \<inter> set '':[]'' = {}"
  shows "SplitHostPort (h @ '':'' @ p) = Some (h, p)"
proof -
  have p: "CHR '':'' \<notin> set p" and "hd h \<noteq> CHR ''[''" using assms by (auto simp: neq_Nil_conv)
  then show ?thesis
    using assms last_index_append [OF p, of h] by (auto simp: SplitHostPort_def Let_def)
qed

section \<open>The response writer\<close>

text \<open>
  The writer of \<open>net/http\<close>: informational codes are sent at once, the first other code is the
  status, a write without a status sends 200.
\<close>

record ResponseWriter =
  rw_Header :: Header
  rw_Informational :: "int list"
  rw_Status :: "int option"
  rw_Body :: string

definition base_WriteHeader :: "int \<Rightarrow> ResponseWriter \<Rightarrow> ResponseWriter" where
  "base_WriteHeader code w =
     (if rw_Status w \<noteq> None then w
      else if 100 \<le> code \<and> code \<le> 199 \<and> code \<noteq> 101
        then w\<lparr>rw_Informational := rw_Informational w @ [code]\<rparr>
      else w\<lparr>rw_Status := Some code\<rparr>)"

definition base_Write :: "string \<Rightarrow> ResponseWriter \<Rightarrow> ResponseWriter" where
  "base_Write data w =
     (let w1 = (if rw_Status w = None then base_WriteHeader 200 w else w)
      in w1\<lparr>rw_Body := rw_Body w1 @ data\<rparr>)"

section \<open>Recorders\<close>

text \<open>\<open>GwRec status bytes\<close> is the gateway's recorder, \<open>PlRec statusCode bytesWritten wroteHeader\<close>
  the platform's. A writer is the stack of recorders over the base writer.\<close>

datatype recorder =
    GwRec (rec_status: int) (rec_bytes: int)
  | PlRec (rec_status: int) (rec_bytes: int) (rec_wrote: bool)

type_synonym writer = "recorder list \<times> ResponseWriter"

definition newResponseRecorder :: "writer \<Rightarrow> writer" where
  "newResponseRecorder w = (GwRec 200 0 # fst w, snd w)"

definition NewRecorder :: "writer \<Rightarrow> writer" where
  "NewRecorder w = (PlRec 200 0 False # fst w, snd w)"

fun writer_WriteHeader :: "int \<Rightarrow> writer \<Rightarrow> writer" where
  "writer_WriteHeader code ([], b) = ([], base_WriteHeader code b)"
| "writer_WriteHeader code (GwRec st n # rs, b) =
     (case writer_WriteHeader code (rs, b) of (rs', b') \<Rightarrow> (GwRec code n # rs', b'))"
| "writer_WriteHeader code (PlRec st n wrote # rs, b) =
     (if wrote then (PlRec st n wrote # rs, b)
      else (case writer_WriteHeader code (rs, b) of (rs', b') \<Rightarrow> (PlRec code n True # rs', b')))"

lemma length_writer_WriteHeader [simp]: "length (fst (writer_WriteHeader code w)) = length (fst w)"
  by (induction code w rule: writer_WriteHeader.induct) (auto split: prod.splits)

function writer_Write :: "string \<Rightarrow> writer \<Rightarrow> writer" where
  "writer_Write data ([], b) = ([], base_Write data b)"
| "writer_Write data (GwRec st n # rs, b) =
     (case writer_Write data (rs, b) of (rs', b') \<Rightarrow>
        (GwRec (if st = 0 then 200 else st) (n + int (length data)) # rs', b'))"
| "writer_Write data (PlRec st n wrote # rs, b) =
     (if wrote then
        (case writer_Write data (rs, b) of (rs', b') \<Rightarrow> (PlRec st (n + int (length data)) True # rs', b'))
      else
        (case writer_WriteHeader 200 (rs, b) of (rs1, b1) \<Rightarrow>
         case writer_Write data (rs1, b1) of (rs', b') \<Rightarrow>
           (PlRec 200 (n + int (length data)) True # rs', b')))"
  by pat_completeness auto
termination
  by (relation "measure (\<lambda>(data, w). length (fst w))")
     (auto dest: arg_cong [of _ _ "\<lambda>p. length (fst p)"])

definition writer_Header :: "writer \<Rightarrow> Header" where
  "writer_Header w = rw_Header (snd w)"

definition writer_setHeader :: "Header \<Rightarrow> writer \<Rightarrow> writer" where
  "writer_setHeader h w = (fst w, (snd w)\<lparr>rw_Header := h\<rparr>)"

text \<open>What a client sees: the status sent, 200 when the handler wrote nothing.\<close>

definition sent_status :: "writer \<Rightarrow> int" where
  "sent_status w = (case rw_Status (snd w) of None \<Rightarrow> 200 | Some c \<Rightarrow> c)"

text \<open>The calls a handler makes on its writer.\<close>

datatype wcall = CallWriteHeader int | CallWrite string

primrec do_call :: "wcall \<Rightarrow> writer \<Rightarrow> writer" where
  "do_call (CallWriteHeader code) w = writer_WriteHeader code w"
| "do_call (CallWrite data) w = writer_Write data w"

definition do_calls :: "wcall list \<Rightarrow> writer \<Rightarrow> writer" where
  "do_calls cs w = fold do_call cs w"

definition fresh_base :: ResponseWriter where
  "fresh_base = \<lparr>rw_Header = (\<lambda>_. []), rw_Informational = [], rw_Status = None, rw_Body = ''''\<rparr>"

section \<open>Recorded and sent status\<close>

text \<open>A stack in which nothing has been written yet, and one through which \<open>code\<close> and \<open>k\<close> bytes
  went.\<close>

primrec fresh_rec :: "recorder \<Rightarrow> bool" where
  "fresh_rec (GwRec st n) \<longleftrightarrow> st = 200 \<and> n = 0"
| "fresh_rec (PlRec st n wrote) \<longleftrightarrow> st = 200 \<and> n = 0 \<and> \<not> wrote"

primrec rec_saw :: "int \<Rightarrow> int \<Rightarrow> recorder \<Rightarrow> bool" where
  "rec_saw code k (GwRec st n) \<longleftrightarrow> st = code \<and> n = k"
| "rec_saw code k (PlRec st n wrote) \<longleftrightarrow> st = code \<and> n = k \<and> wrote"

definition final_code :: "int \<Rightarrow> bool" where
  "final_code code \<longleftrightarrow> 200 \<le> code \<and> code \<le> 999"

lemma WriteHeader_fresh:
  "final_code code \<Longrightarrow> list_all fresh_rec rs \<Longrightarrow> rw_Status b = None \<Longrightarrow>
     writer_WriteHeader code (rs, b) = (rs', b') \<Longrightarrow>
     list_all (rec_saw code 0) rs' \<and> b' = b\<lparr>rw_Status := Some code\<rparr>"
proof (induction rs arbitrary: rs')
  case Nil
  then show ?case by (auto simp: base_WriteHeader_def final_code_def)
next
  case (Cons r rs)
  then show ?case by (cases r) (auto split: prod.splits)
qed

lemma Write_seen:
  "code \<noteq> 0 \<Longrightarrow> list_all (rec_saw code k) rs \<Longrightarrow> rw_Status b = Some code \<Longrightarrow>
     writer_Write data (rs, b) = (rs', b') \<Longrightarrow>
     list_all (rec_saw code (k + int (length data))) rs' \<and> b' = b\<lparr>rw_Body := rw_Body b @ data\<rparr>"
proof (induction rs arbitrary: rs' b')
  case Nil
  then show ?case by (auto simp: base_Write_def)
next
  case (Cons r rs)
  then show ?case by (cases r) (auto split: prod.splits)
qed

lemma Writes_seen:
  "code \<noteq> 0 \<Longrightarrow> list_all (rec_saw code k) rs \<Longrightarrow> rw_Status b = Some code \<Longrightarrow>
     do_calls (map CallWrite ds) (rs, b) = (rs', b') \<Longrightarrow>
     list_all (rec_saw code (k + int (length (concat ds)))) rs' \<and> rw_Status b' = Some code \<and>
     rw_Body b' = rw_Body b @ concat ds"
proof (induction ds arbitrary: k rs b)
  case Nil
  then show ?case by (auto simp: do_calls_def)
next
  case (Cons d ds)
  obtain rs1 b1 where w: "writer_Write d (rs, b) = (rs1, b1)" by fastforce
  with Write_seen [OF Cons.prems(1-3) w] Cons.IH [of "k + int (length d)" rs1 b1] Cons.prems
  show ?case by (simp add: do_calls_def add.assoc)
qed



text \<open>Once a platform recorder has let an informational code through, it drops every later
  \<open>WriteHeader\<close>, so the final status never reaches the base writer.\<close>

lemma PlRec_drops: "writer_WriteHeader code (PlRec st n True # rs, b) = (PlRec st n True # rs, b)"
  by simp

text \<open>C39. An informational code (103, say) sent through a platform recorder makes it drop the final
  status: whatever final code the handler sends next, the client receives 200 with the body.\<close>

theorem informational_hides_status:
  assumes "100 \<le> info" and "info \<le> 199" and "info \<noteq> 101"
  shows "sent_status (do_calls [CallWriteHeader info, CallWriteHeader code, CallWrite body]
           (NewRecorder ([], fresh_base))) = 200"
  using assms
  by (simp add: do_calls_def NewRecorder_def base_WriteHeader_def base_Write_def fresh_base_def
      sent_status_def)

theorem informational_hides_status_witness:
  "sent_status (do_calls [CallWriteHeader 103, CallWriteHeader 404, CallWrite ''route not found'']
     (NewRecorder ([], fresh_base))) = 200"
  by (rule informational_hides_status) simp_all

end
