(* ===== verification/Worker_Webhook.thy ===== *)
theory Worker_Webhook
  imports Jobs_Domain Platform_Http
begin

unbundle bit_operations_syntax

text \<open>
  \<open>internal/jobworker/domain/errors.go\<close> and \<open>internal/jobworker/infrastructure/webhook/sender.go\<close>: permanent
  errors, and the webhook sender with its protection against requests to internal addresses. An
  address is the byte string of \<open>net.IP\<close>, of length 4 or 16. Name resolution, the URL parser, dialing
  and the HTTP client are parameters; the client reaches the network only through the dial function
  it is given.
\<close>

section \<open>Permanent errors\<close>

definition Permanent :: "jb_err \<Rightarrow> jb_err" where
  "Permanent err = Typed ''PermanentError'' err"

definition IsPermanent :: "jb_err \<Rightarrow> bool" where
  "IsPermanent err = errors_as err ''PermanentError''"

lemma IsPermanent_Permanent [simp]: "IsPermanent (Permanent err)"
  by (simp add: IsPermanent_def Permanent_def)

section \<open>Addresses\<close>

text \<open>The tests of \<open>net.IP\<close> in the standard library.\<close>

definition IP_To4 :: "string \<Rightarrow> string option" where
  "IP_To4 ip =
     (if length ip = 4 then Some ip
      else if length ip = 16 \<and> list_all (\<lambda>b. byte_val b = 0) (take 10 ip) \<and>
              byte_val (ip ! 10) = 255 \<and> byte_val (ip ! 11) = 255 then Some (drop 12 ip)
      else None)"

definition IPv6loopback :: string where
  "IPv6loopback = replicate 15 (char_of (0::nat)) @ [char_of (1::nat)]"

definition IPv6unspecified :: string where
  "IPv6unspecified = replicate 16 (char_of (0::nat))"

definition IP_IsLoopback :: "string \<Rightarrow> bool" where
  "IP_IsLoopback ip = (case IP_To4 ip of Some a \<Rightarrow> byte_val (a ! 0) = 127 | None \<Rightarrow> ip = IPv6loopback)"

definition IP_IsPrivate :: "string \<Rightarrow> bool" where
  "IP_IsPrivate ip =
     (case IP_To4 ip of
        Some a \<Rightarrow> byte_val (a ! 0) = 10 \<or> (byte_val (a ! 0) = 172 \<and> byte_val (a ! 1) AND 240 = 16) \<or>
                  (byte_val (a ! 0) = 192 \<and> byte_val (a ! 1) = 168)
      | None \<Rightarrow> length ip = 16 \<and> byte_val (ip ! 0) AND 254 = 252)"

definition IP_IsUnspecified :: "string \<Rightarrow> bool" where
  "IP_IsUnspecified ip =
     (case IP_To4 ip of Some a \<Rightarrow> list_all (\<lambda>b. byte_val b = 0) a | None \<Rightarrow> ip = IPv6unspecified)"

definition IP_IsMulticast :: "string \<Rightarrow> bool" where
  "IP_IsMulticast ip =
     (case IP_To4 ip of Some a \<Rightarrow> byte_val (a ! 0) AND 240 = 224 | None \<Rightarrow> length ip = 16 \<and> byte_val (ip ! 0) = 255)"

definition IP_IsLinkLocalUnicast :: "string \<Rightarrow> bool" where
  "IP_IsLinkLocalUnicast ip =
     (case IP_To4 ip of
        Some a \<Rightarrow> byte_val (a ! 0) = 169 \<and> byte_val (a ! 1) = 254
      | None \<Rightarrow> length ip = 16 \<and> byte_val (ip ! 0) = 254 \<and> byte_val (ip ! 1) AND 192 = 128)"

definition IP_IsLinkLocalMulticast :: "string \<Rightarrow> bool" where
  "IP_IsLinkLocalMulticast ip =
     (case IP_To4 ip of
        Some a \<Rightarrow> byte_val (a ! 0) = 224 \<and> byte_val (a ! 1) = 0 \<and> byte_val (a ! 2) = 0
      | None \<Rightarrow> length ip = 16 \<and> byte_val (ip ! 0) = 255 \<and> byte_val (ip ! 1) AND 15 = 2)"

definition blockedIP :: "string \<Rightarrow> bool" where
  "blockedIP ip \<longleftrightarrow>
     IP_IsLoopback ip \<or> IP_IsPrivate ip \<or> IP_IsUnspecified ip \<or> IP_IsMulticast ip \<or>
     IP_IsLinkLocalUnicast ip \<or> IP_IsLinkLocalMulticast ip"

section \<open>The sender\<close>

record WebhookConfig =
  whc_Timeout :: Duration
  whc_AllowedHosts :: "string list"

record Sender =
  snd_timeout :: Duration
  snd_allowedHosts :: "string set"

definition NewSender :: "case_tables \<Rightarrow> WebhookConfig \<Rightarrow> Sender" where
  "NewSender ct config =
     \<lparr>snd_timeout = whc_Timeout config,
      snd_allowedHosts = set (filter (\<lambda>host. host \<noteq> '''')
        (map (\<lambda>host. ToLower ct (TrimSpace host)) (whc_AllowedHosts config)))\<rparr>"

definition JoinHostPort :: "string \<Rightarrow> string \<Rightarrow> string" where
  "JoinHostPort host port =
     (if CHR '':'' \<in> set host then ''['' @ host @ '']:'' @ port else host @ '':'' @ port)"

type_synonym 's dial = "string \<Rightarrow> string \<Rightarrow> 's \<Rightarrow> (jb_err + nat) \<times> 's"

record WebRequest =
  wr_Method :: string
  wr_URL :: string
  wr_Header :: Header
  wr_Body :: string

record 's http_client =
  hc_Timeout :: Duration
  hc_ServerName :: string
  hc_DialContext :: "'s dial"
  hc_FollowRedirects :: bool

record 's web_net =
  wn_case :: case_tables
  wn_EqualFold :: "string \<Rightarrow> string \<Rightarrow> bool"
  wn_Parse :: "string \<Rightarrow> web_url option"
  wn_ParseIP :: "string \<Rightarrow> string option"
  wn_IPString :: "string \<Rightarrow> string"
  wn_LookupIPAddr :: "string \<Rightarrow> 's \<Rightarrow> (jb_err + string list) \<times> 's"
  wn_NewRequest :: "string \<Rightarrow> string \<Rightarrow> jb_err option"
  wn_Dial :: "'s dial"
  wn_Do :: "'s http_client \<Rightarrow> WebRequest \<Rightarrow> 's \<Rightarrow> (jb_err + int) \<times> 's"

definition retryableStatus :: "int \<Rightarrow> bool" where
  "retryableStatus statusCode \<longleftrightarrow> statusCode = 408 \<or> statusCode = 425 \<or> statusCode = 429 \<or> statusCode \<ge> 500"

definition resolveTarget ::
  "'s web_net \<Rightarrow> Sender \<Rightarrow> string \<Rightarrow> 's \<Rightarrow> (jb_err + web_url \<times> string list) \<times> 's" where
  "resolveTarget net snd0 rawURL s =
     (case wn_Parse net (TrimSpace rawURL) of
        None \<Rightarrow> (Inl (Permanent (Sentinel WErrInvalidURL)), s)
      | Some target \<Rightarrow>
          if wu_Hostname target = '''' \<or> (wu_Scheme target \<noteq> ''http'' \<and> wu_Scheme target \<noteq> ''https'') \<or> wu_HasUser target
            then (Inl (Permanent (Sentinel WErrInvalidURL)), s)
          else
            (let host = ToLower (wn_case net) (wu_Hostname target);
                 explicitlyAllowed = host \<in> snd_allowedHosts snd0;
                 (found, s1) = (case wn_ParseIP net host of
                    Some parsed \<Rightarrow> (Inr [parsed], s)
                  | None \<Rightarrow>
                      (case wn_LookupIPAddr net host s of
                         (Inl err, s1) \<Rightarrow> (Inl (Errorf ''resolve webhook host: %w'' [err]), s1)
                       | (Inr resolved, s1) \<Rightarrow> (Inr resolved, s1))) in
             case found of
               Inl err \<Rightarrow> (Inl err, s1)
             | Inr addresses \<Rightarrow>
                 if addresses = [] then (Inl (Errorf ''resolve webhook host: no addresses'' []), s1)
                 else if \<not> explicitlyAllowed \<and> list_ex blockedIP addresses
                   then (Inl (Permanent (Errorf ''%w: %s'' [Sentinel WErrBlockedTarget])), s1)
                 else (Inr (target, addresses), s1)))"

text \<open>The loop over the resolved addresses.\<close>

fun dial_loop :: "'s web_net \<Rightarrow> string \<Rightarrow> string \<Rightarrow> string list \<Rightarrow> jb_err list \<Rightarrow> 's \<Rightarrow> (jb_err + nat) \<times> 's" where
  "dial_loop net network port [] lastError s = (Inl (Errorf ''dial webhook target: %w'' lastError), s)"
| "dial_loop net network port (ip # ips) lastError s =
     (case wn_Dial net network (JoinHostPort (wn_IPString net ip) port) s of
        (Inr connection, s1) \<Rightarrow> (Inr connection, s1)
      | (Inl err, s1) \<Rightarrow> dial_loop net network port ips [err] s1)"

definition fixedDialer :: "'s web_net \<Rightarrow> string \<Rightarrow> string list \<Rightarrow> 's dial" where
  "fixedDialer net expectedHost addresses network address s =
     (case SplitHostPort address of
        None \<Rightarrow> (Inl (Sentinel (JbExternal ''address'')), s)
      | Some (host, port) \<Rightarrow>
          if \<not> wn_EqualFold net host expectedHost
            then (Inl (Permanent (Errorf ''%w: unexpected redirect host %q'' [Sentinel WErrBlockedTarget])), s)
          else dial_loop net network port addresses [] s)"

definition webhook_request :: "string \<Rightarrow> web_url \<Rightarrow> WebhookPayload \<Rightarrow> WebRequest" where
  "webhook_request method target payload =
     (let h1 = fold (\<lambda>(name, v) h. header_Set h name v) (wp_Headers payload) (\<lambda>_. []);
          h2 = (if wp_Body payload \<noteq> '''' \<and> header_Get h1 ''Content-Type'' = ''''
                then header_Set h1 ''Content-Type'' ''application/json'' else h1);
          h3 = header_Set h2 ''User-Agent'' ''EdgeGuard-Notification-Worker/1.0'' in
      \<lparr>wr_Method = method, wr_URL = wu_String target, wr_Header = h3, wr_Body = wp_Body payload\<rparr>)"

definition Deliver :: "'s web_net \<Rightarrow> Sender \<Rightarrow> WebhookPayload \<Rightarrow> 's \<Rightarrow> jb_err option \<times> 's" where
  "Deliver net snd0 payload s =
     (case resolveTarget net snd0 (wp_URL payload) s of
        (Inl err, s1) \<Rightarrow> (Some err, s1)
      | (Inr (target, addresses), s1) \<Rightarrow>
          (let method = ToUpper (wn_case net) (TrimSpace (wp_Method payload)) in
           if method \<noteq> ''POST'' \<and> method \<noteq> ''PUT'' \<and> method \<noteq> ''PATCH''
             then (Some (Permanent (Sentinel WErrInvalidMethod)), s1)
           else
             case wn_NewRequest net method (wu_String target) of
               Some err \<Rightarrow> (Some (Permanent (Errorf ''create webhook request: %w'' [err])), s1)
             | None \<Rightarrow>
                 (let client = \<lparr>hc_Timeout = snd_timeout snd0, hc_ServerName = wu_Hostname target,
                                hc_DialContext = fixedDialer net (wu_Hostname target) addresses,
                                hc_FollowRedirects = False\<rparr> in
                  case wn_Do net client (webhook_request method target payload) s1 of
                    (Inl err, s2) \<Rightarrow> (Some (Errorf ''deliver webhook: %w'' [err]), s2)
                  | (Inr status, s2) \<Rightarrow>
                      (if 200 \<le> status \<and> status < 300 then (None, s2)
                       else if retryableStatus status
                         then (Some (Errorf ''%w: status=%d'' [Sentinel WErrUnexpectedStatus]), s2)
                       else (Some (Permanent (Errorf ''%w: status=%d'' [Sentinel WErrNonRetryableStatus])), s2)))))"

section \<open>Blocked addresses as ranges\<close>

lemma and_push_bit: "n AND push_bit k m = push_bit k (drop_bit k n AND m)" for n m :: nat
  by (rule bit_eqI) (auto simp: bit_and_iff bit_push_bit_iff bit_drop_bit_eq)

lemma and_high_nibble:
  assumes "n < (256::nat)"
  shows "n AND 240 = 16 * (n div 16)"
proof -
  have "n AND push_bit 4 15 = push_bit 4 (drop_bit 4 n AND 15)" by (rule and_push_bit)
  moreover have "drop_bit 4 n AND 15 = take_bit 4 (drop_bit 4 n)" by (simp add: take_bit_eq_mask mask_eq_exp_minus_1)
  moreover have "take_bit 4 (drop_bit 4 n) = drop_bit 4 n"
    using assms by (intro take_bit_nat_eq_self) (simp add: drop_bit_eq_div)
  ultimately show ?thesis by (simp add: push_bit_eq_mult drop_bit_eq_div)
qed

lemma byte_mask:
  "byte_val c AND 240 = 16 \<longleftrightarrow> 16 \<le> byte_val c \<and> byte_val c < 32"
  "byte_val c AND 240 = 224 \<longleftrightarrow> 224 \<le> byte_val c \<and> byte_val c < 240"
proof -
  have "byte_val c AND 240 = 16 * (byte_val c div 16)" by (rule and_high_nibble) simp
  moreover have "n div 16 = k \<longleftrightarrow> 16 * k \<le> n \<and> n < 16 * k + 16" for n k :: nat
  proof
    assume "n div 16 = k"
    then show "16 * k \<le> n \<and> n < 16 * k + 16" by linarith
  next
    assume "16 * k \<le> n \<and> n < 16 * k + 16"
    then show "n div 16 = k" by (intro div_nat_eqI) simp_all
  qed
  note this [of "byte_val c" 1] this [of "byte_val c" 14]
  ultimately show "byte_val c AND 240 = 16 \<longleftrightarrow> 16 \<le> byte_val c \<and> byte_val c < 32"
    and "byte_val c AND 240 = 224 \<longleftrightarrow> 224 \<le> byte_val c \<and> byte_val c < 240" by simp_all
qed

definition ipv4 :: "nat \<Rightarrow> nat \<Rightarrow> nat \<Rightarrow> nat \<Rightarrow> string" where
  "ipv4 a b c d = [char_of a, char_of b, char_of c, char_of d]"

text \<open>The form that \<open>net.ParseIP\<close> gives: an IPv4 address mapped into IPv6.\<close>

definition ipv4_mapped :: "string \<Rightarrow> string" where
  "ipv4_mapped ip = replicate 10 (char_of (0::nat)) @ [char_of (255::nat), char_of (255::nat)] @ ip"

lemma To4_mapped: "length ip = 4 \<Longrightarrow> IP_To4 (ipv4_mapped ip) = Some ip"
  by (simp add: IP_To4_def ipv4_mapped_def nth_append list_all_length)

lemma blockedIP_To4: "IP_To4 ip = Some a \<Longrightarrow> length a = 4 \<Longrightarrow> blockedIP ip = blockedIP a"
  by (simp add: blockedIP_def IP_IsLoopback_def IP_IsPrivate_def IP_IsUnspecified_def IP_IsMulticast_def
      IP_IsLinkLocalUnicast_def IP_IsLinkLocalMulticast_def IP_To4_def [of a])

text \<open>C36. For IPv4, whether written in 4 bytes or mapped into IPv6, exactly these ranges are refused:
  127.0.0.0/8, 10.0.0.0/8, 172.16.0.0/12, 192.168.0.0/16, 169.254.0.0/16, 224.0.0.0/4 and the single
  address 0.0.0.0.\<close>

theorem blockedIP_ranges:
  assumes "a < 256" and "b < 256" and "c < 256" and "d < 256"
  shows "blockedIP (ipv4_mapped (ipv4 a b c d)) = blockedIP (ipv4 a b c d) \<and>
    (blockedIP (ipv4 a b c d) \<longleftrightarrow>
       a = 127 \<or> a = 10 \<or> (a = 172 \<and> 16 \<le> b \<and> b < 32) \<or> (a = 192 \<and> b = 168) \<or> (a = 169 \<and> b = 254) \<or>
       (224 \<le> a \<and> a < 240) \<or> (a = 0 \<and> b = 0 \<and> c = 0 \<and> d = 0))"
proof -
  have len: "length (ipv4 a b c d) = 4" by (simp add: ipv4_def)
  have "IP_To4 (ipv4 a b c d) = Some (ipv4 a b c d)" by (simp add: IP_To4_def len)
  note to4 = this and v = mod_less [OF assms(1)] mod_less [OF assms(2)] mod_less [OF assms(3)] mod_less [OF assms(4)]
  have lo: "IP_IsLoopback (ipv4 a b c d) \<longleftrightarrow> a = 127"
    by (simp only: IP_IsLoopback_def to4 option.case) (simp add: ipv4_def v)
  have pr: "IP_IsPrivate (ipv4 a b c d) \<longleftrightarrow> a = 10 \<or> (a = 172 \<and> 16 \<le> b \<and> b < 32) \<or> (a = 192 \<and> b = 168)"
    by (simp only: IP_IsPrivate_def to4 option.case byte_mask) (simp add: ipv4_def v)
  have un: "IP_IsUnspecified (ipv4 a b c d) \<longleftrightarrow> a = 0 \<and> b = 0 \<and> c = 0 \<and> d = 0"
    by (simp only: IP_IsUnspecified_def to4 option.case) (simp add: ipv4_def v)
  have mu: "IP_IsMulticast (ipv4 a b c d) \<longleftrightarrow> 224 \<le> a \<and> a < 240"
    by (simp only: IP_IsMulticast_def to4 option.case byte_mask) (simp add: ipv4_def v)
  have lu: "IP_IsLinkLocalUnicast (ipv4 a b c d) \<longleftrightarrow> a = 169 \<and> b = 254"
    by (simp only: IP_IsLinkLocalUnicast_def to4 option.case) (simp add: ipv4_def v)
  have lm: "IP_IsLinkLocalMulticast (ipv4 a b c d) \<longleftrightarrow> a = 224 \<and> b = 0 \<and> c = 0"
    by (simp only: IP_IsLinkLocalMulticast_def to4 option.case) (simp add: ipv4_def v)
  have sub: "a = 224 \<and> b = 0 \<and> c = 0 \<longrightarrow> 224 \<le> a \<and> a < 240" by simp
  have "blockedIP (ipv4 a b c d) \<longleftrightarrow>
       a = 127 \<or> a = 10 \<or> (a = 172 \<and> 16 \<le> b \<and> b < 32) \<or> (a = 192 \<and> b = 168) \<or> (a = 169 \<and> b = 254) \<or>
       (224 \<le> a \<and> a < 240) \<or> (a = 0 \<and> b = 0 \<and> c = 0 \<and> d = 0)"
    unfolding blockedIP_def lo pr un mu lu lm using sub by blast
  with blockedIP_To4 [OF To4_mapped [OF len] len] show ?thesis by simp
qed

theorem blockedIP_ranges_witness:
  "blockedIP (ipv4_mapped (ipv4 10 1 2 3)) \<and> \<not> blockedIP (ipv4_mapped (ipv4 100 64 0 1))"
  using blockedIP_ranges [of 10 1 2 3] blockedIP_ranges [of 100 64 0 1] by simp

section \<open>Where a webhook connects\<close>

text \<open>Whatever the dialer's calls keep is kept by the fixed dialer, which calls it on the given
  addresses only.\<close>

lemma dial_loop_keeps:
  assumes "\<And>ip s. ip \<in> set ips \<Longrightarrow> I s \<Longrightarrow> I (snd (wn_Dial net network (JoinHostPort (wn_IPString net ip) port) s))"
    and "I s"
  shows "I (snd (dial_loop net network port ips err s))"
  using assms
proof (induction ips arbitrary: err s)
  case (Cons ip ips)
  obtain r s1 where d: "wn_Dial net network (JoinHostPort (wn_IPString net ip) port) s = (r, s1)" by fastforce
  with Cons.prems(1) [of ip s] Cons.prems(2) have "I s1" by simp
  with Cons.IH [OF Cons.prems(1)] d show ?case by (cases r) auto
qed simp

lemma fixedDialer_keeps:
  assumes "\<And>ip port s. ip \<in> set ips \<Longrightarrow> I s \<Longrightarrow> I (snd (wn_Dial net network (JoinHostPort (wn_IPString net ip) port) s))"
    and "I s"
  shows "I (snd (fixedDialer net host ips network address s))"
  using dial_loop_keeps [of ips I net network] assms
  by (auto simp: fixedDialer_def split: option.splits)

text \<open>
  The log of dialed addresses: dialing appends to it, nothing else writes it, and the HTTP client
  reaches the network through its dial function only, so that it keeps every invariant of that
  function.
\<close>

definition dial_logged :: "'s web_net \<Rightarrow> ('s \<Rightarrow> string list) \<Rightarrow> bool" where
  "dial_logged net log \<longleftrightarrow>
     (\<forall>n a s. log (snd (wn_Dial net n a s)) = log s @ [a]) \<and>
     (\<forall>h s. log (snd (wn_LookupIPAddr net h s)) = log s) \<and>
     (\<forall>client rq s I. (\<forall>n a t. I t \<longrightarrow> I (snd (hc_DialContext client n a t))) \<longrightarrow> I s \<longrightarrow> I (snd (wn_Do net client rq s)))"

lemma resolveTarget_Inr:
  assumes "resolveTarget net sd url s = (Inr (target, addresses), s1)"
  shows "ToLower (wn_case net) (wu_Hostname target) \<in> snd_allowedHosts sd \<or> (\<forall>ip\<in>set addresses. \<not> blockedIP ip)"
  using assms
  by (auto simp: resolveTarget_def Let_def list_ex_iff split: option.splits if_splits prod.splits sum.splits)

lemma resolveTarget_log:
  assumes "dial_logged net log"
  shows "log (snd (resolveTarget net sd url s)) = log s"
proof -
  have "log t' = log s" if "wn_LookupIPAddr net h s = (x', t')" for h x' t'
    using assms that unfolding dial_logged_def by (metis snd_conv)
  then show ?thesis
    by (auto simp: resolveTarget_def Let_def split: option.splits if_splits prod.splits sum.splits)
qed

lemma dial_logged_Do:
  assumes "dial_logged net log" and "\<And>n a t. I t \<Longrightarrow> I (snd (hc_DialContext client n a t))" and "I s"
  shows "I (snd (wn_Do net client rq s))"
proof -
  note logged = assms(1) [unfolded dial_logged_def, THEN conjunct2, THEN conjunct2, THEN spec [where x = client],
      THEN spec [where x = rq], THEN spec [where x = s], THEN spec [where x = I]]
  show ?thesis by (rule logged [THEN mp, THEN mp]) (use assms(2,3) in simp_all)
qed

lemma Deliver_Do:
  assumes "resolveTarget net sd (wp_URL payload) s = (Inr (target, addresses), s1)"
  shows "snd (Deliver net sd payload s) = s1 \<or>
    (\<exists>client rq. hc_DialContext client = fixedDialer net (wu_Hostname target) addresses \<and>
       snd (Deliver net sd payload s) = snd (wn_Do net client rq s1))"
proof -
  let ?m = "ToUpper (wn_case net) (TrimSpace (wp_Method payload))"
  let ?c = "\<lparr>hc_Timeout = snd_timeout sd, hc_ServerName = wu_Hostname target,
      hc_DialContext = fixedDialer net (wu_Hostname target) addresses, hc_FollowRedirects = False\<rparr>"
  obtain r s2 where d: "wn_Do net ?c (webhook_request ?m target payload) s1 = (r, s2)" by fastforce
  have "snd (Deliver net sd payload s) = s1 \<or> snd (Deliver net sd payload s) = s2"
    by (cases "wn_NewRequest net ?m (wu_String target)"; cases r) (simp_all add: Deliver_def Let_def assms d)
  then have "snd (Deliver net sd payload s) = s1 \<or>
      snd (Deliver net sd payload s) = snd (wn_Do net ?c (webhook_request ?m target payload) s1)"
    by (simp add: d)
  then show ?thesis by (metis http_client.select_convs(3))
qed

text \<open>C20. A webhook delivery connects only to addresses of the resolution it has checked: every address
  dialed during \<open>Deliver\<close> belongs to one of them, and none of them is blocked unless the host is in
  the configured allow list, so that a second resolution or a redirect cannot lead elsewhere.\<close>

theorem Deliver_dials_checked:
  assumes "dial_logged net log" and "Deliver net sd payload s = (r, s')" and "a \<in> set (drop (length (log s)) (log s'))"
  shows "\<exists>ip port target. a = JoinHostPort (wn_IPString net ip) port \<and>
    wn_Parse net (TrimSpace (wp_URL payload)) = Some target \<and>
    (\<not> blockedIP ip \<or> ToLower (wn_case net) (wu_Hostname target) \<in> snd_allowedHosts sd)"
proof -
  obtain x s1 where rt: "resolveTarget net sd (wp_URL payload) s = (x, s1)" by fastforce
  with resolveTarget_log [OF assms(1), of sd "wp_URL payload" s] have l1: "log s1 = log s" by simp
  show ?thesis
  proof (cases x)
    case (Inl err)
    with assms(2,3) rt l1 show ?thesis by (simp add: Deliver_def)
  next
    case (Inr ta)
    then obtain target addresses where ta: "x = Inr (target, addresses)" by (cases ta) auto
    let ?I = "\<lambda>t. \<exists>new. log t = log s @ new \<and>
        (\<forall>a\<in>set new. \<exists>ip\<in>set addresses. \<exists>port. a = JoinHostPort (wn_IPString net ip) port)"
    have one: "?I (snd (wn_Dial net n (JoinHostPort (wn_IPString net ip) port) t))"
      if t: "?I t" and ip: "ip \<in> set addresses" for n ip port t
    proof -
      from t obtain new where "log t = log s @ new"
        "\<forall>a\<in>set new. \<exists>ip\<in>set addresses. \<exists>port. a = JoinHostPort (wn_IPString net ip) port" by blast
      moreover have "log (snd (wn_Dial net n (JoinHostPort (wn_IPString net ip) port) t)) =
          log t @ [JoinHostPort (wn_IPString net ip) port]" using assms(1) by (simp add: dial_logged_def)
      ultimately show ?thesis using ip by (intro exI [of _ "new @ [JoinHostPort (wn_IPString net ip) port]"]) auto
    qed
    have dial: "?I t \<Longrightarrow> ?I (snd (fixedDialer net (wu_Hostname target) addresses n a t))" for n a t
      by (rule fixedDialer_keeps [where I = ?I, OF one])
    have "?I s1" using l1 by auto
    have "?I (snd (wn_Do net client rq s1))"
      if "hc_DialContext client = fixedDialer net (wu_Hostname target) addresses" for client rq
      by (rule dial_logged_Do [where I = ?I, OF assms(1)]) (use dial that \<open>?I s1\<close> in \<open>simp_all\<close>)
    moreover have "s' = snd (Deliver net sd payload s)" using assms(2) by simp
    ultimately have "?I s'" using Deliver_Do [OF rt [unfolded ta]] \<open>?I s1\<close> by force
    then obtain new where new: "log s' = log s @ new"
      "\<forall>a\<in>set new. \<exists>ip\<in>set addresses. \<exists>port. a = JoinHostPort (wn_IPString net ip) port" by blast
    with assms(3) have "a \<in> set new" by simp
    with new(2) obtain ip port where "ip \<in> set addresses" "a = JoinHostPort (wn_IPString net ip) port" by blast
    moreover have "wn_Parse net (TrimSpace (wp_URL payload)) = Some target"
      using rt ta by (auto simp: resolveTarget_def Let_def split: option.splits if_splits prod.splits sum.splits)
    ultimately show ?thesis using resolveTarget_Inr rt ta by metis
  qed
qed

text \<open>A network whose state is the log, with one resolvable host, and a client that dials once.\<close>

definition demo_url :: web_url where
  "demo_url = \<lparr>wu_Scheme = ''http'', wu_Host = ''h:80'', wu_Hostname = ''h'', wu_HasUser = False, wu_String = ''http://h:80/''\<rparr>"

definition demo_net :: "(string list) web_net" where
  "demo_net = \<lparr>wn_case = \<lparr>uni_lower = (\<lambda>x. x), uni_upper = (\<lambda>x. x)\<rparr>, wn_EqualFold = (\<lambda>a b. a = b),
     wn_Parse = (\<lambda>u. Some demo_url), wn_ParseIP = (\<lambda>h. None), wn_IPString = (\<lambda>ip. ''8.8.8.8''),
     wn_LookupIPAddr = (\<lambda>h s. (Inr [ipv4 8 8 8 8], s)), wn_NewRequest = (\<lambda>m u. None),
     wn_Dial = (\<lambda>n a s. (Inr 1, s @ [a])),
     wn_Do = (\<lambda>client rq s. (Inr 200, snd (hc_DialContext client ''tcp'' ''h:80'' s)))\<rparr>"

definition demo_sender :: Sender where
  "demo_sender = \<lparr>snd_timeout = 15 * Second, snd_allowedHosts = {}\<rparr>"

definition demo_webhook :: WebhookPayload where
  "demo_webhook = \<lparr>wp_URL = ''http://h:80/'', wp_Method = ''POST'', wp_Headers = [], wp_Body = ''{}''\<rparr>"

lemma demo_deliver: "Deliver demo_net demo_sender demo_webhook [] = (None, [''8.8.8.8:80''])"
  by code_simp

theorem Deliver_dials_checked_witness:
  "\<exists>ip port. ''8.8.8.8:80'' = JoinHostPort (wn_IPString demo_net ip) port \<and> \<not> blockedIP ip"
proof -
  have "dial_logged demo_net (\<lambda>s. s)" by (simp add: dial_logged_def demo_net_def)
  from Deliver_dials_checked [OF this demo_deliver, of "''8.8.8.8:80''"]
  show ?thesis by (auto simp: demo_sender_def)
qed

end
