(* ===== verification/Worker_Usecase.thy ===== *)
theory Worker_Usecase
  imports Worker_Webhook
begin

text \<open>
  \<open>internal/jobworker/usecase\<close> and \<open>internal/jobworker/domain/result.go\<close>: execution of one job by its type.
  The executors are ports; the JSON decoders are parameters.
\<close>

record WorkerResult =
  wres_Message :: string
  wres_OutputPath :: string
  wres_AffectedRows :: int

record 's WorkerUsecase =
  wu_webhookSender :: "WebhookPayload \<Rightarrow> 's \<Rightarrow> jb_err option \<times> 's"
  wu_reportGenerator :: "string \<Rightarrow> ReportPayload \<Rightarrow> 's \<Rightarrow> (jb_err + string \<times> int) \<times> 's"
  wu_tokenCleaner :: "CleanupPayload \<Rightarrow> 's \<Rightarrow> (jb_err + int) \<times> 's"

text \<open>\<open>json.Unmarshal\<close> at the types the worker decodes; an error is a text.\<close>

record worker_lib =
  wl_json_Valid :: "string \<Rightarrow> bool"
  wl_Webhook :: "string \<Rightarrow> jb_err + WebhookPayload"
  wl_Report :: "string \<Rightarrow> jb_err + ReportPayload"
  wl_Cleanup :: "string \<Rightarrow> jb_err + CleanupPayload"
  wl_Envelope :: "string \<Rightarrow> jb_err + Envelope"
  wl_Error :: "jb_err \<Rightarrow> string"

definition decodePayload :: "(string \<Rightarrow> bool) \<Rightarrow> (string \<Rightarrow> jb_err + 'p) \<Rightarrow> string \<Rightarrow> jb_err + 'p" where
  "decodePayload json_Valid json_Unmarshal raw =
     (if raw = '''' \<or> \<not> json_Valid raw then Inl (Permanent (Sentinel WErrInvalidJobPayload))
      else case json_Unmarshal raw of
             Inl err \<Rightarrow> Inl (Permanent (Errorf ''%w: %v'' [Sentinel WErrInvalidJobPayload]))
           | Inr p \<Rightarrow> Inr p)"

definition Process :: "worker_lib \<Rightarrow> 's WorkerUsecase \<Rightarrow> Envelope \<Rightarrow> 's \<Rightarrow> (jb_err + WorkerResult) \<times> 's" where
  "Process lib u envelope s =
     (if en_Type envelope = TypeWebhookDeliver then
        (case decodePayload (wl_json_Valid lib) (wl_Webhook lib) (en_Payload envelope) of
           Inl err \<Rightarrow> (Inl err, s)
         | Inr payload \<Rightarrow>
             (case wu_webhookSender u payload s of
                (Some err, s1) \<Rightarrow> (Inl err, s1)
              | (None, s1) \<Rightarrow>
                  (Inr \<lparr>wres_Message = ''webhook delivered'', wres_OutputPath = '''', wres_AffectedRows = 0\<rparr>, s1)))
      else if en_Type envelope = TypeReportGenerate then
        (case decodePayload (wl_json_Valid lib) (wl_Report lib) (en_Payload envelope) of
           Inl err \<Rightarrow> (Inl err, s)
         | Inr payload \<Rightarrow>
             (case wu_reportGenerator u (en_ID envelope) payload s of
                (Inl err, s1) \<Rightarrow> (Inl err, s1)
              | (Inr (outputPath, rowCount), s1) \<Rightarrow>
                  (Inr \<lparr>wres_Message = ''report generated'', wres_OutputPath = outputPath,
                        wres_AffectedRows = rowCount\<rparr>, s1)))
      else if en_Type envelope = TypeCleanupExpiredTokens then
        (case decodePayload (wl_json_Valid lib) (wl_Cleanup lib) (en_Payload envelope) of
           Inl err \<Rightarrow> (Inl err, s)
         | Inr payload \<Rightarrow>
             if IsZero (cp_Before payload) \<or> cp_BatchSize payload < 1 \<or> cp_BatchSize payload > 5000
               then (Inl (Permanent (Sentinel WErrInvalidJobPayload)), s)
             else
               (case wu_tokenCleaner u payload s of
                  (Inl err, s1) \<Rightarrow> (Inl err, s1)
                | (Inr deleted, s1) \<Rightarrow>
                    (Inr \<lparr>wres_Message = ''expired refresh tokens cleaned'', wres_OutputPath = '''',
                          wres_AffectedRows = deleted\<rparr>, s1)))
      else (Inl (Permanent (Errorf ''unsupported job type %q'' [])), s))"

text \<open>A payload that cannot be decoded, and an unknown type, are permanent failures and run no executor.\<close>

lemma Process_undecodable:
  assumes "en_Payload e = '''' \<or> \<not> wl_json_Valid lib (en_Payload e) \<or> \<not> type_Valid (en_Type e)"
  shows "\<exists>err. Process lib u e s = (Inl err, s) \<and> IsPermanent err"
  using assms by (auto simp: Process_def decodePayload_def type_Valid_def)

text \<open>What the submission accepts as a cleanup payload, the worker executes.\<close>

lemma cleanup_payload_accepted:
  "NewCleanupPayload before b = Inr p \<Longrightarrow>
     \<not> (IsZero (cp_Before p) \<or> cp_BatchSize p < 1 \<or> cp_BatchSize p > 5000)"
  by (auto simp: NewCleanupPayload_def Let_def DefaultBatchSize_def MaxBatchSize_def split: if_splits)

end
