(* ===== verification/Jobs_Store.thy ===== *)
theory Jobs_Store
  imports Jobs_Domain
begin

text \<open>
  \<open>internal/jobs/infrastructure/postgres\<close>: the table \<open>background_jobs\<close> of
  \<open>migrations/000005_create_background_jobs.sql\<close>, the statements on it with its check constraints, and
  the repository methods, used by the jobs service and by the notification worker. The life cycle of a
  job is a step relation on statuses that every repository call follows.
\<close>

section \<open>Statements\<close>

record jobs_db =
  db_jobs :: "Job list"

type_synonym 'z jobs_state = "(jobs_db, 'z) pg_scheme"

definition status_check :: "Status \<Rightarrow> bool" where
  "status_check s \<longleftrightarrow> (case s of StatusOther x \<Rightarrow> False | _ \<Rightarrow> True)"

definition attempt_check :: "int \<Rightarrow> int \<Rightarrow> bool" where
  "attempt_check current m \<longleftrightarrow> current \<ge> 0 \<and> m \<ge> 1 \<and> current \<le> m"

definition createJobQuery :: "Job \<Rightarrow> (jobs_db, string) sql" where
  "createJobQuery job n db =
     (let row = job\<lparr>jo_CreatedAt := pg_time (jo_CreatedAt job), jo_QueuedAt := None, jo_StartedAt := None,
                    jo_CompletedAt := None, jo_UpdatedAt := pg_time (jo_UpdatedAt job), jo_LastError := '''',
                    jo_ResultMessage := '''', jo_OutputPath := '''', jo_AffectedRows := 0\<rparr> in
      if \<not> int4_ok (jo_CurrentAttempt job) \<or> \<not> int4_ok (jo_MaxAttempts job) then Inl int4_error
      else if \<not> status_check (jo_Status job) then Inl (PgError checkViolationCode ''background_jobs_status_check'')
      else if \<not> attempt_check (jo_CurrentAttempt job) (jo_MaxAttempts job)
        then Inl (PgError checkViolationCode ''background_jobs_attempt_check'')
      else if jo_ID job \<in> jo_ID ` set (db_jobs db) then Inl (PgError uniqueViolationCode ''background_jobs_pkey'')
      else Inr (jo_ID job, db\<lparr>db_jobs := db_jobs db @ [row]\<rparr>))"

text \<open>\<open>UPDATE ... WHERE id = $1 AND guard RETURNING id\<close>; a row that would break a check fails.\<close>

definition update_job ::
  "string \<Rightarrow> (Job \<Rightarrow> bool) \<Rightarrow> (Job \<Rightarrow> Job) \<Rightarrow> (jobs_db, string) sql" where
  "update_job jobID guard upd n db =
     (let hit = (\<lambda>j. jo_ID j = jobID \<and> guard j) in
      if \<not> (\<exists>j\<in>set (db_jobs db). hit j) then Inl ErrNoRows
      else if \<exists>j\<in>set (db_jobs db). hit j \<and> \<not> attempt_check (jo_CurrentAttempt (upd j)) (jo_MaxAttempts (upd j))
        then Inl (PgError checkViolationCode ''background_jobs_attempt_check'')
      else Inr (jobID, db\<lparr>db_jobs := update_rows hit upd (db_jobs db)\<rparr>))"

definition markQueuedQuery :: "string \<Rightarrow> Time \<Rightarrow> (jobs_db, string) sql" where
  "markQueuedQuery jobID at =
     update_job jobID (\<lambda>j. jo_Status j = StatusPublishing)
       (\<lambda>j. j\<lparr>jo_Status := StatusQueued,
              jo_QueuedAt := Some (case jo_QueuedAt j of None \<Rightarrow> pg_time at | Some t \<Rightarrow> t),
              jo_UpdatedAt := pg_time at, jo_LastError := ''''\<rparr>)"

definition markSubmissionFailedQuery :: "string \<Rightarrow> Time \<Rightarrow> string \<Rightarrow> (jobs_db, string) sql" where
  "markSubmissionFailedQuery jobID at failure =
     update_job jobID (\<lambda>j. jo_Status j = StatusPublishing)
       (\<lambda>j. j\<lparr>jo_Status := StatusPublishFailed, jo_CompletedAt := Some (pg_time at),
              jo_UpdatedAt := pg_time at, jo_LastError := failure\<rparr>)"

definition getJobQuery :: "string \<Rightarrow> (jobs_db, Job) sql" where
  "getJobQuery jobID n db =
     (case find_row (\<lambda>j. jo_ID j = jobID) (db_jobs db) of None \<Rightarrow> Inl ErrNoRows | Some j \<Rightarrow> Inr (j, db))"

text \<open>The insert or, on a conflict, the guarded update; otherwise the stored status is read.\<close>

definition prepareAttemptQuery :: "Envelope \<Rightarrow> int \<Rightarrow> Time \<Rightarrow> (jobs_db, Status) sql" where
  "prepareAttemptQuery envelope attempt at n db =
     (let m = en_MaxAttempts envelope;
          row = \<lparr>jo_ID = en_ID envelope, jo_Type = en_Type envelope, jo_Status = StatusProcessing,
                 jo_CurrentAttempt = min attempt m, jo_MaxAttempts = m,
                 jo_CreatedAt = pg_time (en_CreatedAt envelope), jo_QueuedAt = None,
                 jo_StartedAt = Some (pg_time at), jo_CompletedAt = None, jo_UpdatedAt = pg_time at,
                 jo_LastError = '''', jo_ResultMessage = '''', jo_OutputPath = '''', jo_AffectedRows = 0\<rparr>;
          upd = (\<lambda>j. j\<lparr>jo_Status := StatusProcessing, jo_CurrentAttempt := min attempt (jo_MaxAttempts j),
                       jo_StartedAt := Some (case jo_StartedAt j of None \<Rightarrow> pg_time at | Some t \<Rightarrow> t),
                       jo_UpdatedAt := pg_time at, jo_LastError := ''''\<rparr>) in
      if \<not> int4_ok attempt \<or> \<not> int4_ok m then Inl int4_error
      else if \<not> attempt_check (min attempt m) m
        then Inl (PgError checkViolationCode ''background_jobs_attempt_check'')
      else
        case find_row (\<lambda>j. jo_ID j = en_ID envelope) (db_jobs db) of
          None \<Rightarrow> Inr (StatusProcessing, db\<lparr>db_jobs := db_jobs db @ [row]\<rparr>)
        | Some j \<Rightarrow>
            if status_Final (jo_Status j) then Inr (jo_Status j, db)
            else (case update_job (en_ID envelope) (\<lambda>j. \<not> status_Final (jo_Status j)) upd n db of
                    Inl err \<Rightarrow> Inl err
                  | Inr (_, db') \<Rightarrow> Inr (StatusProcessing, db')))"

definition markRetryingQuery :: "string \<Rightarrow> int \<Rightarrow> Time \<Rightarrow> string \<Rightarrow> (jobs_db, string) sql" where
  "markRetryingQuery jobID attempt at failure n db =
     (if \<not> int4_ok attempt then Inl int4_error
      else update_job jobID (\<lambda>j. \<not> status_Final (jo_Status j))
        (\<lambda>j. j\<lparr>jo_Status := StatusRetrying, jo_CurrentAttempt := min attempt (jo_MaxAttempts j),
               jo_UpdatedAt := pg_time at, jo_LastError := failure\<rparr>) n db)"

definition markSucceededQuery :: "string \<Rightarrow> int \<Rightarrow> Time \<Rightarrow> ExecutionResult \<Rightarrow> (jobs_db, string) sql" where
  "markSucceededQuery jobID attempt at result n db =
     (if \<not> int4_ok attempt then Inl int4_error
      else update_job jobID (\<lambda>j. \<not> status_Final (jo_Status j))
        (\<lambda>j. j\<lparr>jo_Status := StatusSucceeded, jo_CurrentAttempt := min attempt (jo_MaxAttempts j),
               jo_CompletedAt := Some (pg_time at), jo_UpdatedAt := pg_time at, jo_LastError := '''',
               jo_ResultMessage := er_Message result, jo_OutputPath := er_OutputPath result,
               jo_AffectedRows := er_AffectedRows result\<rparr>) n db)"

definition markFailedQuery :: "string \<Rightarrow> int \<Rightarrow> Time \<Rightarrow> string \<Rightarrow> (jobs_db, string) sql" where
  "markFailedQuery jobID attempt at failure n db =
     (if \<not> int4_ok attempt then Inl int4_error
      else update_job jobID (\<lambda>j. jo_Status j \<noteq> StatusSucceeded)
        (\<lambda>j. j\<lparr>jo_Status := StatusFailed, jo_CurrentAttempt := min attempt (jo_MaxAttempts j),
               jo_CompletedAt := Some (pg_time at), jo_UpdatedAt := pg_time at, jo_LastError := failure\<rparr>) n db)"

section \<open>Repository methods\<close>

definition scanOptionalID :: "string \<Rightarrow> (pg_error + string) \<times> 's \<Rightarrow> jb_err option \<times> 's" where
  "scanOptionalID operation r =
     (case r of
        (Inr _, s) \<Rightarrow> (None, s)
      | (Inl err, s) \<Rightarrow> (if err = ErrNoRows then None else Some (Errorf (operation @ '': %w'') [Sentinel (JbPg err)]), s))"

definition scanRequiredID :: "string \<Rightarrow> (pg_error + string) \<times> 's \<Rightarrow> jb_err option \<times> 's" where
  "scanRequiredID operation r =
     (case r of
        (Inr _, s) \<Rightarrow> (None, s)
      | (Inl err, s) \<Rightarrow> (Some (Errorf (operation @ '': %w'') [Sentinel (JbPg err)]), s))"

definition jobs_CreateJob :: "pg_env \<Rightarrow> Job \<Rightarrow> 'z jobs_state \<Rightarrow> jb_err option \<times> 'z jobs_state" where
  "jobs_CreateJob env job s =
     (case pg_exec env (createJobQuery job) s of
        (Inr _, s1) \<Rightarrow> (None, s1)
      | (Inl err, s1) \<Rightarrow> (Some (Errorf ''insert background job: %w'' [Sentinel (JbPg err)]), s1))"

definition jobs_MarkQueued :: "pg_env \<Rightarrow> string \<Rightarrow> Time \<Rightarrow> 'z jobs_state \<Rightarrow> jb_err option \<times> 'z jobs_state" where
  "jobs_MarkQueued env jobID at s =
     scanOptionalID ''mark background job queued'' (pg_exec env (markQueuedQuery jobID at) s)"

definition jobs_MarkSubmissionFailed ::
  "pg_env \<Rightarrow> string \<Rightarrow> string \<Rightarrow> Time \<Rightarrow> 'z jobs_state \<Rightarrow> jb_err option \<times> 'z jobs_state" where
  "jobs_MarkSubmissionFailed env jobID failure at s =
     scanOptionalID ''mark background job submission failed''
       (pg_exec env (markSubmissionFailedQuery jobID at (NormalizeFailureMessage failure)) s)"

definition jobs_GetJob :: "pg_env \<Rightarrow> string \<Rightarrow> 'z jobs_state \<Rightarrow> (jb_err + Job) \<times> 'z jobs_state" where
  "jobs_GetJob env jobID s =
     (case pg_exec env (getJobQuery jobID) s of
        (Inr job, s1) \<Rightarrow> (Inr job, s1)
      | (Inl err, s1) \<Rightarrow>
          if err = ErrNoRows then (Inl (Sentinel JErrJobNotFound), s1)
          else (Inl (Errorf ''select background job: %w'' [Sentinel (JbPg err)]), s1))"

definition jobs_PrepareAttempt ::
  "pg_env \<Rightarrow> Envelope \<Rightarrow> int \<Rightarrow> Time \<Rightarrow> 'z jobs_state \<Rightarrow> (jb_err + Status) \<times> 'z jobs_state" where
  "jobs_PrepareAttempt env envelope attempt at s =
     (case pg_exec env (prepareAttemptQuery envelope attempt at) s of
        (Inr status, s1) \<Rightarrow> (Inr status, s1)
      | (Inl err, s1) \<Rightarrow> (Inl (Errorf ''prepare background job attempt: %w'' [Sentinel (JbPg err)]), s1))"

definition jobs_MarkRetrying ::
  "pg_env \<Rightarrow> string \<Rightarrow> int \<Rightarrow> string \<Rightarrow> Time \<Rightarrow> 'z jobs_state \<Rightarrow> jb_err option \<times> 'z jobs_state" where
  "jobs_MarkRetrying env jobID attempt failure at s =
     scanRequiredID ''mark background job retrying''
       (pg_exec env (markRetryingQuery jobID attempt at (NormalizeFailureMessage failure)) s)"

definition jobs_MarkSucceeded ::
  "pg_env \<Rightarrow> string \<Rightarrow> int \<Rightarrow> ExecutionResult \<Rightarrow> Time \<Rightarrow> 'z jobs_state \<Rightarrow> jb_err option \<times> 'z jobs_state" where
  "jobs_MarkSucceeded env jobID attempt result at s =
     scanRequiredID ''mark background job succeeded'' (pg_exec env (markSucceededQuery jobID attempt at result) s)"

definition jobs_MarkFailed ::
  "pg_env \<Rightarrow> string \<Rightarrow> int \<Rightarrow> string \<Rightarrow> Time \<Rightarrow> 'z jobs_state \<Rightarrow> jb_err option \<times> 'z jobs_state" where
  "jobs_MarkFailed env jobID attempt failure at s =
     scanRequiredID ''mark background job failed''
       (pg_exec env (markFailedQuery jobID attempt at (NormalizeFailureMessage failure)) s)"

section \<open>The life cycle of a job\<close>

text \<open>The abstract machine: what the status of a job may become.\<close>

inductive lifecycle :: "Status \<Rightarrow> Status \<Rightarrow> bool" where
  lc_queue: "lifecycle StatusPublishing StatusQueued"
| lc_publish_fail: "lifecycle StatusPublishing StatusPublishFailed"
| lc_start: "\<not> status_Final s \<Longrightarrow> lifecycle s StatusProcessing"
| lc_retry: "\<not> status_Final s \<Longrightarrow> lifecycle s StatusRetrying"
| lc_succeed: "\<not> status_Final s \<Longrightarrow> lifecycle s StatusSucceeded"
| lc_fail: "s \<noteq> StatusSucceeded \<Longrightarrow> lifecycle s StatusFailed"

inductive_cases lifecycle_succeededE: "lifecycle StatusSucceeded s"
inductive_cases lifecycle_failedE: "lifecycle StatusFailed s"

code_pred lifecycle .

lemma lifecycle_star:
  "lifecycle\<^sup>*\<^sup>* StatusPublishing StatusQueued"
  "lifecycle\<^sup>*\<^sup>* StatusPublishing StatusPublishFailed"
  "s \<noteq> StatusSucceeded \<Longrightarrow> s \<noteq> StatusFailed \<Longrightarrow> lifecycle\<^sup>*\<^sup>* s StatusProcessing"
  "s \<noteq> StatusSucceeded \<Longrightarrow> s \<noteq> StatusFailed \<Longrightarrow> lifecycle\<^sup>*\<^sup>* s StatusRetrying"
  "s \<noteq> StatusSucceeded \<Longrightarrow> s \<noteq> StatusFailed \<Longrightarrow> lifecycle\<^sup>*\<^sup>* s StatusSucceeded"
  "s \<noteq> StatusSucceeded \<Longrightarrow> lifecycle\<^sup>*\<^sup>* s StatusFailed"
  by (rule r_into_rtranclp, simp add: lifecycle.intros status_Final_def)+

lemma lifecycle_final_step: "lifecycle s s' \<Longrightarrow> status_Final s \<Longrightarrow> s' = s"
  by (auto simp: status_Final_def elim: lifecycle_succeededE lifecycle_failedE)

lemma lifecycle_final: "lifecycle\<^sup>*\<^sup>* s s' \<Longrightarrow> status_Final s \<Longrightarrow> s' = s"
proof (induction rule: rtranclp_induct)
  case (step y z)
  then show ?case using lifecycle_final_step by blast
qed simp

text \<open>What a row may become: its identity is fixed, its status follows the life cycle, a succeeded row is
  frozen, and the first queueing and starting times are kept.\<close>

definition job_le :: "Job \<Rightarrow> Job \<Rightarrow> bool" where
  "job_le j j' \<longleftrightarrow> jo_ID j' = jo_ID j \<and> jo_Type j' = jo_Type j \<and> jo_MaxAttempts j' = jo_MaxAttempts j \<and>
     jo_CreatedAt j' = jo_CreatedAt j \<and> lifecycle\<^sup>*\<^sup>* (jo_Status j) (jo_Status j') \<and>
     (jo_Status j = StatusSucceeded \<longrightarrow> j' = j) \<and>
     (jo_QueuedAt j \<noteq> None \<longrightarrow> jo_QueuedAt j' = jo_QueuedAt j) \<and>
     (jo_StartedAt j \<noteq> None \<longrightarrow> jo_StartedAt j' = jo_StartedAt j)"

lemma job_le_refl [simp]: "job_le j j"
  by (simp add: job_le_def)

lemma job_le_trans: "job_le a b \<Longrightarrow> job_le b c \<Longrightarrow> job_le a c"
  unfolding job_le_def by (auto dest: rtranclp_trans)

definition job_ok :: "Job \<Rightarrow> bool" where
  "job_ok j \<longleftrightarrow> status_check (jo_Status j) \<and> attempt_check (jo_CurrentAttempt j) (jo_MaxAttempts j) \<and>
     (status_Final (jo_Status j) \<longrightarrow> jo_CompletedAt j \<noteq> None)"

definition jobs_wf :: "jobs_db \<Rightarrow> bool" where
  "jobs_wf db \<longleftrightarrow> distinct (map jo_ID (db_jobs db)) \<and> (\<forall>j\<in>set (db_jobs db). job_ok j)"

definition jobs_le :: "jobs_db \<Rightarrow> jobs_db \<Rightarrow> bool" where
  "jobs_le db db' \<longleftrightarrow> (jobs_wf db \<longrightarrow> jobs_wf db') \<and> rows_le job_le (db_jobs db) (db_jobs db')"

lemma jobs_le_refl [simp]: "jobs_le db db"
  by (simp add: jobs_le_def rows_le_refl)

lemma jobs_le_trans: "jobs_le a b \<Longrightarrow> jobs_le b c \<Longrightarrow> jobs_le a c"
  unfolding jobs_le_def using rows_le_trans [of job_le] job_le_trans by blast

text \<open>A guarded update that changes rows as \<open>job_le\<close> allows and leaves them well-formed.\<close>

lemma update_rows_le:
  assumes "\<And>j. hit j \<Longrightarrow> job_le j (upd j)" and "\<And>j. j \<in> set (db_jobs db) \<Longrightarrow> hit j \<Longrightarrow> job_ok j \<Longrightarrow> job_ok (upd j)"
  shows "jobs_le db (db\<lparr>db_jobs := update_rows hit upd (db_jobs db)\<rparr>)"
proof -
  have "map jo_ID (update_rows hit upd (db_jobs db)) = map jo_ID (db_jobs db)"
    using assms(1) by (intro map_update_rows_same) (simp add: job_le_def)
  moreover have "\<forall>j\<in>set (db_jobs db). job_ok j \<Longrightarrow> \<forall>j\<in>set (update_rows hit upd (db_jobs db)). job_ok j"
    using assms(2) by (auto simp: in_update_rows split: if_splits)
  moreover have "rows_le job_le (db_jobs db) (update_rows hit upd (db_jobs db))"
    using assms(1) by (intro rows_le_update) auto
  ultimately show ?thesis by (auto simp: jobs_le_def jobs_wf_def)
qed

lemma update_job_le:
  assumes "update_job i guard upd n db = Inr (r, db')"
    and "\<And>j. guard j \<Longrightarrow> job_le j (upd j)"
    and "\<And>j. guard j \<Longrightarrow> status_check (jo_Status (upd j)) \<and>
           (status_Final (jo_Status (upd j)) \<longrightarrow> jo_CompletedAt (upd j) \<noteq> None)"
  shows "jobs_le db db'"
proof -
  let ?hit = "\<lambda>j. jo_ID j = i \<and> guard j"
  from assms(1) have db': "db' = db\<lparr>db_jobs := update_rows ?hit upd (db_jobs db)\<rparr>"
    and ok: "\<forall>j\<in>set (db_jobs db). ?hit j \<longrightarrow> attempt_check (jo_CurrentAttempt (upd j)) (jo_MaxAttempts (upd j))"
    by (auto simp: update_job_def Let_def split: if_splits)
  show ?thesis unfolding db'
    by (rule update_rows_le) (use assms(2,3) ok in \<open>auto simp: job_ok_def\<close>)
qed

lemma createJob_le:
  "createJobQuery job n db = Inr (r, db') \<Longrightarrow> \<not> status_Final (jo_Status job) \<Longrightarrow> jobs_le db db'"
  by (auto simp: createJobQuery_def Let_def jobs_le_def jobs_wf_def job_ok_def rows_le_append image_iff
      split: if_splits)

lemma markQueued_le: "markQueuedQuery i at n db = Inr (r, db') \<Longrightarrow> jobs_le db db'"
  unfolding markQueuedQuery_def
  by (erule update_job_le) (auto simp: job_le_def status_check_def status_Final_def
      intro: lifecycle_star)

lemma markSubmissionFailed_le: "markSubmissionFailedQuery i at f n db = Inr (r, db') \<Longrightarrow> jobs_le db db'"
  unfolding markSubmissionFailedQuery_def
  by (erule update_job_le) (auto simp: job_le_def status_check_def status_Final_def
      intro: lifecycle_star)

lemma if_Inr: "(if \<not> c then Inl e else x) = Inr y \<longleftrightarrow> c \<and> x = Inr y"
  by simp

lemma markRetrying_le: "markRetryingQuery i a at f n db = Inr (r, db') \<Longrightarrow> jobs_le db db'"
  unfolding markRetryingQuery_def if_Inr
  by (erule conjE, erule update_job_le) (auto simp: job_le_def status_check_def status_Final_def
      intro: lifecycle_star)

lemma markSucceeded_le: "markSucceededQuery i a at res n db = Inr (r, db') \<Longrightarrow> jobs_le db db'"
  unfolding markSucceededQuery_def if_Inr
  by (erule conjE, erule update_job_le) (auto simp: job_le_def status_check_def status_Final_def
      intro: lifecycle_star)

lemma markFailed_le: "markFailedQuery i a at f n db = Inr (r, db') \<Longrightarrow> jobs_le db db'"
  unfolding markFailedQuery_def if_Inr
  by (erule conjE, erule update_job_le) (auto simp: job_le_def status_check_def status_Final_def
      intro: lifecycle_star)

lemma prepareAttempt_cases:
  assumes "prepareAttemptQuery e a at n db = Inr (r, db')"
  obtains (new) "find_row (\<lambda>j. jo_ID j = en_ID e) (db_jobs db) = None" "r = StatusProcessing"
      "\<exists>row. jo_ID row = en_ID e \<and> jo_Status row = StatusProcessing \<and> job_ok row \<and> db_jobs db' = db_jobs db @ [row]"
  | (final) j where "find_row (\<lambda>j. jo_ID j = en_ID e) (db_jobs db) = Some j" "status_Final (jo_Status j)"
      "r = jo_Status j" "db' = db"
  | (update) j where "find_row (\<lambda>j. jo_ID j = en_ID e) (db_jobs db) = Some j" "\<not> status_Final (jo_Status j)"
      "r = StatusProcessing"
      "update_job (en_ID e) (\<lambda>j. \<not> status_Final (jo_Status j))
        (\<lambda>j. j\<lparr>jo_Status := StatusProcessing, jo_CurrentAttempt := min a (jo_MaxAttempts j),
          jo_StartedAt := Some (case jo_StartedAt j of None \<Rightarrow> pg_time at | Some t \<Rightarrow> t),
          jo_UpdatedAt := pg_time at, jo_LastError := ''''\<rparr>) n db = Inr (en_ID e, db')"
proof (cases "find_row (\<lambda>j. jo_ID j = en_ID e) (db_jobs db)")
  case None
  with assms show thesis
    by (intro new) (auto simp: prepareAttemptQuery_def Let_def job_ok_def status_check_def status_Final_def split: if_splits)
next
  case (Some j)
  show thesis
  proof (cases "status_Final (jo_Status j)")
    case True
    with assms Some show thesis by (intro final [of j]) (auto simp: prepareAttemptQuery_def Let_def split: if_splits)
  next
    case False
    with assms Some show thesis
      by (intro update [of j])
        (auto simp: prepareAttemptQuery_def Let_def update_job_def split: if_splits sum.splits)
  qed
qed

lemma prepareAttempt_le:
  assumes "prepareAttemptQuery e a at n db = Inr (r, db')"
  shows "jobs_le db db'"
  using assms
proof (cases rule: prepareAttempt_cases)
  case new
  then have "en_ID e \<notin> jo_ID ` set (db_jobs db)" by (auto simp: find_row_None)
  with new(3) show ?thesis by (auto simp: jobs_le_def jobs_wf_def rows_le_append)
next
  case (final j)
  then show ?thesis by simp
next
  case (update j)
  from update(4) show ?thesis
    by (rule update_job_le) (auto simp: job_le_def status_check_def status_Final_def intro: lifecycle_star)
qed

section \<open>Repository methods and the table\<close>

lemma jobs_exec_le:
  assumes "pg_exec env stmt s = (r, s')" and "\<And>n a db'. stmt n (pg_db s) = Inr (a, db') \<Longrightarrow> jobs_le (pg_db s) db'"
  shows "jobs_le (pg_db s) (pg_db s')"
  using pg_exec_invariant [OF assms(1), of "jobs_le (pg_db s)"] assms(2) by auto

lemma snd_scanOptionalID [simp]: "snd (scanOptionalID op r) = snd r"
  by (auto simp: scanOptionalID_def split: prod.splits sum.splits)

lemma snd_scanRequiredID [simp]: "snd (scanRequiredID op r) = snd r"
  by (auto simp: scanRequiredID_def split: prod.splits sum.splits)

lemma jobs_repo_le:
  "\<not> status_Final (jo_Status job) \<Longrightarrow> jobs_le (pg_db s) (pg_db (snd (jobs_CreateJob env job s)))"
  "jobs_le (pg_db s) (pg_db (snd (jobs_MarkQueued env i at s)))"
  "jobs_le (pg_db s) (pg_db (snd (jobs_MarkSubmissionFailed env i f at s)))"
  "jobs_le (pg_db s) (pg_db (snd (jobs_PrepareAttempt env e a at s)))"
  "jobs_le (pg_db s) (pg_db (snd (jobs_MarkRetrying env i a f at s)))"
  "jobs_le (pg_db s) (pg_db (snd (jobs_MarkSucceeded env i a res at s)))"
  "jobs_le (pg_db s) (pg_db (snd (jobs_MarkFailed env i a f at s)))"
proof -
  have le: "jobs_le (pg_db s) (pg_db (snd (pg_exec env stmt s)))"
    if "\<And>n a db'. stmt n (pg_db s) = Inr (a, db') \<Longrightarrow> jobs_le (pg_db s) db'" for stmt :: "(jobs_db, 'b) sql"
    using jobs_exec_le [OF prod.collapse [symmetric]] that by blast
  show "jobs_le (pg_db s) (pg_db (snd (jobs_CreateJob env job s)))" if "\<not> status_Final (jo_Status job)"
  proof -
    have "snd (jobs_CreateJob env job s) = snd (pg_exec env (createJobQuery job) s)"
      by (auto simp: jobs_CreateJob_def split: prod.splits sum.splits)
    then show ?thesis using le createJob_le that by metis
  qed
  have "snd (jobs_PrepareAttempt env e a at s) = snd (pg_exec env (prepareAttemptQuery e a at) s)"
    by (auto simp: jobs_PrepareAttempt_def split: prod.splits sum.splits)
  then show "jobs_le (pg_db s) (pg_db (snd (jobs_PrepareAttempt env e a at s)))" using le prepareAttempt_le by metis
qed (simp_all add: jobs_MarkQueued_def jobs_MarkSubmissionFailed_def jobs_MarkRetrying_def jobs_MarkSucceeded_def
    jobs_MarkFailed_def jobs_exec_le [OF prod.collapse [symmetric]] markQueued_le markSubmissionFailed_le
    markRetrying_le markSucceeded_le markFailed_le)

text \<open>The states that submissions and workers lead to, in any interleaving and with any faults.\<close>

inductive jobs_reach :: "pg_env \<Rightarrow> 'z jobs_state \<Rightarrow> 'z jobs_state \<Rightarrow> bool" for env where
  jr_refl: "jobs_reach env s s"
| jr_other: "jobs_reach env s s1 \<Longrightarrow> pg_db s2 = pg_db s1 \<Longrightarrow> jobs_reach env s s2"
| jr_create: "jobs_reach env s s1 \<Longrightarrow> jobs_reach env s (snd (jobs_CreateJob env (NewPublishingJob e t) s1))"
| jr_queued: "jobs_reach env s s1 \<Longrightarrow> jobs_reach env s (snd (jobs_MarkQueued env i at s1))"
| jr_submission: "jobs_reach env s s1 \<Longrightarrow> jobs_reach env s (snd (jobs_MarkSubmissionFailed env i f at s1))"
| jr_prepare: "jobs_reach env s s1 \<Longrightarrow> jobs_reach env s (snd (jobs_PrepareAttempt env e a at s1))"
| jr_retrying: "jobs_reach env s s1 \<Longrightarrow> jobs_reach env s (snd (jobs_MarkRetrying env i a f at s1))"
| jr_succeeded: "jobs_reach env s s1 \<Longrightarrow> jobs_reach env s (snd (jobs_MarkSucceeded env i a res at s1))"
| jr_failed: "jobs_reach env s s1 \<Longrightarrow> jobs_reach env s (snd (jobs_MarkFailed env i a f at s1))"

lemma jobs_reach_le: "jobs_reach env s s' \<Longrightarrow> jobs_le (pg_db s) (pg_db s')"
proof (induction rule: jobs_reach.induct)
  case (jr_refl s)
  show ?case by simp
next
  case (jr_other s s1 s2)
  then show ?case by simp
next
  case (jr_create s s1 e t)
  have "\<not> status_Final (jo_Status (NewPublishingJob e t))" by (simp add: NewPublishingJob_def status_Final_def)
  with jr_create.IH show ?case by (blast intro: jobs_le_trans jobs_repo_le(1))
qed (rule jobs_le_trans, assumption, rule jobs_repo_le)+

lemma jobs_reach_trans:
  assumes "jobs_reach env b c" and "jobs_reach env a b"
  shows "jobs_reach env a c"
  using assms by (induction rule: jobs_reach.induct) (blast intro: jobs_reach.intros)+

text \<open>The status stored for a job.\<close>

definition status_of :: "jobs_db \<Rightarrow> string \<Rightarrow> Status option" where
  "status_of db i = map_option jo_Status (find_row (\<lambda>j. jo_ID j = i) (db_jobs db))"

lemma status_of_later:
  assumes "jobs_wf db" and "jobs_le db db'" and "status_of db i = Some st"
  shows "\<exists>st'. status_of db' i = Some st' \<and> lifecycle\<^sup>*\<^sup>* st st'"
proof -
  from assms(3) obtain j where j: "find_row (\<lambda>j. jo_ID j = i) (db_jobs db) = Some j" "jo_Status j = st"
    by (auto simp: status_of_def)
  note j' = find_row_Some [OF j(1)]
  with assms(2) obtain k where k: "k \<in> set (db_jobs db')" "job_le j k"
    unfolding jobs_le_def rows_le_def by blast
  have "distinct (map jo_ID (db_jobs db'))" using assms(1,2) by (simp add: jobs_le_def jobs_wf_def)
  from find_row_key [OF this k(1)] k(2) j' have "find_row (\<lambda>j. jo_ID j = i) (db_jobs db') = Some k"
    by (auto simp: job_le_def)
  with k(2) j(2) show ?thesis by (auto simp: status_of_def job_le_def)
qed

section \<open>Properties\<close>

text \<open>C16. The repository implements the life cycle of a job: however submissions and workers interleave
  and whatever faults the database has, the table stays well-formed (one row per id, attempts within
  bounds, a completion time on every finished job) and the status of every job follows the steps of
  the life cycle, so that a finished job keeps its final status for ever.\<close>

theorem jobs_follow_lifecycle:
  assumes "jobs_wf (pg_db s)" and "jobs_reach env s s'" and "status_of (pg_db s) i = Some st"
  shows "jobs_wf (pg_db s') \<and>
    (\<exists>st'. status_of (pg_db s') i = Some st' \<and> lifecycle\<^sup>*\<^sup>* st st' \<and> (status_Final st \<longrightarrow> st' = st))"
  using jobs_reach_le [OF assms(2)] status_of_later [OF assms(1) _ assms(3)] assms(1) lifecycle_final
  unfolding jobs_le_def by metis

text \<open>A queued job that is taken up by a worker.\<close>

definition demo_envelope :: Envelope where
  "demo_envelope = \<lparr>en_SchemaVersion = 1, en_ID = ''j1'', en_Type = TypeCleanupExpiredTokens, en_CreatedAt = 5000,
     en_Attempt = 1, en_MaxAttempts = 3, en_Payload = ''{}''\<rparr>"

definition queued_job :: Job where
  "queued_job = (NewPublishingJob demo_envelope 5000)\<lparr>jo_Status := StatusQueued, jo_QueuedAt := Some 6000\<rparr>"

definition demo_pg :: pg_env where
  "demo_pg = \<lparr>pe_fault = (\<lambda>_. NoFault), pe_now = (\<lambda>n. 0), pe_newid = (\<lambda>n. ''''), pe_uuid = Some, pe_lower = (\<lambda>x. x)\<rparr>"

definition queued_state :: "jobs_db pg" where
  "queued_state = \<lparr>pg_db = \<lparr>db_jobs = [queued_job]\<rparr>, pg_tick = 0\<rparr>"

lemmas queued_defs = queued_state_def queued_job_def NewPublishingJob_def demo_envelope_def

lemma queued_wf: "jobs_wf (pg_db queued_state)"
  by (simp add: jobs_wf_def queued_defs job_ok_def status_check_def attempt_check_def status_Final_def)

theorem jobs_follow_lifecycle_witness:
  "status_of (pg_db queued_state) ''j1'' = Some StatusQueued \<and>
   (\<exists>st'. status_of (pg_db (snd (jobs_PrepareAttempt demo_pg demo_envelope 1 7000 queued_state))) ''j1'' = Some st' \<and>
      lifecycle\<^sup>*\<^sup>* StatusQueued st')"
proof -
  have st: "status_of (pg_db queued_state) ''j1'' = Some StatusQueued" by (simp add: status_of_def queued_defs)
  have "jobs_reach demo_pg queued_state (snd (jobs_PrepareAttempt demo_pg demo_envelope 1 7000 queued_state))"
    by (rule jobs_reach.jr_prepare [OF jobs_reach.jr_refl])
  from jobs_follow_lifecycle [OF queued_wf this st] st show ?thesis by blast
qed

text \<open>A job whose publication failed but whose message arrived nevertheless is restarted with the
  completion time of the failed publication still set.\<close>

lemma restarted_job_keeps_completion:
  assumes "pe_fault env (pg_tick s) = NoFault" and "jobs_wf (pg_db s)"
    and "find_row (\<lambda>j. jo_ID j = en_ID e) (db_jobs (pg_db s)) = Some j"
    and "jo_Status j = StatusPublishFailed" and "jo_CompletedAt j = Some t"
    and "1 \<le> a" and "int4_ok a" and "1 \<le> en_MaxAttempts e" and "int4_ok (en_MaxAttempts e)"
  shows "\<exists>j' s'. jobs_PrepareAttempt env e a at s = (Inr StatusProcessing, s') \<and>
    find_row (\<lambda>j. jo_ID j = en_ID e) (db_jobs (pg_db s')) = Some j' \<and>
    jo_Status j' = StatusProcessing \<and> jo_CompletedAt j' = Some t"
proof -
  note j = find_row_Some [OF assms(3)]
  have all: "k = j" if "k \<in> set (db_jobs (pg_db s))" "jo_ID k = en_ID e" for k
    using assms(2) j that distinct_key_eq [of jo_ID "db_jobs (pg_db s)" k j] by (simp add: jobs_wf_def)
  have m: "1 \<le> jo_MaxAttempts j" using assms(2) j by (auto simp: jobs_wf_def job_ok_def attempt_check_def)
  have "\<not> (\<exists>k\<in>set (db_jobs (pg_db s)). (jo_ID k = en_ID e \<and> \<not> status_Final (jo_Status k)) \<and>
      \<not> attempt_check (min a (jo_MaxAttempts k)) (jo_MaxAttempts k))"
    using all m assms(6) by (auto simp: attempt_check_def)
  with assms j show ?thesis
    by (auto simp: jobs_PrepareAttempt_def pg_exec_NoFault prepareAttemptQuery_def Let_def update_job_def
        attempt_check_def status_Final_def find_row_update_key)
qed

end
