(* ===== verification/Worker_Consumer.thy ===== *)
theory Worker_Consumer
  imports Worker_Usecase Jobs_Store Jobs_Amqp
begin

text \<open>
  \<open>internal/jobworker/infrastructure/rabbitmq/consumer.go\<close> and \<open>policy.go\<close>: the consumer that executes
  deliveries and records their outcome, its topology and loop, and the installation of the retry and
  dead-letter policy. Acknowledgements, the clock, the processor and the status store are operations
  on a state \<open>'s\<close>.
\<close>

section \<open>Deliveries\<close>

record Delivery =
  dl_Tag :: nat
  dl_Headers :: "(string \<times> amqp_value) list"
  dl_Body :: string

record 's Acknowledger =
  ack_Ack :: "nat \<Rightarrow> 's \<Rightarrow> jb_err option \<times> 's"
  ack_Reject :: "nat \<Rightarrow> bool \<Rightarrow> 's \<Rightarrow> jb_err option \<times> 's"

definition headerInt64 :: "(string \<times> amqp_value) list \<Rightarrow> string \<Rightarrow> int" where
  "headerInt64 headers key =
     (case map_of headers key of
        None \<Rightarrow> 0
      | Some v \<Rightarrow>
          (case v of
             AInt x \<Rightarrow> x | AInt8 x \<Rightarrow> x | AInt16 x \<Rightarrow> x | AInt32 x \<Rightarrow> x | AInt64 x \<Rightarrow> x
           | AUint8 x \<Rightarrow> x | AUint16 x \<Rightarrow> x | AUint32 x \<Rightarrow> x
           | AUint64 x \<Rightarrow> (if x > 9223372036854775807 then 0 else x)
           | _ \<Rightarrow> 0))"

definition deliveryAttempt :: "(string \<times> amqp_value) list \<Rightarrow> int" where
  "deliveryAttempt headers =
     (let count = headerInt64 headers ''x-delivery-count'';
          count' = (if count < 0 then 0 else count)
      in wrap64 (count' + 1))"

definition reject :: "'s Acknowledger \<Rightarrow> Delivery \<Rightarrow> bool \<Rightarrow> 's \<Rightarrow> jb_err option \<times> 's" where
  "reject acker delivery requeue s =
     (case ack_Reject acker (dl_Tag delivery) requeue s of
        (Some err, s1) \<Rightarrow> (Some (Errorf ''reject RabbitMQ job: %w'' [err]), s1)
      | (None, s1) \<Rightarrow> (None, s1))"

record 's StatusStore =
  ss_PrepareAttempt :: "Envelope \<Rightarrow> int \<Rightarrow> Time \<Rightarrow> 's \<Rightarrow> (jb_err + Status) \<times> 's"
  ss_MarkRetrying :: "string \<Rightarrow> int \<Rightarrow> string \<Rightarrow> Time \<Rightarrow> 's \<Rightarrow> jb_err option \<times> 's"
  ss_MarkSucceeded :: "string \<Rightarrow> int \<Rightarrow> ExecutionResult \<Rightarrow> Time \<Rightarrow> 's \<Rightarrow> jb_err option \<times> 's"
  ss_MarkFailed :: "string \<Rightarrow> int \<Rightarrow> string \<Rightarrow> Time \<Rightarrow> 's \<Rightarrow> jb_err option \<times> 's"

type_synonym 's Processor = "Duration option \<Rightarrow> Envelope \<Rightarrow> 's \<Rightarrow> (jb_err + WorkerResult) \<times> 's"

record Consumer =
  cs_queue :: string
  cs_processTimeout :: Duration

text \<open>What \<open>handleDelivery\<close> uses besides the delivery.\<close>

record 's consumer_env =
  ce_lib :: worker_lib
  ce_ack :: "'s Acknowledger"
  ce_clock :: "'s \<Rightarrow> Time \<times> 's"
  ce_processor :: "'s Processor"
  ce_store :: "'s StatusStore"
  ce_Consume :: "string \<Rightarrow> string \<Rightarrow> 's \<Rightarrow> jb_err option \<times> 's"
  ce_Cancel :: "string \<Rightarrow> 's \<Rightarrow> 's"

section \<open>One delivery\<close>

definition after_success :: "'s consumer_env \<Rightarrow> Delivery \<Rightarrow> Envelope \<Rightarrow> int \<Rightarrow> WorkerResult \<Rightarrow> 's \<Rightarrow> jb_err option \<times> 's" where
  "after_success ce delivery envelope attempt result s =
     (case ce_clock ce s of (now, s1) \<Rightarrow>
        (case ss_MarkSucceeded (ce_store ce) (en_ID envelope) attempt
                \<lparr>er_Message = wres_Message result, er_OutputPath = wres_OutputPath result,
                 er_AffectedRows = wres_AffectedRows result\<rparr> now s1 of
           (Some err, s2) \<Rightarrow> (Some (Errorf ''persist completed job status: %w'' [err]), s2)
         | (None, s2) \<Rightarrow>
             (case ack_Ack (ce_ack ce) (dl_Tag delivery) s2 of
                (Some err, s3) \<Rightarrow> (Some (Errorf ''acknowledge completed job: %w'' [err]), s3)
              | (None, s3) \<Rightarrow> (None, s3))))"

definition after_failure :: "'s consumer_env \<Rightarrow> Delivery \<Rightarrow> Envelope \<Rightarrow> int \<Rightarrow> jb_err \<Rightarrow> 's \<Rightarrow> jb_err option \<times> 's" where
  "after_failure ce delivery envelope attempt err s =
     (case ce_clock ce s of (now, s1) \<Rightarrow>
        if IsPermanent err \<or> attempt \<ge> en_MaxAttempts envelope then
          (case ss_MarkFailed (ce_store ce) (en_ID envelope) attempt (wl_Error (ce_lib ce) err) now s1 of
             (Some statusError, s2) \<Rightarrow> (Some (Errorf ''persist failed job status: %w'' [statusError]), s2)
           | (None, s2) \<Rightarrow> reject (ce_ack ce) delivery False s2)
        else
          (case ss_MarkRetrying (ce_store ce) (en_ID envelope) attempt (wl_Error (ce_lib ce) err) now s1 of
             (Some statusError, s2) \<Rightarrow> (Some (Errorf ''persist retrying job status: %w'' [statusError]), s2)
           | (None, s2) \<Rightarrow> reject (ce_ack ce) delivery True s2))"

definition handleDelivery :: "Consumer \<Rightarrow> 's consumer_env \<Rightarrow> Delivery \<Rightarrow> 's \<Rightarrow> jb_err option \<times> 's" where
  "handleDelivery consumer ce delivery s =
     (let attempt = deliveryAttempt (dl_Headers delivery) in
      case wl_Envelope (ce_lib ce) (dl_Body delivery) of
        Inl err \<Rightarrow> reject (ce_ack ce) delivery False s
      | Inr envelope \<Rightarrow>
          (case envelope_Validate (wl_json_Valid (ce_lib ce)) envelope of
             Some err \<Rightarrow> reject (ce_ack ce) delivery False s
           | None \<Rightarrow>
               (case ce_clock ce s of (now, s1) \<Rightarrow>
                  (case ss_PrepareAttempt (ce_store ce) envelope attempt now s1 of
                     (Inl err, s2) \<Rightarrow> (Some (Errorf ''prepare job status: %w'' [err]), s2)
                   | (Inr status, s2) \<Rightarrow>
                       (if status = StatusSucceeded then ack_Ack (ce_ack ce) (dl_Tag delivery) s2
                        else if status = StatusFailed then reject (ce_ack ce) delivery False s2
                        else
                          (let timeout = (if cs_processTimeout consumer > 0 then Some (cs_processTimeout consumer) else None) in
                           case ce_processor ce timeout envelope s2 of
                             (Inr result, s3) \<Rightarrow> after_success ce delivery envelope attempt result s3
                           | (Inl err, s3) \<Rightarrow> after_failure ce delivery envelope attempt err s3))))))"

section \<open>The loop\<close>

text \<open>What the select of \<open>Run\<close> receives.\<close>

datatype consumer_event =
    CtxDone
  | ChannelClosed "jb_err option"
  | DeliveriesClosed
  | Delivered Delivery

definition consumer_tag :: string where
  "consumer_tag = ''edgeguard-notification-worker''"

text \<open>The result is None while the consumer is still waiting for the next event.\<close>

fun consumer_loop :: "Consumer \<Rightarrow> 's consumer_env \<Rightarrow> consumer_event list \<Rightarrow> 's \<Rightarrow> jb_err option option \<times> 's" where
  "consumer_loop consumer ce [] s = (None, s)"
| "consumer_loop consumer ce (CtxDone # es) s = (Some None, ce_Cancel ce consumer_tag s)"
| "consumer_loop consumer ce (ChannelClosed None # es) s = (Some (Some (Sentinel QErrConsumerClosed)), s)"
| "consumer_loop consumer ce (ChannelClosed (Some err) # es) s =
     (Some (Some (Errorf ''RabbitMQ consumer channel closed: %w'' [err])), s)"
| "consumer_loop consumer ce (DeliveriesClosed # es) s = (Some (Some (Sentinel QErrConsumerClosed)), s)"
| "consumer_loop consumer ce (Delivered delivery # es) s =
     (case handleDelivery consumer ce delivery s of
        (Some err, s1) \<Rightarrow> (Some (Some err), s1)
      | (None, s1) \<Rightarrow> consumer_loop consumer ce es s1)"

definition consumer_Run :: "Consumer \<Rightarrow> 's consumer_env \<Rightarrow> consumer_event list \<Rightarrow> 's \<Rightarrow> jb_err option option \<times> 's" where
  "consumer_Run consumer ce es s =
     (case ce_Consume ce (cs_queue consumer) consumer_tag s of
        (Some err, s1) \<Rightarrow> (Some (Some (Errorf ''consume RabbitMQ jobs: %w'' [err])), s1)
      | (None, s1) \<Rightarrow> consumer_loop consumer ce es s1)"

section \<open>Construction\<close>

record ConsumerConfig =
  ccf_URL :: string
  ccf_Exchange :: string
  ccf_Queue :: string
  ccf_DeadExchange :: string
  ccf_DeadQueue :: string
  ccf_Prefetch :: int
  ccf_ProcessTimeout :: Duration

text \<open>A chain of declarations, each wrapping its error with its own text.\<close>

fun declare_all :: "(string \<times> ('s \<Rightarrow> jb_err option \<times> 's)) list \<Rightarrow> 's \<Rightarrow> jb_err option \<times> 's" where
  "declare_all [] s = (None, s)"
| "declare_all ((msg, op) # ops) s =
     (case op s of
        (Some err, s1) \<Rightarrow> (Some (Errorf msg [err]), s1)
      | (None, s1) \<Rightarrow> declare_all ops s1)"

definition consumer_declareTopology :: "'s amqp_ops \<Rightarrow> ConsumerConfig \<Rightarrow> 's \<Rightarrow> jb_err option \<times> 's" where
  "consumer_declareTopology ops config =
     declare_all
       [(''declare jobs exchange: %w'', aq_ExchangeDeclare ops (ccf_Exchange config) ''topic''),
        (''declare jobs dead-letter exchange: %w'', aq_ExchangeDeclare ops (ccf_DeadExchange config) ''topic''),
        (''declare jobs queue: %w'', aq_QueueDeclare ops (ccf_Queue config) ''quorum''),
        (''bind jobs queue: %w'', aq_QueueBind ops (ccf_Queue config) ''jobs.#'' (ccf_Exchange config)),
        (''declare jobs dead-letter queue: %w'', aq_QueueDeclare ops (ccf_DeadQueue config) ''quorum''),
        (''bind jobs dead-letter queue: %w'', aq_QueueBind ops (ccf_DeadQueue config) ''jobs.#'' (ccf_DeadExchange config))]"

definition NewConsumer :: "'s amqp_ops \<Rightarrow> ConsumerConfig \<Rightarrow> 's \<Rightarrow> (jb_err + Consumer) \<times> 's" where
  "NewConsumer ops config s =
     (case aq_Dial ops (ccf_URL config) s of
        (Some err, s1) \<Rightarrow> (Inl (Errorf ''dial RabbitMQ: %w'' [err]), s1)
      | (None, s1) \<Rightarrow>
          (case aq_Channel ops s1 of
             (Some err, s2) \<Rightarrow> (Inl (Errorf ''open RabbitMQ channel: %w'' [err]), snd (aq_CloseConnection ops s2))
           | (None, s2) \<Rightarrow>
               (case consumer_declareTopology ops config s2 of
                  (Some err, s3) \<Rightarrow> (Inl err, snd (amqp_close_both ops s3))
                | (None, s3) \<Rightarrow>
                    (case aq_Qos ops (ccf_Prefetch config) s3 of
                       (Some err, s4) \<Rightarrow>
                         (Inl (Errorf ''configure RabbitMQ prefetch: %w'' [err]), snd (amqp_close_both ops s4))
                     | (None, s4) \<Rightarrow>
                         (Inr \<lparr>cs_queue = ccf_Queue config, cs_processTimeout = ccf_ProcessTimeout config\<rparr>, s4)))))"

text \<open>A nil consumer is None.\<close>

definition consumer_Ping :: "'s amqp_ops \<Rightarrow> Consumer option \<Rightarrow> 's \<Rightarrow> jb_err option" where
  "consumer_Ping ops consumer s =
     (if consumer = None \<or> aq_ConnectionClosed ops s \<or> aq_ChannelClosed ops s
      then Some (Sentinel QErrConsumerClosed) else None)"

definition consumer_Close :: "'s amqp_ops \<Rightarrow> 's \<Rightarrow> jb_err option \<times> 's" where
  "consumer_Close ops s = amqp_close_both ops s"

section \<open>The broker policy\<close>

record PolicyConfig =
  pc_ManagementURL :: string
  pc_Username :: string
  pc_Password :: string
  pc_VHost :: string
  pc_Name :: string
  pc_Queue :: string
  pc_DeadExchange :: string
  pc_RetryMin :: Duration
  pc_RetryMax :: Duration

definition regexp_special :: string where
  "regexp_special = [char_of (92::nat)] @ ''.+*?()[]{}^$|''"

definition regexpQuote :: "string \<Rightarrow> string" where
  "regexpQuote v = concat (map (\<lambda>c. if c \<in> set regexp_special then [char_of (92::nat), c] else [c]) v)"

record policy_definition =
  pd_pattern :: string
  pd_dead_letter_exchange :: string
  pd_dead_letter_strategy :: string
  pd_overflow :: string
  pd_delayed_retry_type :: string
  pd_delayed_retry_min :: int
  pd_delayed_retry_max :: int
  pd_priority :: int
  pd_apply_to :: string

definition policy_of :: "PolicyConfig \<Rightarrow> policy_definition" where
  "policy_of config =
     \<lparr>pd_pattern = ''^'' @ regexpQuote (pc_Queue config) @ ''$'',
      pd_dead_letter_exchange = pc_DeadExchange config, pd_dead_letter_strategy = ''at-least-once'',
      pd_overflow = ''reject-publish'', pd_delayed_retry_type = ''failed'',
      pd_delayed_retry_min = dur_Milliseconds (pc_RetryMin config),
      pd_delayed_retry_max = dur_Milliseconds (pc_RetryMax config),
      pd_priority = 10, pd_apply_to = ''quorum_queues''\<rparr>"

record 's policy_env =
  pve_Marshal :: "policy_definition \<Rightarrow> string option"
  pve_PathEscape :: "string \<Rightarrow> string"
  pve_NewRequest :: "string \<Rightarrow> string \<Rightarrow> jb_err option"
  pve_Put :: "string \<Rightarrow> string \<times> string \<Rightarrow> string \<Rightarrow> 's \<Rightarrow> (jb_err + int) \<times> 's"

definition Install :: "'s policy_env \<Rightarrow> PolicyConfig \<Rightarrow> 's \<Rightarrow> jb_err option \<times> 's" where
  "Install pe config s =
     (case pve_Marshal pe (policy_of config) of
        None \<Rightarrow> (Some (Errorf ''marshal RabbitMQ policy: %w'' [Sentinel (JbExternal ''json'')]), s)
      | Some body \<Rightarrow>
          (let endpoint = TrimRightByte (pc_ManagementURL config) (CHR ''/'') @ ''/api/policies/'' @
                 pve_PathEscape pe (pc_VHost config) @ ''/'' @ pve_PathEscape pe (pc_Name config) in
           case pve_NewRequest pe ''PUT'' endpoint of
             Some err \<Rightarrow> (Some (Errorf ''create RabbitMQ policy request: %w'' [err]), s)
           | None \<Rightarrow>
               (case pve_Put pe endpoint (pc_Username config, pc_Password config) body s of
                  (Inl err, s1) \<Rightarrow> (Some (Errorf ''install RabbitMQ policy: %w'' [err]), s1)
                | (Inr status, s1) \<Rightarrow>
                    (if status < 200 \<or> status \<ge> 300
                     then (Some (Errorf ''install RabbitMQ policy: status=%d body=%s'' []), s1)
                     else (None, s1)))))"

text \<open>\<open>installPolicy\<close> of \<open>app.go\<close>: after each failed attempt the select gives a tick (None) or the end of the
  context with its error; the result is None when the list of these is used up.\<close>

fun installPolicy :: "('s \<Rightarrow> jb_err option \<times> 's) \<Rightarrow> jb_err option list \<Rightarrow> 's \<Rightarrow> jb_err option option \<times> 's" where
  "installPolicy install sel s =
     (case install s of
        (None, s1) \<Rightarrow> (Some None, s1)
      | (Some err, s1) \<Rightarrow>
          (case sel of
             [] \<Rightarrow> (None, s1)
           | Some ctxErr # _ \<Rightarrow>
               (Some (Some (Errorf ''install RabbitMQ jobs policy: %w: last error: %v'' [ctxErr])), s1)
           | None # sel' \<Rightarrow> installPolicy install sel' s1))"

section \<open>The contract of the status store\<close>

text \<open>What the consumer relies on: the store reports the final status of a finished job. \<open>view\<close> is the part
  of the state the store owns.\<close>

locale status_store =
  fixes store :: "'s StatusStore" and view :: "'s \<Rightarrow> 'v" and inv :: "'v \<Rightarrow> bool"
    and status :: "'v \<Rightarrow> string \<Rightarrow> Status option"
  assumes prepare_final:
    "inv (view s) \<Longrightarrow> status (view s) (en_ID e) = Some st \<Longrightarrow> status_Final st \<Longrightarrow>
       ss_PrepareAttempt store e a t s = (r, s') \<Longrightarrow> (\<forall>st'. r = Inr st' \<longrightarrow> st' = st)"
begin

lemma finished_skips_processor:
  assumes "wl_Envelope (ce_lib ce) (dl_Body d) = Inr e" and "ce_store ce = store"
    and "ce_clock ce s = (now, s1)" and "inv (view s1)"
    and "status (view s1) (en_ID e) = Some st" and "status_Final st"
  shows "handleDelivery c (ce\<lparr>ce_processor := p\<rparr>) d s = handleDelivery c ce d s"
    and "handleDelivery c ce d s = (r, s') \<Longrightarrow>
      r \<noteq> None \<or> (\<exists>s2. ack_Ack (ce_ack ce) (dl_Tag d) s2 = (r, s') \<and> st = StatusSucceeded) \<or>
      (\<exists>s2. reject (ce_ack ce) d False s2 = (r, s'))"
proof -
  obtain q s2 where q: "ss_PrepareAttempt store e (deliveryAttempt (dl_Headers d)) now s1 = (q, s2)"
    by (cases "ss_PrepareAttempt store e (deliveryAttempt (dl_Headers d)) now s1")
  have st: "\<forall>st'. q = Inr st' \<longrightarrow> st' = st" by (rule prepare_final [OF assms(4-6) q])
  show "handleDelivery c (ce\<lparr>ce_processor := p\<rparr>) d s = handleDelivery c ce d s"
    using assms st q
    by (cases q) (auto simp: handleDelivery_def Let_def status_Final_def split: option.split)
  show "r \<noteq> None \<or> (\<exists>s2. ack_Ack (ce_ack ce) (dl_Tag d) s2 = (r, s') \<and> st = StatusSucceeded) \<or>
      (\<exists>s2. reject (ce_ack ce) d False s2 = (r, s'))" if "handleDelivery c ce d s = (r, s')"
  proof (cases "envelope_Validate (wl_json_Valid (ce_lib ce)) e")
    case None
    with that assms st q show ?thesis
      by (cases q) (auto simp: handleDelivery_def Let_def status_Final_def)
  next
    case (Some err)
    with that assms(1) have "reject (ce_ack ce) d False s = (r, s')" by (simp add: handleDelivery_def)
    then show ?thesis by blast
  qed
qed

end

text \<open>A store that works: every call on an unfinished job stores the new status.\<close>

locale live_status_store = status_store +
  fixes bounded :: "int \<Rightarrow> bool"
  assumes prepare_works:
      "inv (view s) \<Longrightarrow> (\<forall>st. status (view s) (en_ID e) = Some st \<longrightarrow> \<not> status_Final st) \<Longrightarrow> 1 \<le> a \<Longrightarrow> bounded a \<Longrightarrow>
         1 \<le> en_MaxAttempts e \<Longrightarrow> bounded (en_MaxAttempts e) \<Longrightarrow>
         \<exists>s'. ss_PrepareAttempt store e a t s = (Inr StatusProcessing, s') \<and> inv (view s') \<and>
           status (view s') (en_ID e) = Some StatusProcessing"
    and retrying_works:
      "inv (view s) \<Longrightarrow> status (view s) i = Some StatusProcessing \<Longrightarrow> 1 \<le> a \<Longrightarrow> bounded a \<Longrightarrow>
         \<exists>s'. ss_MarkRetrying store i a f t s = (None, s') \<and> inv (view s') \<and> status (view s') i = Some StatusRetrying"
    and succeeded_works:
      "inv (view s) \<Longrightarrow> status (view s) i = Some StatusProcessing \<Longrightarrow> 1 \<le> a \<Longrightarrow> bounded a \<Longrightarrow>
         \<exists>s'. ss_MarkSucceeded store i a res t s = (None, s') \<and> inv (view s') \<and> status (view s') i = Some StatusSucceeded"
    and failed_works:
      "inv (view s) \<Longrightarrow> status (view s) i = Some StatusProcessing \<Longrightarrow> 1 \<le> a \<Longrightarrow> bounded a \<Longrightarrow>
         \<exists>s'. ss_MarkFailed store i a f t s = (None, s') \<and> inv (view s') \<and> status (view s') i = Some StatusFailed"
    and bounded_down: "bounded m \<Longrightarrow> 1 \<le> a \<Longrightarrow> a \<le> m \<Longrightarrow> bounded a"

section \<open>The broker\<close>

text \<open>What a quorum queue does with a delivery, as the state records it: an acknowledged message is gone, a
  message rejected with requeue comes back with its delivery count raised by one, any other rejected
  message goes to the dead-letter exchange. Acknowledging does not touch what \<open>view\<close> shows.\<close>

datatype fate = InFlight | Acked | Requeued | DeadLettered

definition broker_contract :: "'s Acknowledger \<Rightarrow> ('s \<Rightarrow> fate) \<Rightarrow> ('s \<Rightarrow> 'v) \<Rightarrow> bool" where
  "broker_contract acker fate view \<longleftrightarrow>
     (\<forall>tag s. \<exists>s'. ack_Ack acker tag s = (None, s') \<and> fate s' = Acked \<and> view s' = view s) \<and>
     (\<forall>tag b s. \<exists>s'. ack_Reject acker tag b s = (None, s') \<and> view s' = view s \<and>
        fate s' = (if b then Requeued else DeadLettered))"

definition with_count :: "nat \<Rightarrow> Delivery \<Rightarrow> Delivery" where
  "with_count n d = (if n = 0 then d else d\<lparr>dl_Headers := (''x-delivery-count'', AInt64 (int n)) # dl_Headers d\<rparr>)"

lemma with_count_same [simp]: "dl_Tag (with_count n d) = dl_Tag d" "dl_Body (with_count n d) = dl_Body d"
  by (simp_all add: with_count_def)

lemma deliveryAttempt_with_count:
  assumes "map_of (dl_Headers d) ''x-delivery-count'' = None" and "int n < 9223372036854775807"
  shows "deliveryAttempt (dl_Headers (with_count n d)) = int n + 1"
  using assms by (simp add: deliveryAttempt_def headerInt64_def with_count_def int64_range_def)

text \<open>Deliveries of one message until the broker is done with it, at most \<open>fuel\<close> of them.\<close>

fun redeliver :: "(Delivery \<Rightarrow> 's \<Rightarrow> jb_err option \<times> 's) \<Rightarrow> ('s \<Rightarrow> fate) \<Rightarrow> Delivery \<Rightarrow> nat \<Rightarrow> nat \<Rightarrow> 's \<Rightarrow> 's" where
  "redeliver handle fate d 0 n s = s"
| "redeliver handle fate d (Suc fuel) n s =
     (let s' = snd (handle (with_count n d) s) in
      if fate s' = Requeued then redeliver handle fate d fuel (Suc n) s' else s')"

context live_status_store
begin

text \<open>One delivery of an unfinished job.\<close>

lemma one_delivery:
  assumes lib: "wl_Envelope (ce_lib ce) (dl_Body d) = Inr e" "envelope_Validate (wl_json_Valid (ce_lib ce)) e = None"
    and store: "ce_store ce = store"
    and quiet: "\<And>s. view (snd (ce_clock ce s)) = view s" "\<And>t s. view (snd (ce_processor ce t e s)) = view s"
    and broker: "broker_contract (ce_ack ce) fate view"
    and s: "inv (view s)" "\<forall>st. status (view s) (en_ID e) = Some st \<longrightarrow> \<not> status_Final st"
    and a: "deliveryAttempt (dl_Headers d) = a" "1 \<le> a" "a \<le> en_MaxAttempts e" "bounded (en_MaxAttempts e)"
  shows "\<exists>s'. handleDelivery c ce d s = (None, s') \<and> inv (view s') \<and>
     (fate s' = Acked \<and> status (view s') (en_ID e) = Some StatusSucceeded \<or>
      fate s' = DeadLettered \<and> status (view s') (en_ID e) = Some StatusFailed \<or>
      fate s' = Requeued \<and> status (view s') (en_ID e) = Some StatusRetrying \<and> a < en_MaxAttempts e)"
proof -
  obtain now s1 where s1: "ce_clock ce s = (now, s1)" "view s1 = view s"
    using quiet(1) [of s] by (cases "ce_clock ce s") auto
  have ab: "bounded a" by (rule bounded_down [OF a(4,2,3)])
  have m: "1 \<le> en_MaxAttempts e" using a(2,3) by simp
  obtain s2 where s2: "ss_PrepareAttempt store e a now s1 = (Inr StatusProcessing, s2)" "inv (view s2)"
      "status (view s2) (en_ID e) = Some StatusProcessing"
    using prepare_works [of s1 e a now] s s1 a(2,4) ab m by auto
  define tm where "tm = (if cs_processTimeout c > 0 then Some (cs_processTimeout c) else None)"
  obtain r s3 where s3: "ce_processor ce tm e s2 = (r, s3)" "view s3 = view s2"
    using quiet(2) [of tm s2] by (cases "ce_processor ce tm e s2") auto
  obtain now' s4 where s4: "ce_clock ce s3 = (now', s4)" "view s4 = view s2"
    using quiet(1) [of s3] s3(2) by (cases "ce_clock ce s3") auto
  have h: "handleDelivery c ce d s = (case r of
       Inr result \<Rightarrow> after_success ce d e a result s3 | Inl err \<Rightarrow> after_failure ce d e a err s3)"
    using lib store s1 s2 s3 a(1) by (simp add: handleDelivery_def Let_def tm_def split: sum.split)
  have inv4: "inv (view s4)" "status (view s4) (en_ID e) = Some StatusProcessing" using s2 s4 by simp_all
  note works = succeeded_works [OF inv4 a(2) ab] failed_works [OF inv4 a(2) ab] retrying_works [OF inv4 a(2) ab]
  have acked: "\<exists>s'. ack_Ack (ce_ack ce) tag x = (None, s') \<and> fate s' = Acked \<and> view s' = view x"
    and rejected: "\<exists>s'. ack_Reject (ce_ack ce) tag b x = (None, s') \<and> view s' = view x \<and>
        fate s' = (if b then Requeued else DeadLettered)" for tag b x
    using broker unfolding broker_contract_def by blast+
  show ?thesis
  proof (cases r)
    case (Inr result)
    define res where "res = \<lparr>er_Message = wres_Message result, er_OutputPath = wres_OutputPath result,
                 er_AffectedRows = wres_AffectedRows result\<rparr>"
    obtain s5 where s5: "ss_MarkSucceeded store (en_ID e) a res now' s4 = (None, s5)" "inv (view s5)"
        "status (view s5) (en_ID e) = Some StatusSucceeded" using works(1) by blast
    obtain s6 where "ack_Ack (ce_ack ce) (dl_Tag d) s5 = (None, s6)" "fate s6 = Acked" "view s6 = view s5"
      using acked by blast
    with s5 h Inr store s4(1) show ?thesis by (simp add: after_success_def res_def)
  next
    case (Inl err)
    define f where "f = wl_Error (ce_lib ce) err"
    show ?thesis
    proof (cases "IsPermanent err \<or> a \<ge> en_MaxAttempts e")
      case True
      obtain s5 where s5: "ss_MarkFailed store (en_ID e) a f now' s4 = (None, s5)" "inv (view s5)"
        "status (view s5) (en_ID e) = Some StatusFailed" using works(2) by blast
      obtain s6 where "ack_Reject (ce_ack ce) (dl_Tag d) False s5 = (None, s6)" "fate s6 = DeadLettered" "view s6 = view s5"
        using rejected [of "dl_Tag d" False s5] by auto
      with s5 h Inl store s4(1) True show ?thesis by (simp add: after_failure_def f_def reject_def)
    next
      case False
      obtain s5 where s5: "ss_MarkRetrying store (en_ID e) a f now' s4 = (None, s5)" "inv (view s5)"
        "status (view s5) (en_ID e) = Some StatusRetrying" using works(3) by blast
      obtain s6 where "ack_Reject (ce_ack ce) (dl_Tag d) True s5 = (None, s6)" "fate s6 = Requeued" "view s6 = view s5"
        using rejected [of "dl_Tag d" True s5] by auto
      with s5 h Inl store s4(1) False show ?thesis by (simp add: after_failure_def f_def reject_def)
    qed
  qed
qed

text \<open>By induction on the deliveries that are left, the broker is done with the message within the
  attempts its envelope allows.\<close>

lemma settles:
  assumes lib: "wl_Envelope (ce_lib ce) (dl_Body d) = Inr e" "envelope_Validate (wl_json_Valid (ce_lib ce)) e = None"
    and store: "ce_store ce = store"
    and quiet: "\<And>s. view (snd (ce_clock ce s)) = view s" "\<And>t s. view (snd (ce_processor ce t e s)) = view s"
    and broker: "broker_contract (ce_ack ce) fate view"
    and hd: "map_of (dl_Headers d) ''x-delivery-count'' = None"
    and bd: "bounded (en_MaxAttempts e)" "en_MaxAttempts e < 9223372036854775807"
    and s: "inv (view s)" "\<forall>st. status (view s) (en_ID e) = Some st \<longrightarrow> \<not> status_Final st"
    and n: "int n + int fuel = en_MaxAttempts e" "0 < fuel"
  shows "let s' = redeliver (handleDelivery c ce) fate d fuel n s in
     fate s' = Acked \<and> status (view s') (en_ID e) = Some StatusSucceeded \<or>
     fate s' = DeadLettered \<and> status (view s') (en_ID e) = Some StatusFailed"
  using s n
proof (induction fuel arbitrary: n s)
  case (Suc fuel)
  have a: "deliveryAttempt (dl_Headers (with_count n d)) = int n + 1"
    using Suc.prems bd(2) by (intro deliveryAttempt_with_count [OF hd]) simp
  have body: "wl_Envelope (ce_lib ce) (dl_Body (with_count n d)) = Inr e" using lib(1) by simp
  obtain s1 where s1: "handleDelivery c ce (with_count n d) s = (None, s1)" "inv (view s1)"
      "fate s1 = Acked \<and> status (view s1) (en_ID e) = Some StatusSucceeded \<or>
       fate s1 = DeadLettered \<and> status (view s1) (en_ID e) = Some StatusFailed \<or>
       fate s1 = Requeued \<and> status (view s1) (en_ID e) = Some StatusRetrying \<and> int n + 1 < en_MaxAttempts e"
    using one_delivery [OF body lib(2) store quiet broker Suc.prems(1,2) a, of c] Suc.prems(3) bd(1) by auto
  show ?case
  proof (cases "fate s1 = Requeued")
    case True
    with s1 Suc.prems have "0 < fuel" "int (Suc n) + int fuel = en_MaxAttempts e" by auto
    moreover have "\<forall>st. status (view s1) (en_ID e) = Some st \<longrightarrow> \<not> status_Final st"
      using True s1(3) by (auto simp: status_Final_def)
    ultimately show ?thesis using Suc.IH [OF s1(2)] s1(1) True by simp
  next
    case False
    with s1 show ?thesis by auto
  qed
qed simp

end

section \<open>The PostgreSQL status store\<close>

definition pg_status_store :: "pg_env \<Rightarrow> 'z jobs_state StatusStore" where
  "pg_status_store env = \<lparr>ss_PrepareAttempt = jobs_PrepareAttempt env, ss_MarkRetrying = jobs_MarkRetrying env,
     ss_MarkSucceeded = jobs_MarkSucceeded env, ss_MarkFailed = jobs_MarkFailed env\<rparr>"

lemma prepare_reports_final:
  assumes "jobs_wf (pg_db s)" and "status_of (pg_db s) (en_ID e) = Some st" and "status_Final st"
    and "jobs_PrepareAttempt env e a t s = (r, s')"
  shows "\<forall>st'. r = Inr st' \<longrightarrow> st' = st"
proof (intro allI impI)
  fix st' assume "r = Inr st'"
  with assms(4) have "pg_exec env (prepareAttemptQuery e a t) s = (Inr st', s')"
    by (auto simp: jobs_PrepareAttempt_def split: prod.splits sum.splits)
  from pg_exec_Inr [OF this] show "st' = st"
    by (cases rule: prepareAttempt_cases) (use assms(2,3) in \<open>auto simp: status_of_def\<close>)
qed

interpretation pg_store: status_store "pg_status_store env" pg_db jobs_wf status_of
  by unfold_locales (simp add: pg_status_store_def prepare_reports_final)

text \<open>A guarded update of the row of a job, without a fault.\<close>

lemma update_job_works:
  assumes "jobs_wf db" and "status_of db i = Some st" and "\<And>j. jo_Status j = st \<Longrightarrow> guard j"
    and "\<And>j. guard j \<Longrightarrow> job_le j (upd j) \<and> jo_Status (upd j) = st' \<and>
           (status_Final st' \<longrightarrow> jo_CompletedAt (upd j) \<noteq> None) \<and> jo_CurrentAttempt (upd j) = min a (jo_MaxAttempts j)"
    and "status_check st'" and "1 \<le> a"
  shows "\<exists>db'. update_job i guard upd n db = Inr (i, db') \<and> jobs_wf db' \<and> status_of db' i = Some st'"
proof -
  let ?hit = "\<lambda>j. jo_ID j = i \<and> guard j"
  let ?db = "db\<lparr>db_jobs := update_rows ?hit upd (db_jobs db)\<rparr>"
  from assms(2) obtain j where j: "find_row (\<lambda>j. jo_ID j = i) (db_jobs db) = Some j" "jo_Status j = st"
    by (auto simp: status_of_def)
  note j' = find_row_Some [OF j(1)]
  have "attempt_check (jo_CurrentAttempt (upd k)) (jo_MaxAttempts (upd k))"
    if "k \<in> set (db_jobs db)" "?hit k" for k
  proof -
    from that assms(1) have "1 \<le> jo_MaxAttempts k" by (auto simp: jobs_wf_def job_ok_def attempt_check_def)
    with that assms(4) [of k] assms(6) show ?thesis by (auto simp: attempt_check_def job_le_def)
  qed
  then have u: "update_job i guard upd n db = Inr (i, ?db)"
    using j j' assms(3) by (auto simp: update_job_def Let_def)
  have "jobs_le db ?db"
    by (rule update_job_le [OF u]) (use assms(4,5) in auto)
  then have wf: "jobs_wf ?db" using assms(1) by (simp add: jobs_le_def)
  have "upd j \<in> set (db_jobs ?db)" using j' j(2) assms(3) [of j] by (force simp: in_update_rows)
  moreover have "jo_ID (upd j) = i" using assms(3,4) [of j] j(2) j' by (simp add: job_le_def)
  ultimately have "find_row (\<lambda>j. jo_ID j = i) (db_jobs ?db) = Some (upd j)"
    using find_row_key [of jo_ID "db_jobs ?db" "upd j"] wf by (simp add: jobs_wf_def)
  then have "status_of ?db i = Some st'" using assms(3,4) [of j] j(2) by (simp add: status_of_def)
  with u wf show ?thesis by blast
qed

text \<open>The laws of the working store, for an environment without faults.\<close>

definition no_faults :: "pg_env \<Rightarrow> bool" where
  "no_faults env \<longleftrightarrow> (\<forall>n. pe_fault env n = NoFault)"

definition sound_table :: "pg_env \<Rightarrow> jobs_db \<Rightarrow> bool" where
  "sound_table env db \<longleftrightarrow> no_faults env \<and> jobs_wf db"

lemma marks_work:
  assumes "sound_table env (pg_db s)" and "status_of (pg_db s) i = Some StatusProcessing" and "1 \<le> a" and "int4_ok a"
  shows "\<exists>s'. jobs_MarkRetrying env i a f t s = (None, s') \<and> sound_table env (pg_db s') \<and>
      status_of (pg_db s') i = Some StatusRetrying"
    and "\<exists>s'. jobs_MarkSucceeded env i a res t s = (None, s') \<and> sound_table env (pg_db s') \<and>
      status_of (pg_db s') i = Some StatusSucceeded"
    and "\<exists>s'. jobs_MarkFailed env i a f t s = (None, s') \<and> sound_table env (pg_db s') \<and>
      status_of (pg_db s') i = Some StatusFailed"
proof -
  from assms(1) have nf: "\<And>n. pe_fault env n = NoFault" and wf: "jobs_wf (pg_db s)"
    by (auto simp: sound_table_def no_faults_def)
  note facts = job_le_def status_check_def status_Final_def
  have "\<exists>db'. markRetryingQuery i a t (NormalizeFailureMessage f) (pg_tick s) (pg_db s) = Inr (i, db') \<and>
      jobs_wf db' \<and> status_of db' i = Some StatusRetrying"
    unfolding markRetryingQuery_def using assms(4)
    by simp (rule update_job_works [OF wf assms(2), where a = a]; use assms(3) in \<open>auto simp: facts intro: lifecycle_star\<close>)
  with nf assms(1) show "\<exists>s'. jobs_MarkRetrying env i a f t s = (None, s') \<and> sound_table env (pg_db s') \<and>
      status_of (pg_db s') i = Some StatusRetrying"
    by (auto simp: jobs_MarkRetrying_def scanRequiredID_def pg_exec_NoFault sound_table_def)
  have "\<exists>db'. markSucceededQuery i a t res (pg_tick s) (pg_db s) = Inr (i, db') \<and>
      jobs_wf db' \<and> status_of db' i = Some StatusSucceeded"
    unfolding markSucceededQuery_def using assms(4)
    by simp (rule update_job_works [OF wf assms(2), where a = a]; use assms(3) in \<open>auto simp: facts intro: lifecycle_star\<close>)
  with nf assms(1) show "\<exists>s'. jobs_MarkSucceeded env i a res t s = (None, s') \<and> sound_table env (pg_db s') \<and>
      status_of (pg_db s') i = Some StatusSucceeded"
    by (auto simp: jobs_MarkSucceeded_def scanRequiredID_def pg_exec_NoFault sound_table_def)
  have "\<exists>db'. markFailedQuery i a t (NormalizeFailureMessage f) (pg_tick s) (pg_db s) = Inr (i, db') \<and>
      jobs_wf db' \<and> status_of db' i = Some StatusFailed"
    unfolding markFailedQuery_def using assms(4)
    by simp (rule update_job_works [OF wf assms(2), where a = a]; use assms(3) in \<open>auto simp: facts intro: lifecycle_star\<close>)
  with nf assms(1) show "\<exists>s'. jobs_MarkFailed env i a f t s = (None, s') \<and> sound_table env (pg_db s') \<and>
      status_of (pg_db s') i = Some StatusFailed"
    by (auto simp: jobs_MarkFailed_def scanRequiredID_def pg_exec_NoFault sound_table_def)
qed

lemma prepare_attempt_works:
  assumes "sound_table env (pg_db s)" and "\<forall>st. status_of (pg_db s) (en_ID e) = Some st \<longrightarrow> \<not> status_Final st"
    and "1 \<le> a" and "int4_ok a" and "1 \<le> en_MaxAttempts e" and "int4_ok (en_MaxAttempts e)"
  shows "\<exists>s'. jobs_PrepareAttempt env e a t s = (Inr StatusProcessing, s') \<and> sound_table env (pg_db s') \<and>
      status_of (pg_db s') (en_ID e) = Some StatusProcessing"
proof -
  from assms(1) have nf: "\<And>n. pe_fault env n = NoFault" and wf: "jobs_wf (pg_db s)"
    by (auto simp: sound_table_def no_faults_def)
  have chk: "attempt_check (min a (en_MaxAttempts e)) (en_MaxAttempts e)"
    using assms(3,5) by (auto simp: attempt_check_def)
  have "\<exists>db'. prepareAttemptQuery e a t (pg_tick s) (pg_db s) = Inr (StatusProcessing, db') \<and>
      status_of db' (en_ID e) = Some StatusProcessing"
  proof (cases "find_row (\<lambda>j. jo_ID j = en_ID e) (db_jobs (pg_db s))")
    case None
    with assms(4,6) chk show ?thesis
      by (simp add: prepareAttemptQuery_def Let_def status_of_def find_row_append)
  next
    case (Some j)
    then have st: "status_of (pg_db s) (en_ID e) = Some (jo_Status j)" by (simp add: status_of_def)
    with assms(2) have nfin: "\<not> status_Final (jo_Status j)" by blast
    have "\<exists>db'. update_job (en_ID e) (\<lambda>j. \<not> status_Final (jo_Status j))
        (\<lambda>j. j\<lparr>jo_Status := StatusProcessing, jo_CurrentAttempt := min a (jo_MaxAttempts j),
          jo_StartedAt := Some (case jo_StartedAt j of None \<Rightarrow> pg_time t | Some t \<Rightarrow> t),
          jo_UpdatedAt := pg_time t, jo_LastError := ''''\<rparr>) (pg_tick s) (pg_db s) = Inr (en_ID e, db') \<and>
        jobs_wf db' \<and> status_of db' (en_ID e) = Some StatusProcessing"
      by (rule update_job_works [OF wf st, where a = a];
          use nfin assms(3) in \<open>auto simp: job_le_def status_check_def status_Final_def intro: lifecycle_star\<close>)
    with Some nfin assms(4,6) chk show ?thesis by (auto simp: prepareAttemptQuery_def Let_def)
  qed
  then obtain db' where q: "prepareAttemptQuery e a t (pg_tick s) (pg_db s) = Inr (StatusProcessing, db')"
    and st: "status_of db' (en_ID e) = Some StatusProcessing" by blast
  from prepareAttempt_le [OF q] wf have "jobs_wf db'" by (simp add: jobs_le_def)
  with q st nf assms(1) show ?thesis by (simp add: jobs_PrepareAttempt_def pg_exec_NoFault sound_table_def)
qed

interpretation live_pg_store: live_status_store "pg_status_store env" pg_db "sound_table env" status_of int4_ok
proof unfold_locales
  fix s :: "'a jobs_state" and e st a t r s'
  assume "sound_table env (pg_db s)" "status_of (pg_db s) (en_ID e) = Some st" "status_Final st"
    "ss_PrepareAttempt (pg_status_store env) e a t s = (r, s')"
  then show "\<forall>st'. r = Inr st' \<longrightarrow> st' = st"
    using prepare_reports_final [of s e st env a t r s'] by (simp add: pg_status_store_def sound_table_def)
qed (simp_all add: pg_status_store_def prepare_attempt_works marks_work int4_ok_def)

section \<open>Properties\<close>

text \<open>C17. Every job is settled within its attempts: when the database and the broker work, a message of
  a job that is not finished yet is delivered at most as often as its envelope allows, and then it is
  acknowledged with the job succeeded, or dead-lettered with the job failed, whatever the processor
  answers.\<close>

theorem worker_settles_job:
  fixes ce :: "('z jobs_state) consumer_env"
  assumes "no_faults env" and "jobs_wf (pg_db s)" and "ce_store ce = pg_status_store env"
    and "broker_contract (ce_ack ce) fate pg_db"
    and "\<And>x. pg_db (snd (ce_clock ce x)) = pg_db x" and "\<And>t x. pg_db (snd (ce_processor ce t e x)) = pg_db x"
    and "wl_Envelope (ce_lib ce) (dl_Body d) = Inr e" and "envelope_Validate (wl_json_Valid (ce_lib ce)) e = None"
    and "map_of (dl_Headers d) ''x-delivery-count'' = None" and "int4_ok (en_MaxAttempts e)"
    and "\<forall>st. status_of (pg_db s) (en_ID e) = Some st \<longrightarrow> \<not> status_Final st"
  shows "let s' = redeliver (handleDelivery consumer ce) fate d (nat (en_MaxAttempts e)) 0 s in
    fate s' = Acked \<and> status_of (pg_db s') (en_ID e) = Some StatusSucceeded \<or>
    fate s' = DeadLettered \<and> status_of (pg_db s') (en_ID e) = Some StatusFailed"
proof -
  from assms(8) have "1 \<le> en_MaxAttempts e" by (simp add: envelope_valid_iff)
  then have n: "int 0 + int (nat (en_MaxAttempts e)) = en_MaxAttempts e" "0 < nat (en_MaxAttempts e)" by simp_all
  from assms(10) have lt: "en_MaxAttempts e < 9223372036854775807" by (simp add: int4_ok_def)
  from assms(1,2) have inv: "sound_table env (pg_db s)" by (simp add: sound_table_def)
  show ?thesis
    by (rule live_pg_store.settles [OF assms(7,8,3,5,6,4,9,10) lt inv assms(11) n])
qed

text \<open>C18. A finished job is never executed again: when a job has succeeded or failed, a further delivery of
  its message gives the same result whatever the processor would do, so the processor is not called;
  the message is then acknowledged (only if the job succeeded), dead-lettered, or the consumer stops
  with an error. Other workers and submissions may run while the clock is read.\<close>

theorem finished_job_not_processed:
  fixes ce :: "('z jobs_state) consumer_env"
  assumes "ce_store ce = pg_status_store env" and "wl_Envelope (ce_lib ce) (dl_Body d) = Inr e"
    and "jobs_wf (pg_db s)" and "status_of (pg_db s) (en_ID e) = Some st" and "status_Final st"
    and "\<And>x. jobs_reach env x (snd (ce_clock ce x))"
    and "handleDelivery consumer ce d s = (r, s')"
  shows "handleDelivery consumer (ce\<lparr>ce_processor := p\<rparr>) d s = (r, s') \<and>
    (r \<noteq> None \<or> (\<exists>s2. ack_Ack (ce_ack ce) (dl_Tag d) s2 = (r, s') \<and> st = StatusSucceeded) \<or>
     (\<exists>s2. reject (ce_ack ce) d False s2 = (r, s')))"
proof -
  obtain now s1 where s1: "ce_clock ce s = (now, s1)" by (cases "ce_clock ce s")
  with assms(6) [of s] have le: "jobs_le (pg_db s) (pg_db s1)" by (simp add: jobs_reach_le)
  then have wf: "jobs_wf (pg_db s1)" using assms(3) by (simp add: jobs_le_def)
  from status_of_later [OF assms(3) le assms(4)] lifecycle_final [OF _ assms(5)]
  have st: "status_of (pg_db s1) (en_ID e) = Some st" by blast
  note skip = pg_store.finished_skips_processor [OF assms(2,1) s1 wf st assms(5)]
  show ?thesis using skip(1) [of consumer p] skip(2) [OF assms(7)] assms(7) by simp
qed

text \<open>A worker on the queued job of \<open>Jobs_Store\<close> whose processor always reports a transient failure.\<close>

record worker_world = "jobs_db pg" +
  ww_fate :: fate

definition demo_worker_lib :: worker_lib where
  "demo_worker_lib = \<lparr>wl_json_Valid = (\<lambda>x. x = ''{}''), wl_Webhook = (\<lambda>x. Inl (Sentinel (JbExternal ''json''))),
     wl_Report = (\<lambda>x. Inl (Sentinel (JbExternal ''json''))), wl_Cleanup = (\<lambda>x. Inl (Sentinel (JbExternal ''json''))),
     wl_Envelope = (\<lambda>x. if x = ''m'' then Inr demo_envelope else Inl (Sentinel (JbExternal ''json''))),
     wl_Error = (\<lambda>e. ''x'')\<rparr>"

definition demo_acker :: "worker_world Acknowledger" where
  "demo_acker = \<lparr>ack_Ack = (\<lambda>tag w. (None, w\<lparr>ww_fate := Acked\<rparr>)),
     ack_Reject = (\<lambda>tag b w. (None, w\<lparr>ww_fate := (if b then Requeued else DeadLettered)\<rparr>))\<rparr>"

definition demo_consumer_env :: "worker_world consumer_env" where
  "demo_consumer_env = \<lparr>ce_lib = demo_worker_lib, ce_ack = demo_acker, ce_clock = (\<lambda>w. (9000, w)),
     ce_processor = (\<lambda>t e w. (Inl (Sentinel (JbExternal ''timeout'')), w)), ce_store = pg_status_store demo_pg,
     ce_Consume = (\<lambda>q t w. (None, w)), ce_Cancel = (\<lambda>t w. w)\<rparr>"

definition demo_delivery :: Delivery where
  "demo_delivery = \<lparr>dl_Tag = 1, dl_Headers = [], dl_Body = ''m''\<rparr>"

definition demo_consumer :: Consumer where
  "demo_consumer = \<lparr>cs_queue = ''q'', cs_processTimeout = 0\<rparr>"

definition demo_world :: worker_world where
  "demo_world = \<lparr>pg_db = \<lparr>db_jobs = [queued_job]\<rparr>, pg_tick = 0, ww_fate = InFlight\<rparr>"

lemmas demo_worker_defs = demo_consumer_env_def demo_acker_def demo_worker_lib_def demo_delivery_def demo_world_def

lemma demo_world_facts:
  "no_faults demo_pg" "jobs_wf (pg_db demo_world)" "status_of (pg_db demo_world) ''j1'' = Some StatusQueued"
  "broker_contract (ce_ack demo_consumer_env) ww_fate pg_db"
  "wl_Envelope (ce_lib demo_consumer_env) (dl_Body demo_delivery) = Inr demo_envelope"
  "envelope_Validate (wl_json_Valid (ce_lib demo_consumer_env)) demo_envelope = None"
  "en_ID demo_envelope = ''j1''" "en_MaxAttempts demo_envelope = 3"
proof -
  show "jobs_wf (pg_db demo_world)" using queued_wf by (simp add: queued_state_def demo_world_def)
  show "envelope_Validate (wl_json_Valid (ce_lib demo_consumer_env)) demo_envelope = None" by code_simp
qed (simp_all add: no_faults_def demo_pg_def status_of_def queued_defs broker_contract_def demo_worker_defs)

theorem worker_settles_job_witness:
  "let s' = redeliver (handleDelivery demo_consumer demo_consumer_env) ww_fate demo_delivery 3 0 demo_world in
    ww_fate s' = Acked \<and> status_of (pg_db s') ''j1'' = Some StatusSucceeded \<or>
    ww_fate s' = DeadLettered \<and> status_of (pg_db s') ''j1'' = Some StatusFailed"
proof -
  have "let s' = redeliver (handleDelivery demo_consumer demo_consumer_env) ww_fate demo_delivery
            (nat (en_MaxAttempts demo_envelope)) 0 demo_world in
    ww_fate s' = Acked \<and> status_of (pg_db s') (en_ID demo_envelope) = Some StatusSucceeded \<or>
    ww_fate s' = DeadLettered \<and> status_of (pg_db s') (en_ID demo_envelope) = Some StatusFailed"
    by (rule worker_settles_job [OF demo_world_facts(1,2) _ demo_world_facts(4) _ _ demo_world_facts(5,6)])
      (simp_all add: demo_world_facts int4_ok_def demo_consumer_env_def demo_delivery_def status_Final_def)
  then show ?thesis by (simp add: demo_world_facts)
qed

definition done_world :: worker_world where
  "done_world = demo_world\<lparr>pg_db := \<lparr>db_jobs = [queued_job\<lparr>jo_Status := StatusSucceeded, jo_CompletedAt := Some 8000\<rparr>]\<rparr>\<rparr>"

theorem finished_job_not_processed_witness:
  "handleDelivery demo_consumer (demo_consumer_env\<lparr>ce_processor := (\<lambda>t e w. (Inl (Sentinel WErrInvalidJobPayload), w))\<rparr>)
     demo_delivery done_world = (None, done_world\<lparr>pg_tick := 1, ww_fate := Acked\<rparr>)"
proof -
  have wf: "jobs_wf (pg_db done_world)" and st: "status_of (pg_db done_world) (en_ID demo_envelope) = Some StatusSucceeded"
    by (simp_all add: done_world_def jobs_wf_def job_ok_def queued_defs status_check_def attempt_check_def status_of_def)
  have run: "handleDelivery demo_consumer demo_consumer_env demo_delivery done_world =
      (None, done_world\<lparr>pg_tick := 1, ww_fate := Acked\<rparr>)"
    by code_simp
  have "\<And>x. jobs_reach demo_pg x (snd (ce_clock demo_consumer_env x))"
    by (simp add: demo_consumer_env_def jobs_reach.jr_refl)
  from finished_job_not_processed [OF _ demo_world_facts(5) wf st _ this run]
  show ?thesis by (simp add: demo_consumer_env_def status_Final_def)
qed

end
