(* ===== verification/Gateway_Domain.thy ===== *)
theory Gateway_Domain
  imports Platform_Events
begin

text \<open>
  \<open>internal/gateway/domain\<close>: routes, rate-limit policies, API-key principals and the gateway's
  error values, with the two path functions of a route. A path prefix is matched on whole path
  segments; the upstream path is the original path with the prefix removed.
\<close>

section \<open>Types\<close>

record RateLimitPolicy =
  pol_Enabled :: bool
  pol_Limit :: int
  pol_Window :: Duration

record RateLimitRequest =
  rlr_RouteKey :: string
  rlr_ClientID :: string
  rlr_Policy :: RateLimitPolicy

record RateLimitResult =
  rl_Enabled :: bool
  rl_Allowed :: bool
  rl_Limit :: int
  rl_Remaining :: int
  rl_ResetAt :: Time
  rl_RetryAfter :: Duration

record APIKeyPrincipal =
  pr_APIKeyID :: string
  pr_ProjectID :: string

record Route =
  rt_ProjectID :: string
  rt_Name :: string
  rt_PathPrefix :: string
  rt_UpstreamURL :: string
  rt_StripPrefix :: bool
  rt_Timeout :: Duration
  rt_AuthRequired :: bool
  rt_RateLimit :: RateLimitPolicy

text \<open>
  The package's sentinel errors, the use case's \<open>ErrRouteSourceNotConfigured\<close>, the two context
  errors, and the errors of third-party clients by their text.
\<close>

datatype gw_error =
    ErrRouteNotFound
  | ErrInvalidRoute
  | ErrAPIKeyRequired
  | ErrInvalidAPIKey
  | ErrAPIKeyProjectMismatch
  | ErrAuthServiceUnavailable
  | ErrAPIKeyValidatorNotConfigured
  | ErrRateLimiterNotConfigured
  | ErrInvalidRateLimitPolicy
  | ErrInvalidRateLimitClient
  | ErrRouteSourceNotConfigured
  | ContextCanceled
  | ContextDeadlineExceeded
  | GwExternal string

type_synonym gw_err = "gw_error goerr"

definition zero_Policy :: RateLimitPolicy where
  "zero_Policy = \<lparr>pol_Enabled = False, pol_Limit = 0, pol_Window = 0\<rparr>"

definition zero_Principal :: APIKeyPrincipal where
  "zero_Principal = \<lparr>pr_APIKeyID = '''', pr_ProjectID = ''''\<rparr>"

definition zero_Route :: Route where
  "zero_Route = \<lparr>rt_ProjectID = '''', rt_Name = '''', rt_PathPrefix = '''', rt_UpstreamURL = '''',
     rt_StripPrefix = False, rt_Timeout = 0, rt_AuthRequired = False, rt_RateLimit = zero_Policy\<rparr>"

section \<open>Path functions\<close>

definition Matches :: "Route \<Rightarrow> string \<Rightarrow> bool" where
  "Matches r path =
     (if rt_PathPrefix r = ''/'' then True
      else (let prefix = TrimRightByte (rt_PathPrefix r) (CHR ''/'')
            in path = prefix \<or> HasPrefix path (prefix @ ''/'')))"

definition UpstreamPath :: "Route \<Rightarrow> string \<Rightarrow> string" where
  "UpstreamPath r originalPath =
     (if \<not> rt_StripPrefix r then originalPath
      else (let prefix = TrimRightByte (rt_PathPrefix r) (CHR ''/'');
                path = TrimPrefix originalPath prefix
            in if path = '''' then ''/''
               else if \<not> HasPrefix path ''/'' then ''/'' @ path
               else path))"

section \<open>Lemmas\<close>

text \<open>The prefix without its trailing slashes, which is what \<open>Matches\<close> compares.\<close>

definition bare_prefix :: "Route \<Rightarrow> string" where
  "bare_prefix r = TrimRightByte (rt_PathPrefix r) (CHR ''/'')"

lemma Matches_bare:
  "Matches r path \<longleftrightarrow>
     rt_PathPrefix r = ''/'' \<or> path = bare_prefix r \<or> (\<exists>rest. path = bare_prefix r @ ''/'' @ rest)"
  by (auto simp: Matches_def Let_def HasPrefix_def prefix_def bare_prefix_def)

text \<open>On absolute paths the special case of the root prefix agrees with the general rule.\<close>

lemma Matches_absolute:
  assumes "HasPrefix path ''/''"
  shows "Matches r path \<longleftrightarrow> path = bare_prefix r \<or> (\<exists>rest. path = bare_prefix r @ ''/'' @ rest)"
proof (cases "rt_PathPrefix r = ''/''")
  case True
  then have "bare_prefix r = []" by (simp add: bare_prefix_def TrimRightByte_def)
  with assms True show ?thesis by (auto simp: Matches_bare HasPrefix_def prefix_def)
qed (simp add: Matches_bare)

lemma bare_prefix_prefix: "prefix (bare_prefix r) (rt_PathPrefix r)"
  using TrimRightByte_decomp [of "rt_PathPrefix r" "CHR ''/''"]
  by (auto simp: bare_prefix_def prefix_def)

lemma bare_prefix_no_slash: "bare_prefix r \<noteq> [] \<Longrightarrow> last (bare_prefix r) \<noteq> CHR ''/''"
  by (simp add: bare_prefix_def TrimRightByte_last)

text \<open>Splitting a path at its slashes: the segments that prefix matching is about.\<close>

definition segments :: "string \<Rightarrow> string list" where
  "segments p = split_byte (CHR ''/'') p"

lemma split_byte_join:
  "prefix (split_byte c a) (split_byte c p) \<longleftrightarrow> p = a \<or> (\<exists>rest. p = a @ c # rest)"
proof (induction a arbitrary: p)
  case Nil
  show ?case
  proof (cases p)
    case (Cons x xs)
    then show ?thesis by (cases "split_byte c xs") auto
  qed simp
next
  case (Cons y ys)
  show ?case
  proof (cases p)
    case Nil
    obtain z zs where "split_byte c ys = z # zs" by (cases "split_byte c ys") auto
    with Nil show ?thesis by (auto simp: prefix_def)
  next
    case (Cons x xs)
    obtain z zs where z: "split_byte c ys = z # zs" by (cases "split_byte c ys") auto
    obtain w ws where w: "split_byte c xs = w # ws" by (cases "split_byte c xs") auto
    from Cons.IH [of xs] z w Cons show ?thesis by auto
  qed
qed

text \<open>Removing the bare prefix from a matching path, and the shape of the upstream path.\<close>

lemma UpstreamPath_strip:
  assumes "rt_StripPrefix r" and "path = bare_prefix r @ rest"
  shows "UpstreamPath r path =
           (if rest = [] then ''/'' else if hd rest = CHR ''/'' then rest else ''/'' @ rest)"
proof -
  have "TrimPrefix path (bare_prefix r) = rest" using assms by simp
  with assms(1) show ?thesis
    by (cases rest) (auto simp: UpstreamPath_def Let_def bare_prefix_def HasPrefix_def)
qed

lemma UpstreamPath_keep: "\<not> rt_StripPrefix r \<Longrightarrow> UpstreamPath r path = path"
  by (simp add: UpstreamPath_def)

lemma UpstreamPath_absolute:
  assumes "HasPrefix path ''/''"
  shows "HasPrefix (UpstreamPath r path) ''/''"
  using assms by (auto simp: UpstreamPath_def Let_def HasPrefix_def)

section \<open>Properties\<close>

text \<open>C32. A route matches an absolute path exactly when the path segments of its prefix (without
  trailing slashes) are the first segments of the path: a prefix never matches inside a segment.\<close>

theorem Matches_segments:
  assumes "HasPrefix path ''/''"
  shows "Matches r path \<longleftrightarrow>
    prefix (segments (TrimRightByte (rt_PathPrefix r) (CHR ''/''))) (segments path)"
  using Matches_absolute [OF assms]
  by (simp add: segments_def split_byte_join bare_prefix_def)

theorem Matches_segments_witness:
  "\<not> Matches (zero_Route\<lparr>rt_PathPrefix := ''/api''\<rparr>) ''/apiary''"
  using Matches_segments [of "''/apiary''" "zero_Route\<lparr>rt_PathPrefix := ''/api''\<rparr>"]
  by (simp add: HasPrefix_def segments_def TrimRightByte_def)

text \<open>C33. The upstream path of a matched absolute path is absolute; without prefix stripping it is
  the path itself, with it the route's prefix followed by the upstream path is the original path,
  up to the slash added when the path is the prefix itself.\<close>

theorem UpstreamPath_matched:
  assumes "HasPrefix path ''/''" and "Matches r path"
  shows "HasPrefix (UpstreamPath r path) ''/'' \<and>
    (if \<not> rt_StripPrefix r then UpstreamPath r path = path
     else TrimRightByte (rt_PathPrefix r) (CHR ''/'') @ UpstreamPath r path =
       (if path = TrimRightByte (rt_PathPrefix r) (CHR ''/'') then path @ ''/'' else path))"
proof (cases "rt_StripPrefix r")
  case True
  from assms Matches_absolute consider "path = bare_prefix r"
    | rest where "path = bare_prefix r @ ''/'' @ rest" by blast
  then have "bare_prefix r @ UpstreamPath r path = (if path = bare_prefix r then path @ ''/'' else path)"
  proof cases
    case 1
    with UpstreamPath_strip [OF True, of path "[]"] show ?thesis by simp
  next
    case (2 rest)
    with UpstreamPath_strip [OF True, of path "''/'' @ rest"] show ?thesis by simp
  qed
  with True UpstreamPath_absolute [OF assms(1)] show ?thesis by (simp add: bare_prefix_def)
qed (use assms in \<open>simp add: UpstreamPath_keep\<close>)

theorem UpstreamPath_matched_witness:
  "''/api'' @ UpstreamPath (zero_Route\<lparr>rt_PathPrefix := ''/api/'', rt_StripPrefix := True\<rparr>) ''/api/v1'' =
   ''/api/v1''"
  using UpstreamPath_matched [of "''/api/v1''"
      "zero_Route\<lparr>rt_PathPrefix := ''/api/'', rt_StripPrefix := True\<rparr>"]
  by (simp add: HasPrefix_def TrimRightByte_def Matches_def Let_def)

end
