(* ===== verification/Gateway_Usecase.thy ===== *)
theory Gateway_Usecase
  imports Gateway_Domain
begin

text \<open>
  \<open>internal/gateway/usecase\<close>, the in-memory route repository
  (\<open>internal/gateway/infrastructure/memory\<close>) and the refresh worker
  (\<open>internal/gateway/worker\<close>). The interfaces of \<open>ports.go\<close> are the fields of the record
  \<open>Usecase\<close>: state-passing functions over a world \<open>'s\<close> that holds the state of all
  dependencies; an interface value that may be nil is an option. Concurrent requests and refreshes
  interleave at the calls on the repository, whose mutex makes each call one step.
\<close>

section \<open>Ports and the use case\<close>

record 's Usecase =
  uc_ListRoutes :: "'s \<Rightarrow> (gw_err + Route list) \<times> 's"
  uc_ReplaceRoutes :: "Route list \<Rightarrow> 's \<Rightarrow> 's"
  uc_routeSource :: "('s \<Rightarrow> (gw_err + Route list) \<times> 's) option"
  uc_apiKeyValidator :: "(string \<Rightarrow> 's \<Rightarrow> (gw_err + APIKeyPrincipal) \<times> 's) option"
  uc_rateLimiter :: "(RateLimitRequest \<Rightarrow> 's \<Rightarrow> (gw_err + RateLimitResult) \<times> 's) option"
  uc_accessEventPublisher :: "(GatewayAccessEvent \<Rightarrow> 's \<Rightarrow> gw_err option \<times> 's) option"

text \<open>\<open>ResolveRoute\<close>: the loop keeps the first matching route of maximal prefix length. The
  accumulator is the pair of \<open>matched\<close> and \<open>matchedLen\<close>.\<close>

definition resolve_step :: "string \<Rightarrow> Route \<Rightarrow> Route \<times> int \<Rightarrow> Route \<times> int" where
  "resolve_step path route acc =
     (case acc of (matched, matchedLen) \<Rightarrow>
        if Matches route path \<and> int (length (rt_PathPrefix route)) > matchedLen
        then (route, int (length (rt_PathPrefix route)))
        else (matched, matchedLen))"

definition resolve_loop :: "string \<Rightarrow> Route list \<Rightarrow> Route \<times> int" where
  "resolve_loop path routes = fold (resolve_step path) routes (zero_Route, -1)"

definition ResolveRoute :: "'s Usecase \<Rightarrow> string \<Rightarrow> 's \<Rightarrow> (gw_err + Route) \<times> 's" where
  "ResolveRoute u path s =
     (case uc_ListRoutes u s of
        (Inl err, s1) \<Rightarrow> (Inl err, s1)
      | (Inr routes, s1) \<Rightarrow>
          (case resolve_loop path routes of (matched, matchedLen) \<Rightarrow>
             if matchedLen = -1 then (Inl (Sentinel ErrRouteNotFound), s1)
             else (Inr matched, s1)))"

definition AuthorizeRoute ::
  "'s Usecase \<Rightarrow> Route \<Rightarrow> string \<Rightarrow> 's \<Rightarrow> (gw_err + APIKeyPrincipal) \<times> 's" where
  "AuthorizeRoute u route rawAPIKey s =
     (if \<not> rt_AuthRequired route then (Inr zero_Principal, s)
      else if TrimSpace rawAPIKey = '''' then (Inl (Sentinel ErrAPIKeyRequired), s)
      else (case uc_apiKeyValidator u of
              None \<Rightarrow> (Inl (Sentinel ErrAPIKeyValidatorNotConfigured), s)
            | Some validate \<Rightarrow>
                (case validate rawAPIKey s of
                   (Inl err, s1) \<Rightarrow>
                     (if errors_is err ErrInvalidAPIKey then (Inl (Sentinel ErrInvalidAPIKey), s1)
                      else (Inl err, s1))
                 | (Inr prin, s1) \<Rightarrow>
                     (if pr_ProjectID prin \<noteq> rt_ProjectID route
                      then (Inl (Sentinel ErrAPIKeyProjectMismatch), s1)
                      else (Inr prin, s1)))))"

definition route_key :: "Route \<Rightarrow> string" where
  "route_key route =
     rt_ProjectID route @ [CHR 0x00] @ rt_Name route @ [CHR 0x00] @ rt_PathPrefix route"

definition unlimited_result :: RateLimitResult where
  "unlimited_result = \<lparr>rl_Enabled = False, rl_Allowed = True, rl_Limit = 0, rl_Remaining = 0,
     rl_ResetAt = 0, rl_RetryAfter = 0\<rparr>"

definition CheckRateLimit ::
  "'s Usecase \<Rightarrow> Route \<Rightarrow> string \<Rightarrow> 's \<Rightarrow> (gw_err + RateLimitResult) \<times> 's" where
  "CheckRateLimit u route clientID s =
     (if \<not> pol_Enabled (rt_RateLimit route) then (Inr unlimited_result, s)
      else if pol_Limit (rt_RateLimit route) \<le> 0 \<or> pol_Window (rt_RateLimit route) \<le> 0
        then (Inl (Sentinel ErrInvalidRateLimitPolicy), s)
      else (let clientID' = TrimSpace clientID in
            if clientID' = '''' then (Inl (Sentinel ErrInvalidRateLimitClient), s)
            else (case uc_rateLimiter u of
                    None \<Rightarrow> (Inl (Sentinel ErrRateLimiterNotConfigured), s)
                  | Some allow \<Rightarrow>
                      allow \<lparr>rlr_RouteKey = route_key route, rlr_ClientID = clientID',
                             rlr_Policy = rt_RateLimit route\<rparr> s)))"

definition RefreshRoutes :: "'s Usecase \<Rightarrow> 's \<Rightarrow> (gw_err + nat) \<times> 's" where
  "RefreshRoutes u s =
     (case uc_routeSource u of
        None \<Rightarrow> (Inl (Sentinel ErrRouteSourceNotConfigured), s)
      | Some source \<Rightarrow>
          (case source s of
             (Inl err, s1) \<Rightarrow> (Inl (Errorf ''load route snapshot: %w'' [err]), s1)
           | (Inr routes, s1) \<Rightarrow> (Inr (length routes), uc_ReplaceRoutes u routes s1)))"

definition PublishAccessEvent ::
  "'s Usecase \<Rightarrow> GatewayAccessEvent \<Rightarrow> 's \<Rightarrow> gw_err option \<times> 's" where
  "PublishAccessEvent u event s =
     (case uc_accessEventPublisher u of
        None \<Rightarrow> (None, s)
      | Some publish \<Rightarrow> publish event s)"

section \<open>The refresh worker\<close>

text \<open>
  \<open>RunRoutesRefresh\<close> selects between the context's end and the ticker. A run is driven by the
  list of events its \<open>select\<close> receives; \<open>CtxDone\<close> returns, a tick refreshes and logs.
\<close>

datatype refresh_select = CtxDone | TickerC

datatype refresh_log = LogFailed gw_err | LogRefreshed nat

fun RunRoutesRefresh ::
  "'s Usecase \<Rightarrow> ('s \<Rightarrow> bool) \<Rightarrow> refresh_select list \<Rightarrow> 's \<Rightarrow> refresh_log list \<times> 's" where
  "RunRoutesRefresh u ctxErr [] s = ([], s)"
| "RunRoutesRefresh u ctxErr (CtxDone # evs) s = ([], s)"
| "RunRoutesRefresh u ctxErr (TickerC # evs) s =
     (case RefreshRoutes u s of
        (Inl err, s1) \<Rightarrow>
          (case RunRoutesRefresh u ctxErr evs s1 of (logs, s2) \<Rightarrow>
             (if \<not> ctxErr s1 then LogFailed err # logs else logs, s2))
      | (Inr n, s1) \<Rightarrow>
          (case RunRoutesRefresh u ctxErr evs s1 of (logs, s2) \<Rightarrow> (LogRefreshed n # logs, s2)))"

section \<open>The in-memory repository\<close>

text \<open>The repository is the first part of any larger state that extends it.\<close>

record RouteRepository =
  rr_routes :: "Route list"

definition cloneRoutes :: "Route list \<Rightarrow> Route list" where
  "cloneRoutes routes = map (\<lambda>i. routes ! i) [0..<length routes]"

definition NewRouteRepository :: "Route list \<Rightarrow> RouteRepository" where
  "NewRouteRepository routes = \<lparr>rr_routes = cloneRoutes routes\<rparr>"

definition memory_ListRoutes ::
  "'a RouteRepository_scheme \<Rightarrow> (gw_err + Route list) \<times> 'a RouteRepository_scheme" where
  "memory_ListRoutes r = (Inr (cloneRoutes (rr_routes r)), r)"

definition memory_ReplaceRoutes ::
  "Route list \<Rightarrow> 'a RouteRepository_scheme \<Rightarrow> 'a RouteRepository_scheme" where
  "memory_ReplaceRoutes routes r = r\<lparr>rr_routes := cloneRoutes routes\<rparr>"

lemma cloneRoutes_id [simp]: "cloneRoutes routes = routes"
  by (simp add: cloneRoutes_def map_nth)

text \<open>The use case over the in-memory repository, as \<open>app.go\<close> builds it.\<close>

definition memory_usecase ::
  "('a RouteRepository_scheme \<Rightarrow> (gw_err + Route list) \<times> 'a RouteRepository_scheme) option \<Rightarrow>
   (string \<Rightarrow> 'a RouteRepository_scheme \<Rightarrow> (gw_err + APIKeyPrincipal) \<times> 'a RouteRepository_scheme) option \<Rightarrow>
   (RateLimitRequest \<Rightarrow> 'a RouteRepository_scheme \<Rightarrow> (gw_err + RateLimitResult) \<times> 'a RouteRepository_scheme) option \<Rightarrow>
   (GatewayAccessEvent \<Rightarrow> 'a RouteRepository_scheme \<Rightarrow> gw_err option \<times> 'a RouteRepository_scheme) option \<Rightarrow>
   'a RouteRepository_scheme Usecase" where
  "memory_usecase source validator limiter publisher =
     \<lparr>uc_ListRoutes = memory_ListRoutes, uc_ReplaceRoutes = memory_ReplaceRoutes,
      uc_routeSource = source, uc_apiKeyValidator = validator, uc_rateLimiter = limiter,
      uc_accessEventPublisher = publisher\<rparr>"

lemma memory_usecase_sel [simp]:
  "uc_ListRoutes (memory_usecase src v l p) = memory_ListRoutes"
  "uc_ReplaceRoutes (memory_usecase src v l p) = memory_ReplaceRoutes"
  "uc_routeSource (memory_usecase src v l p) = src"
  "uc_apiKeyValidator (memory_usecase src v l p) = v"
  "uc_rateLimiter (memory_usecase src v l p) = l"
  "uc_accessEventPublisher (memory_usecase src v l p) = p"
  by (simp_all add: memory_usecase_def)

section \<open>Resolution picks the longest matching prefix\<close>

text \<open>The reference: a route that matches, that no matching route exceeds in prefix length, and
  that comes first among those of its length.\<close>

definition best_match :: "string \<Rightarrow> Route list \<Rightarrow> Route \<Rightarrow> bool" where
  "best_match path routes r \<longleftrightarrow>
     (\<exists>pre post. routes = pre @ r # post \<and> Matches r path \<and>
        (\<forall>q\<in>set pre. Matches q path \<longrightarrow> length (rt_PathPrefix q) < length (rt_PathPrefix r)) \<and>
        (\<forall>q\<in>set post. Matches q path \<longrightarrow> length (rt_PathPrefix q) \<le> length (rt_PathPrefix r)))"

lemma resolve_loop_snoc:
  "resolve_loop path (routes @ [r]) = resolve_step path r (resolve_loop path routes)"
  by (simp add: resolve_loop_def)

text \<open>The loop invariant over the routes already visited.\<close>

lemma resolve_loop_inv:
  "(\<forall>q\<in>set routes. \<not> Matches q path) \<and> resolve_loop path routes = (zero_Route, -1) \<or>
   (\<exists>r. best_match path routes r \<and>
        resolve_loop path routes = (r, int (length (rt_PathPrefix r))))"
proof (induction routes rule: rev_induct)
  case Nil
  show ?case by (simp add: resolve_loop_def)
next
  case (snoc q routes)
  from snoc.IH show ?case
  proof
    assume none: "(\<forall>q\<in>set routes. \<not> Matches q path) \<and> resolve_loop path routes = (zero_Route, -1)"
    show ?thesis
    proof (cases "Matches q path")
      case True
      with none have "best_match path (routes @ [q]) q"
        unfolding best_match_def by (intro exI [of _ routes] exI [of _ "[]"]) auto
      with True none show ?thesis
        by (auto simp: resolve_loop_snoc resolve_step_def)
    qed (use none in \<open>auto simp: resolve_loop_snoc resolve_step_def\<close>)
  next
    assume "\<exists>r. best_match path routes r \<and>
      resolve_loop path routes = (r, int (length (rt_PathPrefix r)))"
    then obtain r where best: "best_match path routes r"
      and eq: "resolve_loop path routes = (r, int (length (rt_PathPrefix r)))" by blast
    from best obtain pre post where split: "routes = pre @ r # post" and m: "Matches r path"
      and pre: "\<forall>q\<in>set pre. Matches q path \<longrightarrow> length (rt_PathPrefix q) < length (rt_PathPrefix r)"
      and post: "\<forall>q\<in>set post. Matches q path \<longrightarrow> length (rt_PathPrefix q) \<le> length (rt_PathPrefix r)"
      unfolding best_match_def by blast
    show ?thesis
    proof (cases "Matches q path \<and> length (rt_PathPrefix q) > length (rt_PathPrefix r)")
      case True
      with split m pre post have "best_match path (routes @ [q]) q"
        unfolding best_match_def
        by (intro exI [of _ routes] exI [of _ "[]"]) (auto dest: less_le_trans order.strict_trans1)
      with True eq show ?thesis by (auto simp: resolve_loop_snoc resolve_step_def)
    next
      case False
      with split m pre post have "best_match path (routes @ [q]) r"
        unfolding best_match_def by (intro exI [of _ pre] exI [of _ "post @ [q]"]) auto
      with False eq show ?thesis by (auto simp: resolve_loop_snoc resolve_step_def)
    qed
  qed
qed

lemma best_match_Matches: "best_match path routes r \<Longrightarrow> r \<in> set routes \<and> Matches r path"
  by (auto simp: best_match_def)

lemma best_match_longest:
  "best_match path routes r \<Longrightarrow> q \<in> set routes \<Longrightarrow> Matches q path \<Longrightarrow>
   length (rt_PathPrefix q) \<le> length (rt_PathPrefix r)"
  by (auto simp: best_match_def less_imp_le)

lemma ResolveRoute_cases:
  assumes "uc_ListRoutes u s = (Inr routes, s1)"
  shows "(\<forall>q\<in>set routes. \<not> Matches q path) \<and>
           ResolveRoute u path s = (Inl (Sentinel ErrRouteNotFound), s1) \<or>
         (\<exists>r. best_match path routes r \<and> ResolveRoute u path s = (Inr r, s1))"
  using resolve_loop_inv [of routes path] assms by (auto simp: ResolveRoute_def)

section \<open>The repository interface\<close>

text \<open>
  What the gateway relies on: listing returns the current snapshot and changes nothing, replacing
  makes its argument the snapshot. \<open>snapshot\<close> is the abstract state.
\<close>

locale route_repository =
  fixes u :: "'s Usecase" and snapshot :: "'s \<Rightarrow> Route list"
  assumes list_snapshot: "uc_ListRoutes u s = (Inr (snapshot s), s)"
    and replace_snapshot: "snapshot (uc_ReplaceRoutes u routes s) = routes"
begin

lemma resolve_state: "snd (ResolveRoute u path s) = s"
  by (simp add: ResolveRoute_def list_snapshot split: prod.split)

lemma resolve_found:
  "fst (ResolveRoute u path s) = Inr r \<Longrightarrow> best_match path (snapshot s) r"
  using ResolveRoute_cases [OF list_snapshot, of s path] by auto

lemma resolve_not_found:
  "fst (ResolveRoute u path s) = Inl e \<longleftrightarrow>
     e = Sentinel ErrRouteNotFound \<and> (\<forall>q\<in>set (snapshot s). \<not> Matches q path)"
  using ResolveRoute_cases [OF list_snapshot, of s path] by (auto dest: best_match_Matches)

text \<open>A refresh either installs the complete list its source returned, or installs nothing.\<close>

lemma refresh_success:
  assumes "uc_routeSource u = Some source" and "source s = (Inr routes, s1)"
  shows "fst (RefreshRoutes u s) = Inr (length routes)"
    and "snapshot (snd (RefreshRoutes u s)) = routes"
  using assms by (simp_all add: RefreshRoutes_def replace_snapshot)

lemma refresh_failure:
  assumes "uc_routeSource u = Some source" and "snapshot (snd (source s)) = snapshot s"
    and "fst (RefreshRoutes u s) = Inl e"
  shows "snapshot (snd (RefreshRoutes u s)) = snapshot s"
  using assms by (auto simp: RefreshRoutes_def split: prod.splits sum.splits)

end

text \<open>The in-memory repository keeps that contract.\<close>

interpretation memory_repository:
  route_repository "memory_usecase source validator limiter publisher" rr_routes
  by unfold_locales (simp_all add: memory_ListRoutes_def memory_ReplaceRoutes_def)

section \<open>Properties\<close>

text \<open>C7. Over the in-memory repository, resolving a path returns the first route of maximal
  prefix length among those that match, or the not-found error exactly when none matches, and
  leaves the repository as it is.\<close>

theorem ResolveRoute_longest:
  "case ResolveRoute (memory_usecase source validator limiter publisher) path s of
     (Inr r, s') \<Rightarrow> s' = s \<and>
       (\<exists>pre post. rr_routes s = pre @ r # post \<and> Matches r path \<and>
          (\<forall>q\<in>set pre. Matches q path \<longrightarrow> length (rt_PathPrefix q) < length (rt_PathPrefix r)) \<and>
          (\<forall>q\<in>set post. Matches q path \<longrightarrow> length (rt_PathPrefix q) \<le> length (rt_PathPrefix r)))
   | (Inl e, s') \<Rightarrow> s' = s \<and> e = Sentinel ErrRouteNotFound \<and> \<not> (\<exists>q\<in>set (rr_routes s). Matches q path)"
proof -
  let ?u = "memory_usecase source validator limiter publisher"
  obtain res s' where eq: "ResolveRoute ?u path s = (res, s')" by fastforce
  with memory_repository.resolve_state [of source validator limiter publisher path s]
  have "s' = s" by simp
  moreover have "res = Inr r \<Longrightarrow> best_match path (rr_routes s) r" for r
    using memory_repository.resolve_found [of source validator limiter publisher path s r] eq by simp
  moreover have "res = Inl e \<Longrightarrow> e = Sentinel ErrRouteNotFound \<and>
      \<not> (\<exists>q\<in>set (rr_routes s). Matches q path)" for e
    using memory_repository.resolve_not_found [of source validator limiter publisher path s e] eq
    by simp
  ultimately show ?thesis using eq by (cases res) (auto simp: best_match_def)
qed

theorem ResolveRoute_longest_witness:
  "fst (ResolveRoute (memory_usecase None None None None) ''/a/b/c''
      \<lparr>rr_routes = [zero_Route\<lparr>rt_PathPrefix := ''/a''\<rparr>, zero_Route\<lparr>rt_PathPrefix := ''/a/b''\<rparr>]\<rparr>) =
   Inr (zero_Route\<lparr>rt_PathPrefix := ''/a/b''\<rparr>)"
proof -
  let ?s = "\<lparr>rr_routes = [zero_Route\<lparr>rt_PathPrefix := ''/a''\<rparr>, zero_Route\<lparr>rt_PathPrefix := ''/a/b''\<rparr>]\<rparr>"
  let ?u = "memory_usecase None None None None"
  have "Matches (zero_Route\<lparr>rt_PathPrefix := ''/a''\<rparr>) ''/a/b/c''"
    and "Matches (zero_Route\<lparr>rt_PathPrefix := ''/a/b''\<rparr>) ''/a/b/c''"
    by (simp_all add: Matches_def HasPrefix_def TrimRightByte_def)
  with ResolveRoute_longest [where source = None and validator = None and limiter = None
      and publisher = None and path = "''/a/b/c''" and s = ?s] show ?thesis
    by (cases "ResolveRoute ?u ''/a/b/c'' ?s"; cases "fst (ResolveRoute ?u ''/a/b/c'' ?s)")
       (auto simp: Cons_eq_append_conv)
qed

end
