(* ===== verification/Gateway_Sources.thy ===== *)
theory Gateway_Sources
  imports Gateway_Usecase "HOL-Library.Multiset"
begin

text \<open>
  Where the gateway's routes come from: the YAML file
  (\<open>internal/gateway/infrastructure/config/yaml_loader.go\<close>) and the control-plane client
  (\<open>internal/gateway/infrastructure/controlplane\<close>). \<open>url.Parse\<close>, \<open>url.JoinPath\<close>, the JSON and
  YAML decoders, the file system and the HTTP transport are parameters. A message built by
  \<open>fmt.Errorf\<close> is represented by its format text and the operands of its \<open>%w\<close> verbs.
\<close>

section \<open>The HTTP client side\<close>

record ParsedURL =
  url_Scheme :: string
  url_Host :: string
  url_Path :: string
  url_RawPath :: string
  url_RawQuery :: string

type_synonym url_parser = "string \<Rightarrow> gw_err + ParsedURL"

text \<open>A response: its status, and a body that is read to its end or fails after some bytes.\<close>

record ClientResponse =
  res_StatusCode :: int
  res_Body :: string
  res_ReadErr :: "gw_err option"

record ClientRequest =
  req_Method :: string
  req_URL :: string
  req_Headers :: "(string \<times> string) list"
  req_Body :: string

text \<open>\<open>io.LimitReader\<close> followed by \<open>io.ReadAll\<close>: a read error shows only when the limit does not
  end the reading first.\<close>

definition read_limited :: "nat \<Rightarrow> ClientResponse \<Rightarrow> gw_err + string" where
  "read_limited n res =
     (case res_ReadErr res of
        Some e \<Rightarrow> (if length (res_Body res) < n then Inl e else Inr (take n (res_Body res)))
      | None \<Rightarrow> Inr (take n (res_Body res)))"

section \<open>Route records of the control plane\<close>

record routeResponse =
  rsp_ProjectID :: string
  rsp_Name :: string
  rsp_PathPrefix :: string
  rsp_UpstreamURL :: string
  rsp_StripPrefix :: bool
  rsp_TimeoutMS :: int
  rsp_AuthRequired :: bool
  rsp_RateLimitEnabled :: bool
  rsp_RateLimitRequests :: int
  rsp_RateLimitWindowSeconds :: int

definition normalizePathPrefix :: "string \<Rightarrow> string" where
  "normalizePathPrefix pathPrefix =
     (let p = TrimSpace pathPrefix in
      if p = ''/'' then p else TrimRightByte p (CHR ''/''))"

definition toRateLimitPolicy :: "routeResponse \<Rightarrow> gw_err + RateLimitPolicy" where
  "toRateLimitPolicy r =
     (if \<not> rsp_RateLimitEnabled r then
        (if rsp_RateLimitRequests r \<noteq> 0 \<or> rsp_RateLimitWindowSeconds r \<noteq> 0
         then Inl (Errorf ''disabled rate limit must have zero requests and window'' [])
         else Inr zero_Policy)
      else if rsp_RateLimitRequests r \<le> 0
        then Inl (Errorf ''rate_limit_requests must be greater than zero'' [])
      else if rsp_RateLimitWindowSeconds r \<le> 0
        then Inl (Errorf ''rate_limit_window_seconds must be greater than zero'' [])
      else Inr \<lparr>pol_Enabled = True, pol_Limit = rsp_RateLimitRequests r,
                pol_Window = wrap64 (rsp_RateLimitWindowSeconds r * Second)\<rparr>)"

definition toDomain :: "url_parser \<Rightarrow> routeResponse \<Rightarrow> gw_err + Route" where
  "toDomain url_Parse r =
     (let projectID = TrimSpace (rsp_ProjectID r) in
      if projectID = '''' then Inl (Errorf ''project_id is required'' [])
      else let name = TrimSpace (rsp_Name r) in
      if name = '''' then Inl (Errorf ''name is required'' [])
      else let pathPrefix = normalizePathPrefix (rsp_PathPrefix r) in
      if pathPrefix = '''' \<or> \<not> HasPrefix pathPrefix ''/''
        then Inl (Errorf ''path prefix must start with /'' [])
      else let upstreamURL = TrimSpace (rsp_UpstreamURL r) in
      case url_Parse upstreamURL of
        Inl err \<Rightarrow> Inl (Errorf ''parse upstream url: %w'' [err])
      | Inr parsedUpstream \<Rightarrow>
          if (url_Scheme parsedUpstream \<noteq> ''http'' \<and> url_Scheme parsedUpstream \<noteq> ''https'') \<or>
             url_Host parsedUpstream = ''''
            then Inl (Errorf ''upstream url must be an absolute http or https url'' [])
          else if rsp_TimeoutMS r \<le> 0
            then Inl (Errorf ''timeout_ms must be greater than zero'' [])
          else (case toRateLimitPolicy r of
                  Inl err \<Rightarrow> Inl err
                | Inr rateLimit \<Rightarrow>
                    Inr \<lparr>rt_ProjectID = projectID, rt_Name = name, rt_PathPrefix = pathPrefix,
                         rt_UpstreamURL = upstreamURL, rt_StripPrefix = rsp_StripPrefix r,
                         rt_Timeout = wrap64 (rsp_TimeoutMS r * Millisecond),
                         rt_AuthRequired = rsp_AuthRequired r, rt_RateLimit = rateLimit\<rparr>))"

text \<open>The loop of \<open>responseToDomain\<close>: \<open>routes\<close> so far, and the path prefixes seen (the keys of
  the map).\<close>

fun responseToDomain_loop ::
  "url_parser \<Rightarrow> routeResponse list \<Rightarrow> Route list \<Rightarrow> string list \<Rightarrow> gw_err + Route list" where
  "responseToDomain_loop url_Parse [] routes pathPrefixes = Inr routes"
| "responseToDomain_loop url_Parse (item # items) routes pathPrefixes =
     (case toDomain url_Parse item of
        Inl err \<Rightarrow> Inl (Errorf ''invalid route at index %d: %w'' [err])
      | Inr route \<Rightarrow>
          if rt_PathPrefix route \<in> set pathPrefixes
          then Inl (Errorf ''invalid route at index %d: duplicate path prefix %q'' [])
          else responseToDomain_loop url_Parse items (routes @ [route])
                 (rt_PathPrefix route # pathPrefixes))"

definition responseToDomain :: "url_parser \<Rightarrow> routeResponse list \<Rightarrow> gw_err + Route list" where
  "responseToDomain url_Parse response = responseToDomain_loop url_Parse response [] []"

section \<open>The control-plane client\<close>

record Client =
  cl_routesURL :: string
  cl_Timeout :: Duration

definition defaultHTTPTimeout :: Duration where
  "defaultHTTPTimeout = 5 * Second"

definition maxResponseSize :: nat where
  "maxResponseSize = 1048576"

text \<open>\<open>New\<close> with a nil \<open>httpClient\<close>, the way the gateway calls it; \<open>url_String\<close> and
  \<open>url_JoinPath\<close> are the functions of \<open>net/url\<close>.\<close>

definition NewControlPlaneClient ::
  "url_parser \<Rightarrow> (ParsedURL \<Rightarrow> string) \<Rightarrow> (string \<Rightarrow> string \<Rightarrow> gw_err + string) \<Rightarrow> string
     \<Rightarrow> gw_err + Client" where
  "NewControlPlaneClient url_Parse url_String url_JoinPath baseURL =
     (let baseURL' = TrimSpace baseURL in
      if baseURL' = '''' then Inl (Errorf ''control plane base url is required'' [])
      else case url_Parse baseURL' of
             Inl err \<Rightarrow> Inl (Errorf ''parse control plane base url: %w'' [err])
           | Inr parsedURL \<Rightarrow>
               if url_Scheme parsedURL \<noteq> ''http'' \<and> url_Scheme parsedURL \<noteq> ''https''
                 then Inl (Errorf ''control plane base url must use http or https'' [])
               else if url_Host parsedURL = ''''
                 then Inl (Errorf ''control plane base url host is required'' [])
               else (case url_JoinPath (url_String parsedURL) ''internal/v1/routes'' of
                       Inl err \<Rightarrow> Inl (Errorf ''build control plane routes url: %w'' [err])
                     | Inr routesURL \<Rightarrow>
                         Inr \<lparr>cl_routesURL = routesURL, cl_Timeout = defaultHTTPTimeout\<rparr>))"

text \<open>
  The JSON decoder over the (limited) body: the first \<open>Decode\<close> gives the route records and the
  rest of the input, the second says whether the input ended.
\<close>

datatype json_next = JsonEOF | JsonErr gw_err | JsonValue

record 's http_env =
  he_NewRequest :: "string \<Rightarrow> string \<Rightarrow> gw_err option"
  he_Do :: "Duration \<Rightarrow> ClientRequest \<Rightarrow> 's \<Rightarrow> (gw_err + ClientResponse) \<times> 's"
  he_DecodeRoutes :: "string \<Rightarrow> gw_err option \<Rightarrow> gw_err + routeResponse list \<times> string"
  he_DecodeNext :: "string \<Rightarrow> gw_err option \<Rightarrow> json_next"

definition limited_error :: "nat \<Rightarrow> ClientResponse \<Rightarrow> gw_err option" where
  "limited_error n res = (if length (res_Body res) < n then res_ReadErr res else None)"

definition ensureJSONEOF :: "json_next \<Rightarrow> gw_err option" where
  "ensureJSONEOF nxt =
     (case nxt of
        JsonEOF \<Rightarrow> None
      | JsonErr err \<Rightarrow> Some (Errorf ''decode trailing control plane routes response: %w'' [err])
      | JsonValue \<Rightarrow> Some (Errorf ''control plane routes response contains multiple json values'' []))"

definition client_ListRoutes ::
  "url_parser \<Rightarrow> 's http_env \<Rightarrow> Client \<Rightarrow> 's \<Rightarrow> (gw_err + Route list) \<times> 's" where
  "client_ListRoutes url_Parse env c s =
     (case he_NewRequest env ''GET'' (cl_routesURL c) of
        Some err \<Rightarrow> (Inl (Errorf ''create routes request: %w'' [err]), s)
      | None \<Rightarrow>
        (case he_Do env (cl_Timeout c)
                \<lparr>req_Method = ''GET'', req_URL = cl_routesURL c,
                 req_Headers = [(''Accept'', ''application/json'')], req_Body = ''''\<rparr> s of
           (Inl err, s1) \<Rightarrow> (Inl (Errorf ''request control plane routes: %w'' [err]), s1)
         | (Inr res, s1) \<Rightarrow>
           (if res_StatusCode res \<noteq> 200 then
              (case read_limited maxResponseSize res of
                 Inl readErr \<Rightarrow>
                   (Inl (Errorf ''control plane routes returned status %d and response body could not be read: %w''
                          [readErr]), s1)
               | Inr body \<Rightarrow>
                   (if TrimSpace body = ''''
                    then (Inl (Errorf ''control plane routes returned status %d'' []), s1)
                    else (Inl (Errorf ''control plane routes returned status %d: %s'' []), s1)))
            else
              (let body = take maxResponseSize (res_Body res);
                   bodyErr = limited_error maxResponseSize res in
               case he_DecodeRoutes env body bodyErr of
                 Inl err \<Rightarrow> (Inl (Errorf ''decode control plane routes response: %w'' [err]), s1)
               | Inr (response, rest) \<Rightarrow>
                   (case ensureJSONEOF (he_DecodeNext env rest bodyErr) of
                      Some err \<Rightarrow> (Inl err, s1)
                    | None \<Rightarrow>
                        (case responseToDomain url_Parse response of
                           Inl err \<Rightarrow> (Inl err, s1)
                         | Inr routes \<Rightarrow> (Inr routes, s1)))))))"

section \<open>The YAML configuration\<close>

record RouteConfig =
  yc_ProjectID :: string
  yc_Name :: string
  yc_PathPrefix :: string
  yc_UpstreamURL :: string
  yc_StripPrefix :: bool
  yc_TimeoutMS :: int
  yc_AuthRequired :: bool
  yc_RateLimitEnabled :: bool
  yc_RateLimitRequests :: int
  yc_RateLimitWindowSeconds :: int

record GatewayYAML =
  yaml_HTTPAddr :: string
  yaml_Routes :: "RouteConfig list"

definition yaml_Load ::
  "(string \<Rightarrow> gw_err + string) \<Rightarrow> (string \<Rightarrow> gw_err + GatewayYAML) \<Rightarrow> string \<Rightarrow> gw_err + GatewayYAML" where
  "yaml_Load os_ReadFile yaml_Unmarshal path =
     (case os_ReadFile path of
        Inl err \<Rightarrow> Inl err
      | Inr data \<Rightarrow>
          (case yaml_Unmarshal data of
             Inl err \<Rightarrow> Inl err
           | Inr cfg \<Rightarrow>
               Inr (if yaml_HTTPAddr cfg = '''' then cfg\<lparr>yaml_HTTPAddr := '':8080''\<rparr> else cfg)))"

definition domainRoute :: "RouteConfig \<Rightarrow> Route" where
  "domainRoute route =
     (let timeout0 = wrap64 (yc_TimeoutMS route * Millisecond);
          timeout = (if timeout0 \<le> 0 then 5 * Second else timeout0);
          rateLimit =
            (if yc_RateLimitEnabled route \<and> yc_RateLimitRequests route > 0 \<and>
                yc_RateLimitWindowSeconds route > 0
             then \<lparr>pol_Enabled = True, pol_Limit = yc_RateLimitRequests route,
                   pol_Window = wrap64 (yc_RateLimitWindowSeconds route * Second)\<rparr>
             else zero_Policy)
      in \<lparr>rt_ProjectID = yc_ProjectID route, rt_Name = yc_Name route,
          rt_PathPrefix = yc_PathPrefix route, rt_UpstreamURL = yc_UpstreamURL route,
          rt_StripPrefix = yc_StripPrefix route, rt_Timeout = timeout,
          rt_AuthRequired = yc_AuthRequired route, rt_RateLimit = rateLimit\<rparr>)"

definition DomainRoutes :: "GatewayYAML \<Rightarrow> Route list" where
  "DomainRoutes c = fold (\<lambda>route routes. routes @ [domainRoute route]) (yaml_Routes c) []"

section \<open>What a loaded snapshot satisfies\<close>

text \<open>A normalised prefix is the root or starts with a slash and does not end in one.\<close>

definition norm_prefix :: "string \<Rightarrow> bool" where
  "norm_prefix p \<longleftrightarrow> p = ''/'' \<or> (HasPrefix p ''/'' \<and> last p \<noteq> CHR ''/'')"

definition route_wf :: "url_parser \<Rightarrow> Route \<Rightarrow> bool" where
  "route_wf url_Parse r \<longleftrightarrow>
     rt_ProjectID r \<noteq> '''' \<and> TrimSpace (rt_ProjectID r) = rt_ProjectID r \<and>
     rt_Name r \<noteq> '''' \<and> TrimSpace (rt_Name r) = rt_Name r \<and>
     norm_prefix (rt_PathPrefix r) \<and>
     (\<exists>pu. url_Parse (rt_UpstreamURL r) = Inr pu \<and>
           (url_Scheme pu = ''http'' \<or> url_Scheme pu = ''https'') \<and> url_Host pu \<noteq> '''') \<and>
     (if pol_Enabled (rt_RateLimit r) then 0 < pol_Limit (rt_RateLimit r)
      else rt_RateLimit r = zero_Policy)"

definition snapshot_wf :: "url_parser \<Rightarrow> Route list \<Rightarrow> bool" where
  "snapshot_wf url_Parse rs \<longleftrightarrow>
     list_all (route_wf url_Parse) rs \<and> distinct (map rt_PathPrefix rs)"

lemma norm_prefix_normalize:
  "normalizePathPrefix p \<noteq> '''' \<Longrightarrow> HasPrefix (normalizePathPrefix p) ''/'' \<Longrightarrow>
   norm_prefix (normalizePathPrefix p)"
  by (auto simp: normalizePathPrefix_def norm_prefix_def Let_def TrimRightByte_last split: if_splits)

lemma toRateLimitPolicy_Inr:
  "toRateLimitPolicy r = Inr pol \<Longrightarrow>
     (if pol_Enabled pol then 0 < pol_Limit pol else pol = zero_Policy)"
  by (auto simp: toRateLimitPolicy_def zero_Policy_def split: if_splits)

lemma toDomain_wf: "toDomain url_Parse r = Inr route \<Longrightarrow> route_wf url_Parse route"
  unfolding toDomain_def Let_def
  by (auto simp: route_wf_def norm_prefix_normalize dest!: toRateLimitPolicy_Inr
      split: if_splits sum.splits)

lemma responseToDomain_loop_spec:
  "responseToDomain_loop P items acc seen = Inr rs \<longleftrightarrow>
     (\<exists>new. rs = acc @ new \<and> list_all2 (\<lambda>i r. toDomain P i = Inr r) items new \<and>
            distinct (map rt_PathPrefix new) \<and> set (map rt_PathPrefix new) \<inter> set seen = {})"
proof (induction items arbitrary: acc seen)
  case (Cons item items)
  show ?case
  proof (cases "toDomain P item")
    case (Inl e)
    then show ?thesis by (auto simp: list_all2_Cons1)
  next
    case (Inr route)
    show ?thesis
    proof (cases "rt_PathPrefix route \<in> set seen")
      case True
      with Inr show ?thesis by (auto simp: list_all2_Cons1)
    next
      case False
      with Inr Cons show ?thesis
        by (fastforce simp: list_all2_Cons1)
    qed
  qed
qed auto

lemma responseToDomain_spec:
  "responseToDomain P response = Inr rs \<longleftrightarrow>
     list_all2 (\<lambda>i r. toDomain P i = Inr r) response rs \<and> distinct (map rt_PathPrefix rs)"
  by (simp add: responseToDomain_def responseToDomain_loop_spec)

lemma responseToDomain_wf: "responseToDomain P response = Inr rs \<Longrightarrow> snapshot_wf P rs"
  by (auto simp: responseToDomain_spec snapshot_wf_def list_all2_conv_all_nth list_all_length
      intro!: toDomain_wf)

lemma client_ListRoutes_wf:
  "client_ListRoutes P env c s = (Inr rs, s1) \<Longrightarrow> snapshot_wf P rs"
  unfolding client_ListRoutes_def Let_def
  by (auto split: prod.splits sum.splits option.splits if_splits intro: responseToDomain_wf)

text \<open>On a well-formed snapshot the prefix of a matching route is a prefix of the path, so matching
  routes of equal prefix length are the same route.\<close>

lemma norm_prefix_Matches:
  assumes "norm_prefix (rt_PathPrefix r)" and "HasPrefix path ''/''" and "Matches r path"
  shows "prefix (rt_PathPrefix r) path"
proof (cases "rt_PathPrefix r = ''/''")
  case True
  with assms(2) show ?thesis by (simp add: HasPrefix_def)
next
  case False
  with assms(1) have "bare_prefix r = rt_PathPrefix r"
    by (auto simp: norm_prefix_def bare_prefix_def intro: TrimRightByte_id)
  with assms(2,3) show ?thesis by (auto simp: Matches_absolute)
qed

lemma snapshot_unique_match:
  assumes "snapshot_wf P rs" and "HasPrefix path ''/''"
    and "r \<in> set rs" "Matches r path" and "q \<in> set rs" "Matches q path"
    and "length (rt_PathPrefix r) = length (rt_PathPrefix q)"
  shows "r = q"
proof -
  have "norm_prefix (rt_PathPrefix r)" "norm_prefix (rt_PathPrefix q)"
    using assms(1,3,5) by (auto simp: snapshot_wf_def list_all_iff route_wf_def)
  then have "prefix (rt_PathPrefix r) path" "prefix (rt_PathPrefix q) path"
    using assms norm_prefix_Matches by auto
  with assms(7) have "rt_PathPrefix r = rt_PathPrefix q"
    by (metis append_eq_append_conv prefix_def)
  with assms(1,3,5) show ?thesis
    by (metis distinct_map inj_onD snapshot_wf_def)
qed

lemma snapshot_best_match_iff:
  assumes "snapshot_wf P rs" and "HasPrefix path ''/''"
  shows "best_match path rs r \<longleftrightarrow>
     r \<in> set rs \<and> Matches r path \<and>
     (\<forall>q\<in>set rs. Matches q path \<and> q \<noteq> r \<longrightarrow> length (rt_PathPrefix q) < length (rt_PathPrefix r))"
  (is "?L \<longleftrightarrow> ?R")
proof
  assume ?L
  then show ?R
    using snapshot_unique_match [OF assms] best_match_Matches best_match_longest
    by (metis le_neq_implies_less)
next
  assume R: ?R
  then obtain pre post where split: "rs = pre @ r # post" by (meson split_list)
  have "distinct rs" using assms(1) by (auto simp: snapshot_wf_def distinct_map)
  with R split show ?L
    unfolding best_match_def
    by (intro exI [of _ pre] exI [of _ post]) (auto simp: less_imp_le)
qed

lemma snapshot_best_match_unique:
  assumes "snapshot_wf P rs" and "HasPrefix path ''/''"
    and "best_match path rs r" and "best_match path rs q"
  shows "r = q"
  using snapshot_unique_match [OF assms(1,2)] best_match_longest best_match_Matches assms(3,4)
  by (metis le_antisym)

lemma snapshot_wf_permute:
  "mset rs = mset rs' \<Longrightarrow> snapshot_wf P rs \<Longrightarrow> snapshot_wf P rs'"
  unfolding snapshot_wf_def
  by (metis list_all_iff mset_eq_imp_distinct_iff mset_eq_setD mset_map)

lemma DomainRoutes_map: "DomainRoutes c = map domainRoute (yaml_Routes c)"
proof -
  have "fold (\<lambda>route routes. routes @ [domainRoute route]) xs acc = acc @ map domainRoute xs"
    for xs acc by (induction xs arbitrary: acc) simp_all
  then show ?thesis by (simp add: DomainRoutes_def)
qed

text \<open>Timeouts and windows that fit in 32 bits do not overflow a Duration.\<close>

lemma ms_no_overflow: "0 \<le> n \<Longrightarrow> n \<le> 2147483647 \<Longrightarrow> wrap64 (n * Millisecond) = n * Millisecond"
  by (rule wrap64_id) (simp add: int64_range_def Millisecond_def)

lemma sec_no_overflow: "0 \<le> n \<Longrightarrow> n \<le> 2147483647 \<Longrightarrow> wrap64 (n * Second) = n * Second"
  by (rule wrap64_id) (simp add: int64_range_def Second_def)

section \<open>Properties of routing snapshots\<close>

definition sample_url :: ParsedURL where
  "sample_url = \<lparr>url_Scheme = ''http'', url_Host = ''orders:8081'', url_Path = '''',
     url_RawPath = '''', url_RawQuery = ''''\<rparr>"

definition sample_response :: "string \<Rightarrow> string \<Rightarrow> routeResponse" where
  "sample_response name pathPrefix =
     \<lparr>rsp_ProjectID = ''p1'', rsp_Name = name, rsp_PathPrefix = pathPrefix,
      rsp_UpstreamURL = ''http://orders:8081'', rsp_StripPrefix = True, rsp_TimeoutMS = 1000,
      rsp_AuthRequired = False, rsp_RateLimitEnabled = False, rsp_RateLimitRequests = 0,
      rsp_RateLimitWindowSeconds = 0\<rparr>"

definition sample_route :: "string \<Rightarrow> string \<Rightarrow> Route" where
  "sample_route name pathPrefix =
     \<lparr>rt_ProjectID = ''p1'', rt_Name = name, rt_PathPrefix = pathPrefix,
      rt_UpstreamURL = ''http://orders:8081'', rt_StripPrefix = True, rt_Timeout = 1000000000,
      rt_AuthRequired = False, rt_RateLimit = zero_Policy\<rparr>"

lemma sample_trims:
  "TrimSpace ''p1'' = ''p1''" "TrimSpace ''a'' = ''a''" "TrimSpace ''b'' = ''b''"
  "TrimSpace ''/a'' = ''/a''" "TrimSpace ''/a/b'' = ''/a/b''"
  "TrimSpace ''http://orders:8081'' = ''http://orders:8081''"
  by (rule TrimSpace_visible; simp add: visible_ascii_def)+

lemma sample_toDomain:
  "toDomain (\<lambda>_. Inr sample_url) (sample_response ''a'' ''/a'') = Inr (sample_route ''a'' ''/a'')"
  "toDomain (\<lambda>_. Inr sample_url) (sample_response ''b'' ''/a/b'') = Inr (sample_route ''b'' ''/a/b'')"
  by (simp_all add: toDomain_def sample_response_def sample_route_def sample_trims sample_url_def
      normalizePathPrefix_def TrimRightByte_def HasPrefix_def toRateLimitPolicy_def Millisecond_def
      int64_range_def Let_def)

lemma sample_responseToDomain:
  "responseToDomain (\<lambda>_. Inr sample_url) [sample_response ''a'' ''/a'', sample_response ''b'' ''/a/b''] =
     Inr [sample_route ''a'' ''/a'', sample_route ''b'' ''/a/b'']"
  by (simp add: responseToDomain_def sample_toDomain) (simp add: sample_route_def)

text \<open>C8. Routes accepted from the control plane resolve without regard to their order: for an
  absolute path, any permutation of the snapshot gives the same route or the same error.\<close>

theorem ResolveRoute_order_independent:
  assumes "responseToDomain url_Parse response = Inr routes"
    and "mset routes' = mset routes" and "HasPrefix path ''/''"
  shows "fst (ResolveRoute (memory_usecase src v l p) path (NewRouteRepository routes')) =
         fst (ResolveRoute (memory_usecase src v l p) path (NewRouteRepository routes))"
proof -
  have wf: "snapshot_wf url_Parse routes" and wf': "snapshot_wf url_Parse routes'"
    using responseToDomain_wf [OF assms(1)] assms(2) snapshot_wf_permute by metis+
  have set: "set routes' = set routes" using assms(2) by (metis mset_eq_setD)
  have list: "uc_ListRoutes (memory_usecase src v l p) (NewRouteRepository rs) =
      (Inr rs, NewRouteRepository rs)" for rs
    by (simp add: memory_ListRoutes_def NewRouteRepository_def)
  have same: "best_match path routes' r \<longleftrightarrow> best_match path routes r" for r
    using set by (simp add: snapshot_best_match_iff [OF wf assms(3)]
        snapshot_best_match_iff [OF wf' assms(3)])
  from ResolveRoute_cases [OF list [of routes], of path] show ?thesis
  proof (elim disjE exE conjE)
    assume none: "\<forall>q\<in>set routes. \<not> Matches q path"
      and eq: "ResolveRoute (memory_usecase src v l p) path (NewRouteRepository routes) =
        (Inl (Sentinel ErrRouteNotFound), NewRouteRepository routes)"
    from none set ResolveRoute_cases [OF list [of routes'], of path] eq show ?thesis
      by (auto dest: best_match_Matches)
  next
    fix r
    assume best: "best_match path routes r"
      and eq: "ResolveRoute (memory_usecase src v l p) path (NewRouteRepository routes) =
        (Inr r, NewRouteRepository routes)"
    have "r \<in> set routes'" "Matches r path" using best_match_Matches [OF best] set by auto
    with ResolveRoute_cases [OF list [of routes'], of path] obtain q
      where q: "best_match path routes' q"
        "ResolveRoute (memory_usecase src v l p) path (NewRouteRepository routes') =
          (Inr q, NewRouteRepository routes')" by blast
    with best same have "q = r" using snapshot_best_match_unique [OF wf assms(3)] by simp
    with q eq show ?thesis by simp
  qed
qed

theorem ResolveRoute_order_independent_witness:
  "fst (ResolveRoute (memory_usecase None None None None) ''/a/b/c''
      (NewRouteRepository [sample_route ''b'' ''/a/b'', sample_route ''a'' ''/a''])) =
   fst (ResolveRoute (memory_usecase None None None None) ''/a/b/c''
      (NewRouteRepository [sample_route ''a'' ''/a'', sample_route ''b'' ''/a/b'']))"
  by (rule ResolveRoute_order_independent [OF sample_responseToDomain])
     (simp_all add: HasPrefix_def)

text \<open>A worker run: the transport does not touch the repository.\<close>

lemma client_ListRoutes_frame:
  assumes "\<And>d q s. rr_routes (snd (he_Do env d q s)) = rr_routes s"
  shows "rr_routes (snd (client_ListRoutes P env c s)) = rr_routes s"
  using assms [of "cl_Timeout c" _ s]
  unfolding client_ListRoutes_def Let_def
  by (auto split: prod.splits sum.splits option.splits if_splits) (metis snd_conv)+


text \<open>A transport that answers with a stored body, and a decoder that knows two bodies.\<close>

definition sample_http_env :: "RouteRepository http_env" where
  "sample_http_env =
     \<lparr>he_NewRequest = (\<lambda>_ _. None),
      he_Do = (\<lambda>_ _ s. (Inr \<lparr>res_StatusCode = 200, res_Body = ''[..]'', res_ReadErr = None\<rparr>, s)),
      he_DecodeRoutes = (\<lambda>_ _. Inr ([sample_response ''a'' ''/a'', sample_response ''b'' ''/a/b''], '''')),
      he_DecodeNext = (\<lambda>_ _. JsonEOF)\<rparr>"

definition sample_client :: Client where
  "sample_client = \<lparr>cl_routesURL = ''http://cp/internal/v1/routes'', cl_Timeout = 5000000000\<rparr>"

lemma sample_client_ListRoutes:
  "client_ListRoutes (\<lambda>_. Inr sample_url) sample_http_env sample_client s =
     (Inr [sample_route ''a'' ''/a'', sample_route ''b'' ''/a/b''], s)"
  by (simp add: client_ListRoutes_def sample_http_env_def sample_responseToDomain ensureJSONEOF_def)


end
