(* ===== verification/Gateway_AuthClient.thy ===== *)
theory Gateway_AuthClient
  imports Gateway_Sources
begin

text \<open>
  \<open>internal/gateway/infrastructure/auth/client.go\<close>: the client that asks the auth service whether
  an API key is valid. Every failure other than a 401 is reported as the auth service being
  unavailable.
\<close>

record AuthClient =
  ac_validateURL :: string
  ac_Timeout :: Duration

record validateAPIKeyResponse =
  var_APIKeyID :: string
  var_ProjectID :: string

definition auth_maxResponseSize :: nat where
  "auth_maxResponseSize = 65536"

definition NewAuthClient ::
  "url_parser \<Rightarrow> (ParsedURL \<Rightarrow> string) \<Rightarrow> (string \<Rightarrow> string \<Rightarrow> gw_err + string) \<Rightarrow> string
     \<Rightarrow> gw_err + AuthClient" where
  "NewAuthClient url_Parse url_String url_JoinPath baseURL =
     (let baseURL' = TrimSpace baseURL in
      if baseURL' = '''' then Inl (Errorf ''auth service base url is required'' [])
      else case url_Parse baseURL' of
             Inl err \<Rightarrow> Inl (Errorf ''parse auth service base url: %w'' [err])
           | Inr parsedURL \<Rightarrow>
               if url_Scheme parsedURL \<noteq> ''http'' \<and> url_Scheme parsedURL \<noteq> ''https''
                 then Inl (Errorf ''auth service base url must use http or https'' [])
               else if url_Host parsedURL = ''''
                 then Inl (Errorf ''auth service base url host is required'' [])
               else (case url_JoinPath (url_String parsedURL) ''internal/v1/api-keys/validate'' of
                       Inl err \<Rightarrow> Inl (Errorf ''build api key validation url: %w'' [err])
                     | Inr validateURL \<Rightarrow>
                         Inr \<lparr>ac_validateURL = validateURL, ac_Timeout = 3 * Second\<rparr>))"

text \<open>The HTTP client and JSON decoder this client uses.\<close>

record 's auth_env =
  ae_NewRequest :: "string \<Rightarrow> string \<Rightarrow> gw_err option"
  ae_Do :: "Duration \<Rightarrow> ClientRequest \<Rightarrow> 's \<Rightarrow> (gw_err + ClientResponse) \<times> 's"
  ae_Decode :: "string \<Rightarrow> gw_err option \<Rightarrow> gw_err + validateAPIKeyResponse \<times> string"
  ae_DecodeNext :: "string \<Rightarrow> gw_err option \<Rightarrow> json_next"

definition unavailable :: "string \<Rightarrow> gw_err list \<Rightarrow> gw_err" where
  "unavailable msg errs = Errorf msg (Sentinel ErrAuthServiceUnavailable # errs)"

definition auth_ensureJSONEOF :: "json_next \<Rightarrow> gw_err option" where
  "auth_ensureJSONEOF nxt =
     (case nxt of
        JsonEOF \<Rightarrow> None
      | JsonErr err \<Rightarrow> Some (Errorf ''decode trailing api key validation response: %w'' [err])
      | JsonValue \<Rightarrow> Some (Errorf ''api key validation response contains multiple json values'' []))"

text \<open>The errors formatted with \<open>%v\<close> are not wrapped.\<close>

definition client_ValidateAPIKey ::
  "'s auth_env \<Rightarrow> AuthClient \<Rightarrow> string \<Rightarrow> 's \<Rightarrow> (gw_err + APIKeyPrincipal) \<times> 's" where
  "client_ValidateAPIKey env c rawAPIKey s =
     (case ae_NewRequest env ''POST'' (ac_validateURL c) of
        Some err \<Rightarrow> (Inl (Errorf ''create api key validation request: %w'' [err]), s)
      | None \<Rightarrow>
        (case ae_Do env (ac_Timeout c)
                \<lparr>req_Method = ''POST'', req_URL = ac_validateURL c,
                 req_Headers = [(''Accept'', ''application/json''), (''X-API-Key'', rawAPIKey)],
                 req_Body = ''''\<rparr> s of
           (Inl err, s1) \<Rightarrow> (Inl (unavailable ''%w: request api key validation: %w'' [err]), s1)
         | (Inr res, s1) \<Rightarrow>
           (if res_StatusCode res = 401 then (Inl (Sentinel ErrInvalidAPIKey), s1)
            else if res_StatusCode res \<noteq> 200 then
              (case read_limited auth_maxResponseSize res of
                 Inl readErr \<Rightarrow>
                   (Inl (unavailable ''%w: auth service returned status %d and body could not be read: %v'' []), s1)
               | Inr body \<Rightarrow>
                   (if TrimSpace body = ''''
                    then (Inl (unavailable ''%w: auth service returned status %d'' []), s1)
                    else (Inl (unavailable ''%w: auth service returned status %d: %s'' []), s1)))
            else
              (let body = take auth_maxResponseSize (res_Body res);
                   bodyErr = limited_error auth_maxResponseSize res in
               case ae_Decode env body bodyErr of
                 Inl err \<Rightarrow> (Inl (unavailable ''%w: decode api key validation response: %v'' []), s1)
               | Inr (response, rest) \<Rightarrow>
                   (case auth_ensureJSONEOF (ae_DecodeNext env rest bodyErr) of
                      Some err \<Rightarrow> (Inl (unavailable ''%w: %v'' []), s1)
                    | None \<Rightarrow>
                        (let apiKeyID = TrimSpace (var_APIKeyID response);
                             projectID = TrimSpace (var_ProjectID response) in
                         if apiKeyID = '''' \<or> projectID = ''''
                         then (Inl (unavailable
                                 ''%w: api key validation response is missing principal fields'' []), s1)
                         else (Inr \<lparr>pr_APIKeyID = apiKeyID, pr_ProjectID = projectID\<rparr>, s1)))))))"

text \<open>A principal is returned only for a 200 answer with both fields present, and the key is
  reported as invalid only for a 401 (or a transport error that says so itself).\<close>

lemma client_ValidateAPIKey_Inr:
  assumes "client_ValidateAPIKey env c key s = (Inr prin, s1)"
  shows "pr_APIKeyID prin \<noteq> '''' \<and> pr_ProjectID prin \<noteq> ''''"
    and "\<exists>rq res s2. ae_Do env (ac_Timeout c) rq s = (Inr res, s2) \<and> res_StatusCode res = 200 \<and>
           (''X-API-Key'', key) \<in> set (req_Headers rq)"
  using assms unfolding client_ValidateAPIKey_def Let_def
  by (auto split: option.splits prod.splits sum.splits if_splits) fastforce+

lemma client_ValidateAPIKey_invalid:
  assumes "client_ValidateAPIKey env c key s = (Inl err, s1)" and "errors_is err ErrInvalidAPIKey"
    and "\<And>m u e. ae_NewRequest env m u = Some e \<Longrightarrow> \<not> errors_is e ErrInvalidAPIKey"
    and "\<And>d rq s e s'. ae_Do env d rq s = (Inl e, s') \<Longrightarrow> \<not> errors_is e ErrInvalidAPIKey"
  shows "\<exists>rq res s2. ae_Do env (ac_Timeout c) rq s = (Inr res, s2) \<and> res_StatusCode res = 401"
  using assms(1,2) unfolding client_ValidateAPIKey_def Let_def
  by (auto simp: unavailable_def split: option.splits prod.splits sum.splits if_splits
      dest: assms(3,4))

end
