(* ===== verification/Gateway_RateLimit.thy ===== *)
theory Gateway_RateLimit
  imports Gateway_Usecase
begin

text \<open>
  \<open>internal/gateway/infrastructure/ratelimit/redis_limiter.go\<close>: the fixed-window limiter. The
  Lua script is a function over the three Redis commands it calls, which are a parameter, as are
  SHA-256, the clock and the client library. \<open>redis_behaves\<close> states what the Redis manual says of
  INCR, PEXPIRE and PTTL, over a view of the store (value and expiry deadline of a key) and Redis's
  millisecond clock.
\<close>

section \<open>Redis\<close>

text \<open>A Go \<open>any\<close> as the client library returns it.\<close>

datatype redis_value =
    RInt64 int
  | RInt int
  | RArray "redis_value list"
  | ROther string

record 's redis_cmds =
  rc_INCR :: "string \<Rightarrow> 's \<Rightarrow> int \<times> 's"
  rc_PEXPIRE :: "string \<Rightarrow> int \<Rightarrow> 's \<Rightarrow> 's"
  rc_PTTL :: "string \<Rightarrow> 's \<Rightarrow> int"

definition fixedWindowScript :: "'s redis_cmds \<Rightarrow> string \<Rightarrow> int \<Rightarrow> 's \<Rightarrow> redis_value \<times> 's" where
  "fixedWindowScript cmds key arg s =
     (case rc_INCR cmds key s of (current, s1) \<Rightarrow>
        let s2 = (if current = 1 then rc_PEXPIRE cmds key arg s1 else s1);
            ttl = rc_PTTL cmds key s2
        in (RArray [RInt64 current, RInt64 ttl], s2))"

section \<open>The limiter\<close>

record 's Limiter =
  lim_evaluator :: "string \<Rightarrow> int \<Rightarrow> 's \<Rightarrow> (gw_err + redis_value) \<times> 's"
  lim_keyPrefix :: string
  lim_now :: "'s \<Rightarrow> Time"
  lim_Ping :: "'s \<Rightarrow> gw_err option"
  lim_Close :: "'s \<Rightarrow> gw_err option \<times> 's"

definition defaultKeyPrefix :: string where
  "defaultKeyPrefix = ''edgeguard:rate-limit''"

text \<open>The client options that \<open>New\<close> sets before connecting.\<close>

record redis_options =
  opt_url :: string
  opt_MaxRetries :: int
  opt_DialTimeout :: Duration
  opt_ReadTimeout :: Duration
  opt_WriteTimeout :: Duration

text \<open>\<open>connect\<close> is \<open>redis.NewClient\<close>: it gives the client's ping, close and script evaluation.\<close>

definition NewLimiter ::
  "(string \<Rightarrow> gw_err + redis_options) \<Rightarrow> (redis_options \<Rightarrow> 's Limiter) \<Rightarrow> ('s \<Rightarrow> Time) \<Rightarrow>
   string \<Rightarrow> string \<Rightarrow> gw_err + 's Limiter" where
  "NewLimiter redis_ParseURL connect time_Now redisURL keyPrefix =
     (let redisURL' = TrimSpace redisURL in
      if redisURL' = '''' then Inl (Errorf ''redis url is required'' [])
      else case redis_ParseURL redisURL' of
             Inl err \<Rightarrow> Inl (Errorf ''parse redis url: %w'' [err])
           | Inr options \<Rightarrow>
               (let client = connect (options\<lparr>opt_MaxRetries := -1,
                                     opt_DialTimeout := 500 * Millisecond,
                                     opt_ReadTimeout := 500 * Millisecond,
                                     opt_WriteTimeout := 500 * Millisecond\<rparr>);
                    keyPrefix' = TrimSpace keyPrefix
                in Inr (client\<lparr>lim_keyPrefix := (if keyPrefix' = '''' then defaultKeyPrefix else keyPrefix'),
                               lim_now := time_Now\<rparr>)))"

definition limiter_Ping :: "'s Limiter option \<Rightarrow> 's \<Rightarrow> gw_err option" where
  "limiter_Ping l s =
     (case l of
        None \<Rightarrow> Some (Errorf ''redis limiter is not configured'' [])
      | Some lim \<Rightarrow>
          (case lim_Ping lim s of
             Some err \<Rightarrow> Some (Errorf ''ping redis: %w'' [err])
           | None \<Rightarrow> None))"

definition limiter_Close :: "'s Limiter option \<Rightarrow> 's \<Rightarrow> gw_err option \<times> 's" where
  "limiter_Close l s = (case l of None \<Rightarrow> (None, s) | Some lim \<Rightarrow> lim_Close lim s)"

definition hashKeyPart :: "(string \<Rightarrow> string) \<Rightarrow> string \<Rightarrow> string" where
  "hashKeyPart sha256 v = hex_EncodeToString (take 16 (sha256 v))"

definition redisKey :: "(string \<Rightarrow> string) \<Rightarrow> 's Limiter \<Rightarrow> string \<Rightarrow> string \<Rightarrow> int \<Rightarrow> string" where
  "redisKey sha256 l routeKey clientID window =
     lim_keyPrefix l @ '':'' @ hashKeyPart sha256 routeKey @ '':'' @ hashKeyPart sha256 clientID @
     '':'' @ Itoa window"

definition integerValue :: "redis_value \<Rightarrow> gw_err + int" where
  "integerValue v =
     (case v of RInt64 n \<Rightarrow> Inr n | RInt n \<Rightarrow> Inr n | _ \<Rightarrow> Inl (Errorf ''expected integer, got %T'' []))"

definition parseScriptResult :: "redis_value \<Rightarrow> gw_err + int \<times> int" where
  "parseScriptResult v =
     (case v of
        RArray items \<Rightarrow>
          (if length items \<noteq> 2 then Inl (Errorf ''unexpected redis rate limit response: %T'' [])
           else (case integerValue (items ! 0) of
                   Inl err \<Rightarrow> Inl (Errorf ''decode redis rate limit counter: %w'' [err])
                 | Inr current \<Rightarrow>
                     (case integerValue (items ! 1) of
                        Inl err \<Rightarrow> Inl (Errorf ''decode redis rate limit ttl: %w'' [err])
                      | Inr ttl \<Rightarrow> Inr (current, ttl))))
      | _ \<Rightarrow> Inl (Errorf ''unexpected redis rate limit response: %T'' []))"

definition maxDuration :: "Duration \<Rightarrow> Duration \<Rightarrow> Duration" where
  "maxDuration left right = (if left > right then left else right)"

definition Allow ::
  "(string \<Rightarrow> string) \<Rightarrow> 's Limiter \<Rightarrow> RateLimitRequest \<Rightarrow> 's \<Rightarrow> (gw_err + RateLimitResult) \<times> 's" where
  "Allow sha256 l request s =
     (let limit = pol_Limit (rlr_Policy request); window = pol_Window (rlr_Policy request) in
      if limit \<le> 0 \<or> window \<le> 0 then (Inl (Sentinel ErrInvalidRateLimitPolicy), s)
      else if TrimSpace (rlr_RouteKey request) = '''' \<or> TrimSpace (rlr_ClientID request) = ''''
        then (Inl (Sentinel ErrInvalidRateLimitClient), s)
      else
        let now = lim_now l s;
            windowMilliseconds = dur_Milliseconds window in
        if windowMilliseconds \<le> 0 then (Inl (Sentinel ErrInvalidRateLimitPolicy), s)
        else
          let currentWindow = UnixMilli now sdiv windowMilliseconds;
              resetAt = time_of_UnixMilli (wrap64 (wrap64 (currentWindow + 1) * windowMilliseconds));
              ttl0 = time_Sub resetAt now;
              ttl = (if ttl0 < Millisecond then Millisecond else ttl0);
              key = redisKey sha256 l (rlr_RouteKey request) (rlr_ClientID request) currentWindow in
          case lim_evaluator l key (dur_Milliseconds ttl) s of
            (Inl err, s1) \<Rightarrow> (Inl (Errorf ''execute redis rate limit script: %w'' [err]), s1)
          | (Inr val, s1) \<Rightarrow>
              (case parseScriptResult val of
                 Inl err \<Rightarrow> (Inl err, s1)
               | Inr (current, redisTTL) \<Rightarrow>
                   (let resetAt' = (if redisTTL > 0
                                    then time_Add now (wrap64 (redisTTL * Millisecond))
                                    else resetAt);
                        remaining = (if current < limit then wrap64 (limit - current) else 0)
                    in (Inr \<lparr>rl_Enabled = True, rl_Allowed = (current \<le> limit),
                             rl_Limit = limit, rl_Remaining = remaining, rl_ResetAt = resetAt',
                             rl_RetryAfter = maxDuration (time_Sub resetAt' now) Millisecond\<rparr>, s1))))"

section \<open>The limiter interface\<close>

text \<open>
  What the gateway's HTTP layer relies on in a limit decision, whatever Redis answers: a limiter
  that decides echoes the policy's limit, asks a rejected client to wait, and never reports
  remaining requests for a rejected one.
\<close>

locale rate_limiter =
  fixes allow :: "RateLimitRequest \<Rightarrow> 's \<Rightarrow> (gw_err + RateLimitResult) \<times> 's"
  assumes allow_policy: "allow rq s = (Inr res, s') \<Longrightarrow>
      rl_Enabled res \<and> rl_Limit res = pol_Limit (rlr_Policy rq) \<and> 0 < rl_Limit res"
    and allow_wait: "allow rq s = (Inr res, s') \<Longrightarrow> Millisecond \<le> rl_RetryAfter res"
    and allow_remaining: "allow rq s = (Inr res, s') \<Longrightarrow> rl_Remaining res \<noteq> 0 \<Longrightarrow> rl_Allowed res"
begin

lemma check_decision:
  assumes "uc_rateLimiter u = Some allow" and "CheckRateLimit u route clientID s = (Inr res, s')"
  shows "if pol_Enabled (rt_RateLimit route)
         then rl_Enabled res \<and> rl_Limit res = pol_Limit (rt_RateLimit route) \<and> 0 < rl_Limit res \<and>
              Millisecond \<le> rl_RetryAfter res
         else res = unlimited_result \<and> s' = s"
  using assms
  by (auto simp: CheckRateLimit_def Let_def split: if_splits dest: allow_policy allow_wait)

lemma check_rejected:
  assumes "uc_rateLimiter u = Some allow" and "CheckRateLimit u route clientID s = (Inr res, s')"
    and "\<not> rl_Allowed res"
  shows "pol_Enabled (rt_RateLimit route) \<and> rl_Remaining res = 0"
  using assms
  by (auto simp: CheckRateLimit_def Let_def unlimited_result_def split: if_splits
      dest: allow_remaining)

end

lemma Allow_Inr:
  assumes "Allow sha256 l rq s = (Inr res, s')"
  shows "0 < pol_Limit (rlr_Policy rq) \<and> 0 < pol_Window (rlr_Policy rq) \<and>
    rl_Enabled res \<and> rl_Limit res = pol_Limit (rlr_Policy rq) \<and>
    Millisecond \<le> rl_RetryAfter res \<and> (rl_Remaining res \<noteq> 0 \<longrightarrow> rl_Allowed res)"
  using assms unfolding Allow_def Let_def
  by (auto split: if_splits prod.splits sum.splits simp: maxDuration_def)

text \<open>A failing script evaluation is reported as an error that wraps the client's.\<close>

lemma Allow_evaluator_error:
  assumes "0 < pol_Limit (rlr_Policy rq)" and "0 < pol_Window (rlr_Policy rq)"
    and "0 < dur_Milliseconds (pol_Window (rlr_Policy rq))"
    and "TrimSpace (rlr_RouteKey rq) \<noteq> ''''" and "TrimSpace (rlr_ClientID rq) \<noteq> ''''"
    and ev: "\<And>k a. \<exists>err s'. lim_evaluator l k a s = (Inl err, s') \<and> P err"
  shows "\<exists>err s'. Allow sha l rq s =
           (Inl (Errorf ''execute redis rate limit script: %w'' [err]), s') \<and> P err"
proof -
  from ev have "\<forall>k a. \<exists>err s'. lim_evaluator l k a s = (Inl err, s') \<and> P err" by blast
  then obtain err st where ch: "\<And>k a. lim_evaluator l k a s = (Inl (err k a), st k a)"
    and P: "\<And>k a. P (err k a)" by metis
  from assms(1-5) show ?thesis by (auto simp: Allow_def Let_def ch P)
qed

interpretation redis_limiter: rate_limiter "Allow sha256 l"
  by unfold_locales (auto dest: Allow_Inr)

section \<open>Exactly the configured number of requests per window\<close>

text \<open>
  A key holds a value and an optional deadline; it is live until Redis's clock passes the
  deadline. The clauses are INCR, PEXPIRE (on a live key, for a positive number of milliseconds)
  and PTTL as the Redis manual describes them; the clock does not move inside a command.
\<close>

type_synonym 's redis_store = "'s \<Rightarrow> string \<Rightarrow> (int \<times> int option) option"

definition redis_live :: "'s redis_store \<Rightarrow> ('s \<Rightarrow> int) \<Rightarrow> 's \<Rightarrow> string \<Rightarrow> (int \<times> int option) option" where
  "redis_live store clock s k =
     (case store s k of
        Some (v, Some d) \<Rightarrow> (if clock s \<le> d then Some (v, Some d) else None)
      | x \<Rightarrow> x)"

definition redis_behaves :: "'s redis_cmds \<Rightarrow> 's redis_store \<Rightarrow> ('s \<Rightarrow> int) \<Rightarrow> bool" where
  "redis_behaves cmds store clock \<longleftrightarrow>
     (\<forall>k s. case redis_live store clock s k of
              None \<Rightarrow> fst (rc_INCR cmds k s) = 1 \<and> store (snd (rc_INCR cmds k s)) k = Some (1, None)
            | Some (n, d) \<Rightarrow> fst (rc_INCR cmds k s) = n + 1 \<and>
                             store (snd (rc_INCR cmds k s)) k = Some (n + 1, d)) \<and>
     (\<forall>k ms s v d. 0 < ms \<longrightarrow> redis_live store clock s k = Some (v, d) \<longrightarrow>
        store (rc_PEXPIRE cmds k ms s) k = Some (v, Some (clock s + ms))) \<and>
     (\<forall>k s. rc_PTTL cmds k s =
        (case redis_live store clock s k of
           None \<Rightarrow> -2 | Some (v, None) \<Rightarrow> -1 | Some (v, Some d) \<Rightarrow> d - clock s)) \<and>
     (\<forall>k s. clock (snd (rc_INCR cmds k s)) = clock s) \<and>
     (\<forall>k ms s. clock (rc_PEXPIRE cmds k ms s) = clock s)"

lemma redis_INCR:
  "redis_behaves cmds store clock \<Longrightarrow>
     (case redis_live store clock s k of
        None \<Rightarrow> fst (rc_INCR cmds k s) = 1 \<and> store (snd (rc_INCR cmds k s)) k = Some (1, None)
      | Some (n, d) \<Rightarrow> fst (rc_INCR cmds k s) = n + 1 \<and>
                       store (snd (rc_INCR cmds k s)) k = Some (n + 1, d))"
  unfolding redis_behaves_def by blast

lemma redis_PEXPIRE:
  "redis_behaves cmds store clock \<Longrightarrow> 0 < ms \<Longrightarrow> redis_live store clock s k = Some (v, d) \<Longrightarrow>
     store (rc_PEXPIRE cmds k ms s) k = Some (v, Some (clock s + ms))"
  unfolding redis_behaves_def by blast

lemma redis_PTTL:
  "redis_behaves cmds store clock \<Longrightarrow>
     rc_PTTL cmds k s = (case redis_live store clock s k of
        None \<Rightarrow> -2 | Some (v, None) \<Rightarrow> -1 | Some (v, Some d) \<Rightarrow> d - clock s)"
  unfolding redis_behaves_def by blast

lemma redis_clock:
  "redis_behaves cmds store clock \<Longrightarrow> clock (snd (rc_INCR cmds k s)) = clock s"
  "redis_behaves cmds store clock \<Longrightarrow> clock (rc_PEXPIRE cmds k ms s) = clock s"
  unfolding redis_behaves_def by blast+

text \<open>The number of requests counted for a key in the window that ends at \<open>N\<close> milliseconds.\<close>

definition counted :: "'s redis_store \<Rightarrow> string \<Rightarrow> int \<Rightarrow> 's \<Rightarrow> int \<Rightarrow> bool" where
  "counted store k N s n \<longleftrightarrow>
     (if n = 0 then store s k = None
      else 0 < n \<and> (\<exists>d. store s k = Some (n, Some d) \<and> N - 1 \<le> d \<and> d \<le> N))"

lemma script_counts:
  assumes redis: "redis_behaves cmds store clock" and cnt: "counted store k N s n"
    and time: "clock s < N" and arg: "0 < arg" "N - 1 \<le> clock s + arg" "clock s + arg \<le> N"
  shows "\<exists>ttl s1. fixedWindowScript cmds k arg s = (RArray [RInt64 (n + 1), RInt64 ttl], s1) \<and>
           counted store k N s1 (n + 1) \<and> 0 \<le> ttl \<and> N - 1 \<le> clock s + ttl \<and> clock s + ttl \<le> N"
proof -
  obtain c s1 where incr: "rc_INCR cmds k s = (c, s1)" by fastforce
  have clk: "clock s1 = clock s" "clock (rc_PEXPIRE cmds k arg s1) = clock s"
    using redis_clock(1) [OF redis, where k = k and s = s]
      redis_clock(2) [OF redis, where k = k and ms = arg and s = s1] incr by simp_all
  note pttl = redis_PTTL [OF redis]
  have law: "case redis_live store clock s k of
      None \<Rightarrow> c = 1 \<and> store s1 k = Some (1, None)
    | Some (m, d) \<Rightarrow> c = m + 1 \<and> store s1 k = Some (m + 1, d)"
    using redis_INCR [OF redis, where s = s and k = k] incr by (simp split: option.splits prod.splits)
  show ?thesis
  proof (cases "n = 0")
    case True
    with cnt law have c: "c = 1" "store s1 k = Some (1, None)"
      by (simp_all add: counted_def redis_live_def)
    then have "redis_live store clock s1 k = Some (1, None)" by (simp add: redis_live_def)
    then have "store (rc_PEXPIRE cmds k arg s1) k = Some (1, Some (clock s1 + arg))"
      by (rule redis_PEXPIRE [OF redis arg(1)])
    with c True incr clk arg show ?thesis
      by (auto simp: fixedWindowScript_def Let_def counted_def pttl redis_live_def)
  next
    case False
    with cnt obtain d where d: "0 < n" "store s k = Some (n, Some d)" "N - 1 \<le> d" "d \<le> N"
      by (auto simp: counted_def)
    with law time have c: "c = n + 1" "store s1 k = Some (n + 1, Some d)"
      by (simp_all add: redis_live_def)
    with d incr clk time show ?thesis
      by (auto simp: fixedWindowScript_def Let_def counted_def pttl redis_live_def)
  qed
qed

lemma ttl_arith:
  fixes y N :: int
  assumes "y div 1000000 < N"
  shows "0 < N * 1000000 - y" "N - 1 - y div 1000000 \<le> (N * 1000000 - y) div 1000000"
    "(N * 1000000 - y) div 1000000 \<le> N - y div 1000000"
  using assms by linarith+

text \<open>The window of a time, and the key of a request in it.\<close>

definition window_index :: "RateLimitRequest \<Rightarrow> Time \<Rightarrow> int" where
  "window_index rq t = UnixMilli t div (pol_Window (rlr_Policy rq) div 1000000)"

definition window_end_ms :: "RateLimitRequest \<Rightarrow> int \<Rightarrow> int" where
  "window_end_ms rq w = (w + 1) * (pol_Window (rlr_Policy rq) div 1000000)"

definition request_ok :: "RateLimitRequest \<Rightarrow> bool" where
  "request_ok rq \<longleftrightarrow>
     0 < pol_Limit (rlr_Policy rq) \<and> int64_range (pol_Limit (rlr_Policy rq)) \<and>
     Millisecond \<le> pol_Window (rlr_Policy rq) \<and> int64_range (pol_Window (rlr_Policy rq)) \<and>
     TrimSpace (rlr_RouteKey rq) \<noteq> '''' \<and> TrimSpace (rlr_ClientID rq) \<noteq> ''''"

text \<open>Times from 1970 on whose milliseconds leave room for a window in 64 bits.\<close>

definition time_ok :: "Time \<Rightarrow> bool" where
  "time_ok t \<longleftrightarrow> 0 \<le> UnixMilli t \<and> UnixMilli t < 2 ^ 62"

lemma window_bounds:
  assumes "request_ok rq" and "time_ok t"
  shows "0 \<le> window_index rq t" "UnixMilli t < window_end_ms rq (window_index rq t)"
    "window_end_ms rq (window_index rq t) \<le> UnixMilli t + pol_Window (rlr_Policy rq) div 1000000"
    "window_end_ms rq (window_index rq t) < 2 ^ 63"
proof -
  let ?W = "pol_Window (rlr_Policy rq) div 1000000" and ?m = "UnixMilli t"
  have W: "0 < ?W" "?W \<le> 9223372036854"
    using assms(1) by (auto simp: request_ok_def Millisecond_def int64_range_def)
  show "0 \<le> window_index rq t"
    using W assms(2) by (simp add: window_index_def time_ok_def pos_imp_zdiv_nonneg_iff)
  have "?m div ?W * ?W + ?m mod ?W = ?m" by (rule div_mult_mod_eq)
  moreover have "0 \<le> ?m mod ?W" "?m mod ?W < ?W"
    using W(1) pos_mod_sign pos_mod_bound by blast+
  ultimately have "?m div ?W * ?W \<le> ?m" "?m < ?m div ?W * ?W + ?W" by linarith+
  then show lt: "?m < window_end_ms rq (window_index rq t)"
    and le: "window_end_ms rq (window_index rq t) \<le> ?m + ?W"
    by (simp_all add: window_end_ms_def window_index_def distrib_right)
  have "?m < 2 ^ 62" using assms(2) by (simp add: time_ok_def)
  with le W(2) show "window_end_ms rq (window_index rq t) < 2 ^ 63" by simp
qed

text \<open>One decision, in a state where \<open>n\<close> requests of the window have been counted.\<close>

definition script_evaluator :: "'s redis_cmds \<Rightarrow> string \<Rightarrow> int \<Rightarrow> 's \<Rightarrow> (gw_err + redis_value) \<times> 's" where
  "script_evaluator cmds key arg s =
     (case fixedWindowScript cmds key arg s of (v, s1) \<Rightarrow> (Inr v, s1))"

lemma Allow_counts:
  assumes l: "lim_evaluator l = script_evaluator cmds"
    and redis: "redis_behaves cmds store clock"
    and rq: "request_ok rq" and t: "time_ok (lim_now l s)" "clock s = UnixMilli (lim_now l s)"
    and w: "window_index rq (lim_now l s) = w"
    and cnt: "counted store (redisKey sha256 l (rlr_RouteKey rq) (rlr_ClientID rq) w)
                (window_end_ms rq w) s n"
  shows "\<exists>res s1. Allow sha256 l rq s = (Inr res, s1) \<and>
    counted store (redisKey sha256 l (rlr_RouteKey rq) (rlr_ClientID rq) w) (window_end_ms rq w) s1 (n + 1) \<and>
    (rl_Allowed res \<longleftrightarrow> n + 1 \<le> pol_Limit (rlr_Policy rq)) \<and>
    rl_Remaining res = max 0 (pol_Limit (rlr_Policy rq) - (n + 1)) \<and>
    lim_now l s < rl_ResetAt res \<and>
    rl_ResetAt res < time_of_UnixMilli (window_end_ms rq w) + Millisecond"
proof -
  define now N W where "now = lim_now l s" and "N = window_end_ms rq w"
    and "W = pol_Window (rlr_Policy rq) div 1000000"
  define y where "y = now - unix_epoch"
  let ?win = "pol_Window (rlr_Policy rq)" and ?lim = "pol_Limit (rlr_Policy rq)"
  let ?k = "redisKey sha256 l (rlr_RouteKey rq) (rlr_ClientID rq) w"
  have pos: "0 < ?lim" "0 < ?win" "dur_Milliseconds ?win = W" "0 < W"
    using rq by (auto simp: request_ok_def Millisecond_def dur_Milliseconds_def W_def)
  have m: "UnixMilli now = y div 1000000" by (simp add: UnixMilli_def y_def)
  have N: "y div 1000000 < N" "N \<le> y div 1000000 + W" "N < 2 ^ 63" "0 \<le> y div 1000000"
    using window_bounds [OF rq t(1)] t(1) w m by (auto simp: N_def W_def now_def time_ok_def)
  have idx: "UnixMilli now sdiv W = w"
    using w t(1) pos m by (simp add: window_index_def W_def now_def time_ok_def)
  have w0: "0 \<le> w" using window_bounds(1) [OF rq t(1)] w by simp
  have NW: "N = (w + 1) * W" by (simp add: N_def W_def window_end_ms_def)
  have "w + 1 \<le> N" using w0 pos(4) NW by (simp add: mult_le_cancel_left1)
  with N w0 have "int64_range (w + 1)" "int64_range N" by (auto simp: int64_range_def)
  then have wrapN: "wrap64 (wrap64 (w + 1) * W) = N" by (simp add: NW)
  define x where "x = N * 1000000 - y"
  have reset: "time_of_UnixMilli N - now = x"
    by (simp add: time_of_UnixMilli_def x_def y_def)
  note ar = ttl_arith [OF N(1), folded x_def]
  have xW: "x \<le> W * 1000000" using N(2) by (simp add: x_def)
  have "W * 1000000 \<le> ?win" using pos by (simp add: W_def)
  moreover have "int64_range ?win" using rq by (simp add: request_ok_def)
  ultimately have sub: "time_Sub (time_of_UnixMilli N) now = x"
    using ar(1) xW reset by (simp add: time_Sub_exact int64_range_def)
  define arg where "arg = dur_Milliseconds (if x < Millisecond then Millisecond else x)"
  have arg: "0 < arg" "N - 1 \<le> y div 1000000 + arg" "y div 1000000 + arg \<le> N"
    using ar N(1) by (auto simp: arg_def dur_Milliseconds_def Millisecond_def)
  have clk: "clock s = y div 1000000" using t(2) m by (simp add: now_def)
  from script_counts [OF redis cnt [folded N_def], of arg] clk arg N(1) obtain ttl s1
    where run: "fixedWindowScript cmds ?k arg s = (RArray [RInt64 (n + 1), RInt64 ttl], s1)"
      and cnt1: "counted store ?k N s1 (n + 1)"
      and ttl: "0 \<le> ttl" "y div 1000000 + ttl \<le> N" by auto
  have n0: "0 \<le> n" using cnt by (auto simp: counted_def split: if_splits)
  have ttlW: "ttl * 1000000 \<le> W * 1000000" using ttl N by linarith
  then have wrapT: "wrap64 (ttl * Millisecond) = ttl * Millisecond"
    using ttl(1) \<open>W * 1000000 \<le> ?win\<close> \<open>int64_range ?win\<close>
    by (intro wrap64_id) (simp add: int64_range_def Millisecond_def)
  have "int64_range (?lim - (n + 1))" if "n + 1 < ?lim"
    using that n0 rq by (simp add: request_ok_def int64_range_def)
  moreover have "now + ttl * 1000000 < time_of_UnixMilli N + 1000000"
    using ttl(2) by (simp add: time_of_UnixMilli_def y_def)
  moreover have "now < time_of_UnixMilli N" using reset ar(1) by linarith
  ultimately show ?thesis
    using rq pos idx wrapN sub run cnt1 wrapT ttl(1) n0
    unfolding Allow_def Let_def now_def [symmetric] N_def [symmetric] script_evaluator_def l
    by (auto simp: request_ok_def parseScriptResult_def integerValue_def time_Add_def
        Millisecond_def arg_def)
qed

section \<open>Properties\<close>

text \<open>Requests of one client interleaved with arbitrary other steps of the world.\<close>

fun allow_run ::
  "(RateLimitRequest \<Rightarrow> 's \<Rightarrow> (gw_err + RateLimitResult) \<times> 's) \<Rightarrow> RateLimitRequest \<Rightarrow> ('s \<Rightarrow> 's) list \<Rightarrow>
   's \<Rightarrow> (gw_err + RateLimitResult) list" where
  "allow_run allow rq [] s = []"
| "allow_run allow rq (e # es) s =
     (case allow rq (e s) of (r, s1) \<Rightarrow> r # allow_run allow rq es s1)"

lemma allow_run_counts:
  assumes l: "lim_evaluator l = script_evaluator cmds"
    and redis: "redis_behaves cmds store clock" and rq: "request_ok rq"
    and env: "\<forall>e\<in>set es. \<forall>s. time_ok (lim_now l (e s)) \<and> window_index rq (lim_now l (e s)) = w \<and>
           clock (e s) = UnixMilli (lim_now l (e s)) \<and>
           store (e s) (redisKey sha256 l (rlr_RouteKey rq) (rlr_ClientID rq) w) =
             store s (redisKey sha256 l (rlr_RouteKey rq) (rlr_ClientID rq) w)"
    and cnt: "counted store (redisKey sha256 l (rlr_RouteKey rq) (rlr_ClientID rq) w)
                (window_end_ms rq w) s (int n)"
    and i: "i < length es"
  shows "\<exists>res. allow_run (Allow sha256 l) rq es s ! i = Inr res \<and>
      (rl_Allowed res \<longleftrightarrow> int (n + i + 1) \<le> pol_Limit (rlr_Policy rq)) \<and>
      rl_Remaining res = max 0 (pol_Limit (rlr_Policy rq) - int (n + i + 1))"
  using env cnt i
proof (induction es arbitrary: s n i)
  case (Cons e es)
  let ?k = "redisKey sha256 l (rlr_RouteKey rq) (rlr_ClientID rq) w"
  have "counted store ?k (window_end_ms rq w) (e s) (int n)"
    using Cons.prems(1,2) by (simp add: counted_def)
  with Allow_counts [OF l redis rq, of "e s" w sha256 "int n"] Cons.prems(1) obtain res s1
    where step: "Allow sha256 l rq (e s) = (Inr res, s1)"
      and cnt1: "counted store ?k (window_end_ms rq w) s1 (int (Suc n))"
      and res: "rl_Allowed res \<longleftrightarrow> int n + 1 \<le> pol_Limit (rlr_Policy rq)"
        "rl_Remaining res = max 0 (pol_Limit (rlr_Policy rq) - (int n + 1))"
    by (auto simp: add.commute)
  show ?case
  proof (cases i)
    case 0
    with step res show ?thesis by (simp add: add.commute)
  next
    case (Suc j)
    with Cons.IH [OF _ cnt1, of j] Cons.prems step show ?thesis by simp
  qed
qed simp

text \<open>C6. Exactly the first \<open>Limit\<close> requests that a client makes on a route in one window are
  allowed, and each reports the right number of remaining requests, whatever else happens between
  them, provided Redis behaves as documented, no one else writes the client's key, and the two
  clocks agree to the millisecond.\<close>

theorem Allow_exact_limit:
  assumes "lim_evaluator l = script_evaluator cmds"
    and "redis_behaves cmds store clock" and "request_ok rq"
    and "\<forall>e\<in>set es. \<forall>s. time_ok (lim_now l (e s)) \<and> window_index rq (lim_now l (e s)) = w \<and>
           clock (e s) = UnixMilli (lim_now l (e s)) \<and>
           store (e s) (redisKey sha l (rlr_RouteKey rq) (rlr_ClientID rq) w) =
             store s (redisKey sha l (rlr_RouteKey rq) (rlr_ClientID rq) w)"
    and "store s (redisKey sha l (rlr_RouteKey rq) (rlr_ClientID rq) w) = None"
    and "i < length es"
  shows "\<exists>res. allow_run (Allow sha l) rq es s ! i = Inr res \<and>
      (rl_Allowed res \<longleftrightarrow> int i < pol_Limit (rlr_Policy rq)) \<and>
      rl_Remaining res = max 0 (pol_Limit (rlr_Policy rq) - (int i + 1))"
proof -
  have "counted store (redisKey sha l (rlr_RouteKey rq) (rlr_ClientID rq) w)
          (window_end_ms rq w) s (int 0)"
    using assms(5) by (simp add: counted_def)
  from allow_run_counts [OF assms(1-4) this assms(6)] show ?thesis by (auto simp: add.commute)
qed

text \<open>A Redis with one clock, for concrete runs.\<close>

record toy_redis =
  toy_keys :: "string \<Rightarrow> (int \<times> int option) option"
  toy_clock :: int

definition toy_live :: "toy_redis \<Rightarrow> string \<Rightarrow> (int \<times> int option) option" where
  "toy_live s k = redis_live toy_keys toy_clock s k"

definition toy_cmds :: "toy_redis redis_cmds" where
  "toy_cmds =
     \<lparr>rc_INCR = (\<lambda>k s. case toy_live s k of
          None \<Rightarrow> (1, s\<lparr>toy_keys := (toy_keys s)(k := Some (1, None))\<rparr>)
        | Some (n, d) \<Rightarrow> (n + 1, s\<lparr>toy_keys := (toy_keys s)(k := Some (n + 1, d))\<rparr>)),
      rc_PEXPIRE = (\<lambda>k ms s. case toy_live s k of
          None \<Rightarrow> s
        | Some (v, d) \<Rightarrow> s\<lparr>toy_keys := (toy_keys s)(k := Some (v, Some (toy_clock s + ms)))\<rparr>),
      rc_PTTL = (\<lambda>k s. case toy_live s k of
          None \<Rightarrow> -2 | Some (v, None) \<Rightarrow> -1 | Some (v, Some d) \<Rightarrow> d - toy_clock s)\<rparr>"

lemma toy_redis_behaves: "redis_behaves toy_cmds toy_keys toy_clock"
  unfolding redis_behaves_def toy_cmds_def toy_live_def
  by (auto split: option.splits)

definition toy_limiter :: "toy_redis Limiter" where
  "toy_limiter = \<lparr>lim_evaluator = script_evaluator toy_cmds, lim_keyPrefix = ''p'',
     lim_now = (\<lambda>s. time_of_UnixMilli (toy_clock s)), lim_Ping = (\<lambda>_. None), lim_Close = (\<lambda>s. (None, s))\<rparr>"

definition toy_request :: RateLimitRequest where
  "toy_request = \<lparr>rlr_RouteKey = ''r'', rlr_ClientID = ''c'',
     rlr_Policy = \<lparr>pol_Enabled = True, pol_Limit = 2, pol_Window = 1000000000\<rparr>\<rparr>"

theorem Allow_exact_limit_witness:
  "\<exists>res. allow_run (Allow (\<lambda>x. x) toy_limiter) toy_request
       [\<lambda>s. s\<lparr>toy_clock := 5000\<rparr>, \<lambda>s. s\<lparr>toy_clock := 5400\<rparr>, \<lambda>s. s\<lparr>toy_clock := 5999\<rparr>]
       \<lparr>toy_keys = (\<lambda>_. None), toy_clock = 0\<rparr> ! 2 = Inr res \<and>
     \<not> rl_Allowed res \<and> rl_Remaining res = 0"
proof -
  have rq: "request_ok toy_request"
    by (simp add: request_ok_def toy_request_def int64_range_def Millisecond_def
        TrimSpace_visible visible_ascii_def)
  have "lim_evaluator toy_limiter = script_evaluator toy_cmds" by (simp add: toy_limiter_def)
  from Allow_exact_limit [OF this toy_redis_behaves rq, where w = 5 and i = 2
      and es = "[\<lambda>s. s\<lparr>toy_clock := 5000\<rparr>, \<lambda>s. s\<lparr>toy_clock := 5400\<rparr>, \<lambda>s. s\<lparr>toy_clock := 5999\<rparr>]"
      and s = "\<lparr>toy_keys = (\<lambda>_. None), toy_clock = 0\<rparr>" and sha = "\<lambda>x. x"]
  show ?thesis
    by (simp add: toy_limiter_def toy_request_def time_ok_def window_index_def UnixMilli_def
        time_of_UnixMilli_def)
qed

lemma append_cancel_length: "length a = length b \<Longrightarrow> a @ x = b @ y \<longleftrightarrow> a = b \<and> x = y"
  by simp

lemma hashKeyPart_length: "length (sha v) = 32 \<Longrightarrow> length (hashKeyPart sha v) = 32"
  by (simp add: hashKeyPart_def)

text \<open>Counters are separate: two requests through one limiter count on the same Redis key only
  if their windows agree and the 128-bit hash prefixes of their route keys and of their client ids
  agree; conversely these make the keys equal.\<close>

theorem redisKey_separates:
  assumes "\<forall>v. length (sha v) = 32"
  shows "redisKey sha l r c w = redisKey sha l r' c' w' \<longleftrightarrow>
     take 16 (sha r) = take 16 (sha r') \<and> take 16 (sha c) = take 16 (sha c') \<and> w = w'"
proof -
  have len: "length (hashKeyPart sha v) = length (hashKeyPart sha v')" for v v'
    using assms by (simp add: hashKeyPart_length)
  have "redisKey sha l r c w = redisKey sha l r' c' w' \<longleftrightarrow>
      hashKeyPart sha r = hashKeyPart sha r' \<and> hashKeyPart sha c = hashKeyPart sha c' \<and> Itoa w = Itoa w'"
    by (simp add: redisKey_def append_cancel_length [OF len])
  then show ?thesis by (auto simp: hashKeyPart_def hex_Encode_inj dest: Itoa_inj)
qed

theorem redisKey_separates_witness:
  "redisKey (\<lambda>v. take 32 (v @ replicate 32 (CHR 0x00))) toy_limiter ''r'' ''alice'' 5 \<noteq>
   redisKey (\<lambda>v. take 32 (v @ replicate 32 (CHR 0x00))) toy_limiter ''r'' ''bob'' 5"
  using redisKey_separates [of "\<lambda>v. take 32 (v @ replicate 32 (CHR 0x00))" toy_limiter
      "''r''" "''alice''" 5 "''r''" "''bob''" 5]
  by (auto simp: min_def)

end
