(* ===== verification/Gateway_Http.thy ===== *)
theory Gateway_Http
  imports Gateway_AuthClient Gateway_RateLimit Platform_Http
begin

text \<open>
  The gateway's HTTP side: the reverse proxy (\<open>internal/gateway/infrastructure/proxy\<close>), the request
  handler (\<open>internal/gateway/delivery/http/v1/handlers.go\<close>) and the middlewares around it
  (\<open>access_events.go\<close>, \<open>middleware_request_id.go\<close>, \<open>middleware_logging.go\<close>). The echo context is a
  record with the request, the response writer and the access-event metadata, and a ghost field
  that lists the calls made on the upstream proxy. Log lines are not modelled.
\<close>

section \<open>The reverse proxy\<close>

definition joinPaths :: "string \<Rightarrow> string \<Rightarrow> string" where
  "joinPaths a b =
     (if a = '''' then b
      else if b = '''' then a
      else let aSlash = HasSuffix a ''/''; bSlash = HasPrefix b ''/'' in
        if aSlash \<and> bSlash then a @ drop 1 b
        else if \<not> aSlash \<and> \<not> bSlash then a @ ''/'' @ b
        else a @ b)"

definition getRequestScheme :: "HttpRequest \<Rightarrow> string" where
  "getRequestScheme r = (if rq_TLS r then ''https'' else ''http'')"

record OutRequest =
  or_Method :: string
  or_Scheme :: string
  or_URLHost :: string
  or_Path :: string
  or_RawPath :: string
  or_RawQuery :: string
  or_Host :: string
  or_Header :: Header

text \<open>The request that \<open>httputil.ReverseProxy\<close> hands to the director: a copy of the incoming one.\<close>

definition clone_request :: "HttpRequest \<Rightarrow> OutRequest" where
  "clone_request r =
     \<lparr>or_Method = rq_Method r, or_Scheme = '''', or_URLHost = '''', or_Path = rq_Path r,
      or_RawPath = '''', or_RawQuery = rq_RawQuery r, or_Host = rq_Host r, or_Header = rq_Header r\<rparr>"

definition proxy_Director ::
  "(ParsedURL \<Rightarrow> OutRequest \<Rightarrow> OutRequest) \<Rightarrow> ParsedURL \<Rightarrow> Route \<Rightarrow> HttpRequest \<Rightarrow> OutRequest \<Rightarrow> OutRequest" where
  "proxy_Director originalDirector target route r req =
     (let req1 = originalDirector target req in
      req1\<lparr>or_Scheme := url_Scheme target,
           or_URLHost := url_Host target,
           or_Path := joinPaths (url_Path target) (UpstreamPath route (rq_Path r)),
           or_RawQuery := rq_RawQuery r,
           or_Host := url_Host target,
           or_Header := header_Set (header_Set (or_Header req1) ''X-Forwarded-Host'' (rq_Host r))
                          ''X-Forwarded-Proto'' (getRequestScheme r)\<rparr>)"

text \<open>\<open>http.Error\<close>.\<close>

definition http_Error :: "string \<Rightarrow> int \<Rightarrow> writer \<Rightarrow> writer" where
  "http_Error msg code w =
     (let h0 = header_Del (writer_Header w) ''Content-Length'';
          h1 = header_Set h0 ''Content-Type'' ''text/plain; charset=utf-8'';
          h2 = header_Set h1 ''X-Content-Type-Options'' ''nosniff''
      in writer_Write (msg @ [CHR 0x0A]) (writer_WriteHeader code (writer_setHeader h2 w)))"

text \<open>\<open>roundtrip\<close> stands for \<open>ReverseProxy.ServeHTTP\<close> below the director: it sends the request under
  the timeout, copies the answer to the writer, or fails with a transport error.\<close>

type_synonym 's round_trip = "Duration \<Rightarrow> OutRequest \<Rightarrow> writer \<Rightarrow> 's \<Rightarrow> gw_err option \<times> writer \<times> 's"

definition proxy_ServeHTTP ::
  "url_parser \<Rightarrow> (ParsedURL \<Rightarrow> OutRequest \<Rightarrow> OutRequest) \<Rightarrow> 's round_trip \<Rightarrow>
   HttpRequest \<Rightarrow> Route \<Rightarrow> writer \<Rightarrow> 's \<Rightarrow> writer \<times> 's" where
  "proxy_ServeHTTP url_Parse originalDirector roundtrip r route w s =
     (case url_Parse (rt_UpstreamURL route) of
        Inl err \<Rightarrow> (http_Error ''bad upstream url'' 502 w, s)
      | Inr target \<Rightarrow>
          (case roundtrip (rt_Timeout route)
                  (proxy_Director originalDirector target route r (clone_request r)) w s of
             (Some err, w1, s1) \<Rightarrow> (http_Error ''upstream error'' 502 w1, s1)
           | (None, w1, s1) \<Rightarrow> (w1, s1)))"

section \<open>The echo context\<close>

record accessEventMetadata =
  md_projectID :: string
  md_routeName :: string
  md_routePathPrefix :: string
  md_apiKeyID :: string
  md_authRequired :: bool
  md_rateLimitEnabled :: bool
  md_rateLimited :: bool

record echo_ctx =
  ex_Request :: HttpRequest
  ex_Response :: writer
  ex_Metadata :: "accessEventMetadata option"
  ex_Upstream :: "(HttpRequest \<times> Route) list"

definition empty_metadata :: accessEventMetadata where
  "empty_metadata = \<lparr>md_projectID = '''', md_routeName = '''', md_routePathPrefix = '''',
     md_apiKeyID = '''', md_authRequired = False, md_rateLimitEnabled = False, md_rateLimited = False\<rparr>"

definition getAccessEventMetadata :: "echo_ctx \<Rightarrow> accessEventMetadata" where
  "getAccessEventMetadata c = (case ex_Metadata c of Some m \<Rightarrow> m | None \<Rightarrow> empty_metadata)"

definition setAccessEventRoute :: "Route \<Rightarrow> echo_ctx \<Rightarrow> echo_ctx" where
  "setAccessEventRoute route c =
     c\<lparr>ex_Metadata := Some ((getAccessEventMetadata c)
         \<lparr>md_projectID := rt_ProjectID route, md_routeName := rt_Name route,
          md_routePathPrefix := rt_PathPrefix route, md_authRequired := rt_AuthRequired route,
          md_rateLimitEnabled := pol_Enabled (rt_RateLimit route)\<rparr>)\<rparr>"

definition setAccessEventAPIKey :: "string \<Rightarrow> echo_ctx \<Rightarrow> echo_ctx" where
  "setAccessEventAPIKey apiKeyID c =
     c\<lparr>ex_Metadata := Some ((getAccessEventMetadata c)\<lparr>md_apiKeyID := apiKeyID\<rparr>)\<rparr>"

definition setAccessEventRateLimited :: "echo_ctx \<Rightarrow> echo_ctx" where
  "setAccessEventRateLimited c =
     c\<lparr>ex_Metadata := Some ((getAccessEventMetadata c)\<lparr>md_rateLimited := True\<rparr>)\<rparr>"

text \<open>\<open>c.String\<close> of echo.\<close>

definition echo_String :: "int \<Rightarrow> string \<Rightarrow> echo_ctx \<Rightarrow> echo_ctx" where
  "echo_String code body c =
     (let w = ex_Response c;
          w1 = writer_setHeader (header_Set (writer_Header w) ''Content-Type'' ''text/plain; charset=UTF-8'') w
      in c\<lparr>ex_Response := writer_Write body (writer_WriteHeader code w1)\<rparr>)"

section \<open>The handler\<close>

definition apiKeyHeader :: string where
  "apiKeyHeader = ''X-API-Key''"

definition directClientIP :: "HttpRequest \<Rightarrow> string" where
  "directClientIP req =
     (let remoteAddr = TrimSpace (rq_RemoteAddr req) in
      if remoteAddr = '''' then ''unknown''
      else case SplitHostPort remoteAddr of
             Some (host, port) \<Rightarrow> if host \<noteq> '''' then host else remoteAddr
           | None \<Rightarrow> remoteAddr)"

definition rateLimitClientID :: "HttpRequest \<Rightarrow> Route \<Rightarrow> APIKeyPrincipal \<Rightarrow> string" where
  "rateLimitClientID req route prin =
     (if rt_AuthRequired route \<and> TrimSpace (pr_APIKeyID prin) \<noteq> ''''
      then ''api-key:'' @ pr_APIKeyID prin
      else ''ip:'' @ directClientIP req)"

text \<open>\<open>int(math.Ceil(d.Seconds()))\<close>: the exact ceiling, which the floating-point value gives for
  durations below \<open>2^23\<close> seconds.\<close>

definition ceil_seconds :: "Duration \<Rightarrow> int" where
  "ceil_seconds d = - ((- d) div 1000000000)"

definition setRateLimitHeaders :: "RateLimitResult \<Rightarrow> Header \<Rightarrow> Header" where
  "setRateLimitHeaders result h =
     (let h1 = header_Set h ''X-RateLimit-Limit'' (Itoa (rl_Limit result));
          h2 = header_Set h1 ''X-RateLimit-Remaining'' (Itoa (rl_Remaining result));
          h3 = header_Set h2 ''X-RateLimit-Reset'' (Itoa (Unix (rl_ResetAt result)))
      in if \<not> rl_Allowed result then
           (let retryAfterSeconds = ceil_seconds (rl_RetryAfter result)
            in header_Set h3 ''Retry-After''
                 (Itoa (if retryAfterSeconds < 1 then 1 else retryAfterSeconds)))
         else h3)"

record 's Handler =
  h_usecase :: "'s Usecase"
  h_proxy :: "HttpRequest \<Rightarrow> Route \<Rightarrow> writer \<Rightarrow> 's \<Rightarrow> writer \<times> 's"

definition auth_failure_response :: "gw_err \<Rightarrow> int \<times> string" where
  "auth_failure_response err =
     (if errors_is err ErrAPIKeyRequired \<or> errors_is err ErrInvalidAPIKey
        then (401, ''unauthorized'' @ [CHR 0x0A])
      else if errors_is err ErrAPIKeyProjectMismatch then (403, ''forbidden'' @ [CHR 0x0A])
      else if errors_is err ErrAuthServiceUnavailable \<or> errors_is err ErrAPIKeyValidatorNotConfigured
        then (503, ''authorization service unavailable'' @ [CHR 0x0A])
      else (500, ''internal error'' @ [CHR 0x0A]))"

text \<open>The last part of the handler: drop the credential and call the proxy.\<close>

definition forward_upstream :: "'s Handler \<Rightarrow> Route \<Rightarrow> echo_ctx \<Rightarrow> 's \<Rightarrow> echo_ctx \<times> 's" where
  "forward_upstream h route c s =
     (let req = (ex_Request c)\<lparr>rq_Header := header_Del (rq_Header (ex_Request c)) apiKeyHeader\<rparr> in
      case h_proxy h req route (ex_Response c) s of
        (w, s1) \<Rightarrow> (c\<lparr>ex_Request := req, ex_Response := w,
                      ex_Upstream := ex_Upstream c @ [(req, route)]\<rparr>, s1))"

definition proxyRequest :: "'s Handler \<Rightarrow> echo_ctx \<Rightarrow> 's \<Rightarrow> echo_ctx \<times> 's" where
  "proxyRequest h c s =
     (let req = ex_Request c; u = h_usecase h in
      case ResolveRoute u (rq_Path req) s of
        (Inl err, s1) \<Rightarrow>
          (if errors_is err ErrRouteNotFound
           then (echo_String 404 (''route not found'' @ [CHR 0x0A]) c, s1)
           else (echo_String 500 (''internal error'' @ [CHR 0x0A]) c, s1))
      | (Inr route, s1) \<Rightarrow>
          (let c1 = setAccessEventRoute route c in
           case AuthorizeRoute u route (header_Get (rq_Header req) apiKeyHeader) s1 of
             (Inl err, s2) \<Rightarrow>
               (case auth_failure_response err of (code, body) \<Rightarrow> (echo_String code body c1, s2))
           | (Inr prin, s2) \<Rightarrow>
               (let c2 = (if pr_APIKeyID prin \<noteq> '''' then setAccessEventAPIKey (pr_APIKeyID prin) c1 else c1);
                    clientID = rateLimitClientID req route prin in
                case CheckRateLimit u route clientID s2 of
                  (Inl err, s3) \<Rightarrow>
                    (if errors_is err ErrInvalidRateLimitPolicy \<or> errors_is err ErrInvalidRateLimitClient
                     then (echo_String 500 (''internal error'' @ [CHR 0x0A]) c2, s3)
                     else forward_upstream h route c2 s3)
                | (Inr result, s3) \<Rightarrow>
                    (if rl_Enabled result then
                       (let w = ex_Response c2;
                            c3 = c2\<lparr>ex_Response := writer_setHeader (setRateLimitHeaders result (writer_Header w)) w\<rparr> in
                        if \<not> rl_Allowed result
                        then (echo_String 429 (''rate limit exceeded'' @ [CHR 0x0A])
                                (setAccessEventRateLimited c3), s3)
                        else forward_upstream h route c3 s3)
                     else forward_upstream h route c2 s3))))"

definition health :: "echo_ctx \<Rightarrow> (int \<times> (string \<times> string) list)" where
  "health c = (200, [(''status'', ''ok''), (''service'', ''gateway'')])"

section \<open>Middlewares\<close>

text \<open>A handler returns its error, the context and the state.\<close>

type_synonym 's handler_func = "echo_ctx \<Rightarrow> 's \<Rightarrow> gw_err option \<times> echo_ctx \<times> 's"

text \<open>Randomness and the clock: \<open>rand.Read\<close> gives the requested number of bytes or fails.\<close>

record 's sys_env =
  se_RandRead :: "nat \<Rightarrow> 's \<Rightarrow> string option \<times> 's"
  se_Now :: "'s \<Rightarrow> Time"

fun digits36 :: "nat \<Rightarrow> string" where
  "digits36 n =
     (let d = (\<lambda>k. if k < 10 then char_of (48 + k) else char_of (87 + k :: nat)) in
      if n < 36 then [d n] else digits36 (n div 36) @ [d (n mod 36)])"

declare digits36.simps [simp del]

definition FormatInt36 :: "int \<Rightarrow> string" where
  "FormatInt36 z = (if z < 0 then CHR ''-'' # digits36 (nat (- z)) else digits36 (nat z))"

definition UnixNano :: "Time \<Rightarrow> int" where
  "UnixNano t = wrap64 (t - unix_epoch)"

definition newRequestID :: "'s sys_env \<Rightarrow> 's \<Rightarrow> string \<times> 's" where
  "newRequestID env s =
     (case se_RandRead env 16 s of
        (None, s1) \<Rightarrow> (FormatInt36 (UnixNano (se_Now env s1)), s1)
      | (Some buffer, s1) \<Rightarrow> (hex_EncodeToString buffer, s1))"

definition newAccessEventID :: "'s sys_env \<Rightarrow> 's \<Rightarrow> string \<times> 's" where
  "newAccessEventID env s =
     (case se_RandRead env 16 s of
        (None, s1) \<Rightarrow> (FormatInt36 (UnixNano (se_Now env s1)), s1)
      | (Some buffer, s1) \<Rightarrow> (hex_EncodeToString buffer, s1))"

definition requestIDHeader :: string where
  "requestIDHeader = ''X-Request-ID''"

definition mw_RequestID :: "'s sys_env \<Rightarrow> 's handler_func \<Rightarrow> 's handler_func" where
  "mw_RequestID env nxt c s =
     (case (if header_Get (rq_Header (ex_Request c)) requestIDHeader = '''' then newRequestID env s
            else (header_Get (rq_Header (ex_Request c)) requestIDHeader, s)) of
        (requestID, s1) \<Rightarrow>
          nxt (c\<lparr>ex_Request := (ex_Request c)\<lparr>rq_Header :=
                    header_Set (rq_Header (ex_Request c)) requestIDHeader requestID\<rparr>,
                 ex_Response := writer_setHeader
                    (header_Set (writer_Header (ex_Response c)) requestIDHeader requestID)
                    (ex_Response c)\<rparr>) s1)"

definition isObservabilityEndpoint :: "string \<Rightarrow> bool" where
  "isObservabilityEndpoint path \<longleftrightarrow> path = ''/health'' \<or> path = ''/ready'' \<or> path = ''/metrics''"

definition accessEventClient :: "(string \<Rightarrow> string) \<Rightarrow> string \<Rightarrow> string \<Rightarrow> string \<times> string" where
  "accessEventClient sha256 clientIP apiKeyID =
     (if apiKeyID \<noteq> '''' then (ClientTypeAPIKey, apiKeyID)
      else (ClientTypeIP, hex_EncodeToString (sha256 clientIP)))"

text \<open>Leaving a middleware puts the original writer back: the recorder on top is dropped.\<close>

definition pop_recorder :: "writer \<Rightarrow> writer" where
  "pop_recorder w = (tl (fst w), snd w)"

definition mw_AccessEvents ::
  "(string \<Rightarrow> string) \<Rightarrow> 's sys_env \<Rightarrow> (GatewayAccessEvent \<Rightarrow> 's \<Rightarrow> gw_err option \<times> 's) \<Rightarrow>
   's handler_func \<Rightarrow> 's handler_func" where
  "mw_AccessEvents sha256 env publish nxt c s =
     (if isObservabilityEndpoint (rq_Path (ex_Request c)) then nxt c s
      else
        let start = se_Now env s in
        case nxt (c\<lparr>ex_Response := newResponseRecorder (ex_Response c)\<rparr>) s of (err, c1, s1) \<Rightarrow>
        let completedAt = se_Now env s1;
            metadata = getAccessEventMetadata c1;
            req = ex_Request c1 in
        case accessEventClient sha256 (directClientIP req) (md_apiKeyID metadata) of (clientType, clientID) \<Rightarrow>
        case (if header_Get (rq_Header req) requestIDHeader = ''''
              then (case newRequestID env s1 of (rid, s2) \<Rightarrow>
                      (rid, req\<lparr>rq_Header := header_Set (rq_Header req) requestIDHeader rid\<rparr>, s2))
              else (header_Get (rq_Header req) requestIDHeader, req, s1)) of (requestID, req1, s2) \<Rightarrow>
        case newAccessEventID env s2 of (eventID, s3) \<Rightarrow>
        let event = \<lparr>ev_SchemaVersion = GatewayAccessEventSchemaVersion,
                     ev_EventID = eventID,
                     ev_OccurredAt = completedAt,
                     ev_RequestID = requestID,
                     ev_ProjectID = md_projectID metadata,
                     ev_RouteName = md_routeName metadata,
                     ev_RoutePathPrefix = md_routePathPrefix metadata,
                     ev_Method = rq_Method req1,
                     ev_RequestPath = rq_Path req1,
                     ev_StatusCode = rec_status (hd (fst (ex_Response c1))),
                     ev_DurationMS = dur_Milliseconds (time_Sub (se_Now env s3) start),
                     ev_ResponseBytes = rec_bytes (hd (fst (ex_Response c1))),
                     ev_ClientType = clientType,
                     ev_ClientID = clientID,
                     ev_AuthRequired = md_authRequired metadata,
                     ev_RateLimitEnabled = md_rateLimitEnabled metadata,
                     ev_RateLimited = md_rateLimited metadata\<rparr> in
        case publish event s3 of (publishErr, s4) \<Rightarrow>
          (err, c1\<lparr>ex_Request := req1, ex_Response := pop_recorder (ex_Response c1)\<rparr>, s4))"

text \<open>The logging middleware without its log line: it installs and removes a recorder.\<close>

definition mw_Logging :: "'s handler_func \<Rightarrow> 's handler_func" where
  "mw_Logging nxt c s =
     (if isObservabilityEndpoint (rq_Path (ex_Request c)) then nxt c s
      else
        case nxt (c\<lparr>ex_Response := newResponseRecorder (ex_Response c)\<rparr>) s of (err, c1, s1) \<Rightarrow>
          (err, c1\<lparr>ex_Response := pop_recorder (ex_Response c1)\<rparr>, s1))"

text \<open>The gateway's own middlewares around the handler, in the order \<open>app.go\<close> installs them.\<close>

definition gateway_chain ::
  "(string \<Rightarrow> string) \<Rightarrow> 's sys_env \<Rightarrow> 's Handler \<Rightarrow> 's handler_func" where
  "gateway_chain sha256 env h =
     mw_RequestID env (mw_AccessEvents sha256 env (PublishAccessEvent (h_usecase h))
       (mw_Logging (\<lambda>c s. case proxyRequest h c s of (c1, s1) \<Rightarrow> (None, c1, s1))))"

section \<open>Lemmas\<close>

text \<open>Joining an upstream base path with an absolute path leaves exactly one slash between them.\<close>

lemma joinPaths_absolute:
  assumes "HasPrefix b ''/''"
  shows "joinPaths a b = (if HasSuffix a ''/'' then butlast a else a) @ b"
proof -
  from assms obtain b' where b: "b = ''/'' @ b'" by (auto simp: HasPrefix_def prefix_def)
  show ?thesis
  proof (cases "HasSuffix a ''/''")
    case True
    then obtain a' where "a = a' @ ''/''" by (auto simp: HasSuffix_def suffix_def)
    with b show ?thesis by (simp add: joinPaths_def HasSuffix_def HasPrefix_def)
  next
    case False
    with b show ?thesis by (auto simp: joinPaths_def HasSuffix_def HasPrefix_def)
  qed
qed

lemma echo_String_upstream [simp]: "ex_Upstream (echo_String code body c) = ex_Upstream c"
  by (simp add: echo_String_def Let_def)

lemma metadata_upstream [simp]:
  "ex_Upstream (setAccessEventRoute r c) = ex_Upstream c"
  "ex_Upstream (setAccessEventAPIKey k c) = ex_Upstream c"
  "ex_Upstream (setAccessEventRateLimited c) = ex_Upstream c"
  "ex_Request (setAccessEventRoute r c) = ex_Request c"
  "ex_Request (setAccessEventAPIKey k c) = ex_Request c"
  "ex_Response (setAccessEventRoute r c) = ex_Response c"
  "ex_Response (setAccessEventAPIKey k c) = ex_Response c"
  "ex_Response (setAccessEventRateLimited c) = ex_Response c"
  by (simp_all add: setAccessEventRoute_def setAccessEventAPIKey_def setAccessEventRateLimited_def)

lemma forward_upstream_calls:
  "ex_Upstream (fst (forward_upstream h route c s)) = ex_Upstream c @
     [((ex_Request c)\<lparr>rq_Header := header_Del (rq_Header (ex_Request c)) apiKeyHeader\<rparr>, route)]"
  by (simp add: forward_upstream_def Let_def split: prod.split)

text \<open>The outcomes of authorisation that let a request pass.\<close>

lemma AuthorizeRoute_Inr:
  assumes "AuthorizeRoute u route key s = (Inr prin, s1)"
  shows "if rt_AuthRequired route
         then TrimSpace key \<noteq> '''' \<and>
              (\<exists>validate. uc_apiKeyValidator u = Some validate \<and> validate key s = (Inr prin, s1)) \<and>
              pr_ProjectID prin = rt_ProjectID route
         else prin = zero_Principal \<and> s1 = s"
  using assms
  by (auto simp: AuthorizeRoute_def split: if_splits option.splits prod.splits sum.splits)

text \<open>When the proxy is called, and with what.\<close>

lemma proxyRequest_calls:
  assumes "ex_Upstream (fst (proxyRequest h c s)) \<noteq> ex_Upstream c"
  obtains route s1 prin s2 res s3 where
    "ResolveRoute (h_usecase h) (rq_Path (ex_Request c)) s = (Inr route, s1)"
    "AuthorizeRoute (h_usecase h) route (header_Get (rq_Header (ex_Request c)) apiKeyHeader) s1 = (Inr prin, s2)"
    "CheckRateLimit (h_usecase h) route (rateLimitClientID (ex_Request c) route prin) s2 = (res, s3)"
    "case res of Inr d \<Rightarrow> rl_Enabled d \<longrightarrow> rl_Allowed d
              | Inl e \<Rightarrow> \<not> errors_is e ErrInvalidRateLimitPolicy \<and> \<not> errors_is e ErrInvalidRateLimitClient"
    "ex_Upstream (fst (proxyRequest h c s)) = ex_Upstream c @
       [((ex_Request c)\<lparr>rq_Header := header_Del (rq_Header (ex_Request c)) apiKeyHeader\<rparr>, route)]"
proof -
  obtain rr s1 where r: "ResolveRoute (h_usecase h) (rq_Path (ex_Request c)) s = (rr, s1)" by fastforce
  from assms r obtain route where route: "rr = Inr route"
    by (cases rr) (auto simp: proxyRequest_def Let_def split: if_splits)
  obtain ar s2 where a: "AuthorizeRoute (h_usecase h) route
      (header_Get (rq_Header (ex_Request c)) apiKeyHeader) s1 = (ar, s2)" by fastforce
  from assms r route a obtain prin where prin: "ar = Inr prin"
    by (cases ar) (auto simp: proxyRequest_def Let_def split: prod.splits)
  obtain res s3 where k: "CheckRateLimit (h_usecase h) route
      (rateLimitClientID (ex_Request c) route prin) s2 = (res, s3)" by fastforce
  show ?thesis
  proof (rule that [OF r [unfolded route] a [unfolded prin] k])
    show "case res of Inr d \<Rightarrow> rl_Enabled d \<longrightarrow> rl_Allowed d
        | Inl e \<Rightarrow> \<not> errors_is e ErrInvalidRateLimitPolicy \<and> \<not> errors_is e ErrInvalidRateLimitClient"
      using assms r route a prin k
      by (cases res) (auto simp: proxyRequest_def Let_def split: if_splits)
    show "ex_Upstream (fst (proxyRequest h c s)) = ex_Upstream c @
       [((ex_Request c)\<lparr>rq_Header := header_Del (rq_Header (ex_Request c)) apiKeyHeader\<rparr>, route)]"
      using assms r route a prin k
      by (cases res) (auto simp: proxyRequest_def Let_def forward_upstream_calls split: if_splits)
  qed
qed

section \<open>Properties\<close>

text \<open>The gateway's handler over the in-memory repository, the auth client and the Redis limiter.\<close>

definition gateway_handler ::
  "('a RouteRepository_scheme \<Rightarrow> (gw_err + Route list) \<times> 'a RouteRepository_scheme) option \<Rightarrow>
   'a RouteRepository_scheme auth_env \<Rightarrow> AuthClient \<Rightarrow> (string \<Rightarrow> string) \<Rightarrow>
   'a RouteRepository_scheme Limiter \<Rightarrow>
   (HttpRequest \<Rightarrow> Route \<Rightarrow> writer \<Rightarrow> 'a RouteRepository_scheme \<Rightarrow> writer \<times> 'a RouteRepository_scheme) \<Rightarrow>
   'a RouteRepository_scheme Handler" where
  "gateway_handler source aenv ac sha l proxy =
     \<lparr>h_usecase = memory_usecase source (Some (client_ValidateAPIKey aenv ac)) (Some (Allow sha l)) None,
      h_proxy = proxy\<rparr>"

lemma gateway_handler_sel [simp]:
  "h_usecase (gateway_handler source aenv ac sha l proxy) =
     memory_usecase source (Some (client_ValidateAPIKey aenv ac)) (Some (Allow sha l)) None"
  "h_proxy (gateway_handler source aenv ac sha l proxy) = proxy"
  by (simp_all add: gateway_handler_def)

text \<open>C1. A request reaches the upstream proxy only on a route of the snapshot that matches its
  path; if the route requires authentication, the auth service has answered 200 to a validation
  request carrying the request's API key, and the key's project is the route's; and the forwarded
  request has no API-key header, all its other headers being those of the incoming request.\<close>

theorem upstream_only_authorized:
  assumes "(req, route) \<in> set (ex_Upstream (fst
             (proxyRequest (gateway_handler source aenv ac sha l proxy) c s)))"
    and "ex_Upstream c = []"
  shows "route \<in> set (rr_routes s) \<and> Matches route (rq_Path (ex_Request c)) \<and>
    (rt_AuthRequired route \<longrightarrow>
       (\<exists>rq res s1. ae_Do aenv (ac_Timeout ac) rq s = (Inr res, s1) \<and> res_StatusCode res = 200 \<and>
          (''X-API-Key'', header_Get (rq_Header (ex_Request c)) ''X-API-Key'') \<in> set (req_Headers rq)) \<and>
       (\<exists>prin s1. client_ValidateAPIKey aenv ac (header_Get (rq_Header (ex_Request c)) ''X-API-Key'') s =
          (Inr prin, s1) \<and> pr_ProjectID prin = rt_ProjectID route)) \<and>
    rq_Header req (CanonicalHeaderKey ''X-API-Key'') = [] \<and>
    (\<forall>k. k \<noteq> CanonicalHeaderKey ''X-API-Key'' \<longrightarrow> rq_Header req k = rq_Header (ex_Request c) k) \<and>
    rq_Path req = rq_Path (ex_Request c) \<and> rq_Method req = rq_Method (ex_Request c)"
proof -
  let ?h = "gateway_handler source aenv ac sha l proxy"
  let ?u = "memory_usecase source (Some (client_ValidateAPIKey aenv ac)) (Some (Allow sha l)) None"
  let ?key = "header_Get (rq_Header (ex_Request c)) apiKeyHeader"
  have "ex_Upstream (fst (proxyRequest ?h c s)) \<noteq> ex_Upstream c" using assms by auto
  then obtain rt s1 prin s2 res s3 where
    r: "ResolveRoute ?u (rq_Path (ex_Request c)) s = (Inr rt, s1)" and
    a: "AuthorizeRoute ?u rt ?key s1 = (Inr prin, s2)" and
    "CheckRateLimit ?u rt (rateLimitClientID (ex_Request c) rt prin) s2 = (res, s3)" and
    calls: "ex_Upstream (fst (proxyRequest ?h c s)) = ex_Upstream c @
       [((ex_Request c)\<lparr>rq_Header := header_Del (rq_Header (ex_Request c)) apiKeyHeader\<rparr>, rt)]"
    by (rule proxyRequest_calls [of ?h, unfolded gateway_handler_sel])
  from calls assms have eqs: "route = rt"
    "req = (ex_Request c)\<lparr>rq_Header := header_Del (rq_Header (ex_Request c)) apiKeyHeader\<rparr>" by auto
  have "s1 = s" using memory_repository.resolve_state [where path = "rq_Path (ex_Request c)" and s = s
        and source = source and validator = "Some (client_ValidateAPIKey aenv ac)"
        and limiter = "Some (Allow sha l)" and publisher = None] r by simp
  moreover have "best_match (rq_Path (ex_Request c)) (rr_routes s) rt"
    by (rule memory_repository.resolve_found [where source = source and publisher = None
        and validator = "Some (client_ValidateAPIKey aenv ac)" and limiter = "Some (Allow sha l)"])
       (simp add: r)
  moreover note AuthorizeRoute_Inr [OF a]
  ultimately show ?thesis
    using eqs client_ValidateAPIKey_Inr(2) [of aenv ac ?key s prin s2]
    by (auto simp: header_Del_def apiKeyHeader_def dest: best_match_Matches)
qed

text \<open>C27. Rate limiting fails open: when Redis cannot be reached, an authorised request on a route
  with a valid policy is forwarded upstream all the same.\<close>

theorem redis_outage_forwards:
  assumes "ResolveRoute (memory_usecase source (Some (client_ValidateAPIKey aenv ac)) (Some (Allow sha l)) None)
             (rq_Path (ex_Request c)) s = (Inr route, s)"
    and "AuthorizeRoute (memory_usecase source (Some (client_ValidateAPIKey aenv ac)) (Some (Allow sha l)) None)
             route (header_Get (rq_Header (ex_Request c)) ''X-API-Key'') s = (Inr prin, s1)"
    and "pol_Enabled (rt_RateLimit route) \<Longrightarrow>
           0 < pol_Limit (rt_RateLimit route) \<and> Millisecond \<le> pol_Window (rt_RateLimit route)"
    and "TrimSpace (route_key route) \<noteq> ''''"
    and "\<And>k a s'. \<exists>err s''. lim_evaluator l k a s' = (Inl err, s'') \<and>
           \<not> errors_is err ErrInvalidRateLimitPolicy \<and> \<not> errors_is err ErrInvalidRateLimitClient"
    and "TrimSpace (rateLimitClientID (ex_Request c) route prin) \<noteq> ''''"
  shows "ex_Upstream (fst (proxyRequest (gateway_handler source aenv ac sha l proxy) c s)) =
    ex_Upstream c @
      [((ex_Request c)\<lparr>rq_Header := header_Del (rq_Header (ex_Request c)) ''X-API-Key''\<rparr>, route)]"
proof -
  let ?u = "memory_usecase source (Some (client_ValidateAPIKey aenv ac)) (Some (Allow sha l)) None"
  let ?id = "rateLimitClientID (ex_Request c) route prin"
  have check: "case CheckRateLimit ?u route ?id s1 of
      (Inl e, s2) \<Rightarrow> \<not> errors_is e ErrInvalidRateLimitPolicy \<and> \<not> errors_is e ErrInvalidRateLimitClient
    | (Inr d, s2) \<Rightarrow> \<not> rl_Enabled d"
  proof (cases "pol_Enabled (rt_RateLimit route)")
    case True
    with assms(3) have pol: "0 < pol_Limit (rt_RateLimit route)" "Millisecond \<le> pol_Window (rt_RateLimit route)"
      by auto
    then have w: "0 < pol_Window (rt_RateLimit route)" "0 < dur_Milliseconds (pol_Window (rt_RateLimit route))"
      by (auto simp: Millisecond_def dur_Milliseconds_def)
    obtain e s2 where "Allow sha l \<lparr>rlr_RouteKey = route_key route, rlr_ClientID = TrimSpace ?id,
        rlr_Policy = rt_RateLimit route\<rparr> s1 = (Inl (Errorf ''execute redis rate limit script: %w'' [e]), s2)"
      and "\<not> errors_is e ErrInvalidRateLimitPolicy" "\<not> errors_is e ErrInvalidRateLimitClient"
      using Allow_evaluator_error [where sha = sha and l = l and s = s1
          and rq = "\<lparr>rlr_RouteKey = route_key route, rlr_ClientID = TrimSpace ?id,
                      rlr_Policy = rt_RateLimit route\<rparr>"
          and P = "\<lambda>e. \<not> errors_is e ErrInvalidRateLimitPolicy \<and> \<not> errors_is e ErrInvalidRateLimitClient"]
        pol w assms(4,6) assms(5) [of _ _ s1] by auto
    with True pol w assms(6) show ?thesis by (simp add: CheckRateLimit_def)
  qed (simp add: CheckRateLimit_def unlimited_result_def)
  obtain r s2 where eq: "CheckRateLimit ?u route ?id s1 = (r, s2)" by fastforce
  from assms(1,2) check eq show ?thesis
    by (cases r) (auto simp: proxyRequest_def Let_def apiKeyHeader_def forward_upstream_calls
        [unfolded apiKeyHeader_def])
qed

text \<open>A concrete gateway: one protected and limited route, an auth service that knows one key, and a
  Redis that cannot be reached.\<close>

definition demo_route :: Route where
  "demo_route = \<lparr>rt_ProjectID = ''p1'', rt_Name = ''orders'', rt_PathPrefix = ''/a'',
     rt_UpstreamURL = ''http://orders:8081'', rt_StripPrefix = True, rt_Timeout = 1000000000,
     rt_AuthRequired = True,
     rt_RateLimit = \<lparr>pol_Enabled = True, pol_Limit = 2, pol_Window = 1000000000\<rparr>\<rparr>"

definition demo_auth_env :: "RouteRepository auth_env" where
  "demo_auth_env =
     \<lparr>ae_NewRequest = (\<lambda>_ _. None),
      ae_Do = (\<lambda>_ _ s. (Inr \<lparr>res_StatusCode = 200, res_Body = ''{}'', res_ReadErr = None\<rparr>, s)),
      ae_Decode = (\<lambda>_ _. Inr (\<lparr>var_APIKeyID = ''k1'', var_ProjectID = ''p1''\<rparr>, '''')),
      ae_DecodeNext = (\<lambda>_ _. JsonEOF)\<rparr>"

definition demo_auth_client :: AuthClient where
  "demo_auth_client = \<lparr>ac_validateURL = ''http://auth/validate'', ac_Timeout = 3000000000\<rparr>"

definition demo_limiter :: "RouteRepository Limiter" where
  "demo_limiter =
     \<lparr>lim_evaluator = (\<lambda>_ _ s. (Inl (Sentinel (GwExternal ''dial tcp'')), s)),
      lim_keyPrefix = ''p'', lim_now = (\<lambda>_. unix_epoch), lim_Ping = (\<lambda>_. None), lim_Close = (\<lambda>s. (None, s))\<rparr>"

definition demo_ctx :: echo_ctx where
  "demo_ctx =
     \<lparr>ex_Request = \<lparr>rq_Method = ''GET'', rq_Path = ''/a/1'', rq_RawQuery = '''', rq_Host = ''gw'',
        rq_Header = (\<lambda>k. if k = ''X-Api-Key'' then [''eg_live_x''] else []),
        rq_RemoteAddr = ''10.0.0.1:5000'', rq_TLS = False\<rparr>,
      ex_Response = ([], fresh_base), ex_Metadata = None, ex_Upstream = []\<rparr>"

definition demo_handler :: "RouteRepository Handler" where
  "demo_handler = gateway_handler None demo_auth_env demo_auth_client (\<lambda>x. x) demo_limiter (\<lambda>_ _ w s. (w, s))"

lemma canonical_api_key: "CanonicalHeaderKey ''X-API-Key'' = ''X-Api-Key''"
  by code_simp

lemma demo_trims:
  "TrimSpace ''k1'' = ''k1''" "TrimSpace ''p1'' = ''p1''" "TrimSpace ''eg_live_x'' = ''eg_live_x''"
  "TrimSpace ''api-key:k1'' = ''api-key:k1''" "TrimSpace (route_key demo_route) \<noteq> ''''"
  by (simp_all add: TrimSpace_visible visible_ascii_def route_key_def demo_route_def)

lemma demo_resolve:
  "ResolveRoute (memory_usecase src v l p) ''/a/1'' \<lparr>rr_routes = [demo_route]\<rparr> =
     (Inr demo_route, \<lparr>rr_routes = [demo_route]\<rparr>)"
  by (simp add: ResolveRoute_def memory_ListRoutes_def resolve_loop_def resolve_step_def Matches_def
      demo_route_def TrimRightByte_def HasPrefix_def)

lemma demo_validate:
  "client_ValidateAPIKey demo_auth_env demo_auth_client key s =
     (Inr \<lparr>pr_APIKeyID = ''k1'', pr_ProjectID = ''p1''\<rparr>, s)"
  by (simp add: client_ValidateAPIKey_def demo_auth_env_def demo_trims auth_ensureJSONEOF_def)

lemma demo_key: "header_Get (rq_Header (ex_Request demo_ctx)) ''X-API-Key'' = ''eg_live_x''"
  by (simp add: header_Get_def canonical_api_key demo_ctx_def)

lemma demo_authorize:
  "AuthorizeRoute (memory_usecase src (Some (client_ValidateAPIKey demo_auth_env demo_auth_client)) l p)
     demo_route ''eg_live_x'' s = (Inr \<lparr>pr_APIKeyID = ''k1'', pr_ProjectID = ''p1''\<rparr>, s)"
  by (simp add: AuthorizeRoute_def demo_validate demo_trims) (simp add: demo_route_def)

lemma demo_client_id:
  "rateLimitClientID (ex_Request demo_ctx) demo_route \<lparr>pr_APIKeyID = ''k1'', pr_ProjectID = ''p1''\<rparr> = ''api-key:k1''"
  by (simp add: rateLimitClientID_def demo_trims) (simp add: demo_route_def)

theorem redis_outage_forwards_witness:
  "length (ex_Upstream (fst (proxyRequest demo_handler demo_ctx \<lparr>rr_routes = [demo_route]\<rparr>))) = 1"
proof -
  have path: "rq_Path (ex_Request demo_ctx) = ''/a/1''" by (simp add: demo_ctx_def)
  have "ex_Upstream (fst (proxyRequest demo_handler demo_ctx \<lparr>rr_routes = [demo_route]\<rparr>)) =
    ex_Upstream demo_ctx @
      [((ex_Request demo_ctx)\<lparr>rq_Header := header_Del (rq_Header (ex_Request demo_ctx)) ''X-API-Key''\<rparr>, demo_route)]"
    unfolding demo_handler_def
  proof (rule redis_outage_forwards)
    show "ResolveRoute (memory_usecase None (Some (client_ValidateAPIKey demo_auth_env demo_auth_client))
        (Some (Allow (\<lambda>x. x) demo_limiter)) None) (rq_Path (ex_Request demo_ctx)) \<lparr>rr_routes = [demo_route]\<rparr> =
        (Inr demo_route, \<lparr>rr_routes = [demo_route]\<rparr>)"
      by (simp add: path demo_resolve)
    show "AuthorizeRoute (memory_usecase None (Some (client_ValidateAPIKey demo_auth_env demo_auth_client))
        (Some (Allow (\<lambda>x. x) demo_limiter)) None) demo_route
        (header_Get (rq_Header (ex_Request demo_ctx)) ''X-API-Key'') \<lparr>rr_routes = [demo_route]\<rparr> =
        (Inr \<lparr>pr_APIKeyID = ''k1'', pr_ProjectID = ''p1''\<rparr>, \<lparr>rr_routes = [demo_route]\<rparr>)"
      by (simp add: demo_key demo_authorize)
    show "TrimSpace (rateLimitClientID (ex_Request demo_ctx) demo_route
        \<lparr>pr_APIKeyID = ''k1'', pr_ProjectID = ''p1''\<rparr>) \<noteq> []"
      by (simp add: demo_client_id demo_trims)
  qed (simp_all add: demo_limiter_def demo_trims, simp add: demo_route_def Millisecond_def)
  then show ?thesis by (simp add: demo_ctx_def)
qed

lemma demo_upstream:
  "ex_Upstream (fst (proxyRequest demo_handler demo_ctx \<lparr>rr_routes = [demo_route]\<rparr>)) =
     [((ex_Request demo_ctx)\<lparr>rq_Header := header_Del (rq_Header (ex_Request demo_ctx)) ''X-API-Key''\<rparr>, demo_route)]"
proof -
  have path: "rq_Path (ex_Request demo_ctx) = ''/a/1''" by (simp add: demo_ctx_def)
  have "\<exists>e s'. CheckRateLimit (h_usecase demo_handler) demo_route ''api-key:k1'' \<lparr>rr_routes = [demo_route]\<rparr> =
      (Inl (Errorf ''execute redis rate limit script: %w'' [e]), s') \<and> e = Sentinel (GwExternal ''dial tcp'')"
    using Allow_evaluator_error [where P = "\<lambda>e. e = Sentinel (GwExternal ''dial tcp'')" and l = demo_limiter
        and rq = "\<lparr>rlr_RouteKey = route_key demo_route, rlr_ClientID = ''api-key:k1'',
                   rlr_Policy = rt_RateLimit demo_route\<rparr>"
        and s = "\<lparr>rr_routes = [demo_route]\<rparr>" and sha = "\<lambda>x. x"] demo_trims
    by (simp add: CheckRateLimit_def demo_handler_def demo_limiter_def demo_route_def dur_Milliseconds_def)
  then show ?thesis
    by (auto simp: proxyRequest_def Let_def path demo_handler_def demo_resolve apiKeyHeader_def demo_key
        demo_authorize demo_client_id forward_upstream_calls [unfolded apiKeyHeader_def])
       (simp add: demo_ctx_def)
qed

theorem upstream_only_authorized_witness:
  "rq_Header (fst (hd (ex_Upstream (fst (proxyRequest demo_handler demo_ctx \<lparr>rr_routes = [demo_route]\<rparr>)))))
     (CanonicalHeaderKey ''X-API-Key'') = []"
proof -
  let ?req = "(ex_Request demo_ctx)\<lparr>rq_Header := header_Del (rq_Header (ex_Request demo_ctx)) ''X-API-Key''\<rparr>"
  have "(?req, demo_route) \<in> set (ex_Upstream (fst (proxyRequest
      (gateway_handler None demo_auth_env demo_auth_client (\<lambda>x. x) demo_limiter (\<lambda>_ _ w s. (w, s)))
      demo_ctx \<lparr>rr_routes = [demo_route]\<rparr>)))"
    using demo_upstream by (simp add: demo_handler_def)
  from upstream_only_authorized [OF this] show ?thesis
    by (simp add: demo_upstream) (simp add: demo_ctx_def)
qed

section \<open>Responses and events\<close>

lemma base_header_same [simp]:
  "rw_Header (base_WriteHeader code b) = rw_Header b" "rw_Header (base_Write d b) = rw_Header b"
  by (simp_all add: base_WriteHeader_def base_Write_def Let_def)

lemma writer_header_WriteHeader [simp]: "writer_Header (writer_WriteHeader code w) = writer_Header w"
  by (induction code w rule: writer_WriteHeader.induct) (auto simp: writer_Header_def split: prod.splits)

lemma writer_header_Write [simp]: "writer_Header (writer_Write d w) = writer_Header w"
proof (induction d w rule: writer_Write.induct)
  case (3 data st n wrote rs b)
  obtain rs1 b1 where w: "writer_WriteHeader 200 (rs, b) = (rs1, b1)" by fastforce
  with writer_header_WriteHeader [of 200 "(rs, b)"] have "rw_Header b1 = rw_Header b"
    by (simp add: writer_Header_def)
  with 3 w show ?case by (auto simp: writer_Header_def split: prod.splits)
qed (auto simp: writer_Header_def split: prod.splits)

lemma writer_header_set [simp]: "writer_Header (writer_setHeader h w) = h"
  by (simp add: writer_setHeader_def writer_Header_def)

definition fresh_writer :: "writer \<Rightarrow> bool" where
  "fresh_writer w \<longleftrightarrow> list_all fresh_rec (fst w) \<and> rw_Status (snd w) = None"

lemma fresh_writer_setHeader [simp]: "fresh_writer (writer_setHeader h w) = fresh_writer w"
  by (simp add: fresh_writer_def writer_setHeader_def)

lemma write_fresh_status:
  assumes "fresh_writer w" and "final_code code"
  shows "sent_status (writer_Write body (writer_WriteHeader code w)) = code"
proof -
  obtain rs b where w: "w = (rs, b)" by fastforce
  obtain rs1 b1 where h: "writer_WriteHeader code (rs, b) = (rs1, b1)" by fastforce
  from WriteHeader_fresh [OF assms(2) _ _ h] assms(1) w
  have "list_all (rec_saw code 0) rs1" "rw_Status b1 = Some code" by (auto simp: fresh_writer_def)
  moreover have "code \<noteq> 0" using assms(2) by (simp add: final_code_def)
  moreover obtain rs2 b2 where "writer_Write body (rs1, b1) = (rs2, b2)" by fastforce
  ultimately show ?thesis using Write_seen [of code 0 rs1 b1 body rs2 b2] h w
    by (simp add: sent_status_def)
qed

lemma echo_String_sent:
  "fresh_writer (ex_Response c) \<Longrightarrow> final_code code \<Longrightarrow>
     sent_status (ex_Response (echo_String code body c)) = code"
  by (simp add: echo_String_def Let_def write_fresh_status)

lemma echo_String_header:
  "writer_Header (ex_Response (echo_String code body c)) =
     header_Set (writer_Header (ex_Response c)) ''Content-Type'' ''text/plain; charset=UTF-8''"
  by (simp add: echo_String_def Let_def)

lemma canonical_limit_headers:
  "CanonicalHeaderKey ''X-RateLimit-Limit'' = ''X-Ratelimit-Limit''"
  "CanonicalHeaderKey ''X-RateLimit-Remaining'' = ''X-Ratelimit-Remaining''"
  "CanonicalHeaderKey ''X-RateLimit-Reset'' = ''X-Ratelimit-Reset''"
  "CanonicalHeaderKey ''Retry-After'' = ''Retry-After''"
  "CanonicalHeaderKey ''Content-Type'' = ''Content-Type''"
  by code_simp+

lemma ceil_seconds_bounds:
  "d \<le> ceil_seconds d * 1000000000" "ceil_seconds d * 1000000000 < d + 1000000000"
  unfolding ceil_seconds_def by linarith+

text \<open>C29. A client over its limit receives 429 without the request being forwarded, with the limit,
  no remaining requests, and a \<open>Retry-After\<close> of at least one second that is the waiting time
  rounded up to seconds.\<close>

theorem rate_limited_response:
  assumes "ResolveRoute (h_usecase (gateway_handler source aenv ac sha l proxy)) (rq_Path (ex_Request c)) s =
             (Inr route, s1)"
    and "AuthorizeRoute (h_usecase (gateway_handler source aenv ac sha l proxy)) route
             (header_Get (rq_Header (ex_Request c)) ''X-API-Key'') s1 = (Inr prin, s2)"
    and "CheckRateLimit (h_usecase (gateway_handler source aenv ac sha l proxy)) route
             (rateLimitClientID (ex_Request c) route prin) s2 = (Inr res, s3)"
    and "\<not> rl_Allowed res" and "fresh_writer (ex_Response c)"
    and "proxyRequest (gateway_handler source aenv ac sha l proxy) c s = (c', s')"
  shows "sent_status (ex_Response c') = 429 \<and> ex_Upstream c' = ex_Upstream c \<and>
    header_Get (writer_Header (ex_Response c')) ''X-RateLimit-Limit'' = Itoa (pol_Limit (rt_RateLimit route)) \<and>
    header_Get (writer_Header (ex_Response c')) ''X-RateLimit-Remaining'' = ''0'' \<and>
    (\<exists>n\<ge>1. header_Get (writer_Header (ex_Response c')) ''Retry-After'' = Itoa n \<and>
       rl_RetryAfter res \<le> n * Second \<and> (n - 1) * Second < rl_RetryAfter res)"
proof -
  let ?u = "h_usecase (gateway_handler source aenv ac sha l proxy)"
  have lim: "uc_rateLimiter ?u = Some (Allow sha l)" by simp
  note rej = redis_limiter.check_rejected [OF lim assms(3,4)]
  have dec: "rl_Enabled res" "rl_Limit res = pol_Limit (rt_RateLimit route)" "Millisecond \<le> rl_RetryAfter res"
    using redis_limiter.check_decision [OF lim assms(3)] rej by auto
  define n where "n = ceil_seconds (rl_RetryAfter res)"
  have n: "1 \<le> n" "rl_RetryAfter res \<le> n * Second" "(n - 1) * Second < rl_RetryAfter res"
    using ceil_seconds_bounds [of "rl_RetryAfter res"] dec(3)
    by (simp_all add: n_def Second_def Millisecond_def)
  have z: "Itoa 0 = ''0''" by code_simp
  from assms(1-4,6) dec(1) have c': "c' = echo_String 429 (''rate limit exceeded'' @ [CHR 0x0A])
      (setAccessEventRateLimited (let c2 = (if pr_APIKeyID prin \<noteq> ''''
          then setAccessEventAPIKey (pr_APIKeyID prin) (setAccessEventRoute route c)
          else setAccessEventRoute route c) in
        c2\<lparr>ex_Response := writer_setHeader (setRateLimitHeaders res (writer_Header (ex_Response c2)))
             (ex_Response c2)\<rparr>))"
    by (auto simp: proxyRequest_def Let_def apiKeyHeader_def)
  have hdr: "writer_Header (ex_Response c') = header_Set (setRateLimitHeaders res
      (writer_Header (ex_Response c))) ''Content-Type'' ''text/plain; charset=UTF-8''"
    by (simp add: c' echo_String_header Let_def)
  have "sent_status (ex_Response c') = 429"
    using assms(5) by (simp add: c' Let_def echo_String_sent final_code_def)
  moreover have "ex_Upstream c' = ex_Upstream c" by (simp add: c' Let_def)
  moreover have "header_Get (writer_Header (ex_Response c')) ''Retry-After'' = Itoa n"
    using n(1) assms(4) by (simp add: hdr setRateLimitHeaders_def Let_def header_Get_def header_Set_def
        canonical_limit_headers n_def)
  ultimately show ?thesis
    using rej dec n z assms(4)
    by (auto simp: hdr setRateLimitHeaders_def Let_def header_Get_def header_Set_def canonical_limit_headers)
qed

definition full_limiter :: "RouteRepository Limiter" where
  "full_limiter = demo_limiter\<lparr>lim_evaluator := (\<lambda>_ _ s. (Inr (RArray [RInt64 3, RInt64 400]), s))\<rparr>"

lemma full_check:
  "CheckRateLimit (memory_usecase src v (Some (Allow sha full_limiter)) p) demo_route ''api-key:k1'' s =
     (Inr \<lparr>rl_Enabled = True, rl_Allowed = False, rl_Limit = 2, rl_Remaining = 0,
           rl_ResetAt = unix_epoch + 400000000, rl_RetryAfter = 400000000\<rparr>, s)"
  using demo_trims(4,5)
  by (simp add: CheckRateLimit_def Allow_def Let_def)
     (simp add: demo_route_def full_limiter_def demo_limiter_def dur_Milliseconds_def parseScriptResult_def
      integerValue_def time_Add_def maxDuration_def time_Sub_def int64_range_def Millisecond_def)

theorem rate_limited_response_witness:
  "sent_status (ex_Response (fst (proxyRequest
      (gateway_handler None demo_auth_env demo_auth_client (\<lambda>x. x) full_limiter (\<lambda>_ _ w s. (w, s)))
      demo_ctx \<lparr>rr_routes = [demo_route]\<rparr>))) = 429"
proof -
  let ?h = "gateway_handler None demo_auth_env demo_auth_client (\<lambda>x. x) full_limiter (\<lambda>_ _ w s. (w, s))"
  let ?s = "\<lparr>rr_routes = [demo_route]\<rparr>"
  have path: "rq_Path (ex_Request demo_ctx) = ''/a/1''" by (simp add: demo_ctx_def)
  obtain c' s' where run: "proxyRequest ?h demo_ctx ?s = (c', s')" by fastforce
  from rate_limited_response [OF _ _ _ _ _ run] path demo_resolve demo_key demo_authorize demo_client_id
    full_check
  show ?thesis by (simp add: run fresh_writer_def) (simp add: demo_ctx_def fresh_base_def)
qed

text \<open>Identifiers made of visible characters are never blank.\<close>

lemma visible_not_blank: "s \<noteq> [] \<Longrightarrow> list_all visible_ascii s \<Longrightarrow> TrimSpace s \<noteq> []"
  by (metis TrimSpace_visible hd_in_set last_in_set list_all_iff)

lemma hex_val_visible: "hex_val c \<noteq> None \<Longrightarrow> visible_ascii c"
  by (auto simp: hex_val_def visible_ascii_def Let_def split: if_splits)

lemma hex_not_blank: "bs \<noteq> [] \<Longrightarrow> TrimSpace (hex_EncodeToString bs) \<noteq> []"
  by (rule visible_not_blank)
     (auto simp: list_all_iff neq_Nil_conv intro!: hex_val_visible dest: hex_Encode_chars)

lemma visible_char_of: "33 \<le> k \<Longrightarrow> k \<le> 126 \<Longrightarrow> visible_ascii (char_of (k :: nat))"
  by (simp add: visible_ascii_def)

lemma digits36_visible: "digits36 n \<noteq> [] \<and> list_all visible_ascii (digits36 n)"
proof (induction n rule: digits36.induct)
  case (1 n)
  then show ?case
    by (subst (1 2) digits36.simps) (auto simp: Let_def visible_char_of)
qed

lemma FormatInt36_not_blank: "TrimSpace (FormatInt36 z) \<noteq> []"
  using digits36_visible [of "nat z"] digits36_visible [of "nat (- z)"]
  by (intro visible_not_blank) (auto simp: FormatInt36_def visible_ascii_def)

definition rand_ok :: "'s sys_env \<Rightarrow> bool" where
  "rand_ok env \<longleftrightarrow> (\<forall>n s buf s'. se_RandRead env n s = (Some buf, s') \<longrightarrow> length buf = n)"

lemma new_ids_not_blank:
  assumes "rand_ok env"
  shows "TrimSpace (fst (newRequestID env s)) \<noteq> []" "TrimSpace (fst (newAccessEventID env s)) \<noteq> []"
proof -
  obtain r s1 where r: "se_RandRead env 16 s = (r, s1)" by fastforce
  have "r = Some buf \<Longrightarrow> TrimSpace (hex_EncodeToString buf) \<noteq> []" for buf
  proof -
    assume "r = Some buf"
    with r assms have "length buf = 16" by (auto simp: rand_ok_def)
    then show ?thesis by (intro hex_not_blank) auto
  qed
  with r show "TrimSpace (fst (newRequestID env s)) \<noteq> []" "TrimSpace (fst (newAccessEventID env s)) \<noteq> []"
    by (cases r; simp add: newRequestID_def newAccessEventID_def FormatInt36_not_blank)+
qed


definition demo_sys :: "unit sys_env" where
  "demo_sys = \<lparr>se_RandRead = (\<lambda>n s. (Some (replicate n (CHR ''a'')), s)), se_Now = (\<lambda>_. unix_epoch)\<rparr>"

definition demo_next :: "unit handler_func" where
  "demo_next c s = (None, c\<lparr>ex_Response := writer_Write ''route not found'' (writer_WriteHeader 404 (ex_Response c))\<rparr>, s)"


end
