(* ===== verification/Platform_Observability.thy ===== *)
theory Platform_Observability
  imports Gateway_Http "HOL-Library.Multiset"
begin

text \<open>
  \<open>internal/platform/observability\<close> (readiness endpoint and metrics middleware) and the HTTP part of
  \<open>internal/platform/tracing\<close>. A check is a state-passing function; the checks of one request run one after the
  other. Prometheus collectors are counters in the state, spans are a record; the route pattern that Echo
  matched is a parameter of the middlewares.
\<close>

section \<open>Readiness\<close>

record ('e, 's) Check =
  ck_Name :: string
  ck_Run :: "('s \<Rightarrow> 'e goerr option \<times> 's) option"
  ck_Optional :: bool

record ('e, 's) Readiness =
  rd_service :: string
  rd_timeout :: Duration
  rd_checks :: "('e, 's) Check list"

definition defaultReadinessTimeout :: Duration where
  "defaultReadinessTimeout = 2 * Second"

definition check_Optional :: "('e, 's) Check \<Rightarrow> ('e, 's) Check" where
  "check_Optional check = check\<lparr>ck_Optional := True\<rparr>"

definition NewReadiness :: "string \<Rightarrow> ('e, 's) Check list \<Rightarrow> ('e, 's) Readiness" where
  "NewReadiness service checks =
     \<lparr>rd_service = TrimSpace service, rd_timeout = defaultReadinessTimeout, rd_checks = checks\<rparr>"

text \<open>The comparison of Go strings, and \<open>sort.Slice\<close>, which is an insertion sort on up to twelve elements.\<close>

fun string_less :: "string \<Rightarrow> string \<Rightarrow> bool" where
  "string_less xs [] \<longleftrightarrow> False"
| "string_less [] (y # ys) \<longleftrightarrow> True"
| "string_less (x # xs) (y # ys) \<longleftrightarrow> (if x = y then string_less xs ys else byte_val x < byte_val y)"

fun insert_check :: "('e, 's) Check \<Rightarrow> ('e, 's) Check list \<Rightarrow> ('e, 's) Check list" where
  "insert_check c [] = [c]"
| "insert_check c (d # ds) =
     (if string_less (ck_Name c) (ck_Name d) then c # d # ds else d # insert_check c ds)"

definition sort_checks :: "('e, 's) Check list \<Rightarrow> ('e, 's) Check list" where
  "sort_checks cs = fold insert_check cs []"

record readinessResponse =
  rr_Status :: string
  rr_Service :: string
  rr_Checks :: "string \<rightharpoonup> string"

text \<open>One round of the loop: the response, the status code and the state.\<close>

definition readiness_step ::
  "('e, 's) Check \<Rightarrow> readinessResponse \<times> int \<times> 's \<Rightarrow> readinessResponse \<times> int \<times> 's" where
  "readiness_step check acc =
     (case acc of (response, statusCode, s) \<Rightarrow>
        (let name = TrimSpace (ck_Name check) in
         if name = '''' then (response, statusCode, s)
         else
           (case ck_Run check of
              None \<Rightarrow> (response, statusCode, s)
            | Some run \<Rightarrow>
                (case run s of
                   (None, s1) \<Rightarrow> (response\<lparr>rr_Checks := (rr_Checks response)(name \<mapsto> ''ok'')\<rparr>, statusCode, s1)
                 | (Some err, s1) \<Rightarrow>
                     (let response1 = response\<lparr>rr_Checks := (rr_Checks response)(name \<mapsto> ''failed'')\<rparr> in
                      if ck_Optional check
                      then ((if rr_Status response = ''ready'' then response1\<lparr>rr_Status := ''degraded''\<rparr>
                             else response1), statusCode, s1)
                      else (response1\<lparr>rr_Status := ''not_ready''\<rparr>, 503, s1))))))"

definition readiness_Handler :: "('e, 's) Readiness \<Rightarrow> 's \<Rightarrow> (int \<times> readinessResponse) \<times> 's" where
  "readiness_Handler r s =
     (case fold readiness_step (sort_checks (rd_checks r))
             (\<lparr>rr_Status = ''ready'', rr_Service = rd_service r, rr_Checks = Map.empty\<rparr>, 200, s) of
        (response, statusCode, s1) \<Rightarrow> ((statusCode, response), s1))"

text \<open>\<open>HTTPCheck\<close> with the default client: building the request may fail, so may sending it; otherwise the
  status of the answer decides.\<close>

definition HTTPCheck ::
  "(string \<Rightarrow> 'e goerr option) \<Rightarrow> (Duration \<Rightarrow> string \<Rightarrow> 's \<Rightarrow> ('e goerr + int) \<times> 's) \<Rightarrow> string \<Rightarrow> string \<Rightarrow> ('e, 's) Check" where
  "HTTPCheck newRequest client_Do name rawURL =
     \<lparr>ck_Name = name,
      ck_Run = Some (\<lambda>s.
        let url = TrimRightByte rawURL (CHR ''/'') @ ''/ready'' in
        case newRequest url of
          Some err \<Rightarrow> (Some err, s)
        | None \<Rightarrow>
            (case client_Do defaultReadinessTimeout url s of
               (Inl err, s1) \<Rightarrow> (Some err, s1)
             | (Inr statusCode, s1) \<Rightarrow>
                 if statusCode \<noteq> 200
                 then (Some (Errorf ''dependency readiness returned status %d'' []), s1)
                 else (None, s1))),
      ck_Optional = False\<rparr>"

section \<open>What the readiness endpoint reports\<close>

lemma mset_insert_check: "mset (insert_check c cs) = add_mset c (mset cs)"
  by (induction cs) auto

lemma mset_fold_insert_check: "mset (fold insert_check cs acc) = mset cs + mset acc"
  by (induction cs arbitrary: acc) (auto simp: mset_insert_check)

lemma set_sort_checks: "set (sort_checks cs) = set cs"
  using mset_fold_insert_check [of cs "[]"] by (metis sort_checks_def add_0_right mset.simps(1) set_mset_mset)

text \<open>A check counts when it has a name and a function; it fails in \<open>s\<close> when the function reports an error.\<close>

definition check_fails :: "'s \<Rightarrow> ('e, 's) Check \<Rightarrow> bool" where
  "check_fails s c \<longleftrightarrow>
     TrimSpace (ck_Name c) \<noteq> '''' \<and> (\<exists>run. ck_Run c = Some run \<and> fst (run s) \<noteq> None)"

definition check_pure :: "'s \<Rightarrow> ('e, 's) Check \<Rightarrow> bool" where
  "check_pure s c \<longleftrightarrow> (\<forall>run. ck_Run c = Some run \<longrightarrow> snd (run s) = s)"

definition readiness_of :: "bool \<Rightarrow> bool \<Rightarrow> string" where
  "readiness_of mandatory optional =
     (if mandatory then ''not_ready'' else if optional then ''degraded'' else ''ready'')"

lemma readiness_step_status:
  assumes "check_pure s c" and "rr_Status r = readiness_of m p"
    and "readiness_step c (r, if m then 503 else 200, s) = (r', code', s')"
  shows "s' = s \<and> rr_Status r' = readiness_of (m \<or> check_fails s c \<and> \<not> ck_Optional c) (p \<or> check_fails s c \<and> ck_Optional c) \<and>
    code' = (if m \<or> check_fails s c \<and> \<not> ck_Optional c then 503 else 200) \<and> rr_Service r' = rr_Service r"
  using assms
  by (auto simp: readiness_step_def Let_def check_pure_def check_fails_def readiness_of_def
      split: if_splits option.splits prod.splits)

lemma readiness_fold_status:
  assumes "\<forall>c\<in>set cs. check_pure s c" and "rr_Status r = readiness_of m p"
    and "fold readiness_step cs (r, if m then 503 else 200, s) = (r', code', s')"
  shows "s' = s \<and> rr_Service r' = rr_Service r \<and>
    rr_Status r' = readiness_of (m \<or> (\<exists>c\<in>set cs. check_fails s c \<and> \<not> ck_Optional c))
                                (p \<or> (\<exists>c\<in>set cs. check_fails s c \<and> ck_Optional c)) \<and>
    code' = (if m \<or> (\<exists>c\<in>set cs. check_fails s c \<and> \<not> ck_Optional c) then 503 else 200)"
  using assms
proof (induction cs arbitrary: r m p)
  case (Cons c cs)
  obtain r1 code1 s1 where st: "readiness_step c (r, if m then 503 else 200, s) = (r1, code1, s1)"
    by (metis prod_cases3)
  from readiness_step_status [OF _ Cons.prems(2) st] Cons.prems(1)
  have one: "s1 = s" "rr_Service r1 = rr_Service r"
    "rr_Status r1 = readiness_of (m \<or> check_fails s c \<and> \<not> ck_Optional c) (p \<or> check_fails s c \<and> ck_Optional c)"
    "code1 = (if m \<or> check_fails s c \<and> \<not> ck_Optional c then 503 else 200)" by auto
  have "fold readiness_step cs (r1, if m \<or> check_fails s c \<and> \<not> ck_Optional c then 503 else 200, s) = (r', code', s')"
    using Cons.prems(3) st one by simp
  from Cons.IH [OF _ one(3) this] Cons.prems(1) one(2) show ?case by simp
qed simp

text \<open>C37. The readiness endpoint answers 503 exactly when a check that is not optional fails, and its status is
  \<open>not_ready\<close>, \<open>degraded\<close> (only optional checks fail) or \<open>ready\<close>, whatever the order of the checks; checks without a
  name or a function do not count. The checks are assumed to leave the state as it is.\<close>

theorem readiness_reports_mandatory_checks:
  assumes "\<forall>c\<in>set checks. check_pure s c"
  shows "\<exists>response. readiness_Handler (NewReadiness service checks) s =
      ((if \<exists>c\<in>set checks. check_fails s c \<and> \<not> ck_Optional c then 503 else 200, response), s) \<and>
    rr_Service response = TrimSpace service \<and>
    rr_Status response = readiness_of (\<exists>c\<in>set checks. check_fails s c \<and> \<not> ck_Optional c)
                                      (\<exists>c\<in>set checks. check_fails s c \<and> ck_Optional c)"
proof -
  let ?r = "\<lparr>rr_Status = ''ready'', rr_Service = TrimSpace service, rr_Checks = Map.empty\<rparr>"
  obtain r' code' s' where run: "fold readiness_step (sort_checks checks) (?r, 200, s) = (r', code', s')"
    by (metis prod_cases3)
  have "rr_Status ?r = readiness_of False False" by (simp add: readiness_of_def)
  from readiness_fold_status [OF _ this, of "sort_checks checks" s r' code' s'] run assms
  show ?thesis by (simp add: readiness_Handler_def NewReadiness_def set_sort_checks)
qed

text \<open>The gateway with an unreachable control plane (optional) and a working auth service.\<close>

definition demo_checks :: "(gw_error, unit) Check list" where
  "demo_checks =
     [check_Optional (HTTPCheck (\<lambda>_. None) (\<lambda>_ _ s. (Inr 500, s)) ''control_plane'' ''http://cp:8082/''),
      HTTPCheck (\<lambda>_. None) (\<lambda>_ _ s. (Inr 200, s)) ''auth'' ''http://auth:8083'']"

theorem readiness_reports_mandatory_checks_witness:
  "list_all (check_pure ()) demo_checks \<and>
   (\<exists>response. readiness_Handler (NewReadiness ''gateway'' demo_checks) () = ((200, response), ()) \<and>
      rr_Status response = ''degraded'')"
proof -
  have pure: "\<forall>c\<in>set demo_checks. check_pure () c" by (simp add: demo_checks_def check_pure_def)
  have names: "TrimSpace ''control_plane'' = ''control_plane''" by code_simp
  have m: "\<not> (\<exists>c\<in>set demo_checks. check_fails () c \<and> \<not> ck_Optional c)"
    by (simp add: demo_checks_def check_fails_def check_Optional_def HTTPCheck_def Let_def)
  have o: "\<exists>c\<in>set demo_checks. check_fails () c \<and> ck_Optional c"
    using names by (simp add: demo_checks_def check_fails_def check_Optional_def HTTPCheck_def Let_def)
  show ?thesis
    using readiness_reports_mandatory_checks [OF pure, of "''gateway''"] pure m o
    by (auto simp: readiness_of_def list_all_iff)
qed

section \<open>Metrics\<close>

text \<open>The collectors: the counter by method, route and status, the observations of the two histograms by method
  and route, and the gauge.\<close>

record metrics =
  mt_requests :: "string \<times> string \<times> string \<Rightarrow> nat"
  mt_duration :: "string \<times> string \<Rightarrow> Duration list"
  mt_responseSize :: "string \<times> string \<Rightarrow> int list"
  mt_requestsInFly :: int

definition isObservabilityPath :: "string \<Rightarrow> bool" where
  "isObservabilityPath path \<longleftrightarrow> path = ''/health'' \<or> path = ''/ready'' \<or> path = ''/metrics''"

definition route_label :: "string \<Rightarrow> string" where
  "route_label path = (let route = TrimSpace path in if route = '''' then ''unmatched'' else route)"

definition recorded_status :: "'e option \<Rightarrow> int \<Rightarrow> int" where
  "recorded_status err status = (if err \<noteq> None \<and> status < 400 then 500 else status)"

definition mw_Metrics ::
  "(echo_ctx \<Rightarrow> string) \<Rightarrow> ('z metrics_scheme \<Rightarrow> Time) \<Rightarrow> 'z metrics_scheme handler_func \<Rightarrow> 'z metrics_scheme handler_func" where
  "mw_Metrics echo_Path time_Now nxt c s =
     (let request = ex_Request c in
      if isObservabilityPath (rq_Path request) then nxt c s
      else
        (let s0 = s\<lparr>mt_requestsInFly := mt_requestsInFly s + 1\<rparr>;
             startedAt = time_Now s0 in
         case nxt (c\<lparr>ex_Response := NewRecorder (ex_Response c)\<rparr>) s0 of (err, c1, s1) \<Rightarrow>
           (let recorder = hd (fst (ex_Response c1));
                status = recorded_status err (rec_status recorder);
                route = route_label (echo_Path c1);
                method = rq_Method request;
                s2 = s1\<lparr>mt_requests := (mt_requests s1)((method, route, Itoa status) := mt_requests s1 (method, route, Itoa status) + 1)\<rparr>;
                s3 = s2\<lparr>mt_duration := (mt_duration s2)((method, route) :=
                          mt_duration s2 (method, route) @ [time_Sub (time_Now s2) startedAt])\<rparr>;
                s4 = s3\<lparr>mt_responseSize := (mt_responseSize s3)((method, route) :=
                          mt_responseSize s3 (method, route) @ [rec_bytes recorder])\<rparr>
            in (err, c1\<lparr>ex_Response := pop_recorder (ex_Response c1)\<rparr>,
                s4\<lparr>mt_requestsInFly := mt_requestsInFly s4 - 1\<rparr>))))"

text \<open>Around a handler that leaves the collectors alone, the middleware counts the request once under the recorded
  status and puts the gauge back.\<close>

lemma mw_Metrics_counts_once:
  assumes "\<not> isObservabilityPath (rq_Path (ex_Request c))"
    and n: "nxt (c\<lparr>ex_Response := NewRecorder (ex_Response c)\<rparr>) (s\<lparr>mt_requestsInFly := mt_requestsInFly s + 1\<rparr>) = (err, c1, s1)"
    and "mt_requests s1 = mt_requests s" and "mt_requestsInFly s1 = mt_requestsInFly s + 1"
  shows "\<exists>c' s'. mw_Metrics echo_Path time_Now nxt c s = (err, c', s') \<and> mt_requestsInFly s' = mt_requestsInFly s \<and>
    (let labels = (rq_Method (ex_Request c), route_label (echo_Path c1),
                   Itoa (recorded_status err (rec_status (hd (fst (ex_Response c1))))))
     in mt_requests s' = (mt_requests s)(labels := mt_requests s labels + 1))"
  using assms by (simp add: mw_Metrics_def Let_def)

lemma mw_Metrics_skips: "isObservabilityPath (rq_Path (ex_Request c)) \<Longrightarrow> mw_Metrics p t nxt c s = nxt c s"
  by (simp add: mw_Metrics_def)

section \<open>Tracing of requests\<close>

definition isInfrastructurePath :: "string \<Rightarrow> bool" where
  "isInfrastructurePath path \<longleftrightarrow> path = ''/health'' \<or> path = ''/ready'' \<or> path = ''/metrics''"

text \<open>The span of the request: \<open>sp_TraceID\<close> is None when the span context is not valid.\<close>

datatype span_value = SpanString string | SpanInt int

record span =
  sp_TraceID :: "string option"
  sp_Name :: string
  sp_Attributes :: "(string \<times> span_value) list"
  sp_Errors :: "gw_err list"
  sp_Failed :: bool

definition mw_Route :: "(echo_ctx \<Rightarrow> string) \<Rightarrow> 'z span_scheme handler_func \<Rightarrow> 'z span_scheme handler_func" where
  "mw_Route echo_Path nxt c s =
     (let request = ex_Request c in
      if isInfrastructurePath (rq_Path request) then nxt c s
      else
        (let c0 = (case sp_TraceID s of
                     None \<Rightarrow> c
                   | Some tid \<Rightarrow> c\<lparr>ex_Response := writer_setHeader
                       (header_Set (writer_Header (ex_Response c)) ''X-Trace-ID'' tid) (ex_Response c)\<rparr>) in
         case nxt (c0\<lparr>ex_Response := NewRecorder (ex_Response c0)\<rparr>) s of (err, c1, s1) \<Rightarrow>
           (let c2 = c1\<lparr>ex_Response := pop_recorder (ex_Response c1)\<rparr> in
            if sp_TraceID s = None then (err, c2, s1)
            else
              (let route = route_label (echo_Path c1);
                   statusCode = recorded_status err (rec_status (hd (fst (ex_Response c1))));
                   s2 = s1\<lparr>sp_Name := rq_Method request @ '' '' @ route,
                          sp_Attributes := sp_Attributes s1 @
                            [(''http.route'', SpanString route), (''http.response.status_code'', SpanInt statusCode)]\<rparr>;
                   s3 = (case err of None \<Rightarrow> s2 | Some e \<Rightarrow> s2\<lparr>sp_Errors := sp_Errors s2 @ [e]\<rparr>);
                   s4 = (if statusCode \<ge> 500 then s3\<lparr>sp_Failed := True\<rparr> else s3)
               in (err, c2, s4)))))"

text \<open>A request whose handler fails is traced with its error, and as failed unless the handler had answered with a
  client error.\<close>

lemma mw_Route_marks_failures:
  assumes "\<not> isInfrastructurePath (rq_Path (ex_Request c))" and "sp_TraceID s \<noteq> None"
    and "mw_Route echo_Path nxt c s = (Some e, c', s')"
  shows "e \<in> set (sp_Errors s') \<and> (\<exists>status. (''http.response.status_code'', SpanInt status) \<in> set (sp_Attributes s') \<and>
    400 \<le> status \<and> (500 \<le> status \<longrightarrow> sp_Failed s'))"
  using assms
  by (auto simp: mw_Route_def Let_def recorded_status_def split: prod.splits option.splits if_splits)

end
