(* ===== verification/Service_Run.thy ===== *)
theory Service_Run
  imports Service_Config Worker_Consumer Platform_Observability
begin

text \<open>
  How the services start and stop: \<open>Run\<close> of \<open>internal/{auth,controlplane,analytics,jobworker,demo}/app\<close>, the
  connection pool (\<open>internal/platform/postgres/pool.go\<close>) and the tracing provider
  (\<open>internal/platform/tracing/provider.go\<close>). A Go \<open>defer\<close> is \<open>go_defer\<close>: the rest of the function runs, then the
  deferred call, on every return path. What a service does between start and stop is the parameter \<open>serve\<close>,
  which gets the components built so far and gives the event that ends the \<open>select\<close>.
\<close>

section \<open>Deferred calls and early returns\<close>

definition go_defer :: "('s \<Rightarrow> 's) \<Rightarrow> ('s \<Rightarrow> 'r \<times> 's) \<Rightarrow> 's \<Rightarrow> 'r \<times> 's" where
  "go_defer release rest s = (case rest s of (r, s1) \<Rightarrow> (r, release s1))"

definition go_try ::
  "('e goerr \<Rightarrow> 'e goerr) \<Rightarrow> ('s \<Rightarrow> ('e goerr + 'a) \<times> 's) \<Rightarrow> ('a \<Rightarrow> 's \<Rightarrow> 'e goerr option \<times> 's) \<Rightarrow> 's \<Rightarrow>
   'e goerr option \<times> 's" where
  "go_try wrap f rest s =
     (case f s of
        (Inl err, s1) \<Rightarrow> (Some (wrap err), s1)
      | (Inr a, s1) \<Rightarrow> rest a s1)"

definition wrapf :: "string \<Rightarrow> 'e goerr \<Rightarrow> 'e goerr" where
  "wrapf fmt err = Errorf fmt [err]"

text \<open>A call whose only result is an error.\<close>

definition only_err :: "('s \<Rightarrow> 'e goerr option \<times> 's) \<Rightarrow> 's \<Rightarrow> ('e goerr + unit) \<times> 's" where
  "only_err f s = (case f s of (Some err, s1) \<Rightarrow> (Inl err, s1) | (None, s1) \<Rightarrow> (Inr (), s1))"

definition pure_call :: "'e goerr + 'a \<Rightarrow> 's \<Rightarrow> ('e goerr + 'a) \<times> 's" where
  "pure_call r s = (r, s)"

section \<open>The tracing provider\<close>

datatype exporter_option = WithEndpointURL string | WithEndpoint string | WithInsecure

record ('e, 's) otel_libs =
  ot_SetPropagator :: "'s \<Rightarrow> 's"
  ot_NewExporter :: "exporter_option list \<Rightarrow> 's \<Rightarrow> 'e goerr option \<times> 's"
  ot_NewResource :: "string \<Rightarrow> string \<Rightarrow> 's \<Rightarrow> 'e goerr option \<times> 's"
  ot_NewProvider :: "float64 \<Rightarrow> 's \<Rightarrow> 's"
  ot_Shutdown :: "'s \<Rightarrow> 'e goerr option \<times> 's"
  ot_ParseBoolErr :: "string \<Rightarrow> 'e goerr"
  ot_ParseFloat :: "string \<Rightarrow> 'e goerr + float64"

text \<open>\<open>strings.Contains\<close>.\<close>

definition Contains :: "string \<Rightarrow> string \<Rightarrow> bool" where
  "Contains s sub \<longleftrightarrow> sublist sub s"

definition exporterOptions :: "TracingConfig \<Rightarrow> exporter_option list" where
  "exporterOptions config =
     (if Contains (trc_Endpoint config) ''://'' then [WithEndpointURL (trc_Endpoint config)]
      else [WithEndpoint (trc_Endpoint config)]) @
     (if trc_Insecure config then [WithInsecure] else [])"

text \<open>The result says whether the provider has a tracer provider to shut down.\<close>

definition tracing_Init :: "('e, 's) otel_libs \<Rightarrow> environ \<Rightarrow> string \<Rightarrow> 's \<Rightarrow> ('e goerr + bool) \<times> 's" where
  "tracing_Init libs env serviceName s =
     (case LoadConfig (ot_ParseBoolErr libs) (ot_ParseFloat libs) env serviceName of
        Inl err \<Rightarrow> (Inl err, s)
      | Inr config \<Rightarrow>
          (let s1 = ot_SetPropagator libs s in
           if trc_Endpoint config = '''' then (Inr False, s1)
           else
             (case ot_NewExporter libs (exporterOptions config) s1 of
                (Some err, s2) \<Rightarrow> (Inl (Errorf ''create OTLP trace exporter: %w'' [err]), s2)
              | (None, s2) \<Rightarrow>
                  (case ot_NewResource libs (trc_ServiceName config) (trc_Environment config) s2 of
                     (Some err, s3) \<Rightarrow> (Inl (Errorf ''create OpenTelemetry resource: %w'' [err]), s3)
                   | (None, s3) \<Rightarrow> (Inr True, ot_NewProvider libs (trc_SampleRatio config) s3)))))"

text \<open>A nil provider is None.\<close>

definition tracing_Shutdown :: "('e, 's) otel_libs \<Rightarrow> bool option \<Rightarrow> 's \<Rightarrow> 'e goerr option \<times> 's" where
  "tracing_Shutdown libs p s =
     (if p = None \<or> p = Some False then (None, s)
      else case ot_Shutdown libs s of
             (Some err, s1) \<Rightarrow> (Some (Errorf ''shutdown OpenTelemetry tracer provider: %w'' [err]), s1)
           | (None, s1) \<Rightarrow> (None, s1))"

text \<open>The function of this name in every \<open>app.go\<close>: an error is only logged.\<close>

definition shutdownTracing :: "('e, 's) otel_libs \<Rightarrow> bool \<Rightarrow> 's \<Rightarrow> 's" where
  "shutdownTracing libs provider s = snd (tracing_Shutdown libs (Some provider) s)"

section \<open>The connection pool\<close>

record pool_config =
  plc_DSN :: string
  plc_MaxConns :: int
  plc_MinConns :: int
  plc_MaxConnLifetime :: Duration

record ('e, 's) pgx_libs =
  px_ParseConfig :: "string \<Rightarrow> 'e goerr + pool_config"
  px_NewWithConfig :: "pool_config \<Rightarrow> 's \<Rightarrow> 'e goerr option \<times> 's"
  px_Ping :: "Duration \<Rightarrow> 's \<Rightarrow> 'e goerr option \<times> 's"
  px_Close :: "'s \<Rightarrow> 's"

definition NewPool :: "('e, 's) pgx_libs \<Rightarrow> PostgresConfig \<Rightarrow> 's \<Rightarrow> ('e goerr + unit) \<times> 's" where
  "NewPool libs cfg s =
     (case px_ParseConfig libs (pgo_DSN cfg) of
        Inl err \<Rightarrow> (Inl err, s)
      | Inr poolConfig \<Rightarrow>
          (case px_NewWithConfig libs (poolConfig\<lparr>plc_MaxConns := pgo_MaxConns cfg, plc_MinConns := pgo_MinConns cfg,
                  plc_MaxConnLifetime := pgo_MaxConnLifetime cfg\<rparr>) s of
             (Some err, s1) \<Rightarrow> (Inl err, s1)
           | (None, s1) \<Rightarrow>
               (case px_Ping libs (5 * Second) s1 of
                  (Some err, s2) \<Rightarrow> (Inl err, px_Close libs s2)
                | (None, s2) \<Rightarrow> (Inr (), s2))))"

definition pool_check :: "('e, 's) pgx_libs \<Rightarrow> ('e, 's) Check" where
  "pool_check libs = \<lparr>ck_Name = ''postgres'', ck_Run = Some (px_Ping libs defaultReadinessTimeout), ck_Optional = False\<rparr>"

section \<open>Waiting and stopping\<close>

text \<open>What ends the \<open>select\<close>: the signal, or the result that the server's or the consumer's goroutine sends.\<close>

datatype 'e stop_event = SignalDone | ServerDone "'e goerr option" | ConsumerDone "'e goerr option"

text \<open>The goroutine of the server: \<open>srvClosed\<close> is \<open>http.ErrServerClosed\<close>.\<close>

definition server_result :: "'e goerr \<Rightarrow> 'e goerr option \<Rightarrow> 'e goerr option" where
  "server_result srvClosed err = (if err \<noteq> None \<and> err \<noteq> Some srvClosed then err else None)"

text \<open>The end of \<open>Run\<close> of the auth service and of the control plane.\<close>

definition serve_until ::
  "'e goerr \<Rightarrow> string \<Rightarrow> string \<Rightarrow> ('s \<Rightarrow> 'e goerr option \<times> 's) \<Rightarrow> ('s \<Rightarrow> 'e stop_event \<times> 's) \<Rightarrow>
   's \<Rightarrow> 'e goerr option \<times> 's" where
  "serve_until srvClosed serveMsg shutdownMsg shutdown serve s =
     (case serve s of
        (ServerDone err, s1) \<Rightarrow> (map_option (wrapf serveMsg) (server_result srvClosed err), s1)
      | (_, s1) \<Rightarrow>
          (case shutdown s1 of
             (Some err, s2) \<Rightarrow> (Some (wrapf shutdownMsg err), s2)
           | (None, s2) \<Rightarrow> (None, s2)))"

text \<open>The end of \<open>Run\<close> of the analytics service and of the worker: the first error wins. \<open>sent\<close> is what the
  goroutine of the consumer makes of the error of its \<open>Run\<close>.\<close>

definition supervise ::
  "'e goerr \<Rightarrow> ('s \<Rightarrow> 'e goerr option \<Rightarrow> 'e goerr option) \<Rightarrow> string \<Rightarrow> string \<Rightarrow> string \<Rightarrow> ('s \<Rightarrow> 's) \<Rightarrow> ('s \<Rightarrow> 'e goerr option \<times> 's) \<Rightarrow> ('s \<Rightarrow> 'e stop_event \<times> 's) \<Rightarrow>
   's \<Rightarrow> 'e goerr option \<times> 's" where
  "supervise srvClosed sent consumerMsg serveMsg shutdownMsg cancelRun shutdown serve s =
     (case serve s of (ev, s1) \<Rightarrow>
        (let runErr = (case ev of
               SignalDone \<Rightarrow> None
             | ConsumerDone err \<Rightarrow> map_option (wrapf consumerMsg) (sent s1 err)
             | ServerDone err \<Rightarrow> map_option (wrapf serveMsg) (server_result srvClosed err)) in
         case shutdown (cancelRun s1) of
           (Some err, s2) \<Rightarrow> (if runErr = None then Some (wrapf shutdownMsg err) else runErr, s2)
         | (None, s2) \<Rightarrow> (runErr, s2)))"

text \<open>What every \<open>Run\<close> calls of the operating system and the HTTP server.\<close>

record ('e, 's) proc_libs =
  pr_NotifyContext :: "'s \<Rightarrow> 's"
  pr_stop :: "'s \<Rightarrow> 's"
  pr_cancelRun :: "'s \<Rightarrow> 's"
  pr_Shutdown :: "'s \<Rightarrow> 'e goerr option \<times> 's"
  pr_ErrServerClosed :: "'e goerr"
  pr_otel :: "('e, 's) otel_libs"
  pr_pgx :: "('e, 's) pgx_libs"

section \<open>The services\<close>

text \<open>\<open>internal/auth/app\<close>.\<close>

definition auth_Run ::
  "(string \<Rightarrow> au_err + Duration) \<Rightarrow> (string \<Rightarrow> au_err) \<Rightarrow> 's rand_reader \<Rightarrow> (au_error, 's) proc_libs \<Rightarrow> environ \<Rightarrow>
   (AuthConfig \<Rightarrow> PasswordHasher \<Rightarrow> 's TokenService \<Rightarrow> (au_error, 's) Readiness \<Rightarrow> 's \<Rightarrow> au_error stop_event \<times> 's) \<Rightarrow>
   's \<Rightarrow> au_err option \<times> 's" where
  "auth_Run parse atoi_err rand libs env serve =
     go_try (wrapf ''load auth config: %w'') (pure_call (auth_Load parse atoi_err env)) (\<lambda>cfg s.
       go_defer (pr_stop libs)
         (go_try (wrapf ''initialize auth tracing: %w'') (tracing_Init (pr_otel libs) env ''auth'') (\<lambda>traceProvider.
            go_defer (shutdownTracing (pr_otel libs) traceProvider)
              (go_try (wrapf ''connect to postgres: %w'') (NewPool (pr_pgx libs) (NewConfigFromEnv env)) (\<lambda>_.
                 go_defer (px_Close (pr_pgx libs))
                   (go_try (wrapf ''create password hasher: %w'') (pure_call (NewPasswordHasher (aco_BcryptCost cfg))) (\<lambda>passwordHasher.
                      go_try (wrapf ''create token service: %w'')
                        (pure_call (NewTokenService rand
                           \<lparr>tc_JWTSecret = aco_JWTSecret cfg, tc_JWTIssuer = aco_JWTIssuer cfg,
                            tc_JWTAudience = aco_JWTAudience cfg, tc_AccessTokenTTL = aco_AccessTokenTTL cfg,
                            tc_RefreshTokenSize = aco_RefreshTokenSize cfg\<rparr>)) (\<lambda>tokenService.
                        serve_until (pr_ErrServerClosed libs) ''serve auth http: %w'' ''shutdown auth http server: %w''
                          (pr_Shutdown libs)
                          (serve cfg passwordHasher tokenService
                             (NewReadiness ''auth'' [pool_check (pr_pgx libs)])))))))))
         (pr_NotifyContext libs s))"

text \<open>\<open>internal/controlplane/app\<close>, which also serves the jobs API.\<close>

definition control_httpAddr :: "environ \<Rightarrow> string" where
  "control_httpAddr env = (let addr = env ''CONTROL_PLANE_HTTP_ADDR'' in if addr = '''' then '':8082'' else addr)"

definition control_publisher_config :: "JobsConfig \<Rightarrow> PublisherConfig" where
  "control_publisher_config cfg =
     \<lparr>pbc_URL = jco_RabbitMQURL cfg, pbc_Exchange = jco_Exchange cfg, pbc_Queue = jco_Queue cfg,
      pbc_PublishTimeout = jco_PublishTimeout cfg\<rparr>"

definition control_Run ::
  "(string \<Rightarrow> Duration option) \<Rightarrow> 's amqp_ops \<Rightarrow> (jb_error, 's) proc_libs \<Rightarrow> environ \<Rightarrow>
   (string \<Rightarrow> Publisher \<Rightarrow> (jb_error, 's) Readiness \<Rightarrow> 's \<Rightarrow> jb_error stop_event \<times> 's) \<Rightarrow> 's \<Rightarrow> jb_err option \<times> 's" where
  "control_Run parse amqp libs env serve s =
     go_defer (pr_stop libs)
       (go_try (wrapf ''initialize control plane tracing: %w'') (tracing_Init (pr_otel libs) env ''control-plane'') (\<lambda>traceProvider.
          go_defer (shutdownTracing (pr_otel libs) traceProvider)
            (go_try (wrapf ''connect to postgres: %w'') (NewPool (pr_pgx libs) (NewConfigFromEnv env)) (\<lambda>_.
               go_defer (px_Close (pr_pgx libs))
                 (go_try (wrapf ''load jobs config: %w'') (pure_call (jobs_Load parse env)) (\<lambda>jobsRuntimeConfig.
                    go_try (wrapf ''create jobs publisher: %w'') (NewPublisher amqp (control_publisher_config jobsRuntimeConfig)) (\<lambda>jobPublisher.
                      go_defer (\<lambda>s. snd (snd (publisher_Close amqp jobPublisher s)))
                        (serve_until (pr_ErrServerClosed libs) ''serve control plane http: %w''
                           ''shutdown control plane http server: %w'' (pr_Shutdown libs)
                           (serve (control_httpAddr env) jobPublisher
                              (NewReadiness ''control-plane''
                                 [pool_check (pr_pgx libs), 
                                \<lparr>ck_Name = ''rabbitmq'', ck_Run = Some (\<lambda>s. (publisher_Ping amqp jobPublisher s, s)), ck_Optional = False\<rparr>]))))))))))
       (pr_NotifyContext libs s)"

text \<open>\<open>internal/analytics/app\<close>. The Kafka client is a parameter; \<open>runDone\<close> says that the run context has ended.\<close>

record 's kafka_libs =
  kl_NewClient :: "analytics_options \<Rightarrow> 's \<Rightarrow> an_err option \<times> 's"
  kl_Ping :: "Duration \<Rightarrow> 's \<Rightarrow> an_err option \<times> 's"
  kl_Close :: "'s \<Rightarrow> 's"
  kl_CloseAllowingRebalance :: "'s \<Rightarrow> 's"

definition analytics_app_Run ::
  "(string \<Rightarrow> an_err + Duration) \<Rightarrow> (string \<Rightarrow> an_err) \<Rightarrow> 's kafka_libs \<Rightarrow> ('s \<Rightarrow> bool) \<Rightarrow> (an_error, 's) proc_libs \<Rightarrow> environ \<Rightarrow>
   (AnalyticsConfig \<Rightarrow> AnalyticsConsumer \<Rightarrow> (an_error, 's) Readiness \<Rightarrow> 's \<Rightarrow> an_error stop_event \<times> 's) \<Rightarrow>
   's \<Rightarrow> an_err option \<times> 's" where
  "analytics_app_Run parse atoi_err kl runDone libs env serve =
     go_try (wrapf ''load analytics config: %w'') (pure_call (analytics_Load parse atoi_err env)) (\<lambda>cfg s.
       go_defer (pr_stop libs) (go_defer (pr_cancelRun libs)
         (go_try (wrapf ''initialize analytics tracing: %w'') (tracing_Init (pr_otel libs) env ''analytics'') (\<lambda>traceProvider.
            go_defer (shutdownTracing (pr_otel libs) traceProvider)
              (go_try (wrapf ''connect analytics service to postgres: %w'') (NewPool (pr_pgx libs) (NewConfigFromEnv env)) (\<lambda>_.
                 go_defer (px_Close (pr_pgx libs))
                   (go_try (wrapf ''create analytics Kafka consumer: %w'')
                      (NewAnalyticsConsumer (kl_NewClient kl) (kl_Ping kl) (kl_Close kl) (analytics_consumer_config cfg) True True) (\<lambda>consumer.
                      go_defer (kl_CloseAllowingRebalance kl)
                        (supervise (pr_ErrServerClosed libs) (\<lambda>s err. if runDone s then None else err)
                           ''run analytics Kafka consumer: %w'' ''serve analytics HTTP: %w''
                           ''shutdown analytics HTTP server: %w'' (pr_cancelRun libs) (pr_Shutdown libs)
                           (serve cfg consumer
                              (NewReadiness ''analytics'' [pool_check (pr_pgx libs), 
                                \<lparr>ck_Name = ''kafka'', ck_Run = Some (\<lambda>s. (analytics_consumer_Ping (Some (consumer, \<lambda>s. fst (kl_Ping kl defaultReadinessTimeout s))) s, s)), ck_Optional = False\<rparr>])))))))))
         ) (pr_NotifyContext libs s))"

text \<open>\<open>internal/jobworker/app\<close>. The context of \<open>installPolicy\<close> has a deadline: the loop sees \<open>ticks\<close> ticks and then
  the end of the context with \<open>ctxErr\<close>.\<close>

definition worker_consumer_config :: "WorkerConfig \<Rightarrow> ConsumerConfig" where
  "worker_consumer_config config =
     \<lparr>ccf_URL = wco_RabbitMQURL config, ccf_Exchange = wco_Exchange config, ccf_Queue = wco_Queue config,
      ccf_DeadExchange = wco_DeadExchange config, ccf_DeadQueue = wco_DeadQueue config,
      ccf_Prefetch = wco_Prefetch config, ccf_ProcessTimeout = wco_ProcessTimeout config\<rparr>"

definition worker_policy_config :: "WorkerConfig \<Rightarrow> PolicyConfig" where
  "worker_policy_config config =
     \<lparr>pc_ManagementURL = wco_ManagementURL config, pc_Username = wco_RabbitMQUsername config,
      pc_Password = wco_RabbitMQPassword config, pc_VHost = wco_RabbitMQVHost config,
      pc_Name = wco_PolicyName config, pc_Queue = wco_Queue config, pc_DeadExchange = wco_DeadExchange config,
      pc_RetryMin = wco_RetryMin config, pc_RetryMax = wco_RetryMax config\<rparr>"

definition install_until :: "nat \<Rightarrow> jb_err \<Rightarrow> ('s \<Rightarrow> jb_err option \<times> 's) \<Rightarrow> 's \<Rightarrow> jb_err option \<times> 's" where
  "install_until ticks ctxErr install s =
     (case installPolicy install (replicate ticks None @ [Some ctxErr]) s of
        (Some r, s1) \<Rightarrow> (r, s1)
      | (None, s1) \<Rightarrow> (None, s1))"

definition worker_Run ::
  "case_tables \<Rightarrow> (string \<Rightarrow> Duration option) \<Rightarrow> 's amqp_ops \<Rightarrow> 's policy_env \<Rightarrow> nat \<Rightarrow> jb_err \<Rightarrow> (jb_error, 's) proc_libs \<Rightarrow> environ \<Rightarrow>
   (WorkerConfig \<Rightarrow> Consumer \<Rightarrow> (jb_error, 's) Readiness \<Rightarrow> 's \<Rightarrow> jb_error stop_event \<times> 's) \<Rightarrow> 's \<Rightarrow> jb_err option \<times> 's" where
  "worker_Run ct parse amqp pe ticks ctxErr libs env serve s =
     go_defer (pr_stop libs) (go_defer (pr_cancelRun libs)
       (go_try (wrapf ''initialize notification worker tracing: %w'') (tracing_Init (pr_otel libs) env ''notification-worker'') (\<lambda>traceProvider.
          go_defer (shutdownTracing (pr_otel libs) traceProvider)
            (go_try (wrapf ''load notification worker config: %w'') (pure_call (worker_Load ct parse env)) (\<lambda>config.
               go_try (wrapf ''connect notification worker to postgres: %w'') (NewPool (pr_pgx libs) (NewConfigFromEnv env)) (\<lambda>_.
                 go_defer (px_Close (pr_pgx libs))
                   (go_try (wrapf ''create RabbitMQ job consumer: %w'') (NewConsumer amqp (worker_consumer_config config)) (\<lambda>consumer.
                      go_defer (\<lambda>s. snd (consumer_Close amqp s))
                        (go_try id (only_err (install_until ticks ctxErr (Install pe (worker_policy_config config)))) (\<lambda>_.
                           supervise (pr_ErrServerClosed libs) (\<lambda>s err. err)
                             ''run notification worker: %w'' ''serve notification worker observability HTTP: %w''
                             ''shutdown notification worker observability HTTP: %w'' (pr_cancelRun libs) (pr_Shutdown libs)
                             (serve config consumer
                                (NewReadiness ''notification-worker''
                                   [pool_check (pr_pgx libs), 
                                \<lparr>ck_Name = ''rabbitmq'', ck_Run = Some (\<lambda>s. (consumer_Ping amqp (Some consumer) s, s)), ck_Optional = False\<rparr>]))))))))))))
       (pr_NotifyContext libs s)"

text \<open>\<open>internal/demo/app\<close>: it waits for the signal only, so a server that fails to listen is logged and the process
  stays up. \<open>serve\<close> is the time until the signal.\<close>

definition demo_Run ::
  "('e, 's) proc_libs \<Rightarrow> environ \<Rightarrow> (('e, 's) Readiness \<Rightarrow> 's \<Rightarrow> 's) \<Rightarrow> 's \<Rightarrow> 'e goerr option \<times> 's" where
  "demo_Run libs env serve s =
     go_defer (pr_stop libs)
       (go_try id (tracing_Init (pr_otel libs) env ''demo-backend'') (\<lambda>traceProvider.
          go_defer (shutdownTracing (pr_otel libs) traceProvider)
            (\<lambda>s. pr_Shutdown libs (serve (NewReadiness ''demo-backend'' []) s))))
       (pr_NotifyContext libs s)"

section \<open>Every handle is given back\<close>

text \<open>\<open>opn s\<close> lists the handles that the process holds, the latest first. A call keeps them, takes one when it
  succeeds, or gives the latest one back.\<close>

datatype handle = HSignal | HTracer | HPool | HConnection | HChannel | HKafka

definition keeps :: "('s \<Rightarrow> handle list) \<Rightarrow> ('s \<Rightarrow> 'r \<times> 's) \<Rightarrow> bool" where
  "keeps opn f \<longleftrightarrow> (\<forall>s. opn (snd (f s)) = opn s)"

definition takes :: "('s \<Rightarrow> handle list) \<Rightarrow> ('a \<Rightarrow> handle list) \<Rightarrow> ('s \<Rightarrow> ('e + 'a) \<times> 's) \<Rightarrow> bool" where
  "takes opn hs f \<longleftrightarrow>
     (\<forall>s. case f s of (Inl _, s1) \<Rightarrow> opn s1 = opn s | (Inr a, s1) \<Rightarrow> opn s1 = hs a @ opn s)"

definition gives_back :: "('s \<Rightarrow> handle list) \<Rightarrow> handle list \<Rightarrow> ('s \<Rightarrow> 's) \<Rightarrow> bool" where
  "gives_back opn hs f \<longleftrightarrow> (\<forall>s rest. opn s = hs @ rest \<longrightarrow> opn (f s) = rest)"

text \<open>A function with the handles \<open>hs\<close> on top that leaves without them.\<close>

definition closes :: "('s \<Rightarrow> handle list) \<Rightarrow> handle list \<Rightarrow> ('s \<Rightarrow> 'r \<times> 's) \<Rightarrow> bool" where
  "closes opn hs f \<longleftrightarrow> (\<forall>s rest. opn s = hs @ rest \<longrightarrow> opn (snd (f s)) = rest)"

lemma closes_Nil: "closes opn [] f \<longleftrightarrow> keeps opn f"
  by (auto simp: closes_def keeps_def)

lemma closes_defer: "gives_back opn hs rel \<Longrightarrow> keeps opn f \<Longrightarrow> closes opn hs (go_defer rel f)"
  by (auto simp: closes_def keeps_def gives_back_def go_defer_def split: prod.splits)
     (metis snd_conv)

lemma keeps_try: "takes opn hs f \<Longrightarrow> (\<And>a. closes opn (hs a) (rest a)) \<Longrightarrow> keeps opn (go_try wrap f rest)"
  by (fastforce simp: keeps_def takes_def closes_def go_try_def split: prod.splits sum.splits)

lemma keeps_try_plain: "takes opn (\<lambda>_. []) f \<Longrightarrow> (\<And>a. keeps opn (rest a)) \<Longrightarrow> keeps opn (go_try wrap f rest)"
  by (rule keeps_try) (auto simp: closes_Nil)

lemma takes_pure: "takes opn (\<lambda>_. []) (pure_call r)"
  by (auto simp: takes_def pure_call_def split: sum.splits)

lemma keepsD: "keeps opn f \<Longrightarrow> f s = (r, s1) \<Longrightarrow> opn s1 = opn s"
  by (metis keeps_def snd_conv)

lemma takes_only_err: "keeps opn f \<Longrightarrow> takes opn (\<lambda>_. []) (only_err f)"
  unfolding takes_def only_err_def by (auto split: prod.splits option.splits dest: keepsD)

text \<open>What the libraries do with the handles: a successful constructor takes one, a close or shutdown gives it
  back whether or not it reports an error, everything else keeps them.\<close>

definition libs_account :: "('s \<Rightarrow> handle list) \<Rightarrow> ('e, 's) proc_libs \<Rightarrow> bool" where
  "libs_account opn libs \<longleftrightarrow>
     (\<forall>s. opn (pr_NotifyContext libs s) = HSignal # opn s) \<and> gives_back opn [HSignal] (pr_stop libs) \<and>
     gives_back opn [] (pr_cancelRun libs) \<and> keeps opn (pr_Shutdown libs) \<and>
     gives_back opn [] (ot_SetPropagator (pr_otel libs)) \<and>
     (\<forall>os. keeps opn (ot_NewExporter (pr_otel libs) os)) \<and>
     (\<forall>n e. keeps opn (ot_NewResource (pr_otel libs) n e)) \<and>
     (\<forall>r s. opn (ot_NewProvider (pr_otel libs) r s) = HTracer # opn s) \<and>
     closes opn [HTracer] (ot_Shutdown (pr_otel libs)) \<and>
     (\<forall>c. takes opn (\<lambda>_. [HPool]) (only_err (px_NewWithConfig (pr_pgx libs) c))) \<and>
     (\<forall>d. keeps opn (px_Ping (pr_pgx libs) d)) \<and> gives_back opn [HPool] (px_Close (pr_pgx libs))"

definition amqp_account :: "('s \<Rightarrow> handle list) \<Rightarrow> 's amqp_ops \<Rightarrow> bool" where
  "amqp_account opn ops \<longleftrightarrow>
     (\<forall>u. takes opn (\<lambda>_. [HConnection]) (only_err (aq_Dial ops u))) \<and>
     takes opn (\<lambda>_. [HChannel]) (only_err (aq_Channel ops)) \<and>
     (\<forall>x k. keeps opn (aq_ExchangeDeclare ops x k)) \<and> (\<forall>q k. keeps opn (aq_QueueDeclare ops q k)) \<and>
     (\<forall>q k x. keeps opn (aq_QueueBind ops q k x)) \<and> keeps opn (aq_Confirm ops) \<and> (\<forall>n. keeps opn (aq_Qos ops n)) \<and>
     closes opn [HChannel] (aq_CloseChannel ops) \<and> closes opn [HConnection] (aq_CloseConnection ops)"

text \<open>The acquiring calls, spelled out for one call.\<close>

lemma takes_only_errD:
  "takes opn hs (only_err f) \<Longrightarrow> f s = (r, s1) \<Longrightarrow> opn s1 = (case r of None \<Rightarrow> hs () @ opn s | Some e \<Rightarrow> opn s)"
  by (auto simp: takes_def only_err_def dest!: spec [of _ s] split: option.splits)

lemma closesD: "closes opn hs f \<Longrightarrow> opn s = hs @ rest \<Longrightarrow> f s = (r, s1) \<Longrightarrow> opn s1 = rest"
  by (metis closes_def snd_conv)

lemma gives_backD: "gives_back opn hs f \<Longrightarrow> opn s = hs @ rest \<Longrightarrow> opn (f s) = rest"
  by (simp add: gives_back_def)

abbreviation tracer_handles :: "bool \<Rightarrow> handle list" where
  "tracer_handles b \<equiv> (if b then [HTracer] else [])"

lemma tracing_Init_takes:
  assumes "libs_account opn libs"
  shows "takes opn tracer_handles (tracing_Init (pr_otel libs) env name)"
proof -
  let ?o = "pr_otel libs"
  have p: "\<And>s. opn (ot_SetPropagator ?o s) = opn s"
    using assms by (auto simp: libs_account_def gives_back_def)
  have e: "\<And>os. keeps opn (ot_NewExporter ?o os)" and r: "\<And>n e. keeps opn (ot_NewResource ?o n e)"
    using assms by (simp_all add: libs_account_def)
  note k = keepsD [OF e] keepsD [OF r]
  have n: "\<And>r s. opn (ot_NewProvider ?o r s) = HTracer # opn s"
    using assms by (simp add: libs_account_def)
  show ?thesis
    unfolding takes_def
  proof
    fix s
    show "case tracing_Init ?o env name s of (Inl _, s1) \<Rightarrow> opn s1 = opn s
          | (Inr a, s1) \<Rightarrow> opn s1 = tracer_handles a @ opn s"
      by (auto simp: tracing_Init_def Let_def p n split: sum.splits prod.splits option.splits dest!: k)
  qed
qed

lemma shutdownTracing_gives_back:
  assumes "libs_account opn libs"
  shows "gives_back opn (tracer_handles b) (shutdownTracing (pr_otel libs) b)"
proof -
  have "closes opn [HTracer] (ot_Shutdown (pr_otel libs))" using assms by (simp add: libs_account_def)
  then show ?thesis
    by (auto simp: gives_back_def shutdownTracing_def tracing_Shutdown_def closes_def split: prod.splits option.splits)
       (metis snd_conv)+
qed

lemma NewPool_takes:
  assumes "libs_account opn libs"
  shows "takes opn (\<lambda>_. [HPool]) (NewPool (pr_pgx libs) cfg)"
proof -
  let ?x = "pr_pgx libs"
  have "\<And>c. takes opn (\<lambda>_. [HPool]) (only_err (px_NewWithConfig ?x c))" using assms by (simp add: libs_account_def)
  note a = takes_only_errD [OF this]
  have "\<And>d. keeps opn (px_Ping ?x d)" using assms by (simp add: libs_account_def)
  note b = keepsD [OF this]
  have c: "\<And>s rest. opn s = HPool # rest \<Longrightarrow> opn (px_Close ?x s) = rest"
    using assms by (simp add: libs_account_def gives_back_def)
  show ?thesis
    unfolding takes_def
    by (auto simp: NewPool_def c split: sum.splits prod.splits option.splits dest!: a b)
qed

lemma amqp_close_both_closes:
  assumes "amqp_account opn ops"
  shows "closes opn [HChannel, HConnection] (amqp_close_both ops)"
proof -
  have "closes opn [HChannel] (aq_CloseChannel ops)" "closes opn [HConnection] (aq_CloseConnection ops)"
    using assms by (simp_all add: amqp_account_def)
  then show ?thesis
    unfolding closes_def amqp_close_both_def Let_def
    by (auto split: prod.splits) (metis snd_conv)
qed

lemma declare_all_keeps: "\<forall>(m, f)\<in>set ops. keeps opn f \<Longrightarrow> declare_all ops s = (r, s1) \<Longrightarrow> opn s1 = opn s"
proof (induction ops s arbitrary: r s1 rule: declare_all.induct)
  case (2 msg op ops s)
  obtain r0 s0 where f: "op s = (r0, s0)" by fastforce
  moreover have "opn s0 = opn s" using "2.prems"(1) f by (auto intro: keepsD)
  ultimately show ?case using 2 by (auto split: option.splits)
qed simp

lemma consumer_topology_keeps:
  assumes "amqp_account opn ops" and "consumer_declareTopology ops c s = (r, s1)"
  shows "opn s1 = opn s"
  using assms(2) unfolding consumer_declareTopology_def
  by (rule declare_all_keeps [rotated]) (use assms(1) in \<open>simp add: amqp_account_def\<close>)

lemma NewConsumer_takes:
  assumes "amqp_account opn ops"
  shows "takes opn (\<lambda>_. [HChannel, HConnection]) (NewConsumer ops c)"
proof -
  have d: "\<And>u. takes opn (\<lambda>_. [HConnection]) (only_err (aq_Dial ops u))"
    and c: "takes opn (\<lambda>_. [HChannel]) (only_err (aq_Channel ops))"
    using assms by (simp_all add: amqp_account_def)
  note a = takes_only_errD [OF d] takes_only_errD [OF c]
  have "\<And>n. keeps opn (aq_Qos ops n)" using assms by (simp add: amqp_account_def)
  note q = keepsD [OF this]
  have x: "\<And>s rest. opn s = HConnection # rest \<Longrightarrow> opn (snd (aq_CloseConnection ops s)) = rest"
    using assms by (simp add: amqp_account_def closes_def)
  have y: "\<And>s rest. opn s = HChannel # HConnection # rest \<Longrightarrow> opn (snd (amqp_close_both ops s)) = rest"
    using amqp_close_both_closes [OF assms] by (simp add: closes_def)
  show ?thesis
    unfolding takes_def
    by (auto simp: NewConsumer_def x y split: prod.splits option.splits
        dest!: a q consumer_topology_keeps [OF assms])
qed

lemma publisher_topology_keeps:
  assumes "amqp_account opn ops" and "publisher_declareTopology ops p q s = (r, s1)"
  shows "opn s1 = opn s"
proof -
  have x: "\<And>x k. keeps opn (aq_ExchangeDeclare ops x k)" and q: "\<And>q k. keeps opn (aq_QueueDeclare ops q k)"
    and b: "\<And>q k x. keeps opn (aq_QueueBind ops q k x)"
    using assms(1) by (simp_all add: amqp_account_def)
  from assms(2) show ?thesis
    by (auto simp: publisher_declareTopology_def split: prod.splits option.splits
        dest!: keepsD [OF x] keepsD [OF q] keepsD [OF b])
qed

lemma NewPublisher_takes:
  assumes "amqp_account opn ops"
  shows "takes opn (\<lambda>_. [HChannel, HConnection]) (NewPublisher ops c)"
proof -
  have d: "\<And>u. takes opn (\<lambda>_. [HConnection]) (only_err (aq_Dial ops u))"
    and c: "takes opn (\<lambda>_. [HChannel]) (only_err (aq_Channel ops))"
    using assms by (simp_all add: amqp_account_def)
  note a = takes_only_errD [OF d] takes_only_errD [OF c]
  have "keeps opn (aq_Confirm ops)" using assms by (simp add: amqp_account_def)
  note q = keepsD [OF this]
  have x: "\<And>s rest. opn s = HConnection # rest \<Longrightarrow> opn (snd (aq_CloseConnection ops s)) = rest"
    using assms by (simp add: amqp_account_def closes_def)
  have y: "\<And>s rest. opn s = HChannel # HConnection # rest \<Longrightarrow> opn (snd (amqp_close_both ops s)) = rest"
    using amqp_close_both_closes [OF assms] by (simp add: closes_def)
  show ?thesis
    unfolding takes_def
    by (auto simp: NewPublisher_def Let_def x y split: prod.splits option.splits
        dest!: a q publisher_topology_keeps [OF assms])
qed

lemma NewPublisher_open: "NewPublisher ops c s = (Inr p, s1) \<Longrightarrow> \<not> pb_closed p"
  by (auto simp: NewPublisher_def Let_def split: prod.splits option.splits)

section \<open>Policy installation\<close>

lemma installPolicy_returns:
  "\<exists>r s1. installPolicy install (replicate n None @ [Some e]) s = (Some r, s1)"
proof (induction n arbitrary: s)
  case 0
  show ?case by (auto split: prod.splits option.splits)
next
  case (Suc n)
  obtain r0 s0 where "install s = (r0, s0)" by fastforce
  then show ?case using Suc [of s0] by (auto split: option.splits)
qed

lemma installPolicy_keeps:
  "keeps opn install \<Longrightarrow> installPolicy install sel s = (r, s1) \<Longrightarrow> opn s1 = opn s"
proof (induction sel arbitrary: s)
  case Nil
  then show ?case by (auto split: prod.splits option.splits dest: keepsD)
next
  case (Cons x sel)
  obtain r0 s0 where f: "install s = (r0, s0)" by fastforce
  with Cons.prems(1) have "opn s0 = opn s" by (rule keepsD)
  then show ?case using Cons f by (auto split: option.splits)
qed

lemma install_until_keeps:
  assumes "keeps opn install"
  shows "keeps opn (install_until n e install)"
  unfolding keeps_def
proof
  fix s
  obtain r s1 where i: "installPolicy install (replicate n None @ [Some e]) s = (r, s1)" by fastforce
  with installPolicy_keeps [OF assms i] show "opn (snd (install_until n e install s)) = opn s"
    by (simp add: install_until_def del: installPolicy.simps split: option.splits)
qed

section \<open>The services give their handles back\<close>

lemma keeps_with_signal:
  assumes "libs_account opn libs" and "keeps opn f"
  shows "opn (snd (go_defer (pr_stop libs) f (pr_NotifyContext libs s))) = opn s"
proof -
  from assms have n: "opn (pr_NotifyContext libs s) = HSignal # opn s" and "gives_back opn [HSignal] (pr_stop libs)"
    by (simp_all add: libs_account_def)
  then have "closes opn [HSignal] (go_defer (pr_stop libs) f)" using assms(2) by (blast intro: closes_defer)
  then show ?thesis using n by (simp add: closes_def)
qed

lemma keeps_signal:
  assumes "libs_account opn libs" and "keeps opn f"
  shows "keeps opn (\<lambda>s. go_defer (pr_stop libs) f (pr_NotifyContext libs s))"
  using keeps_with_signal [OF assms] by (simp add: keeps_def)

lemma keeps_cancelRun:
  assumes "libs_account opn libs" and "keeps opn f"
  shows "keeps opn (go_defer (pr_cancelRun libs) f)"
  using assms by (simp add: libs_account_def closes_defer flip: closes_Nil)

lemma keeps_traced:
  assumes "libs_account opn libs" and "\<And>p. keeps opn (rest p)"
  shows "keeps opn (go_try wrap (tracing_Init (pr_otel libs) env name)
    (\<lambda>p. go_defer (shutdownTracing (pr_otel libs) p) (rest p)))"
  by (rule keeps_try [OF tracing_Init_takes [OF assms(1)]])
     (rule closes_defer [OF shutdownTracing_gives_back [OF assms(1)] assms(2)])

lemma keeps_pooled:
  assumes "libs_account opn libs" and "keeps opn rest"
  shows "keeps opn (go_try wrap (NewPool (pr_pgx libs) cfg) (\<lambda>_. go_defer (px_Close (pr_pgx libs)) rest))"
  by (rule keeps_try [OF NewPool_takes [OF assms(1)]])
     (use assms in \<open>simp add: libs_account_def closes_defer\<close>)

lemma keeps_serve_until:
  assumes "libs_account opn libs" and "keeps opn serve"
  shows "keeps opn (serve_until e m1 m2 (pr_Shutdown libs) serve)"
proof -
  have k: "keeps opn (pr_Shutdown libs)" using assms(1) by (simp add: libs_account_def)
  show ?thesis
    unfolding keeps_def serve_until_def
    by (auto split: prod.splits stop_event.splits option.splits dest!: keepsD [OF k] keepsD [OF assms(2)])
qed

lemma keeps_supervise:
  assumes "libs_account opn libs" and "keeps opn serve"
  shows "keeps opn (supervise e sent m1 m2 m3 (pr_cancelRun libs) (pr_Shutdown libs) serve)"
proof -
  have k: "keeps opn (pr_Shutdown libs)" and c: "\<And>s. opn (pr_cancelRun libs s) = opn s"
    using assms(1) by (simp_all add: libs_account_def gives_back_def)
  show ?thesis
    unfolding keeps_def supervise_def Let_def
    by (auto simp: c split: prod.splits option.splits dest!: keepsD [OF k] keepsD [OF assms(2)])
qed

lemma auth_Run_keeps:
  assumes "libs_account opn libs" and "\<And>cfg h ts rd. keeps opn (serve cfg h ts rd)"
  shows "keeps opn (auth_Run parse atoi_err rand libs env serve)"
  unfolding auth_Run_def
  by (intro keeps_try_plain keeps_signal keeps_traced keeps_pooled keeps_serve_until takes_pure assms)

lemma analytics_consumer_takes:
  assumes "\<And>os. takes opn (\<lambda>_. [HKafka]) (only_err (kl_NewClient kl os))" and "\<And>d. keeps opn (kl_Ping kl d)"
    and "gives_back opn [HKafka] (kl_Close kl)"
  shows "takes opn (\<lambda>_. [HKafka]) (NewAnalyticsConsumer (kl_NewClient kl) (kl_Ping kl) (kl_Close kl) cfg p l)"
proof -
  have c: "\<And>s rest. opn s = HKafka # rest \<Longrightarrow> opn (kl_Close kl s) = rest" using assms(3) by (simp add: gives_back_def)
  show ?thesis
    unfolding takes_def
    by (auto simp: NewAnalyticsConsumer_def Let_def c split: prod.splits option.splits
        dest!: takes_only_errD [OF assms(1)] keepsD [OF assms(2)])
qed

lemma analytics_Run_keeps:
  assumes "libs_account opn libs" and "\<And>cfg c rd. keeps opn (serve cfg c rd)"
    and "\<And>os. takes opn (\<lambda>_. [HKafka]) (only_err (kl_NewClient kl os))" and "\<And>d. keeps opn (kl_Ping kl d)"
    and "gives_back opn [HKafka] (kl_Close kl)" and "gives_back opn [HKafka] (kl_CloseAllowingRebalance kl)"
  shows "keeps opn (analytics_app_Run parse atoi_err kl runDone libs env serve)"
  unfolding analytics_app_Run_def
  by (intro keeps_try_plain [OF takes_pure] keeps_signal keeps_cancelRun keeps_traced keeps_pooled
      keeps_try [OF analytics_consumer_takes [OF assms(3-5)]] closes_defer [OF assms(6)] keeps_supervise assms(1,2))

lemma keeps_published:
  assumes "amqp_account opn amqp" and "\<And>p. keeps opn (rest p)"
  shows "keeps opn (go_try wrap (NewPublisher amqp cfg)
      (\<lambda>p. go_defer (\<lambda>s. snd (snd (publisher_Close amqp p s))) (rest p)))"
  unfolding keeps_def
proof
  fix s
  obtain r s1 where n: "NewPublisher amqp cfg s = (r, s1)" by fastforce
  have t: "case r of Inl _ \<Rightarrow> opn s1 = opn s | Inr p \<Rightarrow> opn s1 = [HChannel, HConnection] @ opn s"
    using NewPublisher_takes [OF assms(1), of cfg] n unfolding takes_def by (auto dest!: spec [of _ s] split: sum.splits)
  show "opn (snd (go_try wrap (NewPublisher amqp cfg)
      (\<lambda>p. go_defer (\<lambda>s. snd (snd (publisher_Close amqp p s))) (rest p)) s)) = opn s"
  proof (cases r)
    case (Inl e)
    then show ?thesis using n t by (simp add: go_try_def)
  next
    case (Inr p)
    obtain r2 s2 where m: "rest p s1 = (r2, s2)" by fastforce
    have "opn s2 = [HChannel, HConnection] @ opn s" using keepsD [OF assms(2) m] t Inr by simp
    then have "opn (snd (amqp_close_both amqp s2)) = opn s"
      using amqp_close_both_closes [OF assms(1)] unfolding closes_def by blast
    moreover have "\<not> pb_closed p" by (rule NewPublisher_open [OF n [unfolded Inr]])
    ultimately show ?thesis using n m Inr
      by (auto simp: go_try_def go_defer_def publisher_Close_def split: prod.splits)
  qed
qed

lemma control_Run_keeps:
  assumes "libs_account opn libs" and "amqp_account opn amqp" and "\<And>a p rd. keeps opn (serve a p rd)"
  shows "keeps opn (control_Run parse amqp libs env serve)"
  unfolding control_Run_def [abs_def]
  by (intro keeps_signal keeps_traced keeps_pooled keeps_try_plain [OF takes_pure] keeps_published keeps_serve_until assms)

lemma Install_keeps:
  assumes "\<And>e a b. keeps opn (pve_Put pe e a b)"
  shows "keeps opn (Install pe c)"
  unfolding keeps_def Install_def Let_def
  by (auto split: prod.splits option.splits sum.splits dest!: keepsD [OF assms])

lemma worker_Run_keeps:
  assumes "libs_account opn libs" and "amqp_account opn amqp" and "\<And>e a b. keeps opn (pve_Put pe e a b)"
    and "\<And>c k rd. keeps opn (serve c k rd)"
  shows "keeps opn (worker_Run ct parse amqp pe ticks ctxErr libs env serve)"
proof -
  have "gives_back opn [HChannel, HConnection] (\<lambda>s. snd (consumer_Close amqp s))"
    using amqp_close_both_closes [OF assms(2)] by (simp add: gives_back_def closes_def consumer_Close_def)
  then show ?thesis
    unfolding worker_Run_def [abs_def]
    by (intro keeps_signal keeps_cancelRun keeps_traced keeps_try_plain [OF takes_pure] keeps_pooled
        keeps_try [OF NewConsumer_takes [OF assms(2)]] closes_defer
        keeps_try_plain [OF takes_only_err [OF install_until_keeps [OF Install_keeps [OF assms(3)]]]]
        keeps_supervise assms(1,4))
qed

lemma demo_Run_keeps:
  assumes "libs_account opn libs" and "\<And>rd s. opn (serve rd s) = opn s"
  shows "keeps opn (demo_Run libs env serve)"
proof -
  have k: "keeps opn (pr_Shutdown libs)" using assms(1) by (simp add: libs_account_def)
  have "keeps opn (\<lambda>s. pr_Shutdown libs (serve rd s))" for rd
    using k assms(2) by (simp add: keeps_def)
  then show ?thesis
    unfolding demo_Run_def [abs_def] by (intro keeps_signal keeps_traced assms(1))
qed

section \<open>Properties\<close>


text \<open>A process whose state is the list of its handles; RabbitMQ refuses the queue binding.\<close>

definition demo_otel :: "(jb_error, handle list) otel_libs" where
  "demo_otel = \<lparr>ot_SetPropagator = id, ot_NewExporter = (\<lambda>_ s. (None, s)), ot_NewResource = (\<lambda>_ _ s. (None, s)),
     ot_NewProvider = (\<lambda>_ s. HTracer # s), ot_Shutdown = (\<lambda>s. (None, tl s)),
     ot_ParseBoolErr = (\<lambda>_. Sentinel (JbExternal ''bool'')), ot_ParseFloat = (\<lambda>_. Inr (Fin 1))\<rparr>"

definition demo_pgx :: "(jb_error, handle list) pgx_libs" where
  "demo_pgx = \<lparr>px_ParseConfig = (\<lambda>dsn. Inr \<lparr>plc_DSN = dsn, plc_MaxConns = 4, plc_MinConns = 0, plc_MaxConnLifetime = 0\<rparr>),
     px_NewWithConfig = (\<lambda>_ s. (None, HPool # s)), px_Ping = (\<lambda>_ s. (None, s)), px_Close = tl\<rparr>"

definition demo_proc :: "(jb_error, handle list) proc_libs" where
  "demo_proc = \<lparr>pr_NotifyContext = (\<lambda>s. HSignal # s), pr_stop = tl, pr_cancelRun = id, pr_Shutdown = (\<lambda>s. (None, s)),
     pr_ErrServerClosed = Sentinel (JbExternal ''http: Server closed''), pr_otel = demo_otel, pr_pgx = demo_pgx\<rparr>"

definition demo_amqp :: "handle list amqp_ops" where
  "demo_amqp = \<lparr>aq_Dial = (\<lambda>_ s. (None, HConnection # s)), aq_Channel = (\<lambda>s. (None, HChannel # s)),
     aq_ExchangeDeclare = (\<lambda>_ _ s. (None, s)), aq_QueueDeclare = (\<lambda>_ _ s. (None, s)),
     aq_QueueBind = (\<lambda>_ _ _ s. (Some (Sentinel (JbExternal ''refused'')), s)), aq_Confirm = (\<lambda>s. (None, s)),
     aq_Qos = (\<lambda>_ s. (None, s)), aq_Publish = (\<lambda>_ _ _ _ s. (Inr None, s)), aq_Wait = (\<lambda>_ _ s. (Inr True, s)),
     aq_CloseChannel = (\<lambda>s. (None, tl s)), aq_CloseConnection = (\<lambda>s. (None, tl s)),
     aq_ConnectionClosed = (\<lambda>_. False), aq_ChannelClosed = (\<lambda>_. False)\<rparr>"

definition demo_policy_env :: "handle list policy_env" where
  "demo_policy_env = \<lparr>pve_Marshal = (\<lambda>_. Some ''x''), pve_PathEscape = id, pve_NewRequest = (\<lambda>_ _. None),
     pve_Put = (\<lambda>_ _ _ s. (Inr 204, s))\<rparr>"

lemma demo_accounts: "libs_account id demo_proc" "amqp_account id demo_amqp" "keeps id (pve_Put demo_policy_env e a b)"
  by (simp_all add: libs_account_def amqp_account_def demo_proc_def demo_otel_def demo_pgx_def demo_amqp_def
      demo_policy_env_def keeps_def takes_def gives_back_def closes_def only_err_def)

definition demo_worker_result :: "jb_err option \<times> handle list" where
  "demo_worker_result = worker_Run demo_case (\<lambda>_. None) demo_amqp demo_policy_env 3 (Sentinel (JbExternal ''deadline''))
     demo_proc (\<lambda>_. '''') (\<lambda>_ _ _ s. (SignalDone, s)) []"

lemma demo_worker_fails:
  "fst demo_worker_result = Some (Errorf ''create RabbitMQ job consumer: %w'' [Errorf ''bind jobs queue: %w'' [Sentinel (JbExternal ''refused'')]])"
  by code_simp


end
