(* ===== verification/Gateway_Kafka.thy ===== *)
theory Gateway_Kafka
  imports Gateway_Domain
begin

text \<open>
  \<open>internal/gateway/infrastructure/kafka/access_event_producer.go\<close> and the gateway's runtime
  configuration \<open>internal/gateway/config/config.go\<close>. The Kafka client, the JSON encoder, trace
  propagation and \<open>time.ParseDuration\<close> are parameters; tracing spans are not modelled.
\<close>

section \<open>Lists of addresses\<close>

text \<open>The loop of \<open>splitCSV\<close> and of \<open>normalizedBrokers\<close>: trim, drop blanks and repetitions. The
  second component holds the keys of the map \<open>seen\<close>.\<close>

definition dedupe_step :: "string \<Rightarrow> string list \<times> string list \<Rightarrow> string list \<times> string list" where
  "dedupe_step part acc =
     (case acc of (result, seen) \<Rightarrow>
        let item = TrimSpace part in
        if item = '''' then (result, seen)
        else if item \<in> set seen then (result, seen)
        else (result @ [item], item # seen))"

definition splitCSV :: "string \<Rightarrow> string list" where
  "splitCSV v = fst (fold dedupe_step (split_byte (CHR '','') v) ([], []))"

definition normalizedBrokers :: "string list \<Rightarrow> string list" where
  "normalizedBrokers rawBrokers = fst (fold dedupe_step rawBrokers ([], []))"

definition keep_trimmed :: "string list \<Rightarrow> string list" where
  "keep_trimmed parts = filter (\<lambda>x. x \<noteq> '''') (map TrimSpace parts)"

lemma dedupe_fold:
  "fold dedupe_step parts ([], []) =
     (rev (remdups (rev (keep_trimmed parts))), remdups (rev (keep_trimmed parts)))"
proof (induction parts rule: rev_induct)
  case (snoc p parts)
  then show ?case by (simp add: dedupe_step_def Let_def keep_trimmed_def)
qed (simp add: keep_trimmed_def)

text \<open>Both give the trimmed non-blank items in the order of their first occurrence.\<close>

lemma splitCSV_spec: "splitCSV v = rev (remdups (rev (keep_trimmed (split_byte (CHR '','') v))))"
  by (simp add: splitCSV_def dedupe_fold)

lemma normalizedBrokers_spec: "normalizedBrokers bs = rev (remdups (rev (keep_trimmed bs)))"
  by (simp add: normalizedBrokers_def dedupe_fold)

lemma keep_trimmed_id: "\<forall>x\<in>set xs. x \<noteq> '''' \<and> TrimSpace x = x \<Longrightarrow> keep_trimmed xs = xs"
  by (induction xs) (auto simp: keep_trimmed_def)

lemma keep_trimmed_set: "x \<in> set (keep_trimmed parts) \<Longrightarrow> x \<noteq> '''' \<and> TrimSpace x = x"
  by (auto simp: keep_trimmed_def)

section \<open>The producer\<close>

record KafkaConfig =
  kc_Brokers :: "string list"
  kc_Topic :: string
  kc_ClientID :: string
  kc_MaxBufferedRecords :: int
  kc_FlushTimeout :: Duration

record kafka_record =
  kr_Topic :: string
  kr_Key :: string
  kr_Value :: string
  kr_Timestamp :: Time
  kr_Headers :: "(string \<times> string) list"

text \<open>The options passed to \<open>kgo.NewClient\<close>.\<close>

record kgo_options =
  ko_SeedBrokers :: "string list"
  ko_ClientID :: string
  ko_DefaultProduceTopic :: string
  ko_MaxBufferedRecords :: int
  ko_RecordDeliveryTimeout :: Duration

record 's kgo_client =
  kg_TryProduce :: "kafka_record \<Rightarrow> 's \<Rightarrow> 's"
  kg_Ping :: "'s \<Rightarrow> gw_err option"
  kg_Flush :: "Duration \<Rightarrow> 's \<Rightarrow> gw_err option \<times> 's"
  kg_Close :: "'s \<Rightarrow> 's"

record 's Producer =
  kp_client :: "'s kgo_client"
  kp_topic :: string
  kp_flushTimeout :: Duration

definition NewProducer ::
  "(kgo_options \<Rightarrow> gw_err + 's kgo_client) \<Rightarrow> KafkaConfig \<Rightarrow> gw_err + 's Producer" where
  "NewProducer kgo_NewClient config =
     (let brokers = normalizedBrokers (kc_Brokers config);
          topic = TrimSpace (kc_Topic config);
          clientID = TrimSpace (kc_ClientID config) in
      if length brokers = 0 then Inl (Errorf ''kafka brokers are required'' [])
      else if topic = '''' then Inl (Errorf ''kafka access event topic is required'' [])
      else if clientID = '''' then Inl (Errorf ''kafka client id is required'' [])
      else
        let maxBufferedRecords = (if kc_MaxBufferedRecords config \<le> 0 then 10000 else kc_MaxBufferedRecords config);
            flushTimeout = (if kc_FlushTimeout config \<le> 0 then 5 * Second else kc_FlushTimeout config) in
        case kgo_NewClient \<lparr>ko_SeedBrokers = brokers, ko_ClientID = clientID, ko_DefaultProduceTopic = topic,
               ko_MaxBufferedRecords = maxBufferedRecords, ko_RecordDeliveryTimeout = 10 * Second\<rparr> of
          Inl err \<Rightarrow> Inl (Errorf ''create kafka producer: %w'' [err])
        | Inr client \<Rightarrow>
            Inr \<lparr>kp_client = client, kp_topic = topic, kp_flushTimeout = flushTimeout\<rparr>)"

definition accessEventRecord ::
  "(GatewayAccessEvent \<Rightarrow> gw_err + string) \<Rightarrow> (string \<times> string) list \<Rightarrow> string \<Rightarrow> GatewayAccessEvent \<Rightarrow>
   gw_err + kafka_record" where
  "accessEventRecord json_Marshal traceHeaders topic event =
     (case json_Marshal event of
        Inl err \<Rightarrow> Inl (Errorf ''marshal gateway access event: %w'' [err])
      | Inr payload \<Rightarrow>
          (let key = (if ev_ProjectID event \<noteq> '''' \<and> ev_RouteName event \<noteq> ''''
                      then ev_ProjectID event @ '':'' @ ev_RouteName event
                      else TrimSpace (ev_RequestID event));
               headers = [(''event-type'', GatewayAccessEventType),
                          (''schema-version'', Itoa (ev_SchemaVersion event))] @ traceHeaders
           in Inr \<lparr>kr_Topic = topic, kr_Key = key, kr_Value = payload,
                   kr_Timestamp = ev_OccurredAt event, kr_Headers = headers\<rparr>))"

definition PublishGatewayAccess ::
  "(GatewayAccessEvent \<Rightarrow> gw_err + string) \<Rightarrow> (string \<times> string) list \<Rightarrow> 's Producer \<Rightarrow>
   GatewayAccessEvent \<Rightarrow> 's \<Rightarrow> gw_err option \<times> 's" where
  "PublishGatewayAccess json_Marshal traceHeaders p event s =
     (case event_Validate event of
        Some err \<Rightarrow> (Some (Errorf ''validate gateway access event: %w'' []), s)
      | None \<Rightarrow>
          (case accessEventRecord json_Marshal traceHeaders (kp_topic p) event of
             Inl err \<Rightarrow> (Some err, s)
           | Inr record \<Rightarrow> (None, kg_TryProduce (kp_client p) record s)))"

definition producer_Ping :: "'s Producer option \<Rightarrow> 's \<Rightarrow> gw_err option" where
  "producer_Ping p s =
     (case p of
        None \<Rightarrow> Some (Errorf ''kafka producer is not configured'' [])
      | Some pr \<Rightarrow>
          (case kg_Ping (kp_client pr) s of
             Some err \<Rightarrow> Some (Errorf ''ping kafka producer: %w'' [err])
           | None \<Rightarrow> None))"

definition producer_Close :: "'s Producer \<Rightarrow> 's \<Rightarrow> gw_err option \<times> 's" where
  "producer_Close p s =
     (case kg_Flush (kp_client p) (kp_flushTimeout p) s of (flushErr, s1) \<Rightarrow>
        (case flushErr of
           Some err \<Rightarrow> (Some (Errorf ''flush kafka producer: %w'' [err]), kg_Close (kp_client p) s1)
         | None \<Rightarrow> (None, kg_Close (kp_client p) s1)))"

section \<open>Runtime configuration\<close>

record GatewayConfig =
  gc_ConfigPath :: string
  gc_ControlPlaneURL :: string
  gc_RoutesRefreshInterval :: Duration
  gc_AuthServiceURL :: string
  gc_RedisURL :: string
  gc_RedisRateLimitPrefix :: string
  gc_KafkaBrokers :: "string list"
  gc_KafkaAccessTopic :: string
  gc_KafkaClientID :: string

definition or_default :: "string \<Rightarrow> string \<Rightarrow> string" where
  "or_default v d = (if v = '''' then d else v)"

definition gateway_Load :: "(string \<Rightarrow> gw_err + Duration) \<Rightarrow> (string \<Rightarrow> string) \<Rightarrow> gw_err + GatewayConfig" where
  "gateway_Load time_ParseDuration os_Getenv =
     (let cfg = \<lparr>gc_ConfigPath = or_default (TrimSpace (os_Getenv ''GATEWAY_CONFIG_PATH'')) ''configs/gateway.yaml'',
                 gc_ControlPlaneURL = TrimSpace (os_Getenv ''CONTROL_PLANE_URL''),
                 gc_RoutesRefreshInterval = 10 * Second,
                 gc_AuthServiceURL = TrimSpace (os_Getenv ''AUTH_SERVICE_URL''),
                 gc_RedisURL = TrimSpace (os_Getenv ''REDIS_URL''),
                 gc_RedisRateLimitPrefix = TrimSpace (os_Getenv ''REDIS_RATE_LIMIT_PREFIX''),
                 gc_KafkaBrokers = splitCSV (os_Getenv ''KAFKA_BROKERS''),
                 gc_KafkaAccessTopic = or_default (TrimSpace (os_Getenv ''KAFKA_ACCESS_TOPIC'')) ''edgeguard.gateway.access.v1'',
                 gc_KafkaClientID = or_default (TrimSpace (os_Getenv ''KAFKA_CLIENT_ID'')) ''edgeguard-gateway''\<rparr>;
          rawInterval = TrimSpace (os_Getenv ''ROUTES_REFRESH_INTERVAL'') in
      if rawInterval \<noteq> '''' then
        (case time_ParseDuration rawInterval of
           Inl err \<Rightarrow> Inl (Errorf ''parse ROUTES_REFRESH_INTERVAL: %w'' [err])
         | Inr interval \<Rightarrow>
             if interval \<le> 0 then Inl (Errorf ''ROUTES_REFRESH_INTERVAL must be positive'' [])
             else Inr (cfg\<lparr>gc_RoutesRefreshInterval := interval\<rparr>))
      else Inr cfg)"

lemma gateway_Load_interval: "gateway_Load parse env = Inr cfg \<Longrightarrow> 0 < gc_RoutesRefreshInterval cfg"
  by (auto simp: gateway_Load_def Let_def Second_def split: if_splits sum.splits)

section \<open>Properties\<close>

text \<open>The broker list the gateway connects to has no blank and no repeated entries, keeps the
  order of first occurrence, and normalising it again in the producer changes nothing.\<close>

lemma brokers_normalised_once:
  "gateway_Load parse env = Inr cfg \<Longrightarrow>
     distinct (gc_KafkaBrokers cfg) \<and> '''' \<notin> set (gc_KafkaBrokers cfg) \<and>
     gc_KafkaBrokers cfg = rev (remdups (rev (keep_trimmed (split_byte (CHR '','') (env ''KAFKA_BROKERS''))))) \<and>
     normalizedBrokers (gc_KafkaBrokers cfg) = gc_KafkaBrokers cfg"
proof -
  assume "gateway_Load parse env = Inr cfg"
  then have eq: "gc_KafkaBrokers cfg = splitCSV (env ''KAFKA_BROKERS'')"
    by (auto simp: gateway_Load_def Let_def split: if_splits sum.splits)
  then have "\<forall>x\<in>set (gc_KafkaBrokers cfg). x \<noteq> '''' \<and> TrimSpace x = x"
    by (auto simp: splitCSV_spec dest: keep_trimmed_set)
  moreover have "distinct (gc_KafkaBrokers cfg)" by (simp add: eq splitCSV_spec)
  ultimately have "normalizedBrokers (gc_KafkaBrokers cfg) = gc_KafkaBrokers cfg"
    by (simp add: normalizedBrokers_spec keep_trimmed_id distinct_remdups_id)
  moreover have "gc_KafkaBrokers cfg =
      rev (remdups (rev (keep_trimmed (split_byte (CHR '','') (env ''KAFKA_BROKERS'')))))"
    by (simp only: eq splitCSV_spec)
  ultimately show ?thesis
    using \<open>distinct (gc_KafkaBrokers cfg)\<close> \<open>\<forall>x\<in>set (gc_KafkaBrokers cfg). x \<noteq> '''' \<and> TrimSpace x = x\<close>
    by blast
qed

lemma brokers_normalised_once_witness:
  "normalizedBrokers (splitCSV ''k1:9092,k2:9092,k1:9092'') = splitCSV ''k1:9092,k2:9092,k1:9092''"
proof -
  let ?env = "\<lambda>k. if k = ''KAFKA_BROKERS'' then ''k1:9092,k2:9092,k1:9092'' else ''''"
  obtain cfg where cfg: "gateway_Load (\<lambda>_. Inr 0) ?env = Inr cfg"
    and b: "gc_KafkaBrokers cfg = splitCSV ''k1:9092,k2:9092,k1:9092''"
    by (simp add: gateway_Load_def Let_def)
  from brokers_normalised_once [OF cfg] show ?thesis unfolding b by blast
qed

text \<open>Publishing hands one record to the Kafka client exactly when the event is valid and can be
  encoded, and otherwise returns an error and sends nothing; the record's key groups the events of a
  route of a project.\<close>

lemma PublishGatewayAccess_valid_only:
  "PublishGatewayAccess json_Marshal hs p event s =
     (if event_Validate event = None \<and> (\<exists>payload. json_Marshal event = Inr payload)
      then (None, kg_TryProduce (kp_client p)
              \<lparr>kr_Topic = kp_topic p,
               kr_Key = (if ev_ProjectID event \<noteq> '''' \<and> ev_RouteName event \<noteq> ''''
                         then ev_ProjectID event @ '':'' @ ev_RouteName event
                         else TrimSpace (ev_RequestID event)),
               kr_Value = projr (json_Marshal event), kr_Timestamp = ev_OccurredAt event,
               kr_Headers = [(''event-type'', ''gateway.access''), (''schema-version'', ''1'')] @ hs\<rparr> s)
      else (fst (PublishGatewayAccess json_Marshal hs p event s), s)) \<and>
   (fst (PublishGatewayAccess json_Marshal hs p event s) = None \<longleftrightarrow>
      event_Validate event = None \<and> (\<exists>payload. json_Marshal event = Inr payload))"
proof (cases "event_Validate event")
  case None
  have one: "Itoa 1 = ''1''" by code_simp
  from None have "ev_SchemaVersion event = 1" by (simp add: event_valid_iff)
  with None one show ?thesis
    by (auto simp: PublishGatewayAccess_def accessEventRecord_def GatewayAccessEventType_def Let_def
        split: sum.splits)
qed (simp add: PublishGatewayAccess_def)

end
