(* ===== verification/Gateway_App.thy ===== *)
theory Gateway_App
  imports Service_Run Gateway_Kafka
begin

text \<open>
  \<open>internal/gateway/app\<close>: how the gateway is put together from its configuration. The rate limiter is a pointer
  that is stored in an interface: an interface that holds a nil pointer is not nil itself, so a call on it reaches
  the method, which panics when it uses the pointer.
\<close>

section \<open>Pointers in interfaces\<close>

datatype 'a go_iface = NilIface | Iface 'a

datatype 'a go_result = Panics | Returns 'a

text \<open>\<open>Allow\<close> on a pointer that may be nil: the two checks come before its first use.\<close>

definition Allow_method ::
  "(string \<Rightarrow> string) \<Rightarrow> 's Limiter option \<Rightarrow> RateLimitRequest \<Rightarrow> 's \<Rightarrow> ((gw_err + RateLimitResult) \<times> 's) go_result" where
  "Allow_method sha256 l request s =
     (if pol_Limit (rlr_Policy request) \<le> 0 \<or> pol_Window (rlr_Policy request) \<le> 0
        then Returns (Inl (Sentinel ErrInvalidRateLimitPolicy), s)
      else if TrimSpace (rlr_RouteKey request) = '''' \<or> TrimSpace (rlr_ClientID request) = ''''
        then Returns (Inl (Sentinel ErrInvalidRateLimitClient), s)
      else (case l of
              None \<Rightarrow> Panics
            | Some p \<Rightarrow> Returns (Allow sha256 p request s)))"

text \<open>\<open>CheckRateLimit\<close> on the limiter that the use case holds.\<close>

definition CheckRateLimit_iface ::
  "(string \<Rightarrow> string) \<Rightarrow> 's Limiter option go_iface \<Rightarrow> Route \<Rightarrow> string \<Rightarrow> 's \<Rightarrow> ((gw_err + RateLimitResult) \<times> 's) go_result" where
  "CheckRateLimit_iface sha256 rateLimiter route clientID s =
     (if \<not> pol_Enabled (rt_RateLimit route) then Returns (Inr unlimited_result, s)
      else if pol_Limit (rt_RateLimit route) \<le> 0 \<or> pol_Window (rt_RateLimit route) \<le> 0
        then Returns (Inl (Sentinel ErrInvalidRateLimitPolicy), s)
      else (let clientID' = TrimSpace clientID in
            if clientID' = '''' then Returns (Inl (Sentinel ErrInvalidRateLimitClient), s)
            else (case rateLimiter of
                    NilIface \<Rightarrow> Returns (Inl (Sentinel ErrRateLimiterNotConfigured), s)
                  | Iface l \<Rightarrow>
                      Allow_method sha256 l \<lparr>rlr_RouteKey = route_key route, rlr_ClientID = clientID',
                                             rlr_Policy = rt_RateLimit route\<rparr> s)))"

section \<open>The parts of the gateway\<close>

record 's gateway_libs =
  gl_ParseDuration :: "string \<Rightarrow> gw_err + Duration"
  gl_ReadFile :: "string \<Rightarrow> gw_err + string"
  gl_Unmarshal :: "string \<Rightarrow> gw_err + GatewayYAML"
  gl_url_Parse :: url_parser
  gl_url_String :: "ParsedURL \<Rightarrow> string"
  gl_url_JoinPath :: "string \<Rightarrow> string \<Rightarrow> gw_err + string"
  gl_http :: "'s http_env"
  gl_auth :: "'s auth_env"
  gl_redis_ParseURL :: "string \<Rightarrow> gw_err + redis_options"
  gl_redis_NewClient :: "redis_options \<Rightarrow> 's Limiter"
  gl_Now :: "'s \<Rightarrow> Time"
  gl_sha256 :: "string \<Rightarrow> string"
  gl_kgo_NewClient :: "kgo_options \<Rightarrow> gw_err + 's kgo_client"
  gl_Marshal :: "GatewayAccessEvent \<Rightarrow> gw_err + string"
  gl_TraceHeaders :: "(string \<times> string) list"
  gl_checkRequest :: "string \<Rightarrow> gw_err option"
  gl_checkDo :: "Duration \<Rightarrow> string \<Rightarrow> 's \<Rightarrow> (gw_err + int) \<times> 's"

text \<open>A part that is built only when it is configured.\<close>

definition when_set :: "bool \<Rightarrow> 'e + 'a \<Rightarrow> 'e + 'a option" where
  "when_set configured r = (if configured then map_sum id Some r else Inr None)"

definition gateway_source :: "'s gateway_libs \<Rightarrow> GatewayConfig \<Rightarrow> gw_err + Client option" where
  "gateway_source gl cfg =
     when_set (gc_ControlPlaneURL cfg \<noteq> '''')
       (NewControlPlaneClient (gl_url_Parse gl) (gl_url_String gl) (gl_url_JoinPath gl) (gc_ControlPlaneURL cfg))"

definition gateway_validator :: "'s gateway_libs \<Rightarrow> GatewayConfig \<Rightarrow> gw_err + AuthClient option" where
  "gateway_validator gl cfg =
     when_set (gc_AuthServiceURL cfg \<noteq> '''')
       (NewAuthClient (gl_url_Parse gl) (gl_url_String gl) (gl_url_JoinPath gl) (gc_AuthServiceURL cfg))"

definition gateway_limiter :: "'s gateway_libs \<Rightarrow> GatewayConfig \<Rightarrow> gw_err + 's Limiter option" where
  "gateway_limiter gl cfg =
     when_set (gc_RedisURL cfg \<noteq> '''')
       (NewLimiter (gl_redis_ParseURL gl) (gl_redis_NewClient gl) (gl_Now gl) (gc_RedisURL cfg) (gc_RedisRateLimitPrefix cfg))"

definition gateway_producer :: "'s gateway_libs \<Rightarrow> GatewayConfig \<Rightarrow> gw_err + 's Producer option" where
  "gateway_producer gl cfg =
     when_set (length (gc_KafkaBrokers cfg) > 0)
       (NewProducer (gl_kgo_NewClient gl)
          \<lparr>kc_Brokers = gc_KafkaBrokers cfg, kc_Topic = gc_KafkaAccessTopic cfg, kc_ClientID = gc_KafkaClientID cfg,
           kc_MaxBufferedRecords = 0, kc_FlushTimeout = 0\<rparr>)"

text \<open>The dependency that the use case gets: the pointer, in an interface, whether or not it is nil.\<close>

definition limiter_dependency :: "'s Limiter option \<Rightarrow> 's Limiter option go_iface" where
  "limiter_dependency rateLimiter = Iface rateLimiter"

definition gateway_checks ::
  "'s gateway_libs \<Rightarrow> GatewayConfig \<Rightarrow> 's Limiter option \<Rightarrow> 's Producer option \<Rightarrow> (gw_error, 's) Check list" where
  "gateway_checks gl cfg rateLimiter kafkaProducer =
     (if gc_ControlPlaneURL cfg \<noteq> ''''
      then [check_Optional (HTTPCheck (gl_checkRequest gl) (gl_checkDo gl) ''control_plane'' (gc_ControlPlaneURL cfg))] else []) @
     (if gc_AuthServiceURL cfg \<noteq> ''''
      then [HTTPCheck (gl_checkRequest gl) (gl_checkDo gl) ''auth'' (gc_AuthServiceURL cfg)] else []) @
     (if rateLimiter \<noteq> None
      then [\<lparr>ck_Name = ''redis'', ck_Run = Some (\<lambda>s. (limiter_Ping rateLimiter s, s)), ck_Optional = True\<rparr>] else []) @
     (if kafkaProducer \<noteq> None
      then [\<lparr>ck_Name = ''kafka'', ck_Run = Some (\<lambda>s. (producer_Ping kafkaProducer s, s)), ck_Optional = True\<rparr>] else [])"

text \<open>The use case; the limiter is given separately, in its interface.\<close>

definition gateway_usecase ::
  "'z RouteRepository_scheme gateway_libs \<Rightarrow> Client option \<Rightarrow> AuthClient option \<Rightarrow> 'z RouteRepository_scheme Producer option \<Rightarrow>
   'z RouteRepository_scheme Usecase" where
  "gateway_usecase gl source validator kafkaProducer =
     memory_usecase (map_option (client_ListRoutes (gl_url_Parse gl) (gl_http gl)) source)
       (map_option (client_ValidateAPIKey (gl_auth gl)) validator) None
       (map_option (PublishGatewayAccess (gl_Marshal gl) (gl_TraceHeaders gl)) kafkaProducer)"

text \<open>The configured routes are installed first; a failing first refresh leaves them in place.\<close>

definition initial_routes ::
  "GatewayYAML \<Rightarrow> Client option \<Rightarrow> 'z RouteRepository_scheme Usecase \<Rightarrow> 'z RouteRepository_scheme \<Rightarrow> 'z RouteRepository_scheme" where
  "initial_routes yaml source u s =
     (let s1 = s\<lparr>rr_routes := rr_routes (NewRouteRepository (DomainRoutes yaml))\<rparr> in
      if source \<noteq> None then snd (RefreshRoutes u s1) else s1)"

definition gateway_Run ::
  "'z RouteRepository_scheme gateway_libs \<Rightarrow> (gw_error, 'z RouteRepository_scheme) proc_libs \<Rightarrow> environ \<Rightarrow>
   (GatewayConfig \<Rightarrow> 'z RouteRepository_scheme Usecase \<Rightarrow> 'z RouteRepository_scheme Limiter option go_iface \<Rightarrow>
    (gw_error, 'z RouteRepository_scheme) Readiness \<Rightarrow> 'z RouteRepository_scheme \<Rightarrow> 'z RouteRepository_scheme) \<Rightarrow>
   'z RouteRepository_scheme \<Rightarrow> gw_err option \<times> 'z RouteRepository_scheme" where
  "gateway_Run gl libs env serve s =
     go_defer (pr_stop libs)
       (go_try id (tracing_Init (pr_otel libs) env ''gateway'') (\<lambda>traceProvider.
          go_defer (shutdownTracing (pr_otel libs) traceProvider)
            (go_try id (pure_call (gateway_Load (gl_ParseDuration gl) env)) (\<lambda>cfg.
             go_try id (pure_call (yaml_Load (gl_ReadFile gl) (gl_Unmarshal gl) (gc_ConfigPath cfg))) (\<lambda>yaml.
             go_try id (pure_call (gateway_source gl cfg)) (\<lambda>source.
             go_try id (pure_call (gateway_validator gl cfg)) (\<lambda>validator.
             go_try id (pure_call (gateway_limiter gl cfg)) (\<lambda>rateLimiter.
               go_defer (\<lambda>s. snd (limiter_Close rateLimiter s))
                 (go_try id (pure_call (gateway_producer gl cfg)) (\<lambda>kafkaProducer.
                    go_defer (\<lambda>s. case kafkaProducer of None \<Rightarrow> s | Some p \<Rightarrow> snd (producer_Close p s))
                      (\<lambda>s. let u = gateway_usecase gl source validator kafkaProducer;
                               s1 = initial_routes yaml source u s;
                               readiness = NewReadiness ''gateway'' (gateway_checks gl cfg rateLimiter kafkaProducer)
                           in pr_Shutdown libs (serve cfg u (limiter_dependency rateLimiter) readiness s1))))))))))))
       (pr_NotifyContext libs s)"

section \<open>Rate limits without Redis\<close>

lemma route_key_not_blank: "TrimSpace (route_key route) \<noteq> ''''"
proof -
  have "CHR 0x00 \<in> set (TrimSpace (route_key route))"
    by (rule TrimSpace_keeps) (simp_all add: route_key_def space_encodings_def)
  then show ?thesis by auto
qed

lemma gateway_limiter_None: "gateway_limiter gl cfg = Inr rateLimiter \<Longrightarrow> rateLimiter = None \<longleftrightarrow> gc_RedisURL cfg = ''''"
  by (cases "NewLimiter (gl_redis_ParseURL gl) (gl_redis_NewClient gl) (gl_Now gl) (gc_RedisURL cfg) (gc_RedisRateLimitPrefix cfg)")
     (auto simp: gateway_limiter_def when_set_def split: if_splits)

lemma Check_iface_configured:
  "CheckRateLimit_iface sha256 (Iface (Some l)) route clientID s =
   Returns (CheckRateLimit (u\<lparr>uc_rateLimiter := Some (Allow sha256 l)\<rparr>) route clientID s)"
  by (simp add: CheckRateLimit_iface_def CheckRateLimit_def Allow_method_def Let_def route_key_not_blank)

lemma Check_iface_nil:
  "CheckRateLimit_iface sha256 NilIface route clientID s =
   Returns (CheckRateLimit (u\<lparr>uc_rateLimiter := None\<rparr>) route clientID s)"
  by (simp add: CheckRateLimit_iface_def CheckRateLimit_def Let_def)

lemma Check_iface_panics:
  "CheckRateLimit_iface sha256 (Iface l) route clientID s = Panics \<longleftrightarrow>
     l = None \<and> pol_Enabled (rt_RateLimit route) \<and> 0 < pol_Limit (rt_RateLimit route) \<and>
     0 < pol_Window (rt_RateLimit route) \<and> TrimSpace clientID \<noteq> ''''"
  by (auto simp: CheckRateLimit_iface_def Allow_method_def Let_def route_key_not_blank split: option.splits)

text \<open>C28. As the gateway is put together, the limit check of a request panics exactly when no Redis is configured and
  the request has a client and a route with a valid limit; with Redis it is \<open>CheckRateLimit\<close> on the Redis limiter.
  A use case whose limiter were really nil would report \<open>ErrRateLimiterNotConfigured\<close> instead, an error on which the
  handler lets the request through.\<close>

theorem limit_check_panics_without_redis:
  assumes "gateway_limiter gl cfg = Inr rateLimiter"
  shows "(CheckRateLimit_iface sha256 (limiter_dependency rateLimiter) route clientID s = Panics \<longleftrightarrow>
      gc_RedisURL cfg = '''' \<and> pol_Enabled (rt_RateLimit route) \<and> 0 < pol_Limit (rt_RateLimit route) \<and>
      0 < pol_Window (rt_RateLimit route) \<and> TrimSpace clientID \<noteq> '''') \<and>
    (\<forall>l. rateLimiter = Some l \<longrightarrow> CheckRateLimit_iface sha256 (limiter_dependency rateLimiter) route clientID s =
      Returns (CheckRateLimit (u\<lparr>uc_rateLimiter := Some (Allow sha256 l)\<rparr>) route clientID s)) \<and>
    CheckRateLimit_iface sha256 NilIface route clientID s =
      Returns (CheckRateLimit (u\<lparr>uc_rateLimiter := None\<rparr>) route clientID s)"
  using gateway_limiter_None [OF assms]
  by (auto simp: limiter_dependency_def Check_iface_panics Check_iface_configured Check_iface_nil)

definition demo_gateway_cfg :: GatewayConfig where
  "demo_gateway_cfg = \<lparr>gc_ConfigPath = ''configs/gateway.yaml'', gc_ControlPlaneURL = '''', gc_RoutesRefreshInterval = 10 * Second,
     gc_AuthServiceURL = '''', gc_RedisURL = '''', gc_RedisRateLimitPrefix = '''', gc_KafkaBrokers = [],
     gc_KafkaAccessTopic = ''edgeguard.gateway.access.v1'', gc_KafkaClientID = ''edgeguard-gateway''\<rparr>"

definition demo_limited_route :: Route where
  "demo_limited_route = (sample_route ''orders'' ''/orders'')
     \<lparr>rt_RateLimit := \<lparr>pol_Enabled = True, pol_Limit = 10, pol_Window = Minute\<rparr>\<rparr>"

definition demo_gateway_libs :: "RouteRepository gateway_libs" where
  "demo_gateway_libs = \<lparr>gl_ParseDuration = (\<lambda>_. Inr Second), gl_ReadFile = (\<lambda>_. Inr ''''),
     gl_Unmarshal = (\<lambda>_. Inr \<lparr>yaml_HTTPAddr = '''', yaml_Routes = []\<rparr>), gl_url_Parse = (\<lambda>_. Inr sample_url),
     gl_url_String = (\<lambda>_. ''http://orders:8081''), gl_url_JoinPath = (\<lambda>a b. Inr (a @ ''/'' @ b)), gl_http = sample_http_env,
     gl_auth = \<lparr>ae_NewRequest = (\<lambda>_ _. None), ae_Do = (\<lambda>_ _ s. (Inl (Errorf ''down'' []), s)),
       ae_Decode = (\<lambda>_ _. Inl (Errorf ''empty'' [])), ae_DecodeNext = (\<lambda>_ _. JsonEOF)\<rparr>,
     gl_redis_ParseURL = (\<lambda>_. Inl (Errorf ''url'' [])),
     gl_redis_NewClient = (\<lambda>_. \<lparr>lim_evaluator = (\<lambda>_ _ s. (Inr (RArray [RInt64 1, RInt64 1]), s)), lim_keyPrefix = '''',
       lim_now = (\<lambda>_. 0), lim_Ping = (\<lambda>_. None), lim_Close = (\<lambda>s. (None, s))\<rparr>),
     gl_Now = (\<lambda>_. 0), gl_sha256 = id, gl_kgo_NewClient = (\<lambda>_. Inl (Errorf ''kafka'' [])),
     gl_Marshal = (\<lambda>_. Inr ''{}''), gl_TraceHeaders = [], gl_checkRequest = (\<lambda>_. None), gl_checkDo = (\<lambda>_ _ s. (Inr 200, s))\<rparr>"

theorem limit_check_panics_without_redis_witness:
  "gateway_limiter demo_gateway_libs demo_gateway_cfg = Inr None \<and>
   CheckRateLimit_iface id (limiter_dependency (None :: RouteRepository Limiter option)) demo_limited_route ''ip:10.0.0.1'' \<lparr>rr_routes = []\<rparr>
     = Panics \<and>
   CheckRateLimit_iface id (NilIface :: RouteRepository Limiter option go_iface) demo_limited_route ''ip:10.0.0.1'' \<lparr>rr_routes = []\<rparr>
     = Returns (Inl (Sentinel ErrRateLimiterNotConfigured), \<lparr>rr_routes = []\<rparr>)"
proof -
  have g: "gateway_limiter demo_gateway_libs demo_gateway_cfg = Inr None"
    by (simp add: gateway_limiter_def when_set_def demo_gateway_cfg_def)
  have "TrimSpace ''ip:10.0.0.1'' = ''ip:10.0.0.1''" by code_simp
  then show ?thesis
    using g limit_check_panics_without_redis [OF g, of id demo_limited_route "''ip:10.0.0.1''" "\<lparr>rr_routes = []\<rparr>"
        "memory_usecase None None None None"]
    by (simp add: demo_gateway_cfg_def demo_limited_route_def CheckRateLimit_def go_time)
qed

end
