(* ===== verification/Worker_Cleanup.thy ===== *)
theory Worker_Cleanup
  imports Jobs_Domain Auth_Store
begin

text \<open>
  \<open>internal/jobworker/infrastructure/postgres/cleanup.go\<close>: the deletion of old refresh tokens, on the
  tables of the auth service. Rows with equal creation times are taken in table order.
\<close>

definition cleanup_candidate :: "Time \<Rightarrow> RefreshToken \<Rightarrow> bool" where
  "cleanup_candidate before t \<longleftrightarrow>
     tok_ExpiresAt t < before \<or> (case tok_RevokedAt t of None \<Rightarrow> False | Some r \<Rightarrow> r < before)"

definition cleanupQuery :: "Time \<Rightarrow> int \<Rightarrow> (auth_db, int) sql" where
  "cleanupQuery before batchSize n db =
     (let candidates = take (nat batchSize)
            (order_by (\<lambda>a b. tok_CreatedAt a < tok_CreatedAt b) (filter (cleanup_candidate (pg_time before)) (db_tokens db)));
          kept = filter (\<lambda>t. tok_ID t \<notin> tok_ID ` set candidates) (db_tokens db) in
      if batchSize < 0 then Inl (PgError ''2201W'' '''')
      else Inr (int (length (db_tokens db)) - int (length kept), db\<lparr>db_tokens := kept\<rparr>))"

definition CleanupExpiredTokens ::
  "pg_env \<Rightarrow> CleanupPayload \<Rightarrow> 'z auth_state \<Rightarrow> (jb_err + int) \<times> 'z auth_state" where
  "CleanupExpiredTokens env payload s =
     (case pg_exec env (cleanupQuery (cp_Before payload) (cp_BatchSize payload)) s of
        (Inr affected, s1) \<Rightarrow> (Inr affected, s1)
      | (Inl err, s1) \<Rightarrow> (Inl (Errorf ''delete expired refresh tokens: %w'' [Sentinel (JbPg err)]), s1))"

lemma filter_split_length: "length xs = length (filter P xs) + length (filter (\<lambda>x. \<not> P x) xs)"
  by (induction xs) auto

lemma deleted_count:
  assumes "distinct (map k xs)" and "set cs \<subseteq> set xs" and "distinct (map k cs)"
  shows "length (filter (\<lambda>x. k x \<in> k ` set cs) xs) = length cs"
proof -
  have "filter (\<lambda>x. k x \<in> k ` set cs) xs = filter (\<lambda>x. x \<in> set cs) xs"
    using assms(1,2) distinct_key_eq [OF assms(1)] by (intro filter_cong) auto
  moreover have "length (filter (\<lambda>x. x \<in> set cs) xs) = card (set cs)"
  proof -
    have "distinct (filter (\<lambda>x. x \<in> set cs) xs)" using assms(1) by (simp add: distinct_map)
    moreover have "set (filter (\<lambda>x. x \<in> set cs) xs) = set cs" using assms(2) by auto
    ultimately show ?thesis by (metis distinct_card)
  qed
  moreover have "card (set cs) = length cs" using assms(3) by (intro distinct_card) (simp add: distinct_map)
  ultimately show ?thesis by simp
qed

text \<open>C34. A cleanup job deletes only refresh tokens that expired or were revoked before its cut-off, at
  most as many as its batch size and the oldest ones first; it reports their number and changes
  nothing else. If fewer than a full batch were deleted, no candidate is left.\<close>

theorem cleanup_deletes_only_old:
  assumes "auth_wf (pg_db s)" and "CleanupExpiredTokens env payload s = (Inr n, s')"
  shows "n \<le> cp_BatchSize payload \<and>
    int (length (db_tokens (pg_db s'))) + n = int (length (db_tokens (pg_db s))) \<and>
    set (db_tokens (pg_db s')) \<subseteq> set (db_tokens (pg_db s)) \<and>
    (\<forall>t\<in>set (db_tokens (pg_db s)). t \<notin> set (db_tokens (pg_db s')) \<longrightarrow> cleanup_candidate (pg_time (cp_Before payload)) t \<and>
       (\<forall>t'\<in>set (db_tokens (pg_db s')). cleanup_candidate (pg_time (cp_Before payload)) t' \<longrightarrow> tok_CreatedAt t \<le> tok_CreatedAt t')) \<and>
    (n < cp_BatchSize payload \<longrightarrow>
       \<not> (\<exists>t\<in>set (db_tokens (pg_db s')). cleanup_candidate (pg_time (cp_Before payload)) t)) \<and>
    db_users (pg_db s') = db_users (pg_db s) \<and> db_keys (pg_db s') = db_keys (pg_db s)"
proof -
  let ?toks = "db_tokens (pg_db s)" and ?old = "cleanup_candidate (pg_time (cp_Before payload))"
  define ord where "ord = order_by (\<lambda>a b. tok_CreatedAt a < tok_CreatedAt b) (filter ?old ?toks)"
  define cs where "cs = take (nat (cp_BatchSize payload)) ord"
  define kept where "kept = filter (\<lambda>t. tok_ID t \<notin> tok_ID ` set cs) ?toks"
  obtain r s1 where x: "pg_exec env (cleanupQuery (cp_Before payload) (cp_BatchSize payload)) s = (r, s1)" by fastforce
  with assms(2) have r: "r = Inr n" "s1 = s'" by (auto simp: CleanupExpiredTokens_def split: sum.splits)
  from pg_exec_Inr [OF x [unfolded r]]
  have bs: "0 \<le> cp_BatchSize payload" and n: "n = int (length ?toks) - int (length kept)"
    and db: "pg_db s' = (pg_db s)\<lparr>db_tokens := kept\<rparr>"
    by (auto simp: cleanupQuery_def Let_def not_less kept_def cs_def ord_def split: if_splits)
  have dt: "distinct (map tok_ID ?toks)" using assms(1) by (simp add: auth_wf_def)
  then have "distinct (map tok_ID ord)" by (simp add: ord_def distinct_order_by distinct_map_filter)
  then have dcs: "distinct (map tok_ID cs)" by (simp add: cs_def take_map [symmetric])
  have set_ord: "set ord = {t \<in> set ?toks. ?old t}" by (simp add: ord_def)
  have split: "cs @ drop (nat (cp_BatchSize payload)) ord = ord" by (simp add: cs_def)
  then have set_split: "set ord = set cs \<union> set (drop (nat (cp_BatchSize payload)) ord)" by (metis set_append)
  then have sub: "set cs \<subseteq> set ?toks" and old: "\<And>t. t \<in> set cs \<Longrightarrow> ?old t" using set_ord by auto
  have len: "n = int (length cs)"
    using n deleted_count [OF dt sub dcs] filter_split_length [of ?toks "\<lambda>t. tok_ID t \<in> tok_ID ` set cs"]
    by (simp add: kept_def)
  have gone: "t \<in> set cs" if "t \<in> set ?toks" "t \<notin> set kept" for t
    using that sub distinct_key_eq [OF dt] by (auto simp: kept_def)
  have keptord: "t' \<in> set (drop (nat (cp_BatchSize payload)) ord)" if "t' \<in> set kept" "?old t'" for t'
    using that set_ord set_split by (auto simp: kept_def)
  have "sorted_wrt (\<lambda>a b. \<not> tok_CreatedAt b < tok_CreatedAt a) ord"
    unfolding ord_def by (rule sorted_order_by) auto
  then have before: "tok_CreatedAt t \<le> tok_CreatedAt t'"
    if "t \<in> set cs" "t' \<in> set (drop (nat (cp_BatchSize payload)) ord)" for t t'
    using that split by (metis not_less sorted_wrt_append)
  have c1: "n \<le> cp_BatchSize payload" using len bs by (simp add: cs_def)
  have c2: "int (length kept) + n = int (length ?toks)" using n by simp
  have c3: "set kept \<subseteq> set ?toks" by (simp add: kept_def)
  have c4: "?old t \<and> (\<forall>t'\<in>set kept. ?old t' \<longrightarrow> tok_CreatedAt t \<le> tok_CreatedAt t')" if "t \<in> set ?toks" "t \<notin> set kept" for t
    using gone [OF that] old before keptord by blast
  have c5: "\<not> (\<exists>t\<in>set kept. ?old t)" if "n < cp_BatchSize payload"
  proof -
    have "drop (nat (cp_BatchSize payload)) ord = []" using len that by (auto simp: cs_def min_def split: if_splits)
    then show ?thesis using keptord by auto
  qed
  show ?thesis using c1 c2 c3 c4 c5 by (simp add: db)
qed

text \<open>The cut-off comes from the client and may lie in the future: then a session that is still active is
  deleted.\<close>

lemma cleanup_deletes_active:
  "refreshToken_IsActive (hd (db_tokens one_token_db)) 2000000 \<and>
   CleanupExpiredTokens calm_env \<lparr>cp_Before = 10000000, cp_BatchSize = 5\<rparr> \<lparr>pg_db = one_token_db, pg_tick = 0\<rparr> =
     (Inr 1, \<lparr>pg_db = one_token_db\<lparr>db_tokens := []\<rparr>, pg_tick = 1\<rparr>)"
  by (simp add: refreshToken_IsActive_def one_token_db_def CleanupExpiredTokens_def pg_exec_def calm_env_def cleanupQuery_def
      cleanup_candidate_def pg_time_def order_by_def Let_def)

theorem cleanup_deletes_only_old_witness:
  "cleanup_candidate (pg_time 10000000) (hd (db_tokens one_token_db)) \<and>
   fst (CleanupExpiredTokens calm_env \<lparr>cp_Before = 10000000, cp_BatchSize = 5\<rparr> \<lparr>pg_db = one_token_db, pg_tick = 0\<rparr>) = Inr 1"
proof -
  have wf: "auth_wf (pg_db \<lparr>pg_db = one_token_db, pg_tick = 0\<rparr>)" by (simp add: auth_wf_def one_token_db_def)
  have ne: "hd (db_tokens one_token_db) \<in> set (db_tokens one_token_db)" by (simp add: one_token_db_def)
  from cleanup_deletes_only_old [OF wf conjunct2 [OF cleanup_deletes_active]] ne
  have "cleanup_candidate (pg_time 10000000) (hd (db_tokens one_token_db))" by auto
  then show ?thesis using cleanup_deletes_active by simp
qed

end
