(* ===== verification/Go_Path.thy ===== *)
theory Go_Path
  imports Go_Strings
begin

text \<open>
  The functions of \<open>path/filepath\<close> that the report generator uses, on Unix: \<open>Clean\<close>, \<open>Join\<close> of two elements
  and \<open>Base\<close>. A path is processed as the list of its components.
\<close>

definition rooted_path :: "string \<Rightarrow> bool" where
  "rooted_path p \<longleftrightarrow> HasPrefix p ''/''"

definition clean_step :: "bool \<Rightarrow> string \<Rightarrow> string list \<Rightarrow> string list" where
  "clean_step rooted c stack =
     (if c = '''' \<or> c = ''.'' then stack
      else if c = ''..'' then
        (case stack of
           [] \<Rightarrow> if rooted then [] else [c]
         | last_c # rest \<Rightarrow> if last_c = ''..'' then c # stack else rest)
      else c # stack)"

definition clean_stack :: "string \<Rightarrow> string list" where
  "clean_stack p = fold (clean_step (rooted_path p)) (split_byte (CHR ''/'') p) []"

fun join_slash :: "string list \<Rightarrow> string" where
  "join_slash [] = ''''"
| "join_slash [c] = c"
| "join_slash (c # cs) = c @ ''/'' @ join_slash cs"

definition filepath_Clean :: "string \<Rightarrow> string" where
  "filepath_Clean p =
     (let out = (if rooted_path p then ''/'' else '''') @ join_slash (rev (clean_stack p)) in
      if out = '''' then ''.'' else out)"

definition filepath_Join :: "string \<Rightarrow> string \<Rightarrow> string" where
  "filepath_Join a b =
     (if a \<noteq> '''' then filepath_Clean (a @ ''/'' @ b)
      else if b \<noteq> '''' then filepath_Clean b else '''')"

definition filepath_Base :: "string \<Rightarrow> string" where
  "filepath_Base p =
     (if p = '''' then ''.''
      else let b = last (split_byte (CHR ''/'') (TrimRightByte p (CHR ''/''))) in
        if b = '''' then ''/'' else b)"

section \<open>A plain name joined to a directory\<close>

definition plain_name :: "string \<Rightarrow> bool" where
  "plain_name n \<longleftrightarrow> n \<notin> {'''', ''.'', ''..''} \<and> CHR ''/'' \<notin> set n"

text \<open>What a path of a file in the directory starts with.\<close>

definition dir_prefix :: "string \<Rightarrow> string" where
  "dir_prefix dir =
     (if rooted_path dir then ''/'' else '''') @ concat (map (\<lambda>c. c @ ''/'') (rev (clean_stack dir)))"

lemma split_byte_plain: "c \<notin> set s \<Longrightarrow> split_byte c s = [s]"
  by (induction c s rule: split_byte.induct) auto

lemma join_slash_snoc: "join_slash (xs @ [n]) = concat (map (\<lambda>c. c @ ''/'') xs) @ n"
  by (induction xs rule: join_slash.induct) auto

lemma Join_plain:
  assumes "dir \<noteq> ''''" and "plain_name n"
  shows "filepath_Join dir n = dir_prefix dir @ n" and "filepath_Join dir (''/'' @ n) = dir_prefix dir @ n"
proof -
  have hd: "rooted_path (dir @ x) = rooted_path dir" for x
    using assms(1) by (cases dir) (auto simp: rooted_path_def HasPrefix_def)
  have step: "clean_step r n st = n # st" for r st using assms(2) by (simp add: clean_step_def plain_name_def)
  have n: "split_byte (CHR ''/'') n = [n]" using assms(2) by (simp add: plain_name_def split_byte_plain)
  have "split_byte (CHR ''/'') (dir @ ''/'' @ n) = split_byte (CHR ''/'') dir @ [n]"
    using split_byte_Cons_sep [of "CHR ''/''" dir n] n by simp
  then have st: "clean_stack (dir @ ''/'' @ n) = n # clean_stack dir"
    by (simp add: clean_stack_def hd step)
  have "split_byte (CHR ''/'') (dir @ ''/'' @ ''/'' @ n) = split_byte (CHR ''/'') dir @ [[], n]"
    using split_byte_Cons_sep [of "CHR ''/''" dir "''/'' @ n"] split_byte_Cons_sep [of "CHR ''/''" "[]" n] n by simp
  then have st2: "clean_stack (dir @ ''/'' @ ''/'' @ n) = n # clean_stack dir"
    by (simp add: clean_stack_def hd step) (simp add: clean_step_def)
  have "n \<noteq> ''''" using assms(2) by (simp add: plain_name_def)
  then show "filepath_Join dir n = dir_prefix dir @ n" "filepath_Join dir (''/'' @ n) = dir_prefix dir @ n"
    using assms(1) st st2 hd
    by (simp_all add: filepath_Join_def filepath_Clean_def dir_prefix_def join_slash_snoc Let_def)
qed

lemma Base_cases: "filepath_Base p = ''/'' \<or> (CHR ''/'' \<notin> set (filepath_Base p) \<and> filepath_Base p \<noteq> '''')"
proof (cases "p = ''''")
  case False
  let ?cs = "split_byte (CHR ''/'') (TrimRightByte p (CHR ''/''))"
  have "last ?cs \<in> set ?cs" by simp
  then have "CHR ''/'' \<notin> set (last ?cs)" by (rule split_byte_no_sep)
  with False show ?thesis by (simp add: filepath_Base_def Let_def)
qed (simp add: filepath_Base_def)

end
