(* ===== verification/Worker_Report.thy ===== *)
theory Worker_Report
  imports Worker_Webhook Analytics_Store Go_Path
begin

text \<open>
  \<open>internal/jobworker/infrastructure/report/generator.go\<close>: the report of a project's hourly statistics,
  written to a temporary file that is renamed to its final name. The operating system's files are operations
  on the state with a stated contract; the JSON encoder, the RFC 3339 format, the session's \<open>date_trunc\<close> and
  the collation are parameters. The CSV writer is \<open>encoding/csv\<close> over a buffer of 4096 bytes; a field longer
  than the buffer is written in pieces of that size.
\<close>

section \<open>Rows and queries\<close>

record ReportRow =
  rr_BucketStart :: Time
  rr_RouteName :: string
  rr_RoutePathPrefix :: string
  rr_Method :: string
  rr_RequestCount :: int
  rr_Status1xxCount :: int
  rr_Status2xxCount :: int
  rr_Status3xxCount :: int
  rr_Status4xxCount :: int
  rr_Status5xxCount :: int
  rr_RateLimitedCount :: int
  rr_TotalDurationMS :: int
  rr_MaxDurationMS :: int
  rr_TotalResponseBytes :: int

record jsonReport =
  jr_GeneratedAt :: Time
  jr_ProjectID :: string
  jr_From :: Time
  jr_To :: Time
  jr_Items :: "ReportRow list"

record report_db =
  rpd_projects :: "string list"
  rpd_stats :: "StatsRow list"

type_synonym 'z report_state = "(report_db, 'z) pg_scheme"

record report_lib =
  rl_case :: case_tables
  rl_EncodeJSON :: "jsonReport \<Rightarrow> jb_err + string"
  rl_RFC3339 :: "Time \<Rightarrow> string"
  rl_trunc_hour :: "Time \<Rightarrow> Time"
  rl_collate :: "string \<Rightarrow> string \<Rightarrow> bool"

definition projectExistsQuery :: "pg_env \<Rightarrow> string \<Rightarrow> (report_db, bool) sql" where
  "projectExistsQuery env projectID n db =
     (case pe_uuid env projectID of
        None \<Rightarrow> Inl (PgError invalidTextCode '''')
      | Some project \<Rightarrow> Inr (project \<in> set (rpd_projects db), db))"

text \<open>The half-open range of hours that overlap the requested interval.\<close>

definition report_bucket :: "report_lib \<Rightarrow> Time \<Rightarrow> Time \<Rightarrow> Time \<Rightarrow> bool" where
  "report_bucket lib from to b \<longleftrightarrow>
     b \<ge> rl_trunc_hour lib from \<and>
     b < (if to = rl_trunc_hour lib to then to else rl_trunc_hour lib to + Hour)"

definition report_row :: "StatsRow \<Rightarrow> ReportRow" where
  "report_row r =
     \<lparr>rr_BucketStart = sr_bucket_start r, rr_RouteName = sr_route_name r, rr_RoutePathPrefix = sr_route_path_prefix r,
      rr_Method = sr_method r, rr_RequestCount = sr_request_count r, rr_Status1xxCount = sr_status_1xx_count r,
      rr_Status2xxCount = sr_status_2xx_count r, rr_Status3xxCount = sr_status_3xx_count r,
      rr_Status4xxCount = sr_status_4xx_count r, rr_Status5xxCount = sr_status_5xx_count r,
      rr_RateLimitedCount = sr_rate_limited_count r, rr_TotalDurationMS = sr_total_duration_ms r,
      rr_MaxDurationMS = sr_max_duration_ms r, rr_TotalResponseBytes = sr_total_response_bytes r\<rparr>"

definition report_rows :: "report_lib \<Rightarrow> string \<Rightarrow> Time \<Rightarrow> Time \<Rightarrow> report_db \<Rightarrow> ReportRow list" where
  "report_rows lib project from to db =
     map report_row (order_by (stats_before (rl_collate lib))
       (filter (\<lambda>r. sr_project_id r = project \<and> report_bucket lib from to (sr_bucket_start r)) (rpd_stats db)))"

definition reportRowsQuery :: "pg_env \<Rightarrow> report_lib \<Rightarrow> ReportPayload \<Rightarrow> (report_db, ReportRow list) sql" where
  "reportRowsQuery env lib payload n db =
     (case pe_uuid env (rp_ProjectID payload) of
        None \<Rightarrow> Inl (PgError invalidTextCode '''')
      | Some project \<Rightarrow>
          Inr (report_rows lib project (pg_time (rp_From payload)) (pg_time (rp_To payload)) db, db))"

definition projectExists :: "pg_env \<Rightarrow> string \<Rightarrow> 'z report_state \<Rightarrow> (jb_err + bool) \<times> 'z report_state" where
  "projectExists env projectID s =
     (case pg_exec env (projectExistsQuery env projectID) s of
        (Inr exists, s1) \<Rightarrow> (Inr exists, s1)
      | (Inl err, s1) \<Rightarrow>
          (case err of
             PgError code _ \<Rightarrow>
               if code = ''22P02'' then (Inl (Permanent (Sentinel WErrInvalidProjectID)), s1)
               else (Inl (Errorf ''check report project: %w'' [Sentinel (JbPg err)]), s1)
           | _ \<Rightarrow> (Inl (Errorf ''check report project: %w'' [Sentinel (JbPg err)]), s1)))"

definition loadRows ::
  "pg_env \<Rightarrow> report_lib \<Rightarrow> ReportPayload \<Rightarrow> 'z report_state \<Rightarrow> (jb_err + ReportRow list) \<times> 'z report_state" where
  "loadRows env lib payload s =
     (case pg_exec env (reportRowsQuery env lib payload) s of
        (Inr items, s1) \<Rightarrow> (Inr items, s1)
      | (Inl err, s1) \<Rightarrow> (Inl (Errorf ''query report rows: %w'' [Sentinel (JbPg err)]), s1))"

section \<open>Files\<close>

record 's report_os =
  ro_Now :: "'s \<Rightarrow> Time \<times> 's"
  ro_MkdirAll :: "string \<Rightarrow> 's \<Rightarrow> jb_err option \<times> 's"
  ro_CreateTemp :: "string \<Rightarrow> string \<Rightarrow> 's \<Rightarrow> (jb_err + string) \<times> 's"
  ro_Write :: "string \<Rightarrow> string \<Rightarrow> 's \<Rightarrow> jb_err option \<times> 's"
  ro_Sync :: "string \<Rightarrow> 's \<Rightarrow> jb_err option \<times> 's"
  ro_Close :: "string \<Rightarrow> 's \<Rightarrow> jb_err option \<times> 's"
  ro_Remove :: "string \<Rightarrow> 's \<Rightarrow> jb_err option \<times> 's"
  ro_Rename :: "string \<Rightarrow> string \<Rightarrow> 's \<Rightarrow> jb_err option \<times> 's"

section \<open>JSON and CSV\<close>

definition writeJSON :: "report_lib \<Rightarrow> 's report_os \<Rightarrow> string \<Rightarrow> jsonReport \<Rightarrow> 's \<Rightarrow> jb_err option \<times> 's" where
  "writeJSON lib os file report s =
     (case rl_EncodeJSON lib report of
        Inl err \<Rightarrow> (Some (Errorf ''encode JSON report: %w'' [err]), s)
      | Inr data \<Rightarrow>
          (case ro_Write os file data s of
             (Some err, s1) \<Rightarrow> (Some (Errorf ''encode JSON report: %w'' [err]), s1)
           | (None, s1) \<Rightarrow> (None, s1)))"

text \<open>A field is quoted when it is \<open>\.\<close>, holds a comma, a quote or a line break, or starts with a space; quotes
  are doubled.\<close>

definition csv_needs_quotes :: "string \<Rightarrow> bool" where
  "csv_needs_quotes f \<longleftrightarrow>
     f \<noteq> '''' \<and> (f = [CHR 92, CHR ''.''] \<or> (\<exists>c\<in>set f. c \<in> {CHR '','', CHR 34, CHR 13, CHR 10}) \<or>
       leading_token space_encodings f \<noteq> None)"

definition csv_field :: "string \<Rightarrow> string" where
  "csv_field f =
     (if csv_needs_quotes f then [CHR 34] @ concat (map (\<lambda>c. if c = CHR 34 then [c, c] else [c]) f) @ [CHR 34] else f)"

fun csv_join :: "string list \<Rightarrow> string" where
  "csv_join [] = ''''"
| "csv_join [f] = csv_field f"
| "csv_join (f # fs) = csv_field f @ '','' @ csv_join fs"

definition csv_record :: "string list \<Rightarrow> string" where
  "csv_record fs = csv_join fs @ [CHR 10]"

definition csv_header :: "string list" where
  "csv_header =
     [''bucket_start'', ''route_name'', ''route_path_prefix'', ''method'', ''request_count'',
      ''status_1xx_count'', ''status_2xx_count'', ''status_3xx_count'', ''status_4xx_count'', ''status_5xx_count'',
      ''rate_limited_count'', ''total_duration_ms'', ''max_duration_ms'', ''total_response_bytes'']"

definition csv_row :: "report_lib \<Rightarrow> ReportRow \<Rightarrow> string list" where
  "csv_row lib item =
     [rl_RFC3339 lib (rr_BucketStart item), rr_RouteName item, rr_RoutePathPrefix item, rr_Method item,
      Itoa (rr_RequestCount item), Itoa (rr_Status1xxCount item), Itoa (rr_Status2xxCount item),
      Itoa (rr_Status3xxCount item), Itoa (rr_Status4xxCount item), Itoa (rr_Status5xxCount item),
      Itoa (rr_RateLimitedCount item), Itoa (rr_TotalDurationMS item), Itoa (rr_MaxDurationMS item),
      Itoa (rr_TotalResponseBytes item)]"

definition csv_buffer_size :: nat where
  "csv_buffer_size = 4096"

text \<open>Bytes go to the buffer; a full buffer is written to the file.\<close>

function csv_put :: "'s report_os \<Rightarrow> string \<Rightarrow> string \<Rightarrow> 's \<Rightarrow> (jb_err option \<times> string) \<times> 's" where
  "csv_put os file buffered s =
     (if length buffered \<le> csv_buffer_size then ((None, buffered), s)
      else (case ro_Write os file (take csv_buffer_size buffered) s of
              (Some err, s1) \<Rightarrow> ((Some err, []), s1)
            | (None, s1) \<Rightarrow> csv_put os file (drop csv_buffer_size buffered) s1))"
  by pat_completeness auto
termination by (relation "measure (\<lambda>(os, file, buffered, s). length buffered)") (auto simp: csv_buffer_size_def)

declare csv_put.simps [simp del]

fun csv_rows :: "report_lib \<Rightarrow> 's report_os \<Rightarrow> string \<Rightarrow> ReportRow list \<Rightarrow> string \<Rightarrow> 's \<Rightarrow> (jb_err option \<times> string) \<times> 's" where
  "csv_rows lib os file [] buffered s = ((None, buffered), s)"
| "csv_rows lib os file (item # items) buffered s =
     (case csv_put os file (buffered @ csv_record (csv_row lib item)) s of
        ((Some err, b), s1) \<Rightarrow> ((Some (Errorf ''write CSV row: %w'' [err]), b), s1)
      | ((None, b), s1) \<Rightarrow> csv_rows lib os file items b s1)"

definition writeCSV :: "report_lib \<Rightarrow> 's report_os \<Rightarrow> string \<Rightarrow> ReportRow list \<Rightarrow> 's \<Rightarrow> jb_err option \<times> 's" where
  "writeCSV lib os file items s =
     (case csv_put os file (csv_record csv_header) s of
        ((Some err, _), s1) \<Rightarrow> (Some (Errorf ''write CSV header: %w'' [err]), s1)
      | ((None, b), s1) \<Rightarrow>
          (case csv_rows lib os file items b s1 of
             ((Some err, _), s2) \<Rightarrow> (Some err, s2)
           | ((None, b2), s2) \<Rightarrow>
               (if b2 = '''' then (None, s2)
                else (case ro_Write os file b2 s2 of
                        (Some err, s3) \<Rightarrow> (Some (Errorf ''flush CSV report: %w'' [err]), s3)
                      | (None, s3) \<Rightarrow> (None, s3)))))"

section \<open>Generation\<close>

definition report_path :: "string \<Rightarrow> string \<Rightarrow> string \<Rightarrow> string" where
  "report_path directory jobID format = filepath_Join directory (filepath_Base jobID @ ''.'' @ format)"

definition writeReport ::
  "report_lib \<Rightarrow> 's report_os \<Rightarrow> string \<Rightarrow> ReportPayload \<Rightarrow> string \<Rightarrow> ReportRow list \<Rightarrow> 's \<Rightarrow> jb_err option \<times> 's" where
  "writeReport lib os format payload tmp items s =
     (if format = ''json'' then
        (case ro_Now os s of (now, s1) \<Rightarrow>
           writeJSON lib os tmp \<lparr>jr_GeneratedAt = now, jr_ProjectID = rp_ProjectID payload, jr_From = rp_From payload,
                                 jr_To = rp_To payload, jr_Items = items\<rparr> s1)
      else writeCSV lib os tmp items s)"

text \<open>From the open temporary file to the renamed one.\<close>

definition publishReport ::
  "report_lib \<Rightarrow> 's report_os \<Rightarrow> string \<Rightarrow> string \<Rightarrow> ReportPayload \<Rightarrow> string \<Rightarrow> ReportRow list \<Rightarrow> 's \<Rightarrow> (jb_err + string \<times> int) \<times> 's" where
  "publishReport lib os filename format payload tmp items s =
     (case writeReport lib os format payload tmp items s of
        (Some err, s2) \<Rightarrow> (Inl err, snd (ro_Close os tmp s2))
      | (None, s2) \<Rightarrow>
          (case ro_Sync os tmp s2 of
             (Some err, s3) \<Rightarrow> (Inl (Errorf ''sync report: %w'' [err]), snd (ro_Close os tmp s3))
           | (None, s3) \<Rightarrow>
               (case ro_Close os tmp s3 of
                  (Some err, s4) \<Rightarrow> (Inl (Errorf ''close report: %w'' [err]), s4)
                | (None, s4) \<Rightarrow>
                    (case ro_Rename os tmp filename s4 of
                       (Some err, s5) \<Rightarrow> (Inl (Errorf ''publish report: %w'' [err]), s5)
                     | (None, s5) \<Rightarrow> (Inr (filename, int (length items)), s5)))))"

definition Generate ::
  "pg_env \<Rightarrow> report_lib \<Rightarrow> 'z report_state report_os \<Rightarrow> string \<Rightarrow> string \<Rightarrow> ReportPayload \<Rightarrow> 'z report_state \<Rightarrow>
   (jb_err + string \<times> int) \<times> 'z report_state" where
  "Generate env lib os directory jobID payload s =
     (if IsZero (rp_From payload) \<or> IsZero (rp_To payload) \<or> \<not> rp_From payload < rp_To payload
        then (Inl (Permanent (Sentinel WErrInvalidReportRange)), s)
      else
        let format = ToLower (rl_case lib) (TrimSpace (rp_Format payload)) in
        if format \<noteq> ''json'' \<and> format \<noteq> ''csv'' then (Inl (Permanent (Sentinel WErrInvalidFormat)), s)
        else
          case projectExists env (rp_ProjectID payload) s of
            (Inl err, s1) \<Rightarrow> (Inl err, s1)
          | (Inr exists, s1) \<Rightarrow>
              (if \<not> exists then (Inl (Permanent (Sentinel WErrProjectNotFound)), s1)
               else
                 case loadRows env lib payload s1 of
                   (Inl err, s2) \<Rightarrow> (Inl err, s2)
                 | (Inr items, s2) \<Rightarrow>
                     (case ro_MkdirAll os directory s2 of
                        (Some err, s3) \<Rightarrow> (Inl (Errorf ''create report directory: %w'' [err]), s3)
                      | (None, s3) \<Rightarrow>
                          (case ro_CreateTemp os directory ''.edgeguard-report-*'' s3 of
                             (Inl err, s4) \<Rightarrow> (Inl (Errorf ''create temporary report: %w'' [err]), s4)
                           | (Inr tmp, s4) \<Rightarrow>
                               (case publishReport lib os (report_path directory jobID format) format payload tmp items s4 of
                                  (res, s5) \<Rightarrow> (res, snd (ro_Remove os tmp s5)))))))"

section \<open>What the file system promises\<close>

text \<open>
  \<open>F\<close> gives the contents of the files of a state and \<open>key\<close> says which file a path denotes: plain names in one
  directory denote different files. Creating directories, syncing and closing change no file; a temporary file is
  new, empty and named by the prefix of the pattern followed by digits; a write appends its data, or a part of it
  when it fails; a rename replaces the target at once or does nothing; a removal removes the file or does nothing.
\<close>

abbreviation files :: "('z \<Rightarrow> string \<Rightarrow> string option) \<Rightarrow> 'z report_state \<Rightarrow> string \<Rightarrow> string option" where
  "files F s \<equiv> F (pg.more s)"

definition temp_file :: "(string \<Rightarrow> string) \<Rightarrow> string \<Rightarrow> string \<Rightarrow> bool" where
  "temp_file key directory k \<longleftrightarrow>
     (\<exists>digits. set digits \<subseteq> set ''0123456789'' \<and> k = key (filepath_Join directory (''.edgeguard-report-'' @ digits)))"

definition os_contract :: "'z report_state report_os \<Rightarrow> (string \<Rightarrow> string) \<Rightarrow> ('z \<Rightarrow> string \<Rightarrow> string option) \<Rightarrow> bool" where
  "os_contract os key F \<longleftrightarrow>
     (\<forall>d m n. d \<noteq> '''' \<longrightarrow> plain_name m \<longrightarrow> plain_name n \<longrightarrow> key (filepath_Join d m) = key (filepath_Join d n) \<longrightarrow> m = n) \<and>
     (\<forall>s. files F (snd (ro_Now os s)) = files F s) \<and>
     (\<forall>d s. files F (snd (ro_MkdirAll os d s)) = files F s) \<and>
     (\<forall>f s. files F (snd (ro_Sync os f s)) = files F s) \<and>
     (\<forall>f s. files F (snd (ro_Close os f s)) = files F s) \<and>
     (\<forall>d s. case ro_CreateTemp os d ''.edgeguard-report-*'' s of
        (Inl err, s') \<Rightarrow> files F s' = files F s
      | (Inr tmp, s') \<Rightarrow> temp_file key d (key tmp) \<and> files F s (key tmp) = None \<and> files F s' = (files F s)(key tmp \<mapsto> '''')) \<and>
     (\<forall>f d s c. files F s (key f) = Some c \<longrightarrow> (\<exists>d'. files F (snd (ro_Write os f d s)) = (files F s)(key f \<mapsto> c @ d') \<and>
        (fst (ro_Write os f d s) = None \<longrightarrow> d' = d))) \<and>
     (\<forall>f s. files F (snd (ro_Remove os f s)) = files F s \<or> files F (snd (ro_Remove os f s)) = (files F s)(key f := None)) \<and>
     (\<forall>a b s. if fst (ro_Rename os a b s) = None
        then files F (snd (ro_Rename os a b s)) = (files F s)(key b := files F s (key a), key a := None)
        else files F (snd (ro_Rename os a b s)) = files F s)"

lemma os_contractD:
  assumes "os_contract os key F"
  shows "d \<noteq> '''' \<Longrightarrow> plain_name m \<Longrightarrow> plain_name n \<Longrightarrow> key (filepath_Join d m) = key (filepath_Join d n) \<Longrightarrow> m = n"
    and "ro_Now os s = (t, s') \<Longrightarrow> files F s' = files F s"
    and "ro_MkdirAll os d s = (e, s') \<Longrightarrow> files F s' = files F s"
    and "ro_Sync os f s = (e, s') \<Longrightarrow> files F s' = files F s"
    and "ro_Close os f s = (e, s') \<Longrightarrow> files F s' = files F s"
    and "ro_CreateTemp os d ''.edgeguard-report-*'' s = (Inl x, s') \<Longrightarrow> files F s' = files F s"
    and "ro_CreateTemp os d ''.edgeguard-report-*'' s = (Inr tmp, s') \<Longrightarrow>
      temp_file key d (key tmp) \<and> files F s (key tmp) = None \<and> files F s' = (files F s)(key tmp \<mapsto> '''')"
    and "ro_Write os f w s = (e, s') \<Longrightarrow> files F s (key f) = Some c \<Longrightarrow>
      \<exists>d'. files F s' = (files F s)(key f \<mapsto> c @ d') \<and> (e = None \<longrightarrow> d' = w)"
    and "files F (snd (ro_Remove os f s)) \<in> {files F s, (files F s)(key f := None)}"
    and "ro_Rename os a b s = (None, s') \<Longrightarrow> files F s' = (files F s)(key b := files F s (key a), key a := None)"
    and "ro_Rename os a b s = (Some y, s') \<Longrightarrow> files F s' = files F s"
proof -
  note c = assms [unfolded os_contract_def]
  note c1 = c [THEN conjunct1] and r1 = c [THEN conjunct2]
  note c2 = r1 [THEN conjunct1] and r2 = r1 [THEN conjunct2]
  note c3 = r2 [THEN conjunct1] and r3 = r2 [THEN conjunct2]
  note c4 = r3 [THEN conjunct1] and r4 = r3 [THEN conjunct2]
  note c5 = r4 [THEN conjunct1] and r5 = r4 [THEN conjunct2]
  note c6 = r5 [THEN conjunct1, THEN spec, THEN spec, of s d] and r6 = r5 [THEN conjunct2]
  note c7 = r6 [THEN conjunct1, rule_format, where f = f and d = w and s = s and c = c] and r7 = r6 [THEN conjunct2]
  note c8 = r7 [THEN conjunct1, rule_format, where f = f and s = s] and c9 = r7 [THEN conjunct2, rule_format, where a = a and b = b and s = s]
  show "d \<noteq> '''' \<Longrightarrow> plain_name m \<Longrightarrow> plain_name n \<Longrightarrow> key (filepath_Join d m) = key (filepath_Join d n) \<Longrightarrow> m = n"
    using c1 by simp
  show "ro_Now os s = (t, s') \<Longrightarrow> files F s' = files F s" using c2 [rule_format, where s = s] by simp
  show "ro_MkdirAll os d s = (e, s') \<Longrightarrow> files F s' = files F s" using c3 [rule_format, where d = d and s = s] by simp
  show "ro_Sync os f s = (e, s') \<Longrightarrow> files F s' = files F s" using c4 [rule_format, where f = f and s = s] by simp
  show "ro_Close os f s = (e, s') \<Longrightarrow> files F s' = files F s" using c5 [rule_format, where f = f and s = s] by simp
  show "ro_CreateTemp os d ''.edgeguard-report-*'' s = (Inl x, s') \<Longrightarrow> files F s' = files F s" using c6 by simp
  show "ro_CreateTemp os d ''.edgeguard-report-*'' s = (Inr tmp, s') \<Longrightarrow>
      temp_file key d (key tmp) \<and> files F s (key tmp) = None \<and> files F s' = (files F s)(key tmp \<mapsto> '''')" using c6 by simp
  show "ro_Write os f w s = (e, s') \<Longrightarrow> files F s (key f) = Some c \<Longrightarrow>
      \<exists>d'. files F s' = (files F s)(key f \<mapsto> c @ d') \<and> (e = None \<longrightarrow> d' = w)" using c7 by auto
  show "files F (snd (ro_Remove os f s)) \<in> {files F s, (files F s)(key f := None)}" using c8 by simp
  show "ro_Rename os a b s = (None, s') \<Longrightarrow> files F s' = (files F s)(key b := files F s (key a), key a := None)"
    using c9 by simp
  show "ro_Rename os a b s = (Some y, s') \<Longrightarrow> files F s' = files F s" using c9 by simp
qed

section \<open>Writing\<close>

lemma csv_put_files:
  assumes "os_contract os key F" and "files F s (key f) = Some c" and "csv_put os f b s = ((e, b'), s')"
  shows "\<exists>c'. files F s' = (files F s)(key f \<mapsto> c') \<and> (e = None \<longrightarrow> c' @ b' = c @ b)"
  using assms
proof (induction os f b s arbitrary: c rule: csv_put.induct)
  case (1 os f b s)
  show ?case
  proof (cases "length b \<le> csv_buffer_size")
    case True
    with "1.prems" have "files F s' = (files F s)(key f \<mapsto> c)" "b' = b"
      by (simp_all add: csv_put.simps [of _ _ b] map_upd_triv)
    then show ?thesis by blast
  next
    case False
    obtain e1 s1 where w: "ro_Write os f (take csv_buffer_size b) s = (e1, s1)" by fastforce
    from os_contractD(8) [OF "1.prems"(1) w "1.prems"(2)] obtain d where
      d: "files F s1 = (files F s)(key f \<mapsto> c @ d)" "e1 = None \<longrightarrow> d = take csv_buffer_size b" by blast
    show ?thesis
    proof (cases e1)
      case None
      from False w None "1.prems"(3) have rest: "csv_put os f (drop csv_buffer_size b) s1 = ((e, b'), s')"
        by (simp add: csv_put.simps [of _ _ b])
      have "files F s1 (key f) = Some (c @ take csv_buffer_size b)" using d None by simp
      from "1.IH" [OF False w [symmetric] None "1.prems"(1) this rest] obtain c' where
        c': "files F s' = (files F s1)(key f \<mapsto> c')"
          "e = None \<longrightarrow> c' @ b' = (c @ take csv_buffer_size b) @ drop csv_buffer_size b" by blast
      with d(1) have "files F s' = (files F s)(key f \<mapsto> c')" by simp
      moreover from c'(2) have "e = None \<longrightarrow> c' @ b' = c @ b" by simp
      ultimately show ?thesis by blast
    next
      case (Some x)
      with False w "1.prems"(3) have "e \<noteq> None" "s' = s1" by (auto simp: csv_put.simps [of _ _ b])
      with d(1) show ?thesis by blast
    qed
  qed
qed

lemma csv_rows_files:
  assumes "os_contract os key F" and "files F s (key f) = Some c" and "csv_rows lib os f items b s = ((e, b'), s')"
  shows "\<exists>c'. files F s' = (files F s)(key f \<mapsto> c') \<and>
    (e = None \<longrightarrow> c' @ b' = c @ b @ concat (map (csv_record \<circ> csv_row lib) items))"
  using assms(2,3)
proof (induction items arbitrary: b c s)
  case (Cons item items)
  obtain e1 b1 s1 where p: "csv_put os f (b @ csv_record (csv_row lib item)) s = ((e1, b1), s1)" by (metis prod.exhaust)
  from csv_put_files [OF assms(1) Cons.prems(1) p] obtain c1 where
    c1: "files F s1 = (files F s)(key f \<mapsto> c1)" "e1 = None \<longrightarrow> c1 @ b1 = c @ b @ csv_record (csv_row lib item)" by auto
  show ?case
  proof (cases e1)
    case None
    with p Cons.prems(2) have "csv_rows lib os f items b1 s1 = ((e, b'), s')" by simp
    moreover have "files F s1 (key f) = Some c1" using c1(1) by simp
    ultimately obtain c' where c': "files F s' = (files F s1)(key f \<mapsto> c')"
      "e = None \<longrightarrow> c' @ b' = c1 @ b1 @ concat (map (csv_record \<circ> csv_row lib) items)"
      using Cons.IH by blast
    from c'(1) c1(1) have "files F s' = (files F s)(key f \<mapsto> c')" by simp
    moreover have "c' @ b' = c @ b @ concat (map (csv_record \<circ> csv_row lib) (item # items))" if "e = None"
    proof -
      have "c' @ b' = (c1 @ b1) @ concat (map (csv_record \<circ> csv_row lib) items)" using c'(2) that by simp
      also have "c1 @ b1 = c @ b @ csv_record (csv_row lib item)" using c1(2) None by simp
      finally show ?thesis by (simp add: comp_def)
    qed
    ultimately show ?thesis by blast
  next
    case (Some x)
    with p Cons.prems(2) have "e \<noteq> None" "s' = s1" by auto
    with c1(1) show ?thesis by blast
  qed
next
  case Nil
  then have "files F s' = (files F s)(key f \<mapsto> c)" "b' = b" by (simp_all add: map_upd_triv)
  then show ?case by auto
qed

text \<open>The whole text of a report.\<close>

definition report_text :: "report_lib \<Rightarrow> string \<Rightarrow> ReportPayload \<Rightarrow> Time \<Rightarrow> ReportRow list \<Rightarrow> jb_err + string" where
  "report_text lib format payload now items =
     (if format = ''json''
      then rl_EncodeJSON lib \<lparr>jr_GeneratedAt = now, jr_ProjectID = rp_ProjectID payload, jr_From = rp_From payload,
             jr_To = rp_To payload, jr_Items = items\<rparr>
      else Inr (csv_record csv_header @ concat (map (csv_record \<circ> csv_row lib) items)))"

lemma writeCSV_files:
  assumes "os_contract os key F" and "files F s (key f) = Some ''''" and "writeCSV lib os f items s = (e, s')"
  shows "\<exists>c. files F s' = (files F s)(key f \<mapsto> c) \<and>
    (e = None \<longrightarrow> c = csv_record csv_header @ concat (map (csv_record \<circ> csv_row lib) items))"
proof -
  obtain e1 b1 s1 where p: "csv_put os f (csv_record csv_header) s = ((e1, b1), s1)" by (metis prod.exhaust)
  obtain e2 b2 s2 where r: "csv_rows lib os f items b1 s1 = ((e2, b2), s2)" by (metis prod.exhaust)
  obtain e3 s3 where w: "ro_Write os f b2 s2 = (e3, s3)" by fastforce
  from csv_put_files [OF assms(1,2) p] obtain c1 where
    c1: "files F s1 = (files F s)(key f \<mapsto> c1)" "e1 = None \<longrightarrow> c1 @ b1 = csv_record csv_header" by auto
  have "files F s1 (key f) = Some c1" using c1(1) by simp
  from csv_rows_files [OF assms(1) this r] obtain c2 where
    "files F s2 = (files F s1)(key f \<mapsto> c2)" and
    c2: "e2 = None \<longrightarrow> c2 @ b2 = c1 @ b1 @ concat (map (csv_record \<circ> csv_row lib) items)" by blast
  then have f2: "files F s2 = (files F s)(key f \<mapsto> c2)" using c1(1) by simp
  then have "files F s2 (key f) = Some c2" by simp
  from os_contractD(8) [OF assms(1) w this] obtain d where
    "files F s3 = (files F s2)(key f \<mapsto> c2 @ d)" and d: "e3 = None \<longrightarrow> d = b2" by blast
  then have f3: "files F s3 = (files F s)(key f \<mapsto> c2 @ d)" using f2 by simp
  consider (header) "e \<noteq> None" "s' = s1" | (rows) "e \<noteq> None" "s' = s2" | (empty) "e1 = None" "e2 = None" "b2 = ''''" "e = None" "s' = s2"
    | (failed) "e \<noteq> None" "s' = s3" | (flushed) "e1 = None" "e2 = None" "e3 = None" "e = None" "s' = s3"
    using assms(3) p r w by (auto simp: writeCSV_def split: option.splits if_splits)
  then show ?thesis
  proof cases
    case empty
    with c1(2) c2 f2 show ?thesis by (metis append.assoc append_Nil2)
  next
    case flushed
    with c1(2) c2 d f3 show ?thesis by (metis append.assoc)
  qed (use c1 f2 f3 in blast)+
qed

lemma writeReport_files:
  assumes "os_contract os key F" and "files F s (key tmp) = Some ''''"
    and "writeReport lib os format payload tmp items s = (e, s')"
  shows "\<exists>c. files F s' = (files F s)(key tmp \<mapsto> c) \<and>
    (e = None \<longrightarrow> (\<exists>now. report_text lib format payload now items = Inr c))"
proof (cases "format = ''json''")
  case False
  with writeCSV_files [OF assms(1,2)] assms(3) show ?thesis by (force simp: writeReport_def report_text_def)
next
  case True
  obtain now s1 where n: "ro_Now os s = (now, s1)" by fastforce
  note f1 = os_contractD(2) [OF assms(1) n]
  show ?thesis
  proof (cases "report_text lib format payload now items")
    case (Inl err)
    with True n assms(3) have "e \<noteq> None" "s' = s1" by (auto simp: writeReport_def writeJSON_def report_text_def)
    with f1 assms(2) show ?thesis by (auto intro!: exI [of _ "''''"] simp: map_upd_triv)
  next
    case (Inr data)
    obtain e2 s2 where w: "ro_Write os tmp data s1 = (e2, s2)" by fastforce
    have "files F s1 (key tmp) = Some ''''" using assms(2) f1 by simp
    from os_contractD(8) [OF assms(1) w this] obtain d where
      "files F s2 = (files F s1)(key tmp \<mapsto> d)" and d: "e2 = None \<longrightarrow> d = data" by auto
    then have "files F s2 = (files F s)(key tmp \<mapsto> d)" using f1 by simp
    moreover have "s' = s2" "e = None \<longleftrightarrow> e2 = None"
      using True n w Inr assms(3) by (auto simp: writeReport_def writeJSON_def report_text_def split: option.splits)
    ultimately show ?thesis using d Inr by blast
  qed
qed

lemma publishReport_files:
  assumes "os_contract os key F" and "files F s (key tmp) = Some ''''"
    and "publishReport lib os filename format payload tmp items s = (res, s')"
  shows "(\<forall>err. res = Inl err \<longrightarrow> (\<exists>c. files F s' = (files F s)(key tmp \<mapsto> c))) \<and>
    (\<forall>path n. res = Inr (path, n) \<longrightarrow> path = filename \<and> n = int (length items) \<and>
      (\<exists>now body. report_text lib format payload now items = Inr body \<and>
        files F s' = (files F s)(key tmp \<mapsto> body, key filename \<mapsto> body, key tmp := None)))"
proof -
  note con = os_contractD [OF assms(1)]
  obtain e2 s2 where w: "writeReport lib os format payload tmp items s = (e2, s2)" by fastforce
  from writeReport_files [OF assms(1,2) w] obtain c where
    c: "files F s2 = (files F s)(key tmp \<mapsto> c)" "e2 = None \<longrightarrow> (\<exists>now. report_text lib format payload now items = Inr c)" by blast
  obtain e3 s3 where y: "ro_Sync os tmp s2 = (e3, s3)" by fastforce
  obtain e4 s4 where z: "ro_Close os tmp s3 = (e4, s4)" by fastforce
  obtain e5 s5 where rn: "ro_Rename os tmp filename s4 = (e5, s5)" by fastforce
  have f3: "files F s3 = files F s2" and f4: "files F s4 = files F s2" using con(4) [OF y] con(5) [OF z] by simp_all
  have f2': "files F (snd (ro_Close os tmp s2)) = files F s2" using con(5) [of tmp s2 _ "snd (ro_Close os tmp s2)"] by (metis prod.collapse)
  consider (unwritten) err where "res = Inl err" "s' = snd (ro_Close os tmp s2)"
    | (late) err where "res = Inl err" "s' = s4"
    | (rename) err x where "res = Inl err" "s' = s5" "e5 = Some x"
    | (renamed) "e2 = None" "e5 = None" "res = Inr (filename, int (length items))" "s' = s5"
    using assms(3) w y z rn by (auto simp: publishReport_def split: option.splits)
  then show ?thesis
  proof cases
    case unwritten
    with f2' c(1) show ?thesis by auto
  next
    case late
    with f4 c(1) show ?thesis by auto
  next
    case rename
    with con(11) [of tmp filename s4 x s5] rn f4 c(1) show ?thesis by auto
  next
    case renamed
    with con(10) [of tmp filename s4 s5] rn f4 have
      "files F s5 = (files F s2)(key filename := files F s2 (key tmp), key tmp := None)" by simp
    then have "files F s5 = (files F s)(key tmp \<mapsto> c, key filename \<mapsto> c, key tmp := None)" using c(1) by simp
    with c(2) renamed show ?thesis by blast
  qed
qed

section \<open>The name of a report\<close>

definition report_name :: "string \<Rightarrow> string \<Rightarrow> string" where
  "report_name jobID format = (if filepath_Base jobID = ''/'' then '''' else filepath_Base jobID) @ ''.'' @ format"

lemma report_name_plain:
  assumes "format = ''json'' \<or> format = ''csv''"
  shows "plain_name (report_name jobID format)"
  using assms Base_cases [of jobID] by (auto simp: plain_name_def report_name_def append_eq_Cons_conv)

lemma report_path_plain:
  assumes "directory \<noteq> ''''" and "format = ''json'' \<or> format = ''csv''"
  shows "report_path directory jobID format = dir_prefix directory @ report_name jobID format"
    and "report_path directory jobID format = filepath_Join directory (report_name jobID format)"
proof -
  note p = Join_plain [OF assms(1) report_name_plain [OF assms(2), of jobID]]
  show "report_path directory jobID format = dir_prefix directory @ report_name jobID format"
    using p by (auto simp: report_path_def report_name_def split: if_splits)
  then show "report_path directory jobID format = filepath_Join directory (report_name jobID format)" using p by simp
qed

lemma temp_not_report:
  assumes "os_contract os key F" and "directory \<noteq> ''''" and "format = ''json'' \<or> format = ''csv''"
    and "temp_file key directory k"
  shows "k \<noteq> key (report_path directory jobID format)"
proof
  assume "k = key (report_path directory jobID format)"
  with assms(4) obtain digits where dg: "set digits \<subseteq> set ''0123456789''"
    and eq: "key (filepath_Join directory (''.edgeguard-report-'' @ digits)) = key (filepath_Join directory (report_name jobID format))"
    unfolding temp_file_def report_path_plain(2) [OF assms(2,3)] by metis
  have "plain_name (''.edgeguard-report-'' @ digits)" using dg by (auto simp: plain_name_def)
  from os_contractD(1) [OF assms(1,2) this report_name_plain [OF assms(3)] eq]
  have "last (''.edgeguard-report-'' @ digits) = last (report_name jobID format)" by simp
  moreover have "last (''.edgeguard-report-'' @ digits) \<in> insert (CHR ''-'') (set ''0123456789'')"
  proof (cases "digits = []")
    case False
    then have "last digits \<in> set ''0123456789''" using dg last_in_set by blast
    with False show ?thesis by simp
  qed simp
  moreover have "last (report_name jobID format) \<in> {CHR ''n'', CHR ''v''}" using assms(3) by (auto simp: report_name_def)
  ultimately show False by auto
qed

lemma published_or_kept:
  assumes con: "os_contract os key F" and s4: "files F s4 = (files F s)(key tmp \<mapsto> '''')"
    and ne: "key tmp \<noteq> key filename"
    and pub: "publishReport lib os filename format payload tmp items s4 = (res, s5)" and s': "s' = snd (ro_Remove os tmp s5)"
  shows "\<And>err. res = Inl err \<Longrightarrow> files F s' (key filename) = files F s (key filename)"
    and "\<And>path n. res = Inr (path, n) \<Longrightarrow> path = filename \<and> n = int (length items) \<and>
      (\<exists>now body. report_text lib format payload now items = Inr body \<and> files F s' (key filename) = Some body)"
    and "\<And>k. k \<noteq> key filename \<Longrightarrow> k \<noteq> key tmp \<Longrightarrow> files F s' k = files F s k"
proof -
  have f4: "files F s4 (key tmp) = Some ''''" using s4 by simp
  note p = publishReport_files [OF con f4 pub]
  have rm: "k \<noteq> key tmp \<Longrightarrow> files F s' k = files F s5 k" for k using os_contractD(9) [OF con, of tmp s5] s' by auto
  show "res = Inl err \<Longrightarrow> files F s' (key filename) = files F s (key filename)" for err
    using p rm [of "key filename"] ne s4 by auto
  show "res = Inr (path, n) \<Longrightarrow> path = filename \<and> n = int (length items) \<and>
      (\<exists>now body. report_text lib format payload now items = Inr body \<and> files F s' (key filename) = Some body)" for path n
    using p rm [of "key filename"] ne by auto
  show "k \<noteq> key filename \<Longrightarrow> k \<noteq> key tmp \<Longrightarrow> files F s' k = files F s k" for k
    using p rm [of k] s4 by (cases res) auto
qed

section \<open>Generation as a whole\<close>

lemma pg_exec_more [simp]: "pg.more (snd (pg_exec env stmt s)) = pg.more s"
  by (auto simp: pg_exec_def Let_def split: pg_fault.splits sum.splits)

lemma projectExists_Inr:
  assumes "projectExists env projectID s = (r, s1)"
  shows "files F s1 = files F s" and "r = Inr b \<Longrightarrow> pg_db s1 = pg_db s"
proof -
  obtain r0 s0 where x: "pg_exec env (projectExistsQuery env projectID) s = (r0, s0)" by fastforce
  with assms have s0: "s0 = s1" by (auto simp: projectExists_def split: sum.splits pg_error.splits if_splits)
  with x pg_exec_more [of env "projectExistsQuery env projectID" s] show "files F s1 = files F s" by simp
  assume "r = Inr b"
  with assms x have "r0 = Inr b" by (auto simp: projectExists_def split: sum.splits pg_error.splits if_splits)
  with pg_exec_Inr [of env "projectExistsQuery env projectID" s b s0] x s0 show "pg_db s1 = pg_db s"
    by (auto simp: projectExistsQuery_def split: option.splits)
qed

lemma loadRows_Inr:
  assumes "loadRows env lib payload s = (r, s1)"
  shows "files F s1 = files F s"
    and "r = Inr items \<Longrightarrow> \<exists>project. pe_uuid env (rp_ProjectID payload) = Some project \<and>
      items = report_rows lib project (pg_time (rp_From payload)) (pg_time (rp_To payload)) (pg_db s)"
proof -
  obtain r0 s0 where x: "pg_exec env (reportRowsQuery env lib payload) s = (r0, s0)" by fastforce
  with assms have s0: "s0 = s1" by (auto simp: loadRows_def split: sum.splits)
  with x pg_exec_more [of env "reportRowsQuery env lib payload" s] show "files F s1 = files F s" by simp
  assume "r = Inr items"
  with assms x have "r0 = Inr items" by (auto simp: loadRows_def split: sum.splits)
  with pg_exec_Inr [of env "reportRowsQuery env lib payload" s items s0] x
  show "\<exists>project. pe_uuid env (rp_ProjectID payload) = Some project \<and>
      items = report_rows lib project (pg_time (rp_From payload)) (pg_time (rp_To payload)) (pg_db s)"
    by (auto simp: reportRowsQuery_def split: option.splits)
qed

text \<open>C21. Reports are published atomically and inside the report directory. Whatever the job identifier is, the
  file name is a plain name in the directory. When the generation succeeds, that file holds the complete report
  of exactly the rows of the project whose hours overlap the requested interval, and their number is reported;
  when it fails at any point, the file is as it was before. No other file changes, except that a temporary file
  may be left behind when it cannot be removed.\<close>

theorem report_published_atomically:
  assumes con: "os_contract os key F" and dir: "directory \<noteq> ''''"
    and gen: "Generate env lib os directory jobID payload s = (res, s')"
    and fmt: "format = ToLower (rl_case lib) (TrimSpace (rp_Format payload))"
    and target: "target = key (report_path directory jobID format)"
  shows "(\<forall>err. res = Inl err \<longrightarrow> files F s' target = files F s target) \<and>
    (\<forall>path n. res = Inr (path, n) \<longrightarrow>
      path = dir_prefix directory @ report_name jobID format \<and> CHR ''/'' \<notin> set (report_name jobID format) \<and>
      (\<exists>project items now body. pe_uuid env (rp_ProjectID payload) = Some project \<and>
        items = report_rows lib project (pg_time (rp_From payload)) (pg_time (rp_To payload)) (pg_db s) \<and>
        n = int (length items) \<and> report_text lib format payload now items = Inr body \<and> files F s' target = Some body)) \<and>
    (\<forall>k. k \<noteq> target \<longrightarrow> files F s' k = files F s k \<or> files F s k = None \<and> temp_file key directory k)"
proof -
  note c = os_contractD [OF con]
  obtain r1 s1 where p: "projectExists env (rp_ProjectID payload) s = (r1, s1)" by fastforce
  obtain r2 s2 where l: "loadRows env lib payload s1 = (r2, s2)" by fastforce
  obtain r3 s3 where m: "ro_MkdirAll os directory s2 = (r3, s3)" by fastforce
  obtain r4 s4 where t: "ro_CreateTemp os directory ''.edgeguard-report-*'' s3 = (r4, s4)" by fastforce
  note f1 = projectExists_Inr(1) [OF p, of F] and f2 = loadRows_Inr(1) [OF l, of F] and f3 = c(3) [OF m]
  consider (early) err where "res = Inl err" "files F s' = files F s"
    | (late) items tmp s5 where "r1 = Inr True" "r2 = Inr items" "r4 = Inr tmp" "format = ''json'' \<or> format = ''csv''"
      "publishReport lib os (report_path directory jobID format) format payload tmp items s4 = (res, s5)"
      "s' = snd (ro_Remove os tmp s5)"
    using gen p l m t f1 f2 f3 c(6) [of directory s3 _ s4] fmt
    by (auto simp: Generate_def Let_def split: if_splits sum.splits option.splits prod.splits)
  then show ?thesis
  proof cases
    case early
    then show ?thesis by simp
  next
    case late
    note tmp = c(7) [OF t [unfolded late(3)]]
    have s4: "files F s4 = (files F s)(key tmp \<mapsto> '''')" and new: "files F s (key tmp) = None" using tmp f1 f2 f3 by simp_all
    have "key tmp \<noteq> key (report_path directory jobID format)" using temp_not_report [OF con dir late(4)] tmp by blast
    note pub = published_or_kept [OF con s4 this late(5,6), folded target]
    from loadRows_Inr(2) [OF l late(2)] projectExists_Inr(2) [OF p late(1)] obtain project where
      project: "pe_uuid env (rp_ProjectID payload) = Some project"
      "items = report_rows lib project (pg_time (rp_From payload)) (pg_time (rp_To payload)) (pg_db s)" by auto
    have "CHR ''/'' \<notin> set (report_name jobID format)"
      using report_name_plain [OF late(4), of jobID] by (simp add: plain_name_def)
    with pub(2) project report_path_plain(1) [OF dir late(4), of jobID]
    have "path = dir_prefix directory @ report_name jobID format \<and> CHR ''/'' \<notin> set (report_name jobID format) \<and>
        (\<exists>project items now body. pe_uuid env (rp_ProjectID payload) = Some project \<and>
          items = report_rows lib project (pg_time (rp_From payload)) (pg_time (rp_To payload)) (pg_db s) \<and>
          n = int (length items) \<and> report_text lib format payload now items = Inr body \<and> files F s' target = Some body)"
      if "res = Inr (path, n)" for path n using that by metis
    moreover have "files F s' k = files F s k \<or> files F s k = None \<and> temp_file key directory k" if "k \<noteq> target" for k
      using pub(3) tmp new that by (cases "k = key tmp") auto
    ultimately show ?thesis using pub(1) by blast
  qed
qed

section \<open>A concrete file system\<close>

type_synonym demo_files = "string \<Rightarrow> string option"

definition set_files :: "(report_db, demo_files) pg_scheme \<Rightarrow> demo_files \<Rightarrow> (report_db, demo_files) pg_scheme" where
  "set_files s m = pg.extend (pg.truncate s) m"

definition demo_report_os :: "(report_db, demo_files) pg_scheme report_os" where
  "demo_report_os =
     \<lparr>ro_Now = (\<lambda>s. (0, s)), ro_MkdirAll = (\<lambda>_ s. (None, s)),
      ro_CreateTemp = (\<lambda>d _ s. let tmp = filepath_Join d ''.edgeguard-report-0'' in
        if pg.more s tmp = None then (Inr tmp, set_files s ((pg.more s)(tmp \<mapsto> ''''))) else (Inl (Sentinel (JbExternal ''os'')), s)),
      ro_Write = (\<lambda>f w s. case pg.more s f of
          None \<Rightarrow> (Some (Sentinel (JbExternal ''os'')), s)
        | Some c \<Rightarrow> (None, set_files s ((pg.more s)(f \<mapsto> c @ w)))),
      ro_Sync = (\<lambda>_ s. (None, s)), ro_Close = (\<lambda>_ s. (None, s)),
      ro_Remove = (\<lambda>f s. (None, set_files s ((pg.more s)(f := None)))),
      ro_Rename = (\<lambda>a b s. (None, set_files s ((pg.more s)(b := pg.more s a, a := None))))\<rparr>"

lemma more_set_files [simp]: "pg.more (set_files s m) = m"
  by (simp add: set_files_def pg.defs)

lemma demo_os_contract: "os_contract demo_report_os (\<lambda>p. p) (\<lambda>m. m)"
proof -
  have "temp_file (\<lambda>p. p) d (filepath_Join d ''.edgeguard-report-0'')" for d
    unfolding temp_file_def by (rule exI [of _ "''0''"]) simp
  moreover have "m = n" if "d \<noteq> ''''" "plain_name m" "plain_name n" "filepath_Join d m = filepath_Join d n" for d m n
    using that Join_plain(1) [of d m] Join_plain(1) [of d n] by simp
  ultimately show ?thesis
    by (auto simp: os_contract_def demo_report_os_def Let_def split: option.splits)
qed

definition demo_report_lib :: report_lib where
  "demo_report_lib = \<lparr>rl_case = \<lparr>uni_lower = (\<lambda>x. x), uni_upper = (\<lambda>x. x)\<rparr>, rl_EncodeJSON = (\<lambda>_. Inr ''{}''),
     rl_RFC3339 = (\<lambda>_. ''t''), rl_trunc_hour = (\<lambda>t. time_Truncate t Hour), rl_collate = bytes_less\<rparr>"

definition demo_report_env :: pg_env where
  "demo_report_env = \<lparr>pe_fault = (\<lambda>_. NoFault), pe_now = int, pe_newid = (\<lambda>_. ''i''), pe_uuid = Some, pe_lower = (\<lambda>x. x)\<rparr>"

definition demo_report_payload :: ReportPayload where
  "demo_report_payload = \<lparr>rp_ProjectID = ''p'', rp_From = 1, rp_To = 3600000000000, rp_Format = ''CSV''\<rparr>"

definition demo_report_state :: "(report_db, demo_files) pg_scheme" where
  "demo_report_state = pg.extend \<lparr>pg_db = \<lparr>rpd_projects = [''p''],
     rpd_stats = [\<lparr>sr_bucket_start = 0, sr_project_id = ''p'', sr_route_name = ''r'', sr_route_path_prefix = ''/r'',
       sr_method = ''GET'', sr_request_count = 2, sr_status_1xx_count = 0, sr_status_2xx_count = 2, sr_status_3xx_count = 0,
       sr_status_4xx_count = 0, sr_status_5xx_count = 0, sr_rate_limited_count = 0, sr_total_duration_ms = 7,
       sr_max_duration_ms = 4, sr_total_response_bytes = 10, sr_updated_at = 0\<rparr>]\<rparr>, pg_tick = 0\<rparr> (\<lambda>_. None)"

definition demo_report :: "(jb_err + string \<times> int) \<times> (report_db, demo_files) pg_scheme" where
  "demo_report = Generate demo_report_env demo_report_lib demo_report_os ''./r/'' ''../j'' demo_report_payload demo_report_state"

lemma demo_report_done: "fst demo_report = Inr (''r/j.csv'', 1)"
  by code_simp

theorem report_published_atomically_witness:
  "fst demo_report = Inr (''r/j.csv'', 1) \<and> (\<exists>body. pg.more (snd demo_report) ''r/j.csv'' = Some body)"
proof -
  have fmt: "''csv'' = ToLower (rl_case demo_report_lib) (TrimSpace (rp_Format demo_report_payload))" by code_simp
  have path: "''r/j.csv'' = report_path ''./r/'' ''../j'' ''csv''" by code_simp
  have dir: "''./r/'' \<noteq> ''''" by simp
  have "\<exists>body. pg.more (snd demo_report) ''r/j.csv'' = Some body"
    using report_published_atomically [OF demo_os_contract dir
        surjective_pairing [of "Generate demo_report_env demo_report_lib demo_report_os ''./r/'' ''../j'' demo_report_payload demo_report_state"]
        fmt path, folded demo_report_def] demo_report_done by blast
  with demo_report_done show ?thesis by blast
qed

end
