(* ===== verification/Jobs_Usecase.thy ===== *)
theory Jobs_Usecase
  imports Jobs_Store Jobs_Amqp
begin

text \<open>
  \<open>internal/jobs/usecase\<close> and \<open>internal/jobs/infrastructure/id\<close>: submission of jobs, which stores the job,
  publishes its message and records the outcome, and the status query. \<open>pg_jobs_usecase\<close> is the wiring on
  the PostgreSQL repository and the RabbitMQ publisher.
\<close>

section \<open>Identifiers\<close>

definition generator_NewID :: "(nat \<Rightarrow> 's \<Rightarrow> (jb_err + string) \<times> 's) \<Rightarrow> 's \<Rightarrow> (jb_err + string) \<times> 's" where
  "generator_NewID rand_Read s =
     (case rand_Read 16 s of
        (Inl err, s1) \<Rightarrow> (Inl (Errorf ''read random bytes: %w'' [err]), s1)
      | (Inr v, s1) \<Rightarrow> (Inr (hex_EncodeToString v), s1))"

section \<open>The use case object\<close>

record 's JobRepository =
  jrp_CreateJob :: "Job \<Rightarrow> 's \<Rightarrow> jb_err option \<times> 's"
  jrp_MarkQueued :: "string \<Rightarrow> Time \<Rightarrow> 's \<Rightarrow> jb_err option \<times> 's"
  jrp_MarkSubmissionFailed :: "string \<Rightarrow> string \<Rightarrow> Time \<Rightarrow> 's \<Rightarrow> jb_err option \<times> 's"
  jrp_GetJob :: "string \<Rightarrow> 's \<Rightarrow> (jb_err + Job) \<times> 's"

record 's JobsDependencies =
  jd_Publisher :: "Envelope \<Rightarrow> 's \<Rightarrow> jb_err option \<times> 's"
  jd_Repository :: "'s JobRepository"
  jd_IDGenerator :: "'s \<Rightarrow> (jb_err + string) \<times> 's"
  jd_Clock :: "('s \<Rightarrow> Time \<times> 's) option"

record 's JobsUsecase =
  ju_publisher :: "Envelope \<Rightarrow> 's \<Rightarrow> jb_err option \<times> 's"
  ju_repository :: "'s JobRepository"
  ju_idGenerator :: "'s \<Rightarrow> (jb_err + string) \<times> 's"
  ju_clock :: "'s \<Rightarrow> Time \<times> 's"

definition jobs_New :: "('s \<Rightarrow> Time \<times> 's) \<Rightarrow> 's JobsDependencies \<Rightarrow> 's JobsUsecase" where
  "jobs_New realClock deps =
     \<lparr>ju_publisher = jd_Publisher deps, ju_repository = jd_Repository deps,
      ju_idGenerator = jd_IDGenerator deps,
      ju_clock = (case jd_Clock deps of None \<Rightarrow> realClock | Some c \<Rightarrow> c)\<rparr>"

section \<open>Submission\<close>

record SubmitWebhookInput =
  swi_URL :: string
  swi_Method :: string
  swi_Headers :: "(string \<times> string) list"
  swi_Body :: string
  swi_MaxAttempts :: int

record SubmitReportInput =
  sri_ProjectID :: string
  sri_From :: Time
  sri_To :: Time
  sri_Format :: string
  sri_MaxAttempts :: int

record SubmitCleanupInput =
  sci_Before :: Time
  sci_BatchSize :: int
  sci_MaxAttempts :: int

text \<open>What the standard library contributes: JSON, URLs, letter case and the text of an error.\<close>

record jobs_lib =
  jl_json_Valid :: "string \<Rightarrow> bool"
  jl_json_Marshal :: "job_payload \<Rightarrow> string option"
  jl_ParseRequestURI :: "string \<Rightarrow> web_url option"
  jl_case :: case_tables
  jl_Error :: "jb_err \<Rightarrow> string"

definition submit :: "jobs_lib \<Rightarrow> 's JobsUsecase \<Rightarrow> string \<Rightarrow> job_payload \<Rightarrow> int \<Rightarrow> 's \<Rightarrow> (jb_err + Receipt) \<times> 's" where
  "submit lib u jobType payload maxAttempts0 s =
     (case NormalizeMaxAttempts maxAttempts0 of
        Inl err \<Rightarrow> (Inl err, s)
      | Inr maxAttempts \<Rightarrow>
          (case ju_idGenerator u s of
             (Inl err, s1) \<Rightarrow> (Inl (Errorf ''generate job id: %w'' [err]), s1)
           | (Inr jobID, s1) \<Rightarrow>
               (case ju_clock u s1 of (createdAt, s2) \<Rightarrow>
                  (case NewEnvelope (jl_json_Valid lib) (jl_json_Marshal lib) jobID jobType createdAt maxAttempts payload of
                     Inl err \<Rightarrow> (Inl (Errorf ''build job envelope: %w'' [err]), s2)
                   | Inr envelope \<Rightarrow>
                       (case jrp_CreateJob (ju_repository u) (NewPublishingJob envelope createdAt) s2 of
                          (Some err, s3) \<Rightarrow> (Inl (Errorf ''persist job before publishing: %w'' [err]), s3)
                        | (None, s3) \<Rightarrow>
                            (case ju_publisher u envelope s3 of
                               (Some err, s4) \<Rightarrow>
                                 (case ju_clock u s4 of (failedAt, s5) \<Rightarrow>
                                    (Inl (Errorf ''publish job: %w'' [err]),
                                     snd (jrp_MarkSubmissionFailed (ju_repository u) (en_ID envelope) (jl_Error lib err)
                                            failedAt s5)))
                             | (None, s4) \<Rightarrow>
                                 (case ju_clock u s4 of (now, s5) \<Rightarrow>
                                    (Inr \<lparr>rc_ID = en_ID envelope, rc_Type = en_Type envelope, rc_Status = ''queued'',
                                          rc_CreatedAt = en_CreatedAt envelope\<rparr>,
                                     snd (jrp_MarkQueued (ju_repository u) (en_ID envelope) now s5)))))))))"

definition SubmitWebhook :: "jobs_lib \<Rightarrow> 's JobsUsecase \<Rightarrow> SubmitWebhookInput \<Rightarrow> 's \<Rightarrow> (jb_err + Receipt) \<times> 's" where
  "SubmitWebhook lib u input s =
     (case NewWebhookPayload (jl_case lib) (jl_ParseRequestURI lib) (jl_json_Valid lib)
             (swi_URL input) (swi_Method input) (swi_Headers input) (swi_Body input) of
        Inl err \<Rightarrow> (Inl err, s)
      | Inr payload \<Rightarrow> submit lib u TypeWebhookDeliver (PWebhook payload) (swi_MaxAttempts input) s)"

definition SubmitReport :: "jobs_lib \<Rightarrow> 's JobsUsecase \<Rightarrow> SubmitReportInput \<Rightarrow> 's \<Rightarrow> (jb_err + Receipt) \<times> 's" where
  "SubmitReport lib u input s =
     (case NewReportPayload (jl_case lib) (sri_ProjectID input) (sri_From input) (sri_To input) (sri_Format input) of
        Inl err \<Rightarrow> (Inl err, s)
      | Inr payload \<Rightarrow> submit lib u TypeReportGenerate (PReport payload) (sri_MaxAttempts input) s)"

definition SubmitCleanup :: "jobs_lib \<Rightarrow> 's JobsUsecase \<Rightarrow> SubmitCleanupInput \<Rightarrow> 's \<Rightarrow> (jb_err + Receipt) \<times> 's" where
  "SubmitCleanup lib u input s =
     (case NewCleanupPayload (sci_Before input) (sci_BatchSize input) of
        Inl err \<Rightarrow> (Inl err, s)
      | Inr payload \<Rightarrow> submit lib u TypeCleanupExpiredTokens (PCleanup payload) (sci_MaxAttempts input) s)"

definition usecase_GetJob :: "'s JobsUsecase \<Rightarrow> string \<Rightarrow> 's \<Rightarrow> (jb_err + Job) \<times> 's" where
  "usecase_GetJob u jobID s =
     (let i = TrimSpace jobID in
      if i = '''' then (Inl (Sentinel JErrJobNotFound), s) else jrp_GetJob (ju_repository u) i s)"

section \<open>Wiring\<close>

definition pg_job_repository :: "pg_env \<Rightarrow> 'z jobs_state JobRepository" where
  "pg_job_repository env =
     \<lparr>jrp_CreateJob = jobs_CreateJob env, jrp_MarkQueued = jobs_MarkQueued env,
      jrp_MarkSubmissionFailed = jobs_MarkSubmissionFailed env, jrp_GetJob = jobs_GetJob env\<rparr>"

definition pg_jobs_usecase ::
  "pg_env \<Rightarrow> (Envelope \<Rightarrow> 'z jobs_state \<Rightarrow> jb_err option \<times> 'z jobs_state) \<Rightarrow>
   (nat \<Rightarrow> 'z jobs_state \<Rightarrow> (jb_err + string) \<times> 'z jobs_state) \<Rightarrow> ('z jobs_state \<Rightarrow> Time \<times> 'z jobs_state) \<Rightarrow>
   'z jobs_state JobsUsecase" where
  "pg_jobs_usecase env publish rand clock =
     jobs_New clock \<lparr>jd_Publisher = publish, jd_Repository = pg_job_repository env,
                     jd_IDGenerator = generator_NewID rand, jd_Clock = None\<rparr>"

lemma pg_jobs_usecase_simps [simp]:
  "ju_publisher (pg_jobs_usecase env publish rand clock) = publish"
  "ju_repository (pg_jobs_usecase env publish rand clock) = pg_job_repository env"
  "ju_idGenerator (pg_jobs_usecase env publish rand clock) = generator_NewID rand"
  "ju_clock (pg_jobs_usecase env publish rand clock) = clock"
  by (simp_all add: pg_jobs_usecase_def jobs_New_def)

section \<open>Properties\<close>

text \<open>Other submissions and workers run while a submission waits for the broker, the random source or
  the clock.\<close>

definition jobs_interleaved ::
  "pg_env \<Rightarrow> (Envelope \<Rightarrow> 'z jobs_state \<Rightarrow> jb_err option \<times> 'z jobs_state) \<Rightarrow>
   (nat \<Rightarrow> 'z jobs_state \<Rightarrow> (jb_err + string) \<times> 'z jobs_state) \<Rightarrow> ('z jobs_state \<Rightarrow> Time \<times> 'z jobs_state) \<Rightarrow> bool" where
  "jobs_interleaved env publish rand clock \<longleftrightarrow>
     (\<forall>e s. jobs_reach env s (snd (publish e s))) \<and> (\<forall>n s. jobs_reach env s (snd (rand n s))) \<and>
     (\<forall>s. jobs_reach env s (snd (clock s)))"

lemma jobs_interleavedD:
  assumes "jobs_interleaved env publish rand clock"
  shows "publish e s = (r, s') \<Longrightarrow> jobs_reach env s s'" and "clock s = (t, s') \<Longrightarrow> jobs_reach env s s'"
    and "generator_NewID rand s = (x, s') \<Longrightarrow> jobs_reach env s s'"
proof -
  show "publish e s = (r, s') \<Longrightarrow> jobs_reach env s s'" "clock s = (t, s') \<Longrightarrow> jobs_reach env s s'"
    using assms by (metis jobs_interleaved_def snd_conv)+
  obtain y s1 where y: "rand 16 s = (y, s1)" by fastforce
  then have "jobs_reach env s s1" using assms by (metis jobs_interleaved_def snd_conv)
  with y show "generator_NewID rand s = (x, s') \<Longrightarrow> jobs_reach env s s'"
    by (auto simp: generator_NewID_def split: sum.splits)
qed

lemma CreateJob_stored:
  assumes "jobs_CreateJob env job s = (None, s')"
  shows "status_of (pg_db s') (jo_ID job) = Some (jo_Status job)"
proof -
  obtain r s1 where x: "pg_exec env (createJobQuery job) s = (r, s1)" by fastforce
  with assms obtain i where r: "r = Inr i" "s1 = s'" by (auto simp: jobs_CreateJob_def split: sum.splits)
  let ?row = "job\<lparr>jo_CreatedAt := pg_time (jo_CreatedAt job), jo_QueuedAt := None, jo_StartedAt := None,
      jo_CompletedAt := None, jo_UpdatedAt := pg_time (jo_UpdatedAt job), jo_LastError := '''',
      jo_ResultMessage := '''', jo_OutputPath := '''', jo_AffectedRows := 0\<rparr>"
  from pg_exec_Inr [OF x [unfolded r]]
  have "db_jobs (pg_db s') = db_jobs (pg_db s) @ [?row]" and "jo_ID job \<notin> jo_ID ` set (db_jobs (pg_db s))"
    by (auto simp: createJobQuery_def Let_def split: if_splits dest!: sym [of _ "pg_db s'"])
  moreover from this(2) have "find_row (\<lambda>j. jo_ID j = jo_ID job) (db_jobs (pg_db s)) = None"
    by (force simp: find_row_None image_iff)
  ultimately show ?thesis by (simp add: status_of_def find_row_append)
qed

text \<open>A successful submission, step by step.\<close>

lemma submit_Inr:
  assumes sub: "submit lib (pg_jobs_usecase env publish rand clock) ty payload m0 s = (Inr r, s')"
    and il: "jobs_interleaved env publish rand clock"
  obtains e m s2 s3 s4 s5 createdAt now where
    "NormalizeMaxAttempts m0 = Inr m" "en_MaxAttempts e = m" "en_Type e = ty" "envelope_Validate (jl_json_Valid lib) e = None"
    "jl_json_Marshal lib payload = Some (en_Payload e)"
    "jobs_reach env s s2" "jobs_CreateJob env (NewPublishingJob e createdAt) s2 = (None, s3)"
    "publish e s3 = (None, s4)" "clock s4 = (now, s5)" "s' = snd (jobs_MarkQueued env (en_ID e) now s5)"
    "rc_ID r = en_ID e"
proof -
  note defs = submit_def pg_job_repository_def
  from sub obtain m where m: "NormalizeMaxAttempts m0 = Inr m"
    by (cases "NormalizeMaxAttempts m0") (auto simp: defs)
  obtain x1 s1 where g: "generator_NewID rand s = (x1, s1)" by fastforce
  with sub m obtain i where i: "x1 = Inr i" by (cases x1) (auto simp: defs)
  obtain createdAt s2 where ck: "clock s1 = (createdAt, s2)" by fastforce
  let ?ne = "NewEnvelope (jl_json_Valid lib) (jl_json_Marshal lib) i ty createdAt m payload"
  from sub m g i ck obtain e where e: "?ne = Inr e" by (cases ?ne) (auto simp: defs)
  obtain c s3 where cr: "jobs_CreateJob env (NewPublishingJob e createdAt) s2 = (c, s3)" by fastforce
  with sub m g i ck e have c: "c = None" by (cases c) (auto simp: defs)
  obtain pr s4 where pb: "publish e s3 = (pr, s4)" by fastforce
  with sub m g i ck e cr c have pr: "pr = None" by (cases pr) (auto simp: defs split: prod.splits)
  obtain now s5 where ck2: "clock s4 = (now, s5)" by fastforce
  from sub m g i ck e cr c pb pr ck2
  have fin: "s' = snd (jobs_MarkQueued env (en_ID e) now s5)" "rc_ID r = en_ID e" by (auto simp: defs)
  have "jobs_reach env s s2"
    using jobs_reach_trans jobs_interleavedD(3) [OF il g] jobs_interleavedD(2) [OF il ck] by blast
  with that [OF m] NewEnvelope_Inr [OF e] cr c pb pr ck2 fin show thesis by blast
qed

text \<open>C19. A receipt is given only after the job was stored as \<open>publishing\<close> and the broker then confirmed a
  persistent message with the job's id, its type as routing key and a valid envelope of at most ten
  attempts; the job is still stored when the receipt is returned, at that status or a later one of
  the life cycle.\<close>

theorem submit_receipt_sound:
  assumes "jobs_wf (pg_db s)"
    and "jobs_interleaved env (publisher_Publish (jl_json_Valid lib) jm trace ops p) rand clock"
    and "submit lib (pg_jobs_usecase env (publisher_Publish (jl_json_Valid lib) jm trace ops p) rand clock)
           ty payload m0 s = (Inr r, s')"
  shows "\<exists>e body timeout tag s3 s4 s5 st.
    status_of (pg_db s3) (rc_ID r) = Some StatusPublishing \<and>
    aq_Publish ops timeout (pb_exchange p) ty (publish_message trace e body) s3 = (Inr (Some tag), s4) \<and>
    aq_Wait ops timeout tag s4 = (Inr True, s5) \<and> jm e = Some body \<and>
    en_ID e = rc_ID r \<and> en_Type e = ty \<and> envelope_Validate (jl_json_Valid lib) e = None \<and>
    jl_json_Marshal lib payload = Some (en_Payload e) \<and> en_MaxAttempts e \<le> 10 \<and>
    status_of (pg_db s') (rc_ID r) = Some st \<and> lifecycle\<^sup>*\<^sup>* StatusPublishing st"
proof -
  let ?pub = "publisher_Publish (jl_json_Valid lib) jm trace ops p"
  from submit_Inr [OF assms(3,2)] obtain e m s2 s3 s5 s6 ca now where
    m: "NormalizeMaxAttempts m0 = Inr m" "en_MaxAttempts e = m" and e: "en_Type e = ty"
      "envelope_Validate (jl_json_Valid lib) e = None" "jl_json_Marshal lib payload = Some (en_Payload e)"
    and r2: "jobs_reach env s s2" and cr: "jobs_CreateJob env (NewPublishingJob e ca) s2 = (None, s3)"
    and pb: "?pub e s3 = (None, s5)" and ck: "clock s5 = (now, s6)"
    and s': "s' = snd (jobs_MarkQueued env (en_ID e) now s6)" and rc: "rc_ID r = en_ID e" by metis
  from Publish_confirmed [OF pb] obtain body tag s4 timeout where
    conf: "jm e = Some body" "aq_Publish ops timeout (pb_exchange p) ty (publish_message trace e body) s3 = (Inr (Some tag), s4)"
      "aq_Wait ops timeout tag s4 = (Inr True, s5)" using e(1) by metis
  have st3: "status_of (pg_db s3) (rc_ID r) = Some StatusPublishing"
    using CreateJob_stored [OF cr] rc by (simp add: NewPublishingJob_def)
  have r3: "jobs_reach env s s3" using jobs_reach.jr_create [OF r2, of e ca] cr by simp
  have r36: "jobs_reach env s3 s6"
    using jobs_reach_trans jobs_interleavedD(1) [OF assms(2) pb] jobs_interleavedD(2) [OF assms(2) ck] by blast
  then have "jobs_reach env s3 s'" unfolding s' by (rule jobs_reach.jr_queued)
  moreover have "jobs_wf (pg_db s3)" using jobs_reach_le [OF r3] assms(1) by (simp add: jobs_le_def)
  ultimately obtain st where "status_of (pg_db s') (rc_ID r) = Some st" "lifecycle\<^sup>*\<^sup>* StatusPublishing st"
    using status_of_later [OF _ jobs_reach_le st3] by blast
  with st3 conf e rc m NormalizeMaxAttempts_range [OF m(1)] show ?thesis by metis
qed

text \<open>Nothing is published for a job that could not be stored.\<close>

lemma submit_not_stored:
  assumes "NormalizeMaxAttempts m0 = Inr m" and "ju_idGenerator u s = (Inr i, s1)" and "ju_clock u s1 = (t, s2)"
    and "NewEnvelope (jl_json_Valid lib) (jl_json_Marshal lib) i ty t m payload = Inr e"
    and "jrp_CreateJob (ju_repository u) (NewPublishingJob e t) s2 = (Some err, s3)"
  shows "submit lib u ty payload m0 s = (Inl (Errorf ''persist job before publishing: %w'' [err]), s3)"
  using assms by (simp add: submit_def)

text \<open>A broker that confirms every message.\<close>

definition demo_ops :: "(jobs_db pg) amqp_ops" where
  "demo_ops = \<lparr>aq_Dial = (\<lambda>u s. (None, s)), aq_Channel = (\<lambda>s. (None, s)), aq_ExchangeDeclare = (\<lambda>e k s. (None, s)),
     aq_QueueDeclare = (\<lambda>q t s. (None, s)), aq_QueueBind = (\<lambda>q k e s. (None, s)), aq_Confirm = (\<lambda>s. (None, s)),
     aq_Qos = (\<lambda>n s. (None, s)), aq_Publish = (\<lambda>t e k m s. (Inr (Some 7), s)), aq_Wait = (\<lambda>t c s. (Inr True, s)),
     aq_CloseChannel = (\<lambda>s. (None, s)), aq_CloseConnection = (\<lambda>s. (None, s)),
     aq_ConnectionClosed = (\<lambda>s. False), aq_ChannelClosed = (\<lambda>s. False)\<rparr>"

definition demo_publisher :: Publisher where
  "demo_publisher = \<lparr>pb_exchange = ''jobs'', pb_publishTimeout = 5 * Second, pb_closed = False\<rparr>"

definition demo_jobs_lib :: jobs_lib where
  "demo_jobs_lib = \<lparr>jl_json_Valid = (\<lambda>x. True), jl_json_Marshal = (\<lambda>p. Some ''{}''), jl_ParseRequestURI = (\<lambda>u. None),
     jl_case = \<lparr>uni_lower = (\<lambda>x. x), uni_upper = (\<lambda>x. x)\<rparr>, jl_Error = (\<lambda>e. ''error'')\<rparr>"

definition demo_publish :: "Envelope \<Rightarrow> jobs_db pg \<Rightarrow> jb_err option \<times> jobs_db pg" where
  "demo_publish = publisher_Publish (jl_json_Valid demo_jobs_lib) (\<lambda>e. Some ''{}'') [] demo_ops demo_publisher"

definition demo_jobs_rand :: "nat \<Rightarrow> jobs_db pg \<Rightarrow> (jb_err + string) \<times> jobs_db pg" where
  "demo_jobs_rand n s = (Inr (replicate n (CHR ''z'')), s)"

definition demo_jobs_clock :: "jobs_db pg \<Rightarrow> Time \<times> jobs_db pg" where
  "demo_jobs_clock s = (9000, s)"

definition demo_submit :: "(jb_err + Receipt) \<times> jobs_db pg" where
  "demo_submit = submit demo_jobs_lib (pg_jobs_usecase demo_pg demo_publish demo_jobs_rand demo_jobs_clock)
     TypeCleanupExpiredTokens (PCleanup \<lparr>cp_Before = 1, cp_BatchSize = 5\<rparr>) 0 queued_state"

lemma demo_submit_Inr: "\<not> isl (fst demo_submit)"
  by code_simp

theorem submit_receipt_sound_witness:
  "\<exists>r s' st. demo_submit = (Inr r, s') \<and> status_of (pg_db s') (rc_ID r) = Some st \<and> lifecycle\<^sup>*\<^sup>* StatusPublishing st"
proof -
  from demo_submit_Inr obtain r s' where d: "demo_submit = (Inr r, s')"
    using fst_Inr_pair by blast
  have il: "jobs_interleaved demo_pg demo_publish demo_jobs_rand demo_jobs_clock"
    by (auto simp: jobs_interleaved_def demo_publish_def publisher_Publish_def demo_ops_def demo_jobs_rand_def
        demo_jobs_clock_def Let_def intro: jobs_reach.jr_refl split: option.splits)
  from submit_receipt_sound [OF queued_wf il [unfolded demo_publish_def] d [unfolded demo_submit_def demo_publish_def]] d
  show ?thesis by blast
qed

end
