(* ===== verification/Platform_Api.thy ===== *)
theory Platform_Api
  imports Platform_Http
begin

text \<open>
  What the JSON handlers of the services share: the request as Echo presents it (path parameters, query
  parameters, header, body), the response a handler produces, the strict body decoder that the auth and
  the jobs service use (\<open>decode.go\<close>), and the classification of an error by a list of sentinels. A handler
  returns its response and the state its use case left; \<open>as_Logged\<close> holds the operation that was written
  to the log with the error, if any.
\<close>

named_theorems api_defs

record ApiRequest =
  aq_Param :: "string \<Rightarrow> string"
  aq_Query :: "string \<Rightarrow> string"
  aq_Header :: Header
  aq_Body :: string

datatype 'b api_body = NoContent | ErrorBody string | JsonBody 'b

record 'b ApiResponse =
  as_Status :: int
  as_Body :: "'b api_body"
  as_Logged :: "string option"

definition api_JSON :: "int \<Rightarrow> 'b \<Rightarrow> 'b ApiResponse" where [api_defs]:
  "api_JSON status body = \<lparr>as_Status = status, as_Body = JsonBody body, as_Logged = None\<rparr>"

definition api_NoContent :: "int \<Rightarrow> 'b ApiResponse" where [api_defs]:
  "api_NoContent status = \<lparr>as_Status = status, as_Body = NoContent, as_Logged = None\<rparr>"

definition api_Error :: "int \<Rightarrow> string \<Rightarrow> 'b ApiResponse" where [api_defs]:
  "api_Error status msg = \<lparr>as_Status = status, as_Body = ErrorBody msg, as_Logged = None\<rparr>"

definition api_Logged :: "string \<Rightarrow> 'b ApiResponse \<Rightarrow> 'b ApiResponse" where [api_defs]:
  "api_Logged operation r = r\<lparr>as_Logged := Some operation\<rparr>"

text \<open>The strict decoder: one JSON value that decodes into the destination without unknown fields, and
  nothing but the end of the input after it. \<open>json_Decode\<close> is \<open>Decoder.Decode\<close> on the bytes that are left: the
  value and the rest of the input; \<open>json_EOF\<close> says that a further \<open>Decode\<close> reports \<open>io.EOF\<close>.\<close>

definition decodeRequest :: "(string \<Rightarrow> ('a \<times> string) option) \<Rightarrow> (string \<Rightarrow> bool) \<Rightarrow> string \<Rightarrow> 'a option" where
  "decodeRequest json_Decode json_EOF body =
     (case json_Decode body of
        None \<Rightarrow> None
      | Some (value, rest) \<Rightarrow> if \<not> json_EOF rest then None else Some value)"

text \<open>\<open>errors.Is\<close> against a list of sentinels.\<close>

definition errors_is_any :: "'e goerr \<Rightarrow> 'e list \<Rightarrow> bool" where
  "errors_is_any err es \<longleftrightarrow> list_ex (errors_is err) es"

lemma errors_is_any_iff: "errors_is_any err es \<longleftrightarrow> err_ids err \<inter> set es \<noteq> {}"
  by (auto simp: errors_is_any_def list_ex_iff errors_is_iff)

text \<open>The text of an error: a sentinel has its own text, the text of a formatted or typed error is given by
  the parameter.\<close>

definition goerr_text :: "('e \<Rightarrow> string) \<Rightarrow> ('e goerr \<Rightarrow> string) \<Rightarrow> 'e goerr \<Rightarrow> string" where
  "goerr_text sentinel_text other err = (case err of Sentinel e \<Rightarrow> sentinel_text e | _ \<Rightarrow> other err)"

end
