(* ===== verification/Jobs_Http.thy ===== *)
theory Jobs_Http
  imports Jobs_Usecase Platform_Api
begin

text \<open>
  \<open>internal/jobs/delivery/http/v1\<close>: requests, responses, handlers, the two error mappings and the route table.
  The JSON decoder is a parameter, one function per request type.
\<close>

section \<open>Requests and responses\<close>

record submitWebhookRequest =
  swq_URL :: string
  swq_Method :: string
  swq_Headers :: "(string \<times> string) list"
  swq_Body :: string
  swq_MaxAttempts :: int

record submitReportRequest =
  srq_ProjectID :: string
  srq_From :: Time
  srq_To :: Time
  srq_Format :: string
  srq_MaxAttempts :: int

record submitCleanupRequest =
  scq_Before :: Time
  scq_BatchSize :: int
  scq_MaxAttempts :: int

record jobReceiptResponse =
  jrr_ID :: string
  jrr_Type :: string
  jrr_Status :: string
  jrr_CreatedAt :: Time

record jobStatusResponse =
  jsr_ID :: string
  jsr_Type :: string
  jsr_Status :: string
  jsr_CurrentAttempt :: int
  jsr_MaxAttempts :: int
  jsr_CreatedAt :: Time
  jsr_QueuedAt :: "Time option"
  jsr_StartedAt :: "Time option"
  jsr_CompletedAt :: "Time option"
  jsr_UpdatedAt :: Time
  jsr_LastError :: string
  jsr_ResultMessage :: string
  jsr_OutputPath :: string
  jsr_AffectedRows :: int

definition newJobReceiptResponse :: "Receipt \<Rightarrow> jobReceiptResponse" where
  "newJobReceiptResponse receipt =
     \<lparr>jrr_ID = rc_ID receipt, jrr_Type = rc_Type receipt, jrr_Status = rc_Status receipt, jrr_CreatedAt = rc_CreatedAt receipt\<rparr>"

fun status_string :: "Status \<Rightarrow> string" where
  "status_string StatusPublishing = ''publishing''"
| "status_string StatusPublishFailed = ''publish_failed''"
| "status_string StatusQueued = ''queued''"
| "status_string StatusProcessing = ''processing''"
| "status_string StatusRetrying = ''retrying''"
| "status_string StatusSucceeded = ''succeeded''"
| "status_string StatusFailed = ''failed''"
| "status_string (StatusOther s) = s"

definition newJobStatusResponse :: "Job \<Rightarrow> jobStatusResponse" where
  "newJobStatusResponse job =
     \<lparr>jsr_ID = jo_ID job, jsr_Type = jo_Type job, jsr_Status = status_string (jo_Status job),
      jsr_CurrentAttempt = jo_CurrentAttempt job, jsr_MaxAttempts = jo_MaxAttempts job, jsr_CreatedAt = jo_CreatedAt job,
      jsr_QueuedAt = jo_QueuedAt job, jsr_StartedAt = jo_StartedAt job, jsr_CompletedAt = jo_CompletedAt job,
      jsr_UpdatedAt = jo_UpdatedAt job, jsr_LastError = jo_LastError job, jsr_ResultMessage = jo_ResultMessage job,
      jsr_OutputPath = jo_OutputPath job, jsr_AffectedRows = jo_AffectedRows job\<rparr>"

datatype jobs_body = ReceiptBody jobReceiptResponse | JobBody jobStatusResponse

section \<open>Errors\<close>

definition jobs_isValidationError :: "jb_err \<Rightarrow> bool" where
  "jobs_isValidationError err \<longleftrightarrow> errors_is_any err
     [JErrInvalidRequestBody, JErrInvalidWebhookURL, JErrInvalidHTTPMethod, JErrInvalidWebhookBody, JErrInvalidProjectID,
      JErrInvalidReportRange, JErrInvalidReportFormat, JErrInvalidCleanupTime, JErrInvalidBatchSize, JErrInvalidMaxAttempts]"

definition jobs_handleError :: "(jb_err \<Rightarrow> string) \<Rightarrow> string \<Rightarrow> jb_err \<Rightarrow> jobs_body ApiResponse" where
  "jobs_handleError err_Error operation err =
     (if jobs_isValidationError err then api_Error 400 (err_Error err)
      else api_Logged operation (api_Error 503 ''job queue is unavailable''))"

definition jobs_handleGetError :: "string \<Rightarrow> jb_err \<Rightarrow> jobs_body ApiResponse" where
  "jobs_handleGetError operation err =
     (if errors_is err JErrJobNotFound then api_Error 404 ''job not found''
      else api_Logged operation (api_Error 500 ''internal error''))"

section \<open>Handlers\<close>

record jobs_json =
  jj_Webhook :: "string \<Rightarrow> (submitWebhookRequest \<times> string) option"
  jj_Report :: "string \<Rightarrow> (submitReportRequest \<times> string) option"
  jj_Cleanup :: "string \<Rightarrow> (submitCleanupRequest \<times> string) option"
  jj_EOF :: "string \<Rightarrow> bool"

definition jobs_reply ::
  "jobs_lib \<Rightarrow> string \<Rightarrow> (jb_err + Receipt) \<times> 's \<Rightarrow> jobs_body ApiResponse \<times> 's" where
  "jobs_reply lib operation r =
     (case r of
        (Inl err, s) \<Rightarrow> (jobs_handleError (jl_Error lib) operation err, s)
      | (Inr receipt, s) \<Rightarrow> (api_JSON 202 (ReceiptBody (newJobReceiptResponse receipt)), s))"

definition submitWebhook_handler ::
  "jobs_json \<Rightarrow> jobs_lib \<Rightarrow> 's JobsUsecase \<Rightarrow> ApiRequest \<Rightarrow> 's \<Rightarrow> jobs_body ApiResponse \<times> 's" where
  "submitWebhook_handler js lib u c s =
     (case decodeRequest (jj_Webhook js) (jj_EOF js) (aq_Body c) of
        None \<Rightarrow> (jobs_handleError (jl_Error lib) ''decode webhook job request'' (Sentinel JErrInvalidRequestBody), s)
      | Some request \<Rightarrow>
          jobs_reply lib ''submit webhook job''
            (SubmitWebhook lib u
               \<lparr>swi_URL = swq_URL request, swi_Method = swq_Method request, swi_Headers = swq_Headers request,
                swi_Body = swq_Body request, swi_MaxAttempts = swq_MaxAttempts request\<rparr> s))"

definition submitReport_handler ::
  "jobs_json \<Rightarrow> jobs_lib \<Rightarrow> 's JobsUsecase \<Rightarrow> ApiRequest \<Rightarrow> 's \<Rightarrow> jobs_body ApiResponse \<times> 's" where
  "submitReport_handler js lib u c s =
     (case decodeRequest (jj_Report js) (jj_EOF js) (aq_Body c) of
        None \<Rightarrow> (jobs_handleError (jl_Error lib) ''decode report job request'' (Sentinel JErrInvalidRequestBody), s)
      | Some request \<Rightarrow>
          jobs_reply lib ''submit report job''
            (SubmitReport lib u
               \<lparr>sri_ProjectID = srq_ProjectID request, sri_From = srq_From request, sri_To = srq_To request,
                sri_Format = srq_Format request, sri_MaxAttempts = srq_MaxAttempts request\<rparr> s))"

definition submitCleanup_handler ::
  "jobs_json \<Rightarrow> jobs_lib \<Rightarrow> 's JobsUsecase \<Rightarrow> ApiRequest \<Rightarrow> 's \<Rightarrow> jobs_body ApiResponse \<times> 's" where
  "submitCleanup_handler js lib u c s =
     (case decodeRequest (jj_Cleanup js) (jj_EOF js) (aq_Body c) of
        None \<Rightarrow> (jobs_handleError (jl_Error lib) ''decode cleanup job request'' (Sentinel JErrInvalidRequestBody), s)
      | Some request \<Rightarrow>
          jobs_reply lib ''submit cleanup job''
            (SubmitCleanup lib u
               \<lparr>sci_Before = scq_Before request, sci_BatchSize = scq_BatchSize request,
                sci_MaxAttempts = scq_MaxAttempts request\<rparr> s))"

definition getJob_handler :: "'s JobsUsecase \<Rightarrow> ApiRequest \<Rightarrow> 's \<Rightarrow> jobs_body ApiResponse \<times> 's" where
  "getJob_handler u c s =
     (case usecase_GetJob u (aq_Param c ''job_id'') s of
        (Inl err, s1) \<Rightarrow> (jobs_handleGetError ''get background job'' err, s1)
      | (Inr job, s1) \<Rightarrow> (api_JSON 200 (JobBody (newJobStatusResponse job)), s1))"

datatype jobs_endpoint = JbWebhook | JbReport | JbCleanup | JbGet

definition jobs_routes :: "(string \<times> string \<times> jobs_endpoint) list" where
  "jobs_routes =
     [(''POST'', ''/api/v1/jobs/webhooks'', JbWebhook),
      (''POST'', ''/api/v1/jobs/reports'', JbReport),
      (''POST'', ''/api/v1/jobs/cleanup'', JbCleanup),
      (''GET'', ''/api/v1/jobs/:job_id'', JbGet)]"

fun jobs_handle ::
  "jobs_json \<Rightarrow> jobs_lib \<Rightarrow> 's JobsUsecase \<Rightarrow> jobs_endpoint \<Rightarrow> ApiRequest \<Rightarrow> 's \<Rightarrow> jobs_body ApiResponse \<times> 's" where
  "jobs_handle js lib u JbWebhook c s = submitWebhook_handler js lib u c s"
| "jobs_handle js lib u JbReport c s = submitReport_handler js lib u c s"
| "jobs_handle js lib u JbCleanup c s = submitCleanup_handler js lib u c s"
| "jobs_handle js lib u JbGet c s = getJob_handler u c s"

section \<open>Answers of the job queue\<close>

text \<open>A job is accepted with 202 exactly when the use case returned a receipt, and the receipt is the answer.\<close>

lemma jobs_reply_status:
  "jobs_reply lib operation r = (resp, s') \<Longrightarrow>
     as_Status resp = 202 \<and> (\<exists>receipt. r = (Inr receipt, s') \<and> as_Body resp = JsonBody (ReceiptBody (newJobReceiptResponse receipt))) \<or>
     as_Status resp \<in> {400, 503} \<and> (\<exists>err. r = (Inl err, s') \<and> (as_Status resp = 400 \<longleftrightarrow> jobs_isValidationError err))"
  by (auto simp: jobs_reply_def jobs_handleError_def api_defs split: prod.splits sum.splits if_splits)

text \<open>The status endpoint shows the stored job.\<close>

lemma getJob_shows:
  assumes "getJob_handler u c s = (resp, s')" and "as_Status resp = 200"
  shows "\<exists>job. usecase_GetJob u (aq_Param c ''job_id'') s = (Inr job, s') \<and> as_Body resp = JsonBody (JobBody (newJobStatusResponse job))"
  using assms
  by (auto simp: getJob_handler_def jobs_handleGetError_def api_defs split: prod.splits sum.splits if_splits)

end
