(* ===== verification/Analytics_Http.thy ===== *)
theory Analytics_Http
  imports Analytics_Usecase Platform_Api
begin

text \<open>
  \<open>internal/analytics/delivery/http/v1\<close>: the parsing of the query parameters, the two statistics handlers, the
  error mapping and the route table. \<open>time.Parse\<close> and \<open>Format\<close> with the RFC 3339 layout are parameters.
\<close>

section \<open>Responses\<close>

record summaryResponse =
  smr_ProjectID :: string
  smr_From :: string
  smr_To :: string
  smr_RouteName :: string
  smr_Method :: string
  smr_RequestCount :: int
  smr_Status1xxCount :: int
  smr_Status2xxCount :: int
  smr_Status3xxCount :: int
  smr_Status4xxCount :: int
  smr_Status5xxCount :: int
  smr_RateLimitedCount :: int
  smr_AverageDurationMS :: rat
  smr_MaxDurationMS :: int
  smr_TotalResponseBytes :: int

record hourlyItemResponse =
  hir_BucketStart :: Time
  hir_RouteName :: string
  hir_RoutePathPrefix :: string
  hir_Method :: string
  hir_RequestCount :: int
  hir_Status1xxCount :: int
  hir_Status2xxCount :: int
  hir_Status3xxCount :: int
  hir_Status4xxCount :: int
  hir_Status5xxCount :: int
  hir_RateLimitedCount :: int
  hir_AverageDurationMS :: rat
  hir_MaxDurationMS :: int
  hir_TotalResponseBytes :: int

record hourlyResponse =
  hrr_ProjectID :: string
  hrr_From :: string
  hrr_To :: string
  hrr_RouteName :: string
  hrr_Method :: string
  hrr_Items :: "hourlyItemResponse list"

datatype analytics_body =
    AnalyticsHealth string string
  | SummaryBody summaryResponse
  | HourlyBody hourlyResponse

section \<open>Query parameters\<close>

record analytics_http_lib =
  ah_Parse :: "string \<Rightarrow> Time option"
  ah_Format :: "Time \<Rightarrow> string"
  ah_case :: case_tables
  ah_Error :: "an_err \<Rightarrow> string"

definition parseTime :: "analytics_http_lib \<Rightarrow> string \<Rightarrow> Time \<Rightarrow> string + Time" where
  "parseTime lib v fallback =
     (let v' = TrimSpace v in
      if v' = '''' then Inr fallback
      else case ah_Parse lib v' of
             None \<Rightarrow> Inl ''from and to must use RFC3339 format''
           | Some parsed \<Rightarrow> Inr parsed)"

definition parseLimit :: "string \<Rightarrow> an_err + int" where
  "parseLimit v =
     (let v' = TrimSpace v in
      if v' = '''' then Inr 100
      else case Atoi v' of
             None \<Rightarrow> Inl (Sentinel NErrInvalidLimit)
           | Some limit \<Rightarrow> if limit \<le> 0 \<or> limit > 1000 then Inl (Sentinel NErrInvalidLimit) else Inr limit)"

definition parseFilter :: "analytics_http_lib \<Rightarrow> Time \<Rightarrow> ApiRequest \<Rightarrow> string + RouteStatsFilter" where
  "parseFilter lib now c =
     (case parseTime lib (aq_Query c ''to'') now of
        Inl err \<Rightarrow> Inl err
      | Inr to \<Rightarrow>
          (case parseTime lib (aq_Query c ''from'') (time_Add to (- (24 * Hour))) of
             Inl err \<Rightarrow> Inl err
           | Inr from \<Rightarrow>
               Inr \<lparr>rf_ProjectID = TrimSpace (aq_Param c ''project_id''), rf_From = from, rf_To = to,
                    rf_RouteName = TrimSpace (aq_Query c ''route_name''),
                    rf_Method = ToUpper (ah_case lib) (TrimSpace (aq_Query c ''method''))\<rparr>))"

section \<open>Handlers\<close>

text \<open>The texts of the sentinels of \<open>usecase/errors.go\<close> that the handlers show.\<close>

fun an_sentinel_text :: "(an_error \<Rightarrow> string) \<Rightarrow> an_error \<Rightarrow> string" where
  "an_sentinel_text other NErrInvalidProjectID = ''invalid project id''"
| "an_sentinel_text other NErrInvalidTimeRange = ''invalid analytics time range''"
| "an_sentinel_text other NErrAnalyticsRangeTooLarge = ''analytics time range exceeds 90 days''"
| "an_sentinel_text other NErrInvalidLimit = ''invalid analytics limit''"
| "an_sentinel_text other e = other e"

definition an_Error :: "analytics_http_lib \<Rightarrow> an_err \<Rightarrow> string" where
  "an_Error lib = goerr_text (an_sentinel_text (\<lambda>e. ah_Error lib (Sentinel e))) (ah_Error lib)"

definition analytics_handleError :: "analytics_http_lib \<Rightarrow> string \<Rightarrow> an_err \<Rightarrow> analytics_body ApiResponse" where
  "analytics_handleError lib operation err =
     (if errors_is_any err [NErrInvalidProjectID, NErrInvalidTimeRange, NErrAnalyticsRangeTooLarge, NErrInvalidLimit]
      then api_Error 400 (an_Error lib err)
      else api_Logged operation (api_Error 500 ''internal error''))"

definition summary_handler ::
  "analytics_http_lib \<Rightarrow> ('s \<Rightarrow> Time \<times> 's) \<Rightarrow> 's AnalyticsUsecase option \<Rightarrow> ApiRequest \<Rightarrow> 's \<Rightarrow> analytics_body ApiResponse \<times> 's" where
  "summary_handler lib clock u c s0 =
     (case clock s0 of (now, s) \<Rightarrow>
        (case parseFilter lib now c of
          Inl msg \<Rightarrow> (api_Error 400 msg, s)
        | Inr filter' \<Rightarrow>
            (case GetRouteStatsSummary (ah_case lib) u filter' s of
               (Inl err, s1) \<Rightarrow> (analytics_handleError lib ''get analytics summary'' err, s1)
             | (Inr summary, s1) \<Rightarrow>
                 (api_JSON 200 (SummaryBody
                    \<lparr>smr_ProjectID = rf_ProjectID filter', smr_From = ah_Format lib (rf_From filter'),
                     smr_To = ah_Format lib (rf_To filter'), smr_RouteName = rf_RouteName filter',
                     smr_Method = rf_Method filter', smr_RequestCount = rs_RequestCount summary,
                     smr_Status1xxCount = rs_Status1xxCount summary, smr_Status2xxCount = rs_Status2xxCount summary,
                     smr_Status3xxCount = rs_Status3xxCount summary, smr_Status4xxCount = rs_Status4xxCount summary,
                     smr_Status5xxCount = rs_Status5xxCount summary, smr_RateLimitedCount = rs_RateLimitedCount summary,
                     smr_AverageDurationMS = rs_AverageDurationMS summary, smr_MaxDurationMS = rs_MaxDurationMS summary,
                     smr_TotalResponseBytes = rs_TotalResponseBytes summary\<rparr>), s1))))"

definition hourly_item_response :: "RouteStatsHourly \<Rightarrow> hourlyItemResponse" where
  "hourly_item_response item =
     \<lparr>hir_BucketStart = rh_BucketStart item, hir_RouteName = rh_RouteName item,
      hir_RoutePathPrefix = rh_RoutePathPrefix item, hir_Method = rh_Method item,
      hir_RequestCount = rh_RequestCount item, hir_Status1xxCount = rh_Status1xxCount item,
      hir_Status2xxCount = rh_Status2xxCount item, hir_Status3xxCount = rh_Status3xxCount item,
      hir_Status4xxCount = rh_Status4xxCount item, hir_Status5xxCount = rh_Status5xxCount item,
      hir_RateLimitedCount = rh_RateLimitedCount item, hir_AverageDurationMS = rh_AverageDurationMS item,
      hir_MaxDurationMS = rh_MaxDurationMS item, hir_TotalResponseBytes = rh_TotalResponseBytes item\<rparr>"

definition hourly_handler ::
  "analytics_http_lib \<Rightarrow> ('s \<Rightarrow> Time \<times> 's) \<Rightarrow> 's AnalyticsUsecase option \<Rightarrow> ApiRequest \<Rightarrow> 's \<Rightarrow> analytics_body ApiResponse \<times> 's" where
  "hourly_handler lib clock u c s0 =
     (case clock s0 of (now, s) \<Rightarrow>
        (case parseFilter lib now c of
          Inl msg \<Rightarrow> (api_Error 400 msg, s)
        | Inr filter' \<Rightarrow>
            (case parseLimit (aq_Query c ''limit'') of
               Inl err \<Rightarrow> (api_Error 400 (an_Error lib err), s)
             | Inr limit \<Rightarrow>
                 (case ListRouteStatsHourly (ah_case lib) u filter' limit s of
                    (Inl err, s1) \<Rightarrow> (analytics_handleError lib ''list hourly analytics'' err, s1)
                  | (Inr items, s1) \<Rightarrow>
                      (api_JSON 200 (HourlyBody
                         \<lparr>hrr_ProjectID = rf_ProjectID filter', hrr_From = ah_Format lib (rf_From filter'),
                          hrr_To = ah_Format lib (rf_To filter'), hrr_RouteName = rf_RouteName filter',
                          hrr_Method = rf_Method filter', hrr_Items = map hourly_item_response items\<rparr>), s1)))))"

definition analytics_health :: "analytics_body ApiResponse" where
  "analytics_health = api_JSON 200 (AnalyticsHealth ''ok'' ''analytics'')"

datatype analytics_endpoint = AnHealth | AnSummary | AnHourly

definition analytics_routes :: "(string \<times> string \<times> analytics_endpoint) list" where
  "analytics_routes =
     [(''GET'', ''/health'', AnHealth),
      (''GET'', ''/api/v1/projects/:project_id/analytics/summary'', AnSummary),
      (''GET'', ''/api/v1/projects/:project_id/analytics/hourly'', AnHourly)]"

section \<open>Defaults and bounds\<close>

text \<open>A limit that is parsed is one the use case accepts.\<close>

lemma parseLimit_range: "parseLimit v = Inr n \<Longrightarrow> 0 < n \<and> n \<le> 1000"
  by (auto simp: parseLimit_def Let_def split: if_splits option.splits)

text \<open>Without \<open>from\<close> and \<open>to\<close> the interval is the last day.\<close>

lemma parseFilter_default:
  assumes "TrimSpace (aq_Query c ''to'') = ''''" and "TrimSpace (aq_Query c ''from'') = ''''"
  shows "\<exists>f. parseFilter lib now c = Inr f \<and> rf_To f = now \<and> rf_From f = time_Add now (- (24 * Hour))"
  using assms by (simp add: parseFilter_def parseTime_def)

end
