(* ===== verification/Demo_Orders.thy ===== *)
theory Demo_Orders
  imports Platform_Api "HOL-Library.Multiset" "HOL-Library.AList"
begin

text \<open>
  The demo backend: \<open>internal/demo/domain\<close>, its in-memory repository, use cases and HTTP handlers. The map of the
  orders is a list of entries with distinct keys; the order in which Go ranges over a map is a parameter, a
  permutation of the entries. The mutex makes each repository call one step.
\<close>

section \<open>Orders and their repository\<close>

record Order =
  od_ID :: string
  od_Status :: string
  od_Amount :: int

datatype demo_error = ErrOrderNotFound | DemoExternal string

type_synonym demo_err = "demo_error goerr"

record OrderRepository =
  or_orders :: "(string \<times> Order) list"

definition NewOrderRepository :: OrderRepository where
  "NewOrderRepository = \<lparr>or_orders =
     [(''ord_1'', \<lparr>od_ID = ''ord_1'', od_Status = ''created'', od_Amount = 1000\<rparr>),
      (''ord_2'', \<lparr>od_ID = ''ord_2'', od_Status = ''paid'', od_Amount = 2500\<rparr>)]\<rparr>"

definition orders_wf :: "OrderRepository \<Rightarrow> bool" where
  "orders_wf r \<longleftrightarrow> distinct (map fst (or_orders r)) \<and> (\<forall>(k, d)\<in>set (or_orders r). k = od_ID d)"

definition repo_ListOrders ::
  "((string \<times> Order) list \<Rightarrow> (string \<times> Order) list) \<Rightarrow> OrderRepository \<Rightarrow> (demo_err + Order list) \<times> OrderRepository" where
  "repo_ListOrders map_range r = (Inr (fold (\<lambda>(_, order) result. result @ [order]) (map_range (or_orders r)) []), r)"

definition GetOrderByID :: "string \<Rightarrow> OrderRepository \<Rightarrow> (demo_err + Order) \<times> OrderRepository" where
  "GetOrderByID orderID r =
     (case map_of (or_orders r) orderID of
        None \<Rightarrow> (Inl (Sentinel ErrOrderNotFound), r)
      | Some order \<Rightarrow> (Inr order, r))"

text \<open>An assignment to a map entry.\<close>

definition repo_CreateOrder :: "Order \<Rightarrow> OrderRepository \<Rightarrow> (demo_err + Order) \<times> OrderRepository" where
  "repo_CreateOrder order r = (Inr order, r\<lparr>or_orders := AList.update (od_ID order) order (or_orders r)\<rparr>)"

section \<open>Use cases and handlers\<close>

record OrderUsecase =
  ou_ListOrders :: "OrderRepository \<Rightarrow> (demo_err + Order list) \<times> OrderRepository"
  ou_GetOrder :: "string \<Rightarrow> OrderRepository \<Rightarrow> (demo_err + Order) \<times> OrderRepository"
  ou_CreateOrder :: "Order \<Rightarrow> OrderRepository \<Rightarrow> (demo_err + Order) \<times> OrderRepository"

definition order_usecase :: "((string \<times> Order) list \<Rightarrow> (string \<times> Order) list) \<Rightarrow> OrderUsecase" where
  "order_usecase map_range =
     \<lparr>ou_ListOrders = repo_ListOrders map_range, ou_GetOrder = GetOrderByID, ou_CreateOrder = repo_CreateOrder\<rparr>"

definition list_handler :: "OrderUsecase \<Rightarrow> ApiRequest \<Rightarrow> OrderRepository \<Rightarrow> Order list ApiResponse \<times> OrderRepository" where
  "list_handler u q r =
     (case ou_ListOrders u r of
        (Inl err, r1) \<Rightarrow> (api_Logged ''failed to list orders: %v'' (api_Error 500 ''internal error''), r1)
      | (Inr orders, r1) \<Rightarrow> (api_JSON 200 orders, r1))"

definition get_handler :: "OrderUsecase \<Rightarrow> ApiRequest \<Rightarrow> OrderRepository \<Rightarrow> Order ApiResponse \<times> OrderRepository" where
  "get_handler u q r =
     (case ou_GetOrder u (aq_Param q ''id'') r of
        (Inl err, r1) \<Rightarrow>
          (if errors_is err ErrOrderNotFound then (api_Error 404 ''order not found'', r1)
           else (api_Logged ''failed to get order: %v'' (api_Error 500 ''internal error''), r1))
      | (Inr order, r1) \<Rightarrow> (api_JSON 200 order, r1))"

text \<open>\<open>json_Decode\<close> is \<open>Decoder.Decode\<close> on the body; what follows the first value is not read.\<close>

definition create_handler ::
  "(string \<Rightarrow> Order option) \<Rightarrow> OrderUsecase \<Rightarrow> ApiRequest \<Rightarrow> OrderRepository \<Rightarrow> Order ApiResponse \<times> OrderRepository" where
  "create_handler json_Decode u q r =
     (case json_Decode (aq_Body q) of
        None \<Rightarrow> (api_Error 400 ''invalid request body'', r)
      | Some req \<Rightarrow>
          (case ou_CreateOrder u req r of
             (Inl err, r1) \<Rightarrow> (api_Logged ''failed to create order: %v'' (api_Error 500 ''internal error''), r1)
           | (Inr order, r1) \<Rightarrow> (api_JSON 201 order, r1)))"

definition demo_health :: "ApiRequest \<Rightarrow> (string \<times> string) list ApiResponse" where
  "demo_health q = api_JSON 200 [(''status'', ''ok'')]"

section \<open>The repository as a store\<close>

text \<open>What the handlers rely on: an order that was created is returned under its identifier until it is replaced,
  and creating one does not touch the others.\<close>

locale order_store =
  fixes get :: "string \<Rightarrow> 's \<Rightarrow> (demo_err + Order) \<times> 's"
    and create :: "Order \<Rightarrow> 's \<Rightarrow> (demo_err + Order) \<times> 's"
  assumes create_ok: "fst (create x s) = Inr x"
    and get_create: "fst (get i (snd (create x s))) = (if i = od_ID x then Inr x else fst (get i s))"
    and get_pure: "snd (get i s) = s"
begin

definition create_all :: "Order list \<Rightarrow> 's \<Rightarrow> 's" where
  "create_all xs s = fold (\<lambda>x s. snd (create x s)) xs s"

lemma create_all_simps [simp]: "create_all [] s = s" "create_all (x # xs) s = create_all xs (snd (create x s))"
  by (simp_all add: create_all_def)

text \<open>After a sequence of creations a lookup gives the last order with that identifier, if there is one.\<close>

lemma get_create_all:
  "fst (get i (create_all xs s)) =
     (case find (\<lambda>x. od_ID x = i) (rev xs) of Some x \<Rightarrow> Inr x | None \<Rightarrow> fst (get i s))"
proof (induction xs arbitrary: s)
  case (Cons x xs)
  have "find P (ys @ [y]) = (case find P ys of Some z \<Rightarrow> Some z | None \<Rightarrow> if P y then Some y else None)"
    for P and y :: Order and ys by (induction ys) auto
  then show ?case using Cons by (simp add: get_create split: option.splits)
qed simp

end

interpretation order_repository: order_store GetOrderByID repo_CreateOrder
  by unfold_locales (auto simp: GetOrderByID_def repo_CreateOrder_def update_conv split: option.splits)

lemma set_update_subset: "set (AList.update k v es) \<subseteq> insert (k, v) (set es)"
  by (induction es) auto

lemma create_keeps_wf: "orders_wf r \<Longrightarrow> orders_wf (snd (repo_CreateOrder x r))"
  using set_update_subset [of "od_ID x" x "or_orders r"]
  by (auto simp: orders_wf_def repo_CreateOrder_def distinct_update)

text \<open>The list has every order once, in some order.\<close>

lemma list_complete:
  assumes "mset (map_range (or_orders r)) = mset (or_orders r)"
  shows "\<exists>ds. repo_ListOrders map_range r = (Inr ds, r) \<and> mset ds = image_mset snd (mset (or_orders r))"
proof -
  have "fold (\<lambda>(_, order) result. result @ [order]) es acc = acc @ map snd es" for es :: "(string \<times> Order) list" and acc
    by (induction es arbitrary: acc) auto
  then show ?thesis using assms by (simp add: repo_ListOrders_def)
qed

end
