(* ===== verification/Control_Domain.thy ===== *)
theory Control_Domain
  imports Platform_Postgres
begin

text \<open>
  \<open>internal/controlplane/domain\<close>: projects, services, routes and rate-limit policies with their
  constructors, and the error values of the control plane. \<open>url.Parse\<close> is a parameter that gives the
  scheme and the host of a URL, or None.
\<close>

datatype cp_error =
    CErrInvalidName
  | CErrInvalidProjectID
  | CErrInvalidServiceID
  | CErrInvalidUpstreamURL
  | CErrInvalidPathPrefix
  | CErrInvalidRateLimitRequests
  | CErrInvalidRateLimitWindow
  | CpPg pg_error

type_synonym cp_err = "cp_error goerr"

record Project =
  pj_ID :: string
  pj_Name :: string
  pj_CreatedAt :: Time
  pj_UpdatedAt :: Time

record Service =
  sv_ID :: string
  sv_ProjectID :: string
  sv_Name :: string
  sv_UpstreamURL :: string
  sv_CreatedAt :: Time
  sv_UpdatedAt :: Time

record CPPolicy =
  cpp_Enabled :: bool
  cpp_Requests :: int
  cpp_WindowSeconds :: int

record CPRoute =
  cpr_ID :: string
  cpr_ServiceID :: string
  cpr_Name :: string
  cpr_PathPrefix :: string
  cpr_StripPrefix :: bool
  cpr_TimeoutMS :: int
  cpr_Enabled :: bool
  cpr_AuthRequired :: bool
  cpr_RateLimit :: CPPolicy
  cpr_CreatedAt :: Time
  cpr_UpdatedAt :: Time

record GatewayRoute =
  grt_ProjectID :: string
  grt_Name :: string
  grt_PathPrefix :: string
  grt_UpstreamURL :: string
  grt_StripPrefix :: bool
  grt_TimeoutMS :: int
  grt_AuthRequired :: bool
  grt_RateLimit :: CPPolicy

definition zero_CPPolicy :: CPPolicy where
  "zero_CPPolicy = \<lparr>cpp_Enabled = False, cpp_Requests = 0, cpp_WindowSeconds = 0\<rparr>"

definition NewProject :: "string \<Rightarrow> cp_err + Project" where
  "NewProject name =
     (let name' = TrimSpace name in
      if name' = '''' then Inl (Sentinel CErrInvalidName)
      else Inr \<lparr>pj_ID = '''', pj_Name = name', pj_CreatedAt = 0, pj_UpdatedAt = 0\<rparr>)"

definition NewRateLimitPolicy :: "bool \<Rightarrow> int \<Rightarrow> int \<Rightarrow> cp_err + CPPolicy" where
  "NewRateLimitPolicy enabled requests windowSeconds =
     (if \<not> enabled then Inr zero_CPPolicy
      else if requests \<le> 0 then Inl (Sentinel CErrInvalidRateLimitRequests)
      else if windowSeconds \<le> 0 then Inl (Sentinel CErrInvalidRateLimitWindow)
      else Inr \<lparr>cpp_Enabled = True, cpp_Requests = requests, cpp_WindowSeconds = windowSeconds\<rparr>)"

definition DefaultRouteTimeoutMS :: int where
  "DefaultRouteTimeoutMS = 3000"

definition NewRoute ::
  "string \<Rightarrow> string \<Rightarrow> string \<Rightarrow> bool \<Rightarrow> int \<Rightarrow> bool \<Rightarrow> bool \<Rightarrow> CPPolicy \<Rightarrow> cp_err + CPRoute" where
  "NewRoute serviceID name pathPrefix stripPrefix timeoutMS enabled authRequired rateLimit =
     (let serviceID' = TrimSpace serviceID; name' = TrimSpace name; pathPrefix' = TrimSpace pathPrefix in
      if serviceID' = '''' then Inl (Sentinel CErrInvalidServiceID)
      else if name' = '''' then Inl (Sentinel CErrInvalidName)
      else if pathPrefix' = '''' \<or> \<not> HasPrefix pathPrefix' ''/'' then Inl (Sentinel CErrInvalidPathPrefix)
      else
        (let timeoutMS' = (if timeoutMS \<le> 0 then DefaultRouteTimeoutMS else timeoutMS) in
         case NewRateLimitPolicy (cpp_Enabled rateLimit) (cpp_Requests rateLimit) (cpp_WindowSeconds rateLimit) of
           Inl err \<Rightarrow> Inl err
         | Inr policy \<Rightarrow>
             Inr \<lparr>cpr_ID = '''', cpr_ServiceID = serviceID', cpr_Name = name', cpr_PathPrefix = pathPrefix',
                  cpr_StripPrefix = stripPrefix, cpr_TimeoutMS = timeoutMS', cpr_Enabled = enabled,
                  cpr_AuthRequired = authRequired, cpr_RateLimit = policy, cpr_CreatedAt = 0, cpr_UpdatedAt = 0\<rparr>))"

type_synonym scheme_host = "string \<Rightarrow> (string \<times> string) option"

definition NewService :: "scheme_host \<Rightarrow> string \<Rightarrow> string \<Rightarrow> string \<Rightarrow> cp_err + Service" where
  "NewService url_Parse projectID name upstreamURL =
     (let projectID' = TrimSpace projectID; name' = TrimSpace name; upstreamURL' = TrimSpace upstreamURL in
      if projectID' = '''' then Inl (Sentinel CErrInvalidProjectID)
      else if name' = '''' then Inl (Sentinel CErrInvalidName)
      else if (case url_Parse upstreamURL' of None \<Rightarrow> True | Some (sch, host) \<Rightarrow> sch = '''' \<or> host = '''')
        then Inl (Sentinel CErrInvalidUpstreamURL)
      else Inr \<lparr>sv_ID = '''', sv_ProjectID = projectID', sv_Name = name', sv_UpstreamURL = upstreamURL',
                sv_CreatedAt = 0, sv_UpdatedAt = 0\<rparr>)"

section \<open>What the constructors guarantee\<close>

definition policy_ok :: "CPPolicy \<Rightarrow> bool" where
  "policy_ok p \<longleftrightarrow> (if cpp_Enabled p then cpp_Requests p > 0 \<and> cpp_WindowSeconds p > 0
                     else cpp_Requests p = 0 \<and> cpp_WindowSeconds p = 0)"

definition trimmed :: "string \<Rightarrow> bool" where
  "trimmed x \<longleftrightarrow> x \<noteq> '''' \<and> TrimSpace x = x"

definition route_ok :: "CPRoute \<Rightarrow> bool" where
  "route_ok r \<longleftrightarrow> trimmed (cpr_Name r) \<and> trimmed (cpr_PathPrefix r) \<and> HasPrefix (cpr_PathPrefix r) ''/'' \<and>
     cpr_TimeoutMS r > 0 \<and> policy_ok (cpr_RateLimit r)"

definition service_ok :: "scheme_host \<Rightarrow> Service \<Rightarrow> bool" where
  "service_ok url_Parse v \<longleftrightarrow> trimmed (sv_Name v) \<and> TrimSpace (sv_UpstreamURL v) = sv_UpstreamURL v \<and>
     (\<exists>sch host. url_Parse (sv_UpstreamURL v) = Some (sch, host) \<and> sch \<noteq> '''' \<and> host \<noteq> '''')"

lemma NewRateLimitPolicy_ok: "NewRateLimitPolicy e r w = Inr p \<Longrightarrow> policy_ok p"
  by (auto simp: NewRateLimitPolicy_def policy_ok_def zero_CPPolicy_def split: if_splits)

lemma NewRoute_ok: "NewRoute s n p st t e a pol = Inr r \<Longrightarrow> route_ok r"
  by (auto simp: NewRoute_def Let_def route_ok_def trimmed_def DefaultRouteTimeoutMS_def
      split: if_splits sum.splits dest: NewRateLimitPolicy_ok)

lemma NewService_ok: "NewService url_Parse p n u = Inr v \<Longrightarrow> service_ok url_Parse v"
  by (auto simp: NewService_def Let_def service_ok_def trimmed_def split: if_splits option.splits)

end
