(* ===== verification/Control_Store.thy ===== *)
theory Control_Store
  imports Control_Domain
begin

text \<open>
  \<open>internal/controlplane/infrastructure/postgres\<close>: the tables \<open>projects\<close>, \<open>services\<close> and \<open>routes\<close> of the
  migrations with their keys, unique constraints, references and the rate-limit check, the statements
  and the repository methods. The collation of text and the character count of \<open>length\<close> are parameters.
  An error while rows are read is reported like an error of the query.
\<close>

section \<open>Statements\<close>

record control_db =
  db_cprojects :: "Project list"
  db_cservices :: "Service list"
  db_croutes :: "CPRoute list"

type_synonym 'z control_state = "(control_db, 'z) pg_scheme"

definition createProjectQuery :: "pg_env \<Rightarrow> string \<Rightarrow> (control_db, Project) sql" where
  "createProjectQuery env name n db =
     (let row = \<lparr>pj_ID = pe_newid env n, pj_Name = name, pj_CreatedAt = pe_now env n, pj_UpdatedAt = pe_now env n\<rparr> in
      if pj_ID row \<in> pj_ID ` set (db_cprojects db) then Inl (PgError uniqueViolationCode ''projects_pkey'')
      else if name \<in> pj_Name ` set (db_cprojects db) then Inl (PgError uniqueViolationCode ''projects_name_key'')
      else Inr (row, db\<lparr>db_cprojects := db_cprojects db @ [row]\<rparr>))"

text \<open>ORDER BY created_at ASC, id ASC\<close>

definition older :: "('r \<Rightarrow> Time) \<Rightarrow> ('r \<Rightarrow> string) \<Rightarrow> 'r \<Rightarrow> 'r \<Rightarrow> bool" where
  "older at key a b \<longleftrightarrow> at a < at b \<or> at a = at b \<and> bytes_less (key a) (key b)"

definition listProjectsQuery :: "(control_db, Project list) sql" where
  "listProjectsQuery n db = Inr (order_by (older pj_CreatedAt pj_ID) (db_cprojects db), db)"

definition createServiceQuery :: "pg_env \<Rightarrow> Service \<Rightarrow> (control_db, Service) sql" where
  "createServiceQuery env service n db =
     (case pe_uuid env (sv_ProjectID service) of
        None \<Rightarrow> Inl (PgError invalidTextCode '''')
      | Some project \<Rightarrow>
          (let row = service\<lparr>sv_ID := pe_newid env n, sv_ProjectID := project,
                             sv_CreatedAt := pe_now env n, sv_UpdatedAt := pe_now env n\<rparr> in
           if sv_ID row \<in> sv_ID ` set (db_cservices db) then Inl (PgError uniqueViolationCode ''services_pkey'')
           else if \<exists>v\<in>set (db_cservices db). sv_ProjectID v = project \<and> sv_Name v = sv_Name row
             then Inl (PgError uniqueViolationCode ''services_project_id_name_key'')
           else if project \<notin> pj_ID ` set (db_cprojects db)
             then Inl (PgError foreignKeyViolationCode ''services_project_id_fkey'')
           else Inr (row, db\<lparr>db_cservices := db_cservices db @ [row]\<rparr>)))"

definition listServicesByProjectIDQuery :: "pg_env \<Rightarrow> string \<Rightarrow> (control_db, Service list) sql" where
  "listServicesByProjectIDQuery env projectID n db =
     (case pe_uuid env projectID of
        None \<Rightarrow> Inl (PgError invalidTextCode '''')
      | Some project \<Rightarrow>
          Inr (order_by (older sv_CreatedAt sv_ID) (filter (\<lambda>v. sv_ProjectID v = project) (db_cservices db)), db))"

definition createRouteQuery :: "pg_env \<Rightarrow> CPRoute \<Rightarrow> (control_db, CPRoute) sql" where
  "createRouteQuery env route n db =
     (let policy = cpr_RateLimit route in
      if \<not> int4_ok (cpr_TimeoutMS route) \<or> \<not> int4_ok (cpp_Requests policy) \<or> \<not> int4_ok (cpp_WindowSeconds policy)
        then Inl int4_error
      else
        case pe_uuid env (cpr_ServiceID route) of
          None \<Rightarrow> Inl (PgError invalidTextCode '''')
        | Some service \<Rightarrow>
            (let row = route\<lparr>cpr_ID := pe_newid env n, cpr_ServiceID := service,
                             cpr_CreatedAt := pe_now env n, cpr_UpdatedAt := pe_now env n\<rparr> in
             if \<not> policy_ok policy then Inl (PgError checkViolationCode ''routes_rate_limit_policy_check'')
             else if cpr_ID row \<in> cpr_ID ` set (db_croutes db) then Inl (PgError uniqueViolationCode ''routes_pkey'')
             else if \<exists>r\<in>set (db_croutes db). cpr_ServiceID r = service \<and> cpr_Name r = cpr_Name row
               then Inl (PgError uniqueViolationCode ''routes_service_id_name_key'')
             else if \<exists>r\<in>set (db_croutes db). cpr_ServiceID r = service \<and> cpr_PathPrefix r = cpr_PathPrefix row
               then Inl (PgError uniqueViolationCode ''routes_service_id_path_prefix_key'')
             else if service \<notin> sv_ID ` set (db_cservices db)
               then Inl (PgError foreignKeyViolationCode ''routes_service_id_fkey'')
             else Inr (row, db\<lparr>db_croutes := db_croutes db @ [row]\<rparr>)))"

definition listRoutesByServiceIDQuery :: "pg_env \<Rightarrow> string \<Rightarrow> (control_db, CPRoute list) sql" where
  "listRoutesByServiceIDQuery env serviceID n db =
     (case pe_uuid env serviceID of
        None \<Rightarrow> Inl (PgError invalidTextCode '''')
      | Some service \<Rightarrow>
          Inr (order_by (older cpr_CreatedAt cpr_ID) (filter (\<lambda>r. cpr_ServiceID r = service) (db_croutes db)), db))"

text \<open>The join of a route with its service, before the columns are selected.\<close>

definition joined :: "control_db \<Rightarrow> (CPRoute \<times> Service) list" where
  "joined db = concat (map (\<lambda>r. map (Pair r) (filter (\<lambda>v. sv_ID v = cpr_ServiceID r) (db_cservices db)))
     (filter cpr_Enabled (db_croutes db)))"

record text_order =
  to_length :: "string \<Rightarrow> int"
  to_collate :: "string \<Rightarrow> string \<Rightarrow> bool"

text \<open>ORDER BY length(path_prefix) DESC, path_prefix ASC, id ASC\<close>

definition gateway_before :: "text_order \<Rightarrow> CPRoute \<times> Service \<Rightarrow> CPRoute \<times> Service \<Rightarrow> bool" where
  "gateway_before ord a b \<longleftrightarrow>
     (let p = cpr_PathPrefix (fst a); q = cpr_PathPrefix (fst b) in
      to_length ord p > to_length ord q \<or>
      to_length ord p = to_length ord q \<and>
        (to_collate ord p q \<or> p = q \<and> bytes_less (cpr_ID (fst a)) (cpr_ID (fst b))))"

definition gateway_columns :: "CPRoute \<times> Service \<Rightarrow> GatewayRoute" where
  "gateway_columns rv = (case rv of (r, v) \<Rightarrow>
     \<lparr>grt_ProjectID = sv_ProjectID v, grt_Name = cpr_Name r, grt_PathPrefix = cpr_PathPrefix r,
      grt_UpstreamURL = sv_UpstreamURL v, grt_StripPrefix = cpr_StripPrefix r, grt_TimeoutMS = cpr_TimeoutMS r,
      grt_AuthRequired = cpr_AuthRequired r, grt_RateLimit = cpr_RateLimit r\<rparr>)"

definition listGatewayRoutesQuery :: "text_order \<Rightarrow> (control_db, GatewayRoute list) sql" where
  "listGatewayRoutesQuery ord n db = Inr (map gateway_columns (order_by (gateway_before ord) (joined db)), db)"

section \<open>Repository methods\<close>

definition cp_wrap :: "string \<Rightarrow> (pg_error + 'a) \<times> 's \<Rightarrow> (cp_err + 'a) \<times> 's" where
  "cp_wrap msg r =
     (case r of
        (Inl err, s) \<Rightarrow> (Inl (Errorf msg [Sentinel (CpPg err)]), s)
      | (Inr a, s) \<Rightarrow> (Inr a, s))"

definition cprepo_CreateProject :: "pg_env \<Rightarrow> Project \<Rightarrow> 'z control_state \<Rightarrow> (cp_err + Project) \<times> 'z control_state" where
  "cprepo_CreateProject env project s = cp_wrap ''create project: %w'' (pg_exec env (createProjectQuery env (pj_Name project)) s)"

definition cprepo_ListProjects :: "pg_env \<Rightarrow> 'z control_state \<Rightarrow> (cp_err + Project list) \<times> 'z control_state" where
  "cprepo_ListProjects env s = cp_wrap ''list projects: %w'' (pg_exec env listProjectsQuery s)"

definition cprepo_CreateService :: "pg_env \<Rightarrow> Service \<Rightarrow> 'z control_state \<Rightarrow> (cp_err + Service) \<times> 'z control_state" where
  "cprepo_CreateService env service s = cp_wrap ''create service: %w'' (pg_exec env (createServiceQuery env service) s)"

definition cprepo_ListServicesByProjectID ::
  "pg_env \<Rightarrow> string \<Rightarrow> 'z control_state \<Rightarrow> (cp_err + Service list) \<times> 'z control_state" where
  "cprepo_ListServicesByProjectID env projectID s =
     cp_wrap ''list services by project id: %w'' (pg_exec env (listServicesByProjectIDQuery env projectID) s)"

definition cprepo_CreateRoute :: "pg_env \<Rightarrow> CPRoute \<Rightarrow> 'z control_state \<Rightarrow> (cp_err + CPRoute) \<times> 'z control_state" where
  "cprepo_CreateRoute env route s = cp_wrap ''create route: %w'' (pg_exec env (createRouteQuery env route) s)"

definition cprepo_ListRoutesByServiceID ::
  "pg_env \<Rightarrow> string \<Rightarrow> 'z control_state \<Rightarrow> (cp_err + CPRoute list) \<times> 'z control_state" where
  "cprepo_ListRoutesByServiceID env serviceID s =
     cp_wrap ''list routes by service id: %w'' (pg_exec env (listRoutesByServiceIDQuery env serviceID) s)"

definition cprepo_ListGatewayRoutes ::
  "pg_env \<Rightarrow> text_order \<Rightarrow> 'z control_state \<Rightarrow> (cp_err + GatewayRoute list) \<times> 'z control_state" where
  "cprepo_ListGatewayRoutes env ord s = cp_wrap ''list gateway routes: %w'' (pg_exec env (listGatewayRoutesQuery ord) s)"

section \<open>Well-formed tables\<close>

text \<open>Keys, unique constraints and references of the schema, and what the constructors guarantee of the
  stored rows.\<close>

definition projects_ok :: "Project list \<Rightarrow> bool" where
  "projects_ok ps \<longleftrightarrow> distinct (map pj_ID ps) \<and> distinct (map pj_Name ps) \<and> (\<forall>p\<in>set ps. trimmed (pj_Name p))"

definition services_ok :: "scheme_host \<Rightarrow> Project list \<Rightarrow> Service list \<Rightarrow> bool" where
  "services_ok url_Parse ps vs \<longleftrightarrow>
     distinct (map sv_ID vs) \<and> distinct (map (\<lambda>v. (sv_ProjectID v, sv_Name v)) vs) \<and>
     (\<forall>v\<in>set vs. sv_ProjectID v \<in> pj_ID ` set ps \<and> service_ok url_Parse v)"

definition routes_ok :: "Service list \<Rightarrow> CPRoute list \<Rightarrow> bool" where
  "routes_ok vs rs \<longleftrightarrow>
     distinct (map cpr_ID rs) \<and> distinct (map (\<lambda>r. (cpr_ServiceID r, cpr_Name r)) rs) \<and>
     distinct (map (\<lambda>r. (cpr_ServiceID r, cpr_PathPrefix r)) rs) \<and>
     (\<forall>r\<in>set rs. cpr_ServiceID r \<in> sv_ID ` set vs \<and> route_ok r)"

definition control_ok :: "scheme_host \<Rightarrow> control_db \<Rightarrow> bool" where
  "control_ok url_Parse db \<longleftrightarrow> projects_ok (db_cprojects db) \<and>
     services_ok url_Parse (db_cprojects db) (db_cservices db) \<and> routes_ok (db_cservices db) (db_croutes db)"

text \<open>A row may be added when its keys are new and its references exist.\<close>

lemma projects_ok_add:
  "projects_ok (ps @ [p]) \<longleftrightarrow> projects_ok ps \<and> pj_ID p \<notin> pj_ID ` set ps \<and> pj_Name p \<notin> pj_Name ` set ps \<and>
     trimmed (pj_Name p)"
  by (auto simp: projects_ok_def)

lemma services_ok_mono: "services_ok u ps vs \<Longrightarrow> services_ok u (ps @ qs) vs"
  by (auto simp: services_ok_def)

lemma routes_ok_mono: "routes_ok vs rs \<Longrightarrow> routes_ok (vs @ ws) rs"
  by (auto simp: routes_ok_def)

lemma services_ok_add:
  assumes "services_ok u ps vs" and "sv_ID v \<notin> sv_ID ` set vs"
    and "\<not> (\<exists>w\<in>set vs. sv_ProjectID w = sv_ProjectID v \<and> sv_Name w = sv_Name v)"
    and "sv_ProjectID v \<in> pj_ID ` set ps" and "service_ok u v"
  shows "services_ok u ps (vs @ [v])"
proof -
  have "(sv_ProjectID v, sv_Name v) \<notin> (\<lambda>v. (sv_ProjectID v, sv_Name v)) ` set vs" using assms(3) by force
  with assms show ?thesis by (simp add: services_ok_def)
qed

lemma routes_ok_add:
  assumes "routes_ok vs rs" and "cpr_ID r \<notin> cpr_ID ` set rs"
    and "\<not> (\<exists>q\<in>set rs. cpr_ServiceID q = cpr_ServiceID r \<and> cpr_Name q = cpr_Name r)"
    and "\<not> (\<exists>q\<in>set rs. cpr_ServiceID q = cpr_ServiceID r \<and> cpr_PathPrefix q = cpr_PathPrefix r)"
    and "cpr_ServiceID r \<in> sv_ID ` set vs" and "route_ok r"
  shows "routes_ok vs (rs @ [r])"
proof -
  have "(cpr_ServiceID r, cpr_Name r) \<notin> (\<lambda>r. (cpr_ServiceID r, cpr_Name r)) ` set rs" using assms(3) by force
  moreover have "(cpr_ServiceID r, cpr_PathPrefix r) \<notin> (\<lambda>r. (cpr_ServiceID r, cpr_PathPrefix r)) ` set rs"
    using assms(4) by force
  ultimately show ?thesis using assms by (simp add: routes_ok_def)
qed

lemma createProject_ok:
  assumes "control_ok u db" and "createProjectQuery env name n db = Inr (p, db')" and "trimmed name"
  shows "control_ok u db'"
  using assms
  by (auto simp: createProjectQuery_def Let_def control_ok_def projects_ok_add services_ok_mono split: if_splits)

lemma createService_ok:
  assumes "control_ok u db" and "createServiceQuery env v n db = Inr (r, db')" and "service_ok u v"
  shows "control_ok u db'"
proof -
  define w where "w pid = v\<lparr>sv_ID := pe_newid env n, sv_ProjectID := pid, sv_CreatedAt := pe_now env n,
    sv_UpdatedAt := pe_now env n\<rparr>" for pid
  have sel: "sv_ID (w pid) = pe_newid env n" "sv_ProjectID (w pid) = pid" "sv_Name (w pid) = sv_Name v"
    "service_ok u (w pid)" for pid using assms(3) by (simp_all add: w_def service_ok_def)
  show ?thesis using assms(1,2)
    by (auto simp: createServiceQuery_def Let_def control_ok_def sel routes_ok_mono simp flip: w_def
        intro!: services_ok_add split: if_splits option.splits)
qed

lemma createRoute_ok:
  assumes "control_ok u db" and "createRouteQuery env v n db = Inr (r, db')" and "route_ok v"
  shows "control_ok u db'"
proof -
  define w where "w sid = v\<lparr>cpr_ID := pe_newid env n, cpr_ServiceID := sid, cpr_CreatedAt := pe_now env n,
    cpr_UpdatedAt := pe_now env n\<rparr>" for sid
  have sel: "cpr_ID (w sid) = pe_newid env n" "cpr_ServiceID (w sid) = sid" "cpr_Name (w sid) = cpr_Name v"
    "cpr_PathPrefix (w sid) = cpr_PathPrefix v" "route_ok (w sid)" for sid
    using assms(3) by (simp_all add: w_def route_ok_def)
  show ?thesis using assms(1,2)
    by (auto simp: createRouteQuery_def Let_def control_ok_def sel simp flip: w_def
        intro!: routes_ok_add split: if_splits option.splits)
qed

lemma reads_keep:
  "listProjectsQuery n db = Inr (x, db') \<Longrightarrow> db' = db"
  "listServicesByProjectIDQuery env i n db = Inr (y, db') \<Longrightarrow> db' = db"
  "listRoutesByServiceIDQuery env i n db = Inr (z, db') \<Longrightarrow> db' = db"
  "listGatewayRoutesQuery ord n db = Inr (w, db') \<Longrightarrow> db' = db"
  by (auto simp: listProjectsQuery_def listServicesByProjectIDQuery_def listRoutesByServiceIDQuery_def
      listGatewayRoutesQuery_def split: option.splits)

lemma snd_cp_wrap [simp]: "snd (cp_wrap msg r) = snd r"
  by (auto simp: cp_wrap_def split: prod.splits sum.splits)

lemma cp_wrap_Inr: "cp_wrap msg r = (Inr a, s) \<longleftrightarrow> r = (Inr a, s)"
  by (auto simp: cp_wrap_def split: prod.splits sum.splits)

text \<open>The join gives each enabled route once, with its service.\<close>

lemma filter_key_single:
  "distinct (map f xs) \<Longrightarrow> x \<in> set xs \<Longrightarrow> filter (\<lambda>y. f y = f x) xs = [x]"
  by (induction xs) (auto simp: filter_empty_conv image_iff)

definition service_of :: "control_db \<Rightarrow> CPRoute \<Rightarrow> Service option" where
  "service_of db r = find_row (\<lambda>v. sv_ID v = cpr_ServiceID r) (db_cservices db)"

lemma joined_services:
  assumes "control_ok u db"
  shows "joined db = map (\<lambda>r. (r, the (service_of db r))) (filter cpr_Enabled (db_croutes db))"
proof -
  have "map (Pair r) (filter (\<lambda>v. sv_ID v = cpr_ServiceID r) (db_cservices db)) = [(r, the (service_of db r))]"
    if r: "r \<in> set (db_croutes db)" for r
  proof -
    from assms r have "cpr_ServiceID r \<in> sv_ID ` set (db_cservices db)" unfolding control_ok_def routes_ok_def by blast
    then obtain v where v: "v \<in> set (db_cservices db)" "cpr_ServiceID r = sv_ID v" by auto
    have d: "distinct (map sv_ID (db_cservices db))" using assms by (simp add: control_ok_def services_ok_def)
    from filter_key_single [OF d v(1)] find_row_key [OF d v(1)] v(2) show ?thesis by (simp add: service_of_def)
  qed
  then have "map (\<lambda>r. map (Pair r) (filter (\<lambda>v. sv_ID v = cpr_ServiceID r) (db_cservices db)))
      (filter cpr_Enabled (db_croutes db)) = map (\<lambda>r. [(r, the (service_of db r))]) (filter cpr_Enabled (db_croutes db))"
    by (intro map_cong) auto
  then show ?thesis unfolding joined_def by (simp only: concat_map_singleton)
qed

end
