(* ===== verification/Control_Usecase.thy ===== *)
theory Control_Usecase
  imports Control_Store
begin

text \<open>
  \<open>internal/controlplane/usecase\<close>: creation and listing of projects, services and routes over the
  repository ports, and the wiring on PostgreSQL.
\<close>

record 's ControlRepositories =
  cr_CreateProject :: "Project \<Rightarrow> 's \<Rightarrow> (cp_err + Project) \<times> 's"
  cr_ListProjects :: "'s \<Rightarrow> (cp_err + Project list) \<times> 's"
  cr_CreateService :: "Service \<Rightarrow> 's \<Rightarrow> (cp_err + Service) \<times> 's"
  cr_ListServicesByProjectID :: "string \<Rightarrow> 's \<Rightarrow> (cp_err + Service list) \<times> 's"
  cr_CreateRoute :: "CPRoute \<Rightarrow> 's \<Rightarrow> (cp_err + CPRoute) \<times> 's"
  cr_ListRoutesByServiceID :: "string \<Rightarrow> 's \<Rightarrow> (cp_err + CPRoute list) \<times> 's"
  cr_ListGatewayRoutes :: "'s \<Rightarrow> (cp_err + GatewayRoute list) \<times> 's"

record CreateRouteInput =
  cri_ServiceID :: string
  cri_Name :: string
  cri_PathPrefix :: string
  cri_StripPrefix :: bool
  cri_TimeoutMS :: int
  cri_Enabled :: bool
  cri_AuthRequired :: bool
  cri_RateLimitEnabled :: bool
  cri_RateLimitRequests :: int
  cri_RateLimitWindowSeconds :: int

record CreateServiceInput =
  csi_ProjectID :: string
  csi_Name :: string
  csi_UpstreamURL :: string

definition cp_CreateProject :: "'s ControlRepositories \<Rightarrow> string \<Rightarrow> 's \<Rightarrow> (cp_err + Project) \<times> 's" where
  "cp_CreateProject u name s =
     (case NewProject name of Inl err \<Rightarrow> (Inl err, s) | Inr project \<Rightarrow> cr_CreateProject u project s)"

definition cp_ListProjects :: "'s ControlRepositories \<Rightarrow> 's \<Rightarrow> (cp_err + Project list) \<times> 's" where
  "cp_ListProjects u s = cr_ListProjects u s"

definition cp_CreateService ::
  "scheme_host \<Rightarrow> 's ControlRepositories \<Rightarrow> CreateServiceInput \<Rightarrow> 's \<Rightarrow> (cp_err + Service) \<times> 's" where
  "cp_CreateService url_Parse u input s =
     (case NewService url_Parse (csi_ProjectID input) (csi_Name input) (csi_UpstreamURL input) of
        Inl err \<Rightarrow> (Inl err, s)
      | Inr service \<Rightarrow> cr_CreateService u service s)"

definition cp_ListServices :: "'s ControlRepositories \<Rightarrow> string \<Rightarrow> 's \<Rightarrow> (cp_err + Service list) \<times> 's" where
  "cp_ListServices u projectID s =
     (let projectID' = TrimSpace projectID in
      if projectID' = '''' then (Inl (Sentinel CErrInvalidProjectID), s)
      else cr_ListServicesByProjectID u projectID' s)"

definition cp_CreateRoute :: "'s ControlRepositories \<Rightarrow> CreateRouteInput \<Rightarrow> 's \<Rightarrow> (cp_err + CPRoute) \<times> 's" where
  "cp_CreateRoute u input s =
     (case NewRoute (cri_ServiceID input) (cri_Name input) (cri_PathPrefix input) (cri_StripPrefix input)
             (cri_TimeoutMS input) (cri_Enabled input) (cri_AuthRequired input)
             \<lparr>cpp_Enabled = cri_RateLimitEnabled input, cpp_Requests = cri_RateLimitRequests input,
              cpp_WindowSeconds = cri_RateLimitWindowSeconds input\<rparr> of
        Inl err \<Rightarrow> (Inl err, s)
      | Inr route \<Rightarrow> cr_CreateRoute u route s)"

definition cp_ListRoutes :: "'s ControlRepositories \<Rightarrow> string \<Rightarrow> 's \<Rightarrow> (cp_err + CPRoute list) \<times> 's" where
  "cp_ListRoutes u serviceID s =
     (let serviceID' = TrimSpace serviceID in
      if serviceID' = '''' then (Inl (Sentinel CErrInvalidServiceID), s)
      else cr_ListRoutesByServiceID u serviceID' s)"

definition cp_ListGatewayRoutes :: "'s ControlRepositories \<Rightarrow> 's \<Rightarrow> (cp_err + GatewayRoute list) \<times> 's" where
  "cp_ListGatewayRoutes u s = cr_ListGatewayRoutes u s"

definition pg_control :: "pg_env \<Rightarrow> text_order \<Rightarrow> 'z control_state ControlRepositories" where
  "pg_control env ord =
     \<lparr>cr_CreateProject = cprepo_CreateProject env, cr_ListProjects = cprepo_ListProjects env,
      cr_CreateService = cprepo_CreateService env, cr_ListServicesByProjectID = cprepo_ListServicesByProjectID env,
      cr_CreateRoute = cprepo_CreateRoute env, cr_ListRoutesByServiceID = cprepo_ListRoutesByServiceID env,
      cr_ListGatewayRoutes = cprepo_ListGatewayRoutes env ord\<rparr>"

section \<open>Requests and the tables\<close>

text \<open>The requests of the control plane as steps on its state.\<close>

datatype control_request =
    ReqCreateProject string
  | ReqListProjects
  | ReqCreateService CreateServiceInput
  | ReqListServices string
  | ReqCreateRoute CreateRouteInput
  | ReqListRoutes string
  | ReqListGatewayRoutes

fun control_step :: "scheme_host \<Rightarrow> 's ControlRepositories \<Rightarrow> control_request \<Rightarrow> 's \<Rightarrow> 's" where
  "control_step p u (ReqCreateProject name) s = snd (cp_CreateProject u name s)"
| "control_step p u ReqListProjects s = snd (cp_ListProjects u s)"
| "control_step p u (ReqCreateService input) s = snd (cp_CreateService p u input s)"
| "control_step p u (ReqListServices i) s = snd (cp_ListServices u i s)"
| "control_step p u (ReqCreateRoute input) s = snd (cp_CreateRoute u input s)"
| "control_step p u (ReqListRoutes i) s = snd (cp_ListRoutes u i s)"
| "control_step p u ReqListGatewayRoutes s = snd (cp_ListGatewayRoutes u s)"

lemma control_exec_ok:
  assumes "control_ok p (pg_db s)" and "\<And>n a db'. stmt n (pg_db s) = Inr (a, db') \<Longrightarrow> control_ok p db'"
  shows "control_ok p (pg_db (snd (pg_exec env stmt s)))"
  by (rule pg_exec_invariant [where I = "control_ok p", OF prod.collapse [symmetric] assms])

lemma control_step_ok:
  assumes ok: "control_ok p (pg_db s)"
  shows "control_ok p (pg_db (control_step p (pg_control env ord) req s))"
proof -
  note reads = control_exec_ok [OF ok] reads_keep
  note repo = pg_control_def cprepo_CreateProject_def cprepo_ListProjects_def cprepo_CreateService_def
    cprepo_ListServicesByProjectID_def cprepo_CreateRoute_def cprepo_ListRoutesByServiceID_def
    cprepo_ListGatewayRoutes_def
  show ?thesis
  proof (cases req)
    case (ReqCreateProject name)
    show ?thesis
    proof (cases "NewProject name")
      case (Inr pr)
      then have "trimmed (pj_Name pr)" by (auto simp: NewProject_def Let_def trimmed_def split: if_splits)
      then have "control_ok p (pg_db (snd (pg_exec env (createProjectQuery env (pj_Name pr)) s)))"
        using createProject_ok [OF ok] by (intro control_exec_ok [OF ok]) blast
      with ReqCreateProject Inr show ?thesis by (simp add: cp_CreateProject_def repo)
    qed (use ok ReqCreateProject in \<open>simp add: cp_CreateProject_def\<close>)
  next
    case (ReqCreateService input)
    show ?thesis
    proof (cases "NewService p (csi_ProjectID input) (csi_Name input) (csi_UpstreamURL input)")
      case (Inr v)
      have "control_ok p (pg_db (snd (pg_exec env (createServiceQuery env v) s)))"
        using createService_ok [OF ok _ NewService_ok [OF Inr]] by (intro control_exec_ok [OF ok]) blast
      with ReqCreateService Inr show ?thesis by (simp add: cp_CreateService_def repo)
    qed (use ok ReqCreateService in \<open>simp add: cp_CreateService_def\<close>)
  next
    case (ReqCreateRoute input)
    define q where "q = NewRoute (cri_ServiceID input) (cri_Name input) (cri_PathPrefix input) (cri_StripPrefix input)
             (cri_TimeoutMS input) (cri_Enabled input) (cri_AuthRequired input)
             \<lparr>cpp_Enabled = cri_RateLimitEnabled input, cpp_Requests = cri_RateLimitRequests input,
              cpp_WindowSeconds = cri_RateLimitWindowSeconds input\<rparr>"
    show ?thesis
    proof (cases q)
      case (Inr r)
      then have "route_ok r" unfolding q_def by (rule NewRoute_ok)
      then have "control_ok p (pg_db (snd (pg_exec env (createRouteQuery env r) s)))"
        using createRoute_ok [OF ok] by (intro control_exec_ok [OF ok]) blast
      with ReqCreateRoute Inr show ?thesis by (simp add: cp_CreateRoute_def repo flip: q_def)
    qed (use ok ReqCreateRoute in \<open>simp add: cp_CreateRoute_def flip: q_def\<close>)
  next
    case ReqListProjects
    have "control_ok p (pg_db (snd (pg_exec env listProjectsQuery s)))" using ok reads_keep(1) by (intro reads(1)) blast
    with ReqListProjects show ?thesis by (simp add: cp_ListProjects_def repo)
  next
    case (ReqListServices i)
    have "control_ok p (pg_db (snd (pg_exec env (listServicesByProjectIDQuery env j) s)))" for j
      using ok reads_keep(2) by (intro reads(1)) blast
    with ReqListServices ok show ?thesis by (simp add: cp_ListServices_def Let_def repo)
  next
    case (ReqListRoutes i)
    have "control_ok p (pg_db (snd (pg_exec env (listRoutesByServiceIDQuery env j) s)))" for j
      using ok reads_keep(3) by (intro reads(1)) blast
    with ReqListRoutes ok show ?thesis by (simp add: cp_ListRoutes_def Let_def repo)
  next
    case ReqListGatewayRoutes
    have "control_ok p (pg_db (snd (pg_exec env (listGatewayRoutesQuery ord) s)))" using ok reads_keep(4) by (intro reads(1)) blast
    with ReqListGatewayRoutes show ?thesis by (simp add: cp_ListGatewayRoutes_def repo)
  qed
qed

end
