(* ===== verification/Control_Http.thy ===== *)
theory Control_Http
  imports Control_Usecase Platform_Api
begin

text \<open>
  \<open>internal/controlplane/delivery/http/v1\<close>: the request and response records, the handlers, the mapping of
  errors to statuses and the route table. The JSON decoder is a parameter, one function per request type;
  \<open>Decode\<close> reads the first value of the body and ignores what follows.
\<close>

section \<open>Requests and responses\<close>

record createProjectRequest =
  cpq_Name :: string

record createServiceRequest =
  csq_Name :: string
  csq_UpstreamURL :: string

record createRouteRequest =
  crq_Name :: string
  crq_PathPrefix :: string
  crq_StripPrefix :: "bool option"
  crq_TimeoutMS :: int
  crq_Enabled :: "bool option"
  crq_AuthRequired :: bool
  crq_RateLimitEnabled :: bool
  crq_RateLimitRequests :: int
  crq_RateLimitWindowSeconds :: int

record projectResponse =
  cpj_ID :: string
  cpj_Name :: string
  cpj_CreatedAt :: Time
  cpj_UpdatedAt :: Time

record serviceResponse =
  csr_ID :: string
  csr_ProjectID :: string
  csr_Name :: string
  csr_UpstreamURL :: string
  csr_CreatedAt :: Time
  csr_UpdatedAt :: Time

record cp_routeResponse =
  crr_ID :: string
  crr_ServiceID :: string
  crr_Name :: string
  crr_PathPrefix :: string
  crr_StripPrefix :: bool
  crr_TimeoutMS :: int
  crr_Enabled :: bool
  crr_AuthRequired :: bool
  crr_RateLimitEnabled :: bool
  crr_RateLimitRequests :: int
  crr_RateLimitWindowSeconds :: int
  crr_CreatedAt :: Time
  crr_UpdatedAt :: Time

record gatewayRouteResponse =
  gwr_ProjectID :: string
  gwr_Name :: string
  gwr_PathPrefix :: string
  gwr_UpstreamURL :: string
  gwr_StripPrefix :: bool
  gwr_TimeoutMS :: int
  gwr_AuthRequired :: bool
  gwr_RateLimitEnabled :: bool
  gwr_RateLimitRequests :: int
  gwr_RateLimitWindowSeconds :: int

definition newProjectResponse :: "Project \<Rightarrow> projectResponse" where
  "newProjectResponse p =
     \<lparr>cpj_ID = pj_ID p, cpj_Name = pj_Name p, cpj_CreatedAt = pj_CreatedAt p, cpj_UpdatedAt = pj_UpdatedAt p\<rparr>"

definition newProjectListResponse :: "Project list \<Rightarrow> projectResponse list" where
  "newProjectListResponse projects = map newProjectResponse projects"

definition newServiceResponse :: "Service \<Rightarrow> serviceResponse" where
  "newServiceResponse v =
     \<lparr>csr_ID = sv_ID v, csr_ProjectID = sv_ProjectID v, csr_Name = sv_Name v, csr_UpstreamURL = sv_UpstreamURL v,
      csr_CreatedAt = sv_CreatedAt v, csr_UpdatedAt = sv_UpdatedAt v\<rparr>"

definition newServiceListResponse :: "Service list \<Rightarrow> serviceResponse list" where
  "newServiceListResponse services = map newServiceResponse services"

definition newRouteResponse :: "CPRoute \<Rightarrow> cp_routeResponse" where
  "newRouteResponse r =
     \<lparr>crr_ID = cpr_ID r, crr_ServiceID = cpr_ServiceID r, crr_Name = cpr_Name r, crr_PathPrefix = cpr_PathPrefix r,
      crr_StripPrefix = cpr_StripPrefix r, crr_TimeoutMS = cpr_TimeoutMS r, crr_Enabled = cpr_Enabled r,
      crr_AuthRequired = cpr_AuthRequired r, crr_RateLimitEnabled = cpp_Enabled (cpr_RateLimit r),
      crr_RateLimitRequests = cpp_Requests (cpr_RateLimit r),
      crr_RateLimitWindowSeconds = cpp_WindowSeconds (cpr_RateLimit r),
      crr_CreatedAt = cpr_CreatedAt r, crr_UpdatedAt = cpr_UpdatedAt r\<rparr>"

definition newRouteListResponse :: "CPRoute list \<Rightarrow> cp_routeResponse list" where
  "newRouteListResponse routes = map newRouteResponse routes"

definition newGatewayRouteResponse :: "GatewayRoute \<Rightarrow> gatewayRouteResponse" where
  "newGatewayRouteResponse r =
     \<lparr>gwr_ProjectID = grt_ProjectID r, gwr_Name = grt_Name r, gwr_PathPrefix = grt_PathPrefix r,
      gwr_UpstreamURL = grt_UpstreamURL r, gwr_StripPrefix = grt_StripPrefix r, gwr_TimeoutMS = grt_TimeoutMS r,
      gwr_AuthRequired = grt_AuthRequired r, gwr_RateLimitEnabled = cpp_Enabled (grt_RateLimit r),
      gwr_RateLimitRequests = cpp_Requests (grt_RateLimit r),
      gwr_RateLimitWindowSeconds = cpp_WindowSeconds (grt_RateLimit r)\<rparr>"

definition newGatewayRouteListResponse :: "GatewayRoute list \<Rightarrow> gatewayRouteResponse list" where
  "newGatewayRouteListResponse routes = map newGatewayRouteResponse routes"

datatype control_body =
    ControlHealth string string
  | ProjectBody projectResponse
  | ProjectListBody "projectResponse list"
  | ServiceBody serviceResponse
  | ServiceListBody "serviceResponse list"
  | RouteBody cp_routeResponse
  | RouteListBody "cp_routeResponse list"
  | GatewayRoutesBody "gatewayRouteResponse list"

section \<open>Errors\<close>

fun cp_sentinel_text :: "(pg_error \<Rightarrow> string) \<Rightarrow> cp_error \<Rightarrow> string" where
  "cp_sentinel_text pg CErrInvalidName = ''invalid name''"
| "cp_sentinel_text pg CErrInvalidProjectID = ''invalid project id''"
| "cp_sentinel_text pg CErrInvalidServiceID = ''invalid service id''"
| "cp_sentinel_text pg CErrInvalidUpstreamURL = ''invalid upstream url''"
| "cp_sentinel_text pg CErrInvalidPathPrefix = ''invalid path prefix''"
| "cp_sentinel_text pg CErrInvalidRateLimitRequests = ''invalid rate limit requests''"
| "cp_sentinel_text pg CErrInvalidRateLimitWindow = ''invalid rate limit window''"
| "cp_sentinel_text pg (CpPg e) = pg e"

definition cp_isValidationError :: "cp_err \<Rightarrow> bool" where
  "cp_isValidationError err \<longleftrightarrow> errors_is_any err
     [CErrInvalidName, CErrInvalidProjectID, CErrInvalidServiceID, CErrInvalidUpstreamURL, CErrInvalidPathPrefix,
      CErrInvalidRateLimitRequests, CErrInvalidRateLimitWindow]"

definition cp_handleError :: "(cp_err \<Rightarrow> string) \<Rightarrow> string \<Rightarrow> cp_err \<Rightarrow> 'b ApiResponse" where
  "cp_handleError err_Error operation err =
     (if cp_isValidationError err then api_Error 400 (err_Error err)
      else api_Logged operation (api_Error 500 ''internal error''))"

section \<open>Handlers\<close>

record control_lib =
  ctl_DecodeProject :: "string \<Rightarrow> createProjectRequest option"
  ctl_DecodeService :: "string \<Rightarrow> createServiceRequest option"
  ctl_DecodeRoute :: "string \<Rightarrow> createRouteRequest option"
  ctl_url_Parse :: scheme_host
  ctl_pg_Error :: "pg_error \<Rightarrow> string"
  ctl_Sprintf :: "cp_err \<Rightarrow> string"

definition cp_Error :: "control_lib \<Rightarrow> cp_err \<Rightarrow> string" where
  "cp_Error lib = goerr_text (cp_sentinel_text (ctl_pg_Error lib)) (ctl_Sprintf lib)"

definition cp_reply :: "control_lib \<Rightarrow> string \<Rightarrow> ('a \<Rightarrow> control_body ApiResponse) \<Rightarrow>
    (cp_err + 'a) \<times> 's \<Rightarrow> control_body ApiResponse \<times> 's" where
  "cp_reply lib operation ok r =
     (case r of
        (Inl err, s) \<Rightarrow> (cp_handleError (cp_Error lib) operation err, s)
      | (Inr a, s) \<Rightarrow> (ok a, s))"

definition createProject :: "control_lib \<Rightarrow> 's ControlRepositories \<Rightarrow> ApiRequest \<Rightarrow> 's \<Rightarrow> control_body ApiResponse \<times> 's" where
  "createProject lib u c s =
     (case ctl_DecodeProject lib (aq_Body c) of
        None \<Rightarrow> (api_Error 400 ''invalid request body'', s)
      | Some request \<Rightarrow>
          cp_reply lib ''failed to create project'' (\<lambda>project. api_JSON 201 (ProjectBody (newProjectResponse project)))
            (cp_CreateProject u (cpq_Name request) s))"

definition listProjects :: "control_lib \<Rightarrow> 's ControlRepositories \<Rightarrow> ApiRequest \<Rightarrow> 's \<Rightarrow> control_body ApiResponse \<times> 's" where
  "listProjects lib u c s =
     cp_reply lib ''failed to list projects'' (\<lambda>projects. api_JSON 200 (ProjectListBody (newProjectListResponse projects)))
       (cp_ListProjects u s)"

definition createService :: "control_lib \<Rightarrow> 's ControlRepositories \<Rightarrow> ApiRequest \<Rightarrow> 's \<Rightarrow> control_body ApiResponse \<times> 's" where
  "createService lib u c s =
     (case ctl_DecodeService lib (aq_Body c) of
        None \<Rightarrow> (api_Error 400 ''invalid request body'', s)
      | Some request \<Rightarrow>
          cp_reply lib ''failed to create service'' (\<lambda>service. api_JSON 201 (ServiceBody (newServiceResponse service)))
            (cp_CreateService (ctl_url_Parse lib) u
               \<lparr>csi_ProjectID = aq_Param c ''project_id'', csi_Name = csq_Name request,
                csi_UpstreamURL = csq_UpstreamURL request\<rparr> s))"

definition listServices :: "control_lib \<Rightarrow> 's ControlRepositories \<Rightarrow> ApiRequest \<Rightarrow> 's \<Rightarrow> control_body ApiResponse \<times> 's" where
  "listServices lib u c s =
     cp_reply lib ''failed to list services'' (\<lambda>services. api_JSON 200 (ServiceListBody (newServiceListResponse services)))
       (cp_ListServices u (aq_Param c ''project_id'') s)"

definition createRoute :: "control_lib \<Rightarrow> 's ControlRepositories \<Rightarrow> ApiRequest \<Rightarrow> 's \<Rightarrow> control_body ApiResponse \<times> 's" where
  "createRoute lib u c s =
     (case ctl_DecodeRoute lib (aq_Body c) of
        None \<Rightarrow> (api_Error 400 ''invalid request body'', s)
      | Some request \<Rightarrow>
          (let stripPrefix = (case crq_StripPrefix request of Some b \<Rightarrow> b | None \<Rightarrow> True);
               enabled = (case crq_Enabled request of Some b \<Rightarrow> b | None \<Rightarrow> True) in
           cp_reply lib ''failed to create route'' (\<lambda>route. api_JSON 201 (RouteBody (newRouteResponse route)))
             (cp_CreateRoute u
                \<lparr>cri_ServiceID = aq_Param c ''service_id'', cri_Name = crq_Name request,
                 cri_PathPrefix = crq_PathPrefix request, cri_StripPrefix = stripPrefix,
                 cri_TimeoutMS = crq_TimeoutMS request, cri_Enabled = enabled,
                 cri_AuthRequired = crq_AuthRequired request, cri_RateLimitEnabled = crq_RateLimitEnabled request,
                 cri_RateLimitRequests = crq_RateLimitRequests request,
                 cri_RateLimitWindowSeconds = crq_RateLimitWindowSeconds request\<rparr> s)))"

definition listRoutes :: "control_lib \<Rightarrow> 's ControlRepositories \<Rightarrow> ApiRequest \<Rightarrow> 's \<Rightarrow> control_body ApiResponse \<times> 's" where
  "listRoutes lib u c s =
     cp_reply lib ''failed to list routes'' (\<lambda>routes. api_JSON 200 (RouteListBody (newRouteListResponse routes)))
       (cp_ListRoutes u (aq_Param c ''service_id'') s)"

definition listGatewayRoutes :: "control_lib \<Rightarrow> 's ControlRepositories \<Rightarrow> ApiRequest \<Rightarrow> 's \<Rightarrow> control_body ApiResponse \<times> 's" where
  "listGatewayRoutes lib u c s =
     cp_reply lib ''failed to list gateway routes''
       (\<lambda>routes. api_JSON 200 (GatewayRoutesBody (newGatewayRouteListResponse routes))) (cp_ListGatewayRoutes u s)"

definition control_health :: "control_body ApiResponse" where
  "control_health = api_JSON 200 (ControlHealth ''ok'' ''control-plane'')"

datatype control_endpoint =
    CpHealth | CpCreateProject | CpListProjects | CpCreateService | CpListServices | CpCreateRoute | CpListRoutes
  | CpListGatewayRoutes

definition control_routes :: "(string \<times> string \<times> control_endpoint) list" where
  "control_routes =
     [(''GET'', ''/health'', CpHealth),
      (''POST'', ''/api/v1/projects'', CpCreateProject),
      (''GET'', ''/api/v1/projects'', CpListProjects),
      (''POST'', ''/api/v1/projects/:project_id/services'', CpCreateService),
      (''GET'', ''/api/v1/projects/:project_id/services'', CpListServices),
      (''POST'', ''/api/v1/services/:service_id/routes'', CpCreateRoute),
      (''GET'', ''/api/v1/services/:service_id/routes'', CpListRoutes),
      (''GET'', ''/internal/v1/routes'', CpListGatewayRoutes)]"

fun control_handle ::
  "control_lib \<Rightarrow> 's ControlRepositories \<Rightarrow> control_endpoint \<Rightarrow> ApiRequest \<Rightarrow> 's \<Rightarrow> control_body ApiResponse \<times> 's" where
  "control_handle lib u CpHealth c s = (control_health, s)"
| "control_handle lib u CpCreateProject c s = createProject lib u c s"
| "control_handle lib u CpListProjects c s = listProjects lib u c s"
| "control_handle lib u CpCreateService c s = createService lib u c s"
| "control_handle lib u CpListServices c s = listServices lib u c s"
| "control_handle lib u CpCreateRoute c s = createRoute lib u c s"
| "control_handle lib u CpListRoutes c s = listRoutes lib u c s"
| "control_handle lib u CpListGatewayRoutes c s = listGatewayRoutes lib u c s"

section \<open>What a request does to the tables\<close>

lemma cp_wrap_not_validation: "cp_wrap m r = (Inl err, s') \<Longrightarrow> \<not> cp_isValidationError err"
  by (auto simp: cp_wrap_def cp_isValidationError_def errors_is_any_iff split: prod.splits sum.splits)

lemmas cp_repository_defs = pg_control_def cprepo_CreateProject_def cprepo_ListProjects_def cprepo_CreateService_def
  cprepo_ListServicesByProjectID_def cprepo_CreateRoute_def cprepo_ListRoutesByServiceID_def
  cprepo_ListGatewayRoutes_def

lemmas cp_usecase_defs = cp_CreateProject_def cp_ListProjects_def cp_CreateService_def cp_ListServices_def
  cp_CreateRoute_def cp_ListRoutes_def cp_ListGatewayRoutes_def

lemmas cp_handler_defs = createProject_def listProjects_def createService_def listServices_def createRoute_def
  listRoutes_def listGatewayRoutes_def control_health_def

text \<open>Only errors of the domain are validation errors, and they are found before the first statement.\<close>

lemma validation_before_statements:
  "cp_CreateProject (pg_control env ord) name s = (Inl err, s') \<Longrightarrow> cp_isValidationError err \<Longrightarrow> s' = s"
  "cp_ListProjects (pg_control env ord) s = (Inl err, s') \<Longrightarrow> cp_isValidationError err \<Longrightarrow> s' = s"
  "cp_CreateService p (pg_control env ord) sin s = (Inl err, s') \<Longrightarrow> cp_isValidationError err \<Longrightarrow> s' = s"
  "cp_ListServices (pg_control env ord) i s = (Inl err, s') \<Longrightarrow> cp_isValidationError err \<Longrightarrow> s' = s"
  "cp_CreateRoute (pg_control env ord) rin s = (Inl err, s') \<Longrightarrow> cp_isValidationError err \<Longrightarrow> s' = s"
  "cp_ListRoutes (pg_control env ord) i s = (Inl err, s') \<Longrightarrow> cp_isValidationError err \<Longrightarrow> s' = s"
  "cp_ListGatewayRoutes (pg_control env ord) s = (Inl err, s') \<Longrightarrow> cp_isValidationError err \<Longrightarrow> s' = s"
  by (auto simp: cp_usecase_defs cp_repository_defs Let_def split: sum.splits if_splits dest: cp_wrap_not_validation)

lemma cp_reply_400:
  assumes "cp_reply lib operation ok r = (resp, s')" and "as_Status resp = 400" and "\<And>a. as_Status (ok a) \<noteq> 400"
  shows "\<exists>err. r = (Inl err, s') \<and> cp_isValidationError err"
  using assms by (auto simp: cp_reply_def cp_handleError_def api_defs split: prod.splits sum.splits if_splits)

lemma cp_reply_body:
  assumes "cp_reply lib operation ok r = (resp, s')" and "as_Body resp = JsonBody b"
  shows "\<exists>a. r = (Inr a, s') \<and> resp = ok a"
  using assms by (auto simp: cp_reply_def cp_handleError_def api_defs split: prod.splits sum.splits if_splits)

lemma snd_cp_reply [simp]: "snd (cp_reply lib operation ok r) = snd r"
  by (auto simp: cp_reply_def split: prod.splits sum.splits)

lemma control_handle_400:
  assumes "control_handle lib (pg_control env ord) ep c s = (resp, s')" and "as_Status resp = 400"
  shows "s' = s"
  using assms
  by (cases ep) (auto simp: cp_handler_defs Let_def api_JSON_def split: option.splits
      dest!: cp_reply_400 dest: validation_before_statements)

text \<open>A handler changes the state as one request of the use case, or not at all.\<close>

lemma control_handle_step:
  "snd (control_handle lib u ep c s) = s \<or> (\<exists>req. snd (control_handle lib u ep c s) = control_step (ctl_url_Parse lib) u req s)"
proof (cases ep)
  case CpCreateProject
  then show ?thesis
    by (cases "ctl_DecodeProject lib (aq_Body c)") (auto simp: createProject_def intro: exI [of _ "ReqCreateProject _"])
next
  case CpListProjects
  then show ?thesis by (auto simp: listProjects_def intro: exI [of _ ReqListProjects])
next
  case CpCreateService
  then show ?thesis
    by (cases "ctl_DecodeService lib (aq_Body c)") (auto simp: createService_def intro: exI [of _ "ReqCreateService _"])
next
  case CpListServices
  then show ?thesis by (auto simp: listServices_def intro: exI [of _ "ReqListServices _"])
next
  case CpCreateRoute
  then show ?thesis
    by (cases "ctl_DecodeRoute lib (aq_Body c)") (auto simp: createRoute_def Let_def intro: exI [of _ "ReqCreateRoute _"])
next
  case CpListRoutes
  then show ?thesis by (auto simp: listRoutes_def intro: exI [of _ "ReqListRoutes _"])
next
  case CpListGatewayRoutes
  then show ?thesis by (auto simp: listGatewayRoutes_def intro: exI [of _ ReqListGatewayRoutes])
qed simp

lemma control_handle_ok:
  assumes "control_ok (ctl_url_Parse lib) (pg_db s)"
  shows "control_ok (ctl_url_Parse lib) (pg_db (snd (control_handle lib (pg_control env ord) ep c s)))"
  using control_handle_step [of lib "pg_control env ord" ep c s] control_step_ok [OF assms] assms by metis

fun control_serve ::
  "control_lib \<Rightarrow> 's ControlRepositories \<Rightarrow> (control_endpoint \<times> ApiRequest) list \<Rightarrow> 's \<Rightarrow> 's" where
  "control_serve lib u [] s = s"
| "control_serve lib u ((ep, c) # rest) s = control_serve lib u rest (snd (control_handle lib u ep c s))"

lemma control_serve_ok:
  "control_ok (ctl_url_Parse lib) (pg_db s) \<Longrightarrow>
     control_ok (ctl_url_Parse lib) (pg_db (control_serve lib (pg_control env ord) reqs s))"
proof (induction reqs arbitrary: s)
  case (Cons r reqs)
  obtain ep c where r: "r = (ep, c)" by fastforce
  show ?case unfolding r control_serve.simps by (rule Cons.IH [OF control_handle_ok [OF Cons.prems]])
qed simp

lemma createRouteQuery_row: "createRouteQuery env v n db = Inr (r, db') \<Longrightarrow> r \<in> set (db_croutes db')"
  by (auto simp: createRouteQuery_def Let_def split: if_splits option.splits)

lemma created_route_stored:
  assumes "control_handle lib (pg_control env ord) ep c s = (resp, s')" and "as_Body resp = JsonBody (RouteBody r)"
  shows "\<exists>row\<in>set (db_croutes (pg_db s')). r = newRouteResponse row"
proof -
  have ep: "ep = CpCreateRoute"
    using assms by (cases ep) (auto simp: cp_handler_defs api_defs split: option.splits dest!: cp_reply_body)
  from assms obtain input row where "cp_CreateRoute (pg_control env ord) input s = (Inr row, s')" "r = newRouteResponse row"
    unfolding ep by (auto simp: createRoute_def Let_def api_defs split: option.splits dest!: cp_reply_body)
  then show ?thesis
    by (auto simp: cp_CreateRoute_def cp_repository_defs cp_wrap_Inr split: sum.splits
        dest!: pg_exec_Inr createRouteQuery_row)
qed

text \<open>C15. The tables of the control plane are well-typed at every moment. Starting from well-formed tables
  and after any sequence of HTTP requests, with any database faults, a request leaves them well-formed:
  identifiers and the unique columns are unique, every service belongs to a project and every route to a
  service, names are trimmed and not empty, upstream URLs parse to a scheme and a host, path prefixes
  start with a slash, timeouts are positive and a rate limit is either off and zero or on and positive.
  A request answered with 400 changes nothing, and a route in a response is a row of the table.
\<close>

theorem control_tables_typed:
  assumes "control_ok (ctl_url_Parse lib) (pg_db s0)"
    and "s = control_serve lib (pg_control env ord) reqs s0"
    and "control_handle lib (pg_control env ord) ep c s = (resp, s')"
  shows "control_ok (ctl_url_Parse lib) (pg_db s') \<and> (as_Status resp = 400 \<longrightarrow> s' = s) \<and>
     (\<forall>r. as_Body resp = JsonBody (RouteBody r) \<longrightarrow> (\<exists>row\<in>set (db_croutes (pg_db s')). r = newRouteResponse row))"
proof (intro conjI allI impI)
  have "control_ok (ctl_url_Parse lib) (pg_db s)" unfolding assms(2) by (rule control_serve_ok [OF assms(1)])
  from control_handle_ok [OF this, of env ord ep c] show "control_ok (ctl_url_Parse lib) (pg_db s')"
    by (simp add: assms(3))
next
  assume "as_Status resp = 400"
  with assms(3) show "s' = s" by (rule control_handle_400)
next
  fix r
  assume "as_Body resp = JsonBody (RouteBody r)"
  with assms(3) show "\<exists>row\<in>set (db_croutes (pg_db s')). r = newRouteResponse row" by (rule created_route_stored)
qed

definition demo_control_env :: pg_env where
  "demo_control_env = \<lparr>pe_fault = (\<lambda>_. NoFault), pe_now = int, pe_newid = (\<lambda>n. replicate (Suc n) (CHR ''i'')),
     pe_uuid = Some, pe_lower = (\<lambda>x. x)\<rparr>"

definition demo_text_order :: text_order where
  "demo_text_order = \<lparr>to_length = (\<lambda>x. int (length x)), to_collate = bytes_less\<rparr>"

definition demo_control_lib :: "string \<Rightarrow> control_lib" where
  "demo_control_lib pre =
     \<lparr>ctl_DecodeProject = (\<lambda>_. Some \<lparr>cpq_Name = ''p''\<rparr>),
      ctl_DecodeService = (\<lambda>_. Some \<lparr>csq_Name = ''v'', csq_UpstreamURL = ''http://h''\<rparr>),
      ctl_DecodeRoute = (\<lambda>_. Some \<lparr>crq_Name = ''r'', crq_PathPrefix = pre, crq_StripPrefix = None, crq_TimeoutMS = 0,
         crq_Enabled = None, crq_AuthRequired = False, crq_RateLimitEnabled = False, crq_RateLimitRequests = 0,
         crq_RateLimitWindowSeconds = 0\<rparr>),
      ctl_url_Parse = (\<lambda>_. Some (''http'', ''h'')), ctl_pg_Error = (\<lambda>_. ''''), ctl_Sprintf = (\<lambda>_. '''')\<rparr>"

definition demo_control_state :: "control_db pg" where
  "demo_control_state = \<lparr>pg_db = \<lparr>db_cprojects = [], db_cservices = [], db_croutes = []\<rparr>, pg_tick = 0\<rparr>"

definition demo_api_request :: ApiRequest where
  "demo_api_request = \<lparr>aq_Param = (\<lambda>x. if x = ''service_id'' then ''ii'' else ''i''), aq_Query = (\<lambda>_. ''''),
     aq_Header = (\<lambda>_. []), aq_Body = ''''\<rparr>"

definition demo_controlled :: "string \<Rightarrow> control_db pg" where
  "demo_controlled pre = control_serve (demo_control_lib pre) (pg_control demo_control_env demo_text_order)
     [(CpCreateProject, demo_api_request), (CpCreateService, demo_api_request)] demo_control_state"

definition demo_created :: "string \<Rightarrow> control_body ApiResponse \<times> control_db pg" where
  "demo_created pre = control_handle (demo_control_lib pre) (pg_control demo_control_env demo_text_order)
     CpCreateRoute demo_api_request (demo_controlled pre)"

lemma demo_control_ok: "control_ok u (pg_db demo_control_state)"
  by (simp add: control_ok_def projects_ok_def services_ok_def routes_ok_def demo_control_state_def)

theorem control_tables_typed_witness:
  "control_ok (ctl_url_Parse (demo_control_lib ''/a'')) (pg_db (snd (demo_created ''/a''))) \<and>
   as_Status (fst (demo_created ''/a'')) = 201 \<and> length (db_croutes (pg_db (snd (demo_created ''/a'')))) = 1"
proof -
  have "control_handle (demo_control_lib ''/a'') (pg_control demo_control_env demo_text_order)
     CpCreateRoute demo_api_request (demo_controlled ''/a'') = (fst (demo_created ''/a''), snd (demo_created ''/a''))"
    by (simp add: demo_created_def)
  note control_tables_typed [OF demo_control_ok demo_controlled_def this]
  moreover have "as_Status (fst (demo_created ''/a'')) = 201" by code_simp
  moreover have "length (db_croutes (pg_db (snd (demo_created ''/a'')))) = 1" by code_simp
  ultimately show ?thesis by blast
qed

end
