(* ===== verification/System_Routes.thy ===== *)
theory System_Routes
  imports Control_Http Gateway_Sources
begin

text \<open>
  The control plane and the gateway together: the routes that the control plane publishes under
  \<open>/internal/v1/routes\<close>, the JSON records as both sides see them, the control plane as the server behind the
  gateway's client, and what the gateway makes of the answer.
\<close>

text \<open>A route record with the field names of \<open>gatewayRouteResponse\<close> read into the gateway's \<open>routeResponse\<close>; the
  JSON names are the same on both sides.\<close>

definition wire_route :: "gatewayRouteResponse \<Rightarrow> routeResponse" where
  "wire_route r =
     \<lparr>rsp_ProjectID = gwr_ProjectID r, rsp_Name = gwr_Name r, rsp_PathPrefix = gwr_PathPrefix r,
      rsp_UpstreamURL = gwr_UpstreamURL r, rsp_StripPrefix = gwr_StripPrefix r, rsp_TimeoutMS = gwr_TimeoutMS r,
      rsp_AuthRequired = gwr_AuthRequired r, rsp_RateLimitEnabled = gwr_RateLimitEnabled r,
      rsp_RateLimitRequests = gwr_RateLimitRequests r, rsp_RateLimitWindowSeconds = gwr_RateLimitWindowSeconds r\<rparr>"

definition scheme_host_of :: "url_parser \<Rightarrow> scheme_host" where
  "scheme_host_of url_Parse x = (case url_Parse x of Inl _ \<Rightarrow> None | Inr u \<Rightarrow> Some (url_Scheme u, url_Host u))"

definition gateway_snapshot :: "text_order \<Rightarrow> control_db \<Rightarrow> GatewayRoute list" where
  "gateway_snapshot ord db = map gateway_columns (order_by (gateway_before ord) (joined db))"

text \<open>What the gateway asks of a route beyond what the control plane checks.\<close>

definition routable :: "url_parser \<Rightarrow> GatewayRoute \<Rightarrow> bool" where
  "routable url_Parse r \<longleftrightarrow> normalizePathPrefix (grt_PathPrefix r) \<noteq> '''' \<and>
     (\<exists>u. url_Parse (grt_UpstreamURL r) = Inr u \<and> url_Scheme u \<in> {''http'', ''https''})"

definition gateway_route :: "GatewayRoute \<Rightarrow> Route" where
  "gateway_route r =
     \<lparr>rt_ProjectID = TrimSpace (grt_ProjectID r), rt_Name = grt_Name r,
      rt_PathPrefix = normalizePathPrefix (grt_PathPrefix r), rt_UpstreamURL = grt_UpstreamURL r,
      rt_StripPrefix = grt_StripPrefix r, rt_Timeout = wrap64 (grt_TimeoutMS r * Millisecond),
      rt_AuthRequired = grt_AuthRequired r,
      rt_RateLimit = (if cpp_Enabled (grt_RateLimit r)
        then \<lparr>pol_Enabled = True, pol_Limit = cpp_Requests (grt_RateLimit r),
              pol_Window = wrap64 (cpp_WindowSeconds (grt_RateLimit r) * Second)\<rparr>
        else zero_Policy)\<rparr>"

lemma normalized_absolute:
  assumes "TrimSpace p = p" and "HasPrefix p ''/''" and "normalizePathPrefix p \<noteq> ''''"
  shows "HasPrefix (normalizePathPrefix p) ''/''"
  using assms by (cases p) (auto simp: normalizePathPrefix_def HasPrefix_def TrimRightByte_def Let_def)

text \<open>What the control plane guarantees of a published route.\<close>

definition published :: "url_parser \<Rightarrow> GatewayRoute \<Rightarrow> bool" where
  "published P r \<longleftrightarrow> TrimSpace (grt_ProjectID r) \<noteq> '''' \<and> trimmed (grt_Name r) \<and> TrimSpace (grt_PathPrefix r) = grt_PathPrefix r \<and>
     HasPrefix (grt_PathPrefix r) ''/'' \<and> TrimSpace (grt_UpstreamURL r) = grt_UpstreamURL r \<and>
     (\<exists>u. P (grt_UpstreamURL r) = Inr u \<and> url_Host u \<noteq> '''') \<and> grt_TimeoutMS r > 0 \<and> policy_ok (grt_RateLimit r)"

lemma toDomain_published:
  assumes "published P r"
  shows "toDomain P (wire_route (newGatewayRouteResponse r)) = Inr rt \<longleftrightarrow> routable P r \<and> rt = gateway_route r"
proof -
  from assms obtain u where u: "P (grt_UpstreamURL r) = Inr u" "url_Host u \<noteq> ''''" by (auto simp: published_def)
  have pol: "toRateLimitPolicy (wire_route (newGatewayRouteResponse r)) = Inr (rt_RateLimit (gateway_route r))"
    using assms by (auto simp: published_def policy_ok_def toRateLimitPolicy_def wire_route_def newGatewayRouteResponse_def
        gateway_route_def split: if_splits)
  show ?thesis
    using assms u pol normalized_absolute [of "grt_PathPrefix r"]
    by (auto simp: published_def trimmed_def toDomain_def Let_def routable_def gateway_route_def wire_route_def
        newGatewayRouteResponse_def)
qed

lemma snapshot_published:
  assumes "control_ok (scheme_host_of P) db" and "\<forall>p\<in>set (db_cprojects db). TrimSpace (pj_ID p) \<noteq> ''''"
    and "r \<in> set (gateway_snapshot ord db)"
  shows "published P r"
proof -
  from assms(3) obtain q v where qv: "q \<in> set (db_croutes db)" "v \<in> set (db_cservices db)" "r = gateway_columns (q, v)"
    by (auto simp: gateway_snapshot_def joined_def)
  from assms(1) qv have "route_ok q" "service_ok (scheme_host_of P) v" "sv_ProjectID v \<in> pj_ID ` set (db_cprojects db)"
    by (auto simp: control_ok_def routes_ok_def services_ok_def)
  with assms(2) qv(3) show ?thesis
    by (auto simp: published_def gateway_columns_def route_ok_def service_ok_def trimmed_def scheme_host_of_def
        split: sum.splits)
qed

lemma snapshot_accepted:
  assumes "\<forall>r\<in>set routes. published P r"
  shows "responseToDomain P (map wire_route (newGatewayRouteListResponse routes)) = Inr rs \<longleftrightarrow>
     (\<forall>r\<in>set routes. routable P r) \<and> distinct (map (normalizePathPrefix \<circ> grt_PathPrefix) routes) \<and>
     rs = map gateway_route routes"
proof -
  have L: "list_all2 (\<lambda>i rt. toDomain P i = Inr rt) (map (wire_route \<circ> newGatewayRouteResponse) routes) rs \<longleftrightarrow>
      (\<forall>r\<in>set routes. routable P r) \<and> rs = map gateway_route routes"
    using assms
  proof (induction routes arbitrary: rs)
    case (Cons r routes)
    then show ?case using toDomain_published [of P r] by (cases rs) auto
  qed simp
  have M: "map (rt_PathPrefix \<circ> gateway_route) routes = map (normalizePathPrefix \<circ> grt_PathPrefix) routes"
    by (simp add: gateway_route_def)
  show ?thesis
    unfolding responseToDomain_spec newGatewayRouteListResponse_def map_map L by (auto simp: M)
qed

text \<open>The control plane as the server behind the gateway's client: the handler's status and its encoded body.\<close>

definition control_server ::
  "(control_body api_body \<Rightarrow> string) \<Rightarrow> control_lib \<Rightarrow> 's ControlRepositories \<Rightarrow> ApiRequest \<Rightarrow>
   Duration \<Rightarrow> ClientRequest \<Rightarrow> 's \<Rightarrow> (gw_err + ClientResponse) \<times> 's" where
  "control_server encode lib u c timeout req s =
     (case control_handle lib u CpListGatewayRoutes c s of
        (resp, s') \<Rightarrow> (Inr \<lparr>res_StatusCode = as_Status resp, res_Body = encode (as_Body resp), res_ReadErr = None\<rparr>, s'))"

text \<open>JSON on the wire: the decoder reads back what the encoder wrote, and the answer fits the limit.\<close>

definition json_carries ::
  "(control_body api_body \<Rightarrow> string) \<Rightarrow> 's http_env \<Rightarrow> GatewayRoute list \<Rightarrow> bool" where
  "json_carries encode he routes \<longleftrightarrow>
     (let rs = newGatewayRouteListResponse routes; body = encode (JsonBody (GatewayRoutesBody rs)) in
      length body \<le> maxResponseSize \<and>
      (\<exists>rest. he_DecodeRoutes he body None = Inr (map wire_route rs, rest) \<and> he_DecodeNext he rest None = JsonEOF))"

lemma control_server_status:
  "fst (control_server encode lib (pg_control env ord) q t req s) =
     Inr (if pe_fault env (pg_tick s) = NoFault
          then \<lparr>res_StatusCode = 200,
            res_Body = encode (JsonBody (GatewayRoutesBody (newGatewayRouteListResponse (gateway_snapshot ord (pg_db s))))),
            res_ReadErr = None\<rparr>
          else \<lparr>res_StatusCode = 500, res_Body = encode (ErrorBody ''internal error''), res_ReadErr = None\<rparr>)"
  by (auto simp: control_server_def listGatewayRoutes_def cp_ListGatewayRoutes_def pg_control_def
      cprepo_ListGatewayRoutes_def pg_exec_def Let_def listGatewayRoutesQuery_def gateway_snapshot_def cp_wrap_def
      cp_reply_def cp_handleError_def cp_isValidationError_def errors_is_any_def api_defs split: pg_fault.splits)

lemma client_reads_snapshot:
  assumes "he_NewRequest he ''GET'' (cl_routesURL c) = None"
    and "he_Do he = control_server encode lib (pg_control env ord) q"
    and "json_carries encode he (gateway_snapshot ord (pg_db s))"
  shows "fst (client_ListRoutes P he c s) = Inr rs \<longleftrightarrow> pe_fault env (pg_tick s) = NoFault \<and>
      responseToDomain P (map wire_route (newGatewayRouteListResponse (gateway_snapshot ord (pg_db s)))) = Inr rs"
proof -
  define req where "req = \<lparr>req_Method = ''GET'', req_URL = cl_routesURL c,
    req_Headers = [(''Accept'', ''application/json'')], req_Body = ''''\<rparr>"
  obtain r s1 where run: "he_Do he (cl_Timeout c) req s = (r, s1)" by fastforce
  have r: "r = fst (control_server encode lib (pg_control env ord) q (cl_Timeout c) req s)"
    using run unfolding assms(2) by simp
  show ?thesis
  proof (cases "pe_fault env (pg_tick s) = NoFault")
    case True
    with assms(3) show ?thesis
      by (auto simp: client_ListRoutes_def assms(1) run r control_server_status json_carries_def limited_error_def
          ensureJSONEOF_def Let_def split: sum.splits simp flip: req_def)
  next
    case False
    then show ?thesis
      by (auto simp: client_ListRoutes_def assms(1) run r control_server_status split: sum.splits simp flip: req_def)
  qed
qed

text \<open>Every enabled route is in the snapshot.\<close>

lemma enabled_in_snapshot:
  assumes "control_ok u db" and "row \<in> set (db_croutes db)" and "cpr_Enabled row"
  shows "\<exists>g\<in>set (gateway_snapshot ord db). grt_PathPrefix g = cpr_PathPrefix row"
  using assms(2,3) unfolding gateway_snapshot_def joined_services [OF assms(1)]
  by (auto simp: gateway_columns_def intro!: bexI [of _ row])

lemma client_accepts_iff:
  assumes "control_ok (scheme_host_of P) (pg_db s)" and "\<forall>p\<in>set (db_cprojects (pg_db s)). TrimSpace (pj_ID p) \<noteq> ''''"
    and "he_NewRequest he ''GET'' (cl_routesURL c) = None"
    and "he_Do he = control_server encode lib (pg_control env ord) q"
    and "json_carries encode he (gateway_snapshot ord (pg_db s))"
  shows "fst (client_ListRoutes P he c s) = Inr rs \<longleftrightarrow> pe_fault env (pg_tick s) = NoFault \<and>
      (\<forall>r\<in>set (gateway_snapshot ord (pg_db s)). routable P r) \<and>
      distinct (map (normalizePathPrefix \<circ> grt_PathPrefix) (gateway_snapshot ord (pg_db s))) \<and>
      rs = map gateway_route (gateway_snapshot ord (pg_db s))"
proof -
  have "\<forall>r\<in>set (gateway_snapshot ord (pg_db s)). published P r" using snapshot_published [OF assms(1,2)] by blast
  from snapshot_accepted [OF this] show ?thesis unfolding client_reads_snapshot [OF assms(3-5)] by blast
qed

section \<open>A concrete pair of services\<close>

definition demo_control_server :: "string \<Rightarrow> Duration \<Rightarrow> ClientRequest \<Rightarrow> control_db pg \<Rightarrow> (gw_err + ClientResponse) \<times> control_db pg" where
  "demo_control_server pre =
     control_server (\<lambda>_. ''[]'') (demo_control_lib pre) (pg_control demo_control_env demo_text_order) demo_api_request"

definition demo_routes_env :: "string \<Rightarrow> (control_db pg) http_env" where
  "demo_routes_env pre =
     \<lparr>he_NewRequest = (\<lambda>_ _. None), he_Do = demo_control_server pre,
      he_DecodeRoutes = (\<lambda>_ _. Inr (map wire_route (newGatewayRouteListResponse
         (gateway_snapshot demo_text_order (pg_db (snd (demo_created pre))))), '''')),
      he_DecodeNext = (\<lambda>_ _. JsonEOF)\<rparr>"

definition demo_upstream :: ParsedURL where
  "demo_upstream = \<lparr>url_Scheme = ''http'', url_Host = ''h'', url_Path = '''', url_RawPath = '''', url_RawQuery = ''''\<rparr>"

lemma demo_published:
  "he_NewRequest (demo_routes_env pre) ''GET'' url = None"
  "he_Do (demo_routes_env pre) =
     control_server (\<lambda>_. ''[]'') (demo_control_lib pre) (pg_control demo_control_env demo_text_order) demo_api_request"
  "json_carries (\<lambda>_. ''[]'') (demo_routes_env pre) (gateway_snapshot demo_text_order (pg_db (snd (demo_created pre))))"
  by (simp_all add: demo_routes_env_def demo_control_server_def json_carries_def maxResponseSize_def)

lemma demo_parser: "scheme_host_of (\<lambda>_. Inr demo_upstream) = ctl_url_Parse (demo_control_lib pre)"
  by (simp add: scheme_host_of_def demo_upstream_def demo_control_lib_def fun_eq_iff)

lemma demo_created_ok: "control_ok (scheme_host_of (\<lambda>_. Inr demo_upstream)) (pg_db (snd (demo_created pre)))"
  unfolding demo_parser [of pre] demo_created_def demo_controlled_def
  by (intro control_handle_ok control_serve_ok demo_control_ok)

end
