(* ===== verification/Auth_Http.thy ===== *)
theory Auth_Http
  imports Auth_Usecase Platform_Api
begin

text \<open>
  \<open>internal/auth/delivery/http/v1\<close>: request and response records, the mapping of errors to answers, the
  access-token middleware, the handlers and the route table. The JSON decoder is a parameter: one function
  per request type, and the test for the end of the input.
\<close>

section \<open>Requests and responses\<close>

record registerRequest =
  rgq_Email :: string
  rgq_Password :: string

record loginRequest =
  lgq_Email :: string
  lgq_Password :: string

record refreshRequest =
  rfq_RefreshToken :: string

record logoutRequest =
  loq_RefreshToken :: string

record createAPIKeyRequest =
  ckq_Name :: string
  ckq_ExpiresAt :: "Time option"

record userResponse =
  usr_ID :: string
  usr_Email :: string
  usr_Role :: string
  usr_Enabled :: bool
  usr_CreatedAt :: Time
  usr_UpdatedAt :: Time

record tokenPairResponse =
  tpr_TokenType :: string
  tpr_AccessToken :: string
  tpr_AccessTokenExpiresAt :: Time
  tpr_RefreshToken :: string
  tpr_RefreshTokenExpiresAt :: Time

record sessionResponse =
  ssr_User :: userResponse
  ssr_Tokens :: tokenPairResponse

record apiKeyResponse =
  akq_ID :: string
  akq_ProjectID :: string
  akq_Name :: string
  akq_KeyPrefix :: string
  akq_Enabled :: bool
  akq_ExpiresAt :: "Time option"
  akq_LastUsedAt :: "Time option"
  akq_CreatedAt :: Time
  akq_UpdatedAt :: Time

record createdAPIKeyResponse =
  ckr_APIKey :: apiKeyResponse
  ckr_Value :: string

record apiKeyPrincipalResponse =
  kpr_APIKeyID :: string
  kpr_ProjectID :: string

fun role_string :: "Role \<Rightarrow> string" where
  "role_string RoleAdmin = ''admin''"
| "role_string RoleMember = ''member''"
| "role_string (RoleOther r) = r"

definition newUserResponse :: "UserInfo \<Rightarrow> userResponse" where
  "newUserResponse user =
     \<lparr>usr_ID = ui_ID user, usr_Email = ui_Email user, usr_Role = role_string (ui_Role user), usr_Enabled = ui_Enabled user,
      usr_CreatedAt = ui_CreatedAt user, usr_UpdatedAt = ui_UpdatedAt user\<rparr>"

definition newTokenPairResponse :: "TokenPair \<Rightarrow> tokenPairResponse" where
  "newTokenPairResponse tokens =
     \<lparr>tpr_TokenType = tp_TokenType tokens, tpr_AccessToken = tp_AccessToken tokens,
      tpr_AccessTokenExpiresAt = tp_AccessTokenExpiresAt tokens, tpr_RefreshToken = tp_RefreshToken tokens,
      tpr_RefreshTokenExpiresAt = tp_RefreshTokenExpiresAt tokens\<rparr>"

definition newSessionResponse :: "Session \<Rightarrow> sessionResponse" where
  "newSessionResponse session =
     \<lparr>ssr_User = newUserResponse (se_User session), ssr_Tokens = newTokenPairResponse (se_Tokens session)\<rparr>"

definition newAPIKeyResponse :: "APIKeyInfo \<Rightarrow> apiKeyResponse" where
  "newAPIKeyResponse key =
     \<lparr>akq_ID = aki_ID key, akq_ProjectID = aki_ProjectID key, akq_Name = aki_Name key, akq_KeyPrefix = aki_KeyPrefix key,
      akq_Enabled = aki_Enabled key, akq_ExpiresAt = aki_ExpiresAt key, akq_LastUsedAt = aki_LastUsedAt key,
      akq_CreatedAt = aki_CreatedAt key, akq_UpdatedAt = aki_UpdatedAt key\<rparr>"

definition newCreatedAPIKeyResponse :: "CreatedAPIKey \<Rightarrow> createdAPIKeyResponse" where
  "newCreatedAPIKeyResponse created =
     \<lparr>ckr_APIKey = newAPIKeyResponse (ck_APIKey created), ckr_Value = ck_Value created\<rparr>"

datatype auth_body =
    AuthHealth string string
  | UserBody userResponse
  | SessionBody sessionResponse
  | TokensBody tokenPairResponse
  | CreatedKeyBody createdAPIKeyResponse
  | KeysBody "apiKeyResponse list"
  | PrincipalBody apiKeyPrincipalResponse

section \<open>Errors\<close>

text \<open>The cases of the switch in \<open>authError\<close>, in order.\<close>

definition auth_error_cases :: "(au_error \<times> int \<times> string) list" where
  "auth_error_cases =
     [(AErrInvalidRequestBody, 400, ''invalid request body''),
      (AErrInvalidEmail, 400, ''invalid email''),
      (AErrInvalidPassword, 400, ''invalid password''),
      (AErrEmailAlreadyExists, 409, ''email already exists''),
      (AErrInvalidCredentials, 401, ''invalid credentials''),
      (AErrInvalidRefreshToken, 401, ''invalid refresh token''),
      (AErrInvalidAccessToken, 401, ''invalid access token''),
      (AErrInvalidAPIKey, 401, ''invalid api key''),
      (AErrInvalidProjectID, 400, ''invalid project id''),
      (AErrInvalidName, 400, ''invalid name''),
      (AErrInvalidExpiration, 400, ''invalid expiration''),
      (AErrInvalidAPIKeyID, 400, ''invalid api key id''),
      (AErrAPIKeyNameAlreadyExists, 409, ''api key name already exists''),
      (AErrProjectNotFound, 404, ''project not found''),
      (AErrAPIKeyNotFound, 404, ''api key not found''),
      (AErrUserDisabled, 403, ''user disabled'')]"

definition authError :: "au_err \<Rightarrow> (int \<times> string) option" where
  "authError err = map_option snd (find (\<lambda>(e, _). errors_is err e) auth_error_cases)"

definition auth_handleError :: "string \<Rightarrow> au_err \<Rightarrow> 'b ApiResponse" where
  "auth_handleError operation err =
     (case authError err of
        Some (status, message) \<Rightarrow> api_Error status message
      | None \<Rightarrow> api_Logged operation (api_Error 500 ''internal error''))"

section \<open>Handlers\<close>

record auth_json =
  aj_Register :: "string \<Rightarrow> (registerRequest \<times> string) option"
  aj_Login :: "string \<Rightarrow> (loginRequest \<times> string) option"
  aj_Refresh :: "string \<Rightarrow> (refreshRequest \<times> string) option"
  aj_Logout :: "string \<Rightarrow> (logoutRequest \<times> string) option"
  aj_CreateAPIKey :: "string \<Rightarrow> (createAPIKeyRequest \<times> string) option"
  aj_EOF :: "string \<Rightarrow> bool"
  aj_case :: case_tables
  aj_mail_ParseAddress :: "string \<Rightarrow> string option"

definition auth_reply ::
  "string \<Rightarrow> ('a \<Rightarrow> auth_body ApiResponse) \<Rightarrow> (au_err + 'a) \<times> 's \<Rightarrow> auth_body ApiResponse \<times> 's" where
  "auth_reply operation ok r =
     (case r of
        (Inl err, s) \<Rightarrow> (auth_handleError operation err, s)
      | (Inr a, s) \<Rightarrow> (ok a, s))"

definition auth_reply_unit ::
  "string \<Rightarrow> auth_body ApiResponse \<Rightarrow> au_err option \<times> 's \<Rightarrow> auth_body ApiResponse \<times> 's" where
  "auth_reply_unit operation ok r =
     (case r of
        (Some err, s) \<Rightarrow> (auth_handleError operation err, s)
      | (None, s) \<Rightarrow> (ok, s))"

definition register_handler :: "auth_json \<Rightarrow> 's AuthUsecase \<Rightarrow> ApiRequest \<Rightarrow> 's \<Rightarrow> auth_body ApiResponse \<times> 's" where
  "register_handler lib u c s =
     (case decodeRequest (aj_Register lib) (aj_EOF lib) (aq_Body c) of
        None \<Rightarrow> (auth_handleError ''failed to decode register request'' (Sentinel AErrInvalidRequestBody), s)
      | Some request \<Rightarrow>
          auth_reply ''failed to register user'' (\<lambda>user. api_JSON 201 (UserBody (newUserResponse user)))
            (Register (aj_case lib) (aj_mail_ParseAddress lib) u (rgq_Email request) (rgq_Password request) s))"

definition login_handler :: "auth_json \<Rightarrow> 's AuthUsecase \<Rightarrow> ApiRequest \<Rightarrow> 's \<Rightarrow> auth_body ApiResponse \<times> 's" where
  "login_handler lib u c s =
     (case decodeRequest (aj_Login lib) (aj_EOF lib) (aq_Body c) of
        None \<Rightarrow> (auth_handleError ''failed to decode login request'' (Sentinel AErrInvalidRequestBody), s)
      | Some request \<Rightarrow>
          auth_reply ''failed to login user'' (\<lambda>session. api_JSON 200 (SessionBody (newSessionResponse session)))
            (Login (aj_case lib) u (lgq_Email request) (lgq_Password request) s))"

definition refresh_handler :: "auth_json \<Rightarrow> 's AuthUsecase \<Rightarrow> ApiRequest \<Rightarrow> 's \<Rightarrow> auth_body ApiResponse \<times> 's" where
  "refresh_handler lib u c s =
     (case decodeRequest (aj_Refresh lib) (aj_EOF lib) (aq_Body c) of
        None \<Rightarrow> (auth_handleError ''failed to decode refresh request'' (Sentinel AErrInvalidRequestBody), s)
      | Some request \<Rightarrow>
          auth_reply ''failed to refresh tokens'' (\<lambda>tokens. api_JSON 200 (TokensBody (newTokenPairResponse tokens)))
            (Refresh u (rfq_RefreshToken request) s))"

definition logout_handler :: "auth_json \<Rightarrow> 's AuthUsecase \<Rightarrow> ApiRequest \<Rightarrow> 's \<Rightarrow> auth_body ApiResponse \<times> 's" where
  "logout_handler lib u c s =
     (case decodeRequest (aj_Logout lib) (aj_EOF lib) (aq_Body c) of
        None \<Rightarrow> (auth_handleError ''failed to decode logout request'' (Sentinel AErrInvalidRequestBody), s)
      | Some request \<Rightarrow>
          auth_reply_unit ''failed to logout user'' (api_NoContent 204) (Logout u (loq_RefreshToken request) s))"

definition createAPIKey_handler :: "auth_json \<Rightarrow> 's AuthUsecase \<Rightarrow> ApiRequest \<Rightarrow> 's \<Rightarrow> auth_body ApiResponse \<times> 's" where
  "createAPIKey_handler lib u c s =
     (case decodeRequest (aj_CreateAPIKey lib) (aj_EOF lib) (aq_Body c) of
        None \<Rightarrow> (auth_handleError ''decode create api key request'' (Sentinel AErrInvalidRequestBody), s)
      | Some request \<Rightarrow>
          auth_reply ''create api key'' (\<lambda>created. api_JSON 201 (CreatedKeyBody (newCreatedAPIKeyResponse created)))
            (CreateAPIKey u \<lparr>cki_ProjectID = aq_Param c ''project_id'', cki_Name = ckq_Name request,
                             cki_ExpiresAt = ckq_ExpiresAt request\<rparr> s))"

definition listAPIKeys_handler :: "'s AuthUsecase \<Rightarrow> ApiRequest \<Rightarrow> 's \<Rightarrow> auth_body ApiResponse \<times> 's" where
  "listAPIKeys_handler u c s =
     auth_reply ''list api keys'' (\<lambda>keys. api_JSON 200 (KeysBody (map newAPIKeyResponse keys)))
       (ListAPIKeys u (aq_Param c ''project_id'') s)"

definition revokeAPIKey_handler :: "'s AuthUsecase \<Rightarrow> ApiRequest \<Rightarrow> 's \<Rightarrow> auth_body ApiResponse \<times> 's" where
  "revokeAPIKey_handler u c s =
     auth_reply_unit ''revoke api key'' (api_NoContent 204)
       (RevokeAPIKey u (aq_Param c ''project_id'') (aq_Param c ''api_key_id'') s)"

definition validateAPIKey_handler :: "'s AuthUsecase \<Rightarrow> ApiRequest \<Rightarrow> 's \<Rightarrow> auth_body ApiResponse \<times> 's" where
  "validateAPIKey_handler u c s =
     (let rawAPIKey = TrimSpace (header_Get (aq_Header c) ''X-API-Key'') in
      auth_reply ''validate api key''
        (\<lambda>p. api_JSON 200 (PrincipalBody \<lparr>kpr_APIKeyID = akp_APIKeyID p, kpr_ProjectID = akp_ProjectID p\<rparr>))
        (ValidateAPIKey u rawAPIKey s))"

definition auth_health :: "auth_body ApiResponse" where
  "auth_health = api_JSON 200 (AuthHealth ''ok'' ''auth'')"

section \<open>The access-token middleware\<close>

definition bearerToken :: "string \<Rightarrow> string \<times> bool" where
  "bearerToken header =
     (let parts = Fields header in
      if length parts \<noteq> 2 \<or> \<not> EqualFoldASCII (parts ! 0) ''Bearer'' then ('''', False)
      else let token = TrimSpace (parts ! 1) in (token, token \<noteq> ''''))"

definition requireAccessToken ::
  "'s AuthUsecase \<Rightarrow> (ApiRequest \<Rightarrow> 's \<Rightarrow> auth_body ApiResponse \<times> 's) \<Rightarrow> ApiRequest \<Rightarrow> 's \<Rightarrow> auth_body ApiResponse \<times> 's" where
  "requireAccessToken u nxt c s =
     (let (rawToken, ok) = bearerToken (header_Get (aq_Header c) ''Authorization'') in
      if \<not> ok then (auth_handleError ''authenticate access token'' (Sentinel AErrInvalidAccessToken), s)
      else
        case AuthenticateAccessToken u rawToken s of
          (Inl err, s1) \<Rightarrow> (auth_handleError ''authenticate access token'' err, s1)
        | (Inr p, s1) \<Rightarrow> nxt c s1)"

section \<open>Routes\<close>

datatype auth_endpoint =
    AuHealth | AuRegister | AuLogin | AuRefresh | AuLogout | AuCreateKey | AuListKeys | AuRevokeKey | AuValidateKey

definition auth_routes :: "(string \<times> string \<times> auth_endpoint) list" where
  "auth_routes =
     [(''GET'', ''/health'', AuHealth),
      (''POST'', ''/api/v1/auth/register'', AuRegister),
      (''POST'', ''/api/v1/auth/login'', AuLogin),
      (''POST'', ''/api/v1/auth/refresh'', AuRefresh),
      (''POST'', ''/api/v1/auth/logout'', AuLogout),
      (''POST'', ''/api/v1/projects/:project_id/api-keys'', AuCreateKey),
      (''GET'', ''/api/v1/projects/:project_id/api-keys'', AuListKeys),
      (''DELETE'', ''/api/v1/projects/:project_id/api-keys/:api_key_id'', AuRevokeKey),
      (''POST'', ''/internal/v1/api-keys/validate'', AuValidateKey)]"

fun auth_handle :: "auth_json \<Rightarrow> 's AuthUsecase \<Rightarrow> auth_endpoint \<Rightarrow> ApiRequest \<Rightarrow> 's \<Rightarrow> auth_body ApiResponse \<times> 's" where
  "auth_handle lib u AuHealth c s = (auth_health, s)"
| "auth_handle lib u AuRegister c s = register_handler lib u c s"
| "auth_handle lib u AuLogin c s = login_handler lib u c s"
| "auth_handle lib u AuRefresh c s = refresh_handler lib u c s"
| "auth_handle lib u AuLogout c s = logout_handler lib u c s"
| "auth_handle lib u AuCreateKey c s = requireAccessToken u (createAPIKey_handler lib u) c s"
| "auth_handle lib u AuListKeys c s = requireAccessToken u (listAPIKeys_handler u) c s"
| "auth_handle lib u AuRevokeKey c s = requireAccessToken u (revokeAPIKey_handler u) c s"
| "auth_handle lib u AuValidateKey c s = validateAPIKey_handler u c s"

section \<open>Properties of the handlers\<close>

lemma authError_status:
  assumes "authError err = Some (status, message)"
  shows "status \<in> {400, 401, 403, 404, 409}"
proof -
  from assms obtain e where "(e, status, message) \<in> set auth_error_cases"
    by (auto simp: authError_def dest!: find_Some_iff [THEN iffD1]) (metis nth_mem)
  then show ?thesis by (auto simp: auth_error_cases_def)
qed

lemma auth_handleError_status: "as_Status (auth_handleError operation err) \<ge> 400"
  using authError_status [of err] by (fastforce simp: auth_handleError_def api_defs split: option.splits)

lemma requireAccessToken_passed:
  assumes "requireAccessToken u nxt c s = (resp, s')" and "as_Status resp < 400"
  shows "\<exists>p s1. snd (bearerToken (header_Get (aq_Header c) ''Authorization'')) \<and>
    AuthenticateAccessToken u (fst (bearerToken (header_Get (aq_Header c) ''Authorization''))) s = (Inr p, s1) \<and>
    nxt c s1 = (resp, s')"
proof -
  define h where "h = bearerToken (header_Get (aq_Header c) ''Authorization'')"
  have e: "\<not> as_Status (auth_handleError ''authenticate access token'' err :: auth_body ApiResponse) < 400" for err
    using auth_handleError_status by (simp add: not_less)
  obtain raw ok where h: "h = (raw, ok)" by fastforce
  obtain r s1 where a: "AuthenticateAccessToken u raw s = (r, s1)" by fastforce
  have ok: ok using assms e by (cases ok) (auto simp: requireAccessToken_def h simp flip: h_def)
  obtain p where r: "r = Inr p" using assms e a ok by (cases r) (auto simp: requireAccessToken_def h simp flip: h_def)
  from assms ok a r have "nxt c s1 = (resp, s')" by (simp add: requireAccessToken_def h flip: h_def)
  with ok a r show ?thesis by (simp add: h flip: h_def)
qed

lemma bearerToken_ok:
  assumes "snd (bearerToken header)"
  shows "\<exists>name raw. Fields header = [name, raw] \<and> EqualFoldASCII name ''Bearer'' \<and> fst (bearerToken header) = TrimSpace raw \<and>
    TrimSpace raw \<noteq> ''''"
proof -
  from assms have "length (Fields header) = 2" "EqualFoldASCII (Fields header ! 0) ''Bearer''"
    "TrimSpace (Fields header ! 1) \<noteq> ''''"
    by (auto simp: bearerToken_def Let_def split: if_splits)
  moreover then obtain a b where "Fields header = [a, b]" by (auto simp: numeral_2_eq_2 length_Suc_conv)
  ultimately show ?thesis by (auto simp: bearerToken_def Let_def)
qed


definition demo_auth_json :: auth_json where
  "demo_auth_json = \<lparr>aj_Register = (\<lambda>_. None), aj_Login = (\<lambda>_. None), aj_Refresh = (\<lambda>_. None), aj_Logout = (\<lambda>_. None),
     aj_CreateAPIKey = (\<lambda>_. None), aj_EOF = (\<lambda>_. True), aj_case = demo_case, aj_mail_ParseAddress = Some\<rparr>"

definition demo_key_request :: "string \<Rightarrow> ApiRequest" where
  "demo_key_request v = \<lparr>aq_Param = (\<lambda>x. if x = ''project_id'' then ''p1'' else ''k1''), aq_Query = (\<lambda>_. ''''),
     aq_Header = (\<lambda>k. if k = ''Authorization'' then [v] else []), aq_Body = ''''\<rparr>"


end
