(* ===== verification/System_Auth.thy ===== *)
theory System_Auth
  imports Auth_Http Gateway_AuthClient
begin

text \<open>
  The gateway and the auth service together: the auth service as the server behind the gateway's
  client, and the agreement of both sides on API keys.
\<close>

text \<open>The header fields of a request as the server reads them.\<close>

definition sent_header :: "(string \<times> string) list \<Rightarrow> Header" where
  "sent_header hs k = map snd (filter (\<lambda>(n, _). CanonicalHeaderKey n = k) hs)"

definition auth_server ::
  "(auth_body api_body \<Rightarrow> string) \<Rightarrow> auth_json \<Rightarrow> 's AuthUsecase \<Rightarrow> Duration \<Rightarrow> ClientRequest \<Rightarrow> 's \<Rightarrow>
   (gw_err + ClientResponse) \<times> 's" where
  "auth_server encode lib u timeout req s =
     (case auth_handle lib u AuValidateKey
             \<lparr>aq_Param = (\<lambda>_. ''''), aq_Query = (\<lambda>_. ''''), aq_Header = sent_header (req_Headers req), aq_Body = req_Body req\<rparr> s of
        (resp, s') \<Rightarrow> (Inr \<lparr>res_StatusCode = as_Status resp, res_Body = encode (as_Body resp), res_ReadErr = None\<rparr>, s'))"

text \<open>JSON on the wire: a principal is read back as it was written, within the client's limit.\<close>

definition principal_carried ::
  "(auth_body api_body \<Rightarrow> string) \<Rightarrow> 's auth_env \<Rightarrow> AuthKeyPrincipal \<Rightarrow> bool" where
  "principal_carried encode ae p \<longleftrightarrow>
     (let body = encode (JsonBody (PrincipalBody \<lparr>kpr_APIKeyID = akp_APIKeyID p, kpr_ProjectID = akp_ProjectID p\<rparr>)) in
      length body \<le> auth_maxResponseSize \<and>
      (\<exists>rest. ae_Decode ae body None = Inr (\<lparr>var_APIKeyID = akp_APIKeyID p, var_ProjectID = akp_ProjectID p\<rparr>, rest) \<and>
              ae_DecodeNext ae rest None = JsonEOF))"

definition gateway_principal :: "AuthKeyPrincipal \<Rightarrow> APIKeyPrincipal" where
  "gateway_principal p = \<lparr>pr_APIKeyID = TrimSpace (akp_APIKeyID p), pr_ProjectID = TrimSpace (akp_ProjectID p)\<rparr>"

lemma api_key_sent:
  "header_Get (sent_header [(''Accept'', ''application/json''), (''X-API-Key'', raw)]) ''X-API-Key'' = raw"
proof -
  have "CanonicalHeaderKey ''Accept'' \<noteq> CanonicalHeaderKey ''X-API-Key''" by code_simp
  then show ?thesis by (simp add: header_Get_def sent_header_def)
qed

text \<open>What the server answers to a validation request.\<close>

lemma auth_server_validates:
  assumes "req_Headers req = [(''Accept'', ''application/json''), (''X-API-Key'', raw)]"
  shows "fst (auth_server encode lib u t req s) =
    (case fst (ValidateAPIKey u (TrimSpace raw) s) of
       Inl err \<Rightarrow> Inr \<lparr>res_StatusCode = as_Status (auth_handleError ''validate api key'' err :: auth_body ApiResponse),
                       res_Body = encode (as_Body (auth_handleError ''validate api key'' err)), res_ReadErr = None\<rparr>
     | Inr p \<Rightarrow> Inr \<lparr>res_StatusCode = 200,
         res_Body = encode (JsonBody (PrincipalBody \<lparr>kpr_APIKeyID = akp_APIKeyID p, kpr_ProjectID = akp_ProjectID p\<rparr>)),
         res_ReadErr = None\<rparr>)"
  by (cases "ValidateAPIKey u (TrimSpace raw) s")
    (auto simp: auth_server_def validateAPIKey_handler_def assms api_key_sent auth_reply_def api_defs split: sum.splits)

text \<open>The gateway's client obtains a principal exactly when the auth service accepts the key.\<close>

lemma client_agrees:
  assumes "ae_NewRequest ae ''POST'' (ac_validateURL c) = None" and "ae_Do ae = auth_server encode lib u"
    and "\<And>p. fst (ValidateAPIKey u (TrimSpace raw) s) = Inr p \<Longrightarrow> principal_carried encode ae p"
  shows "fst (client_ValidateAPIKey ae c raw s) = Inr q \<longleftrightarrow>
    (\<exists>p. fst (ValidateAPIKey u (TrimSpace raw) s) = Inr p \<and> q = gateway_principal p \<and>
         pr_APIKeyID q \<noteq> '''' \<and> pr_ProjectID q \<noteq> '''')"
proof -
  define req where "req = \<lparr>req_Method = ''POST'', req_URL = ac_validateURL c,
    req_Headers = [(''Accept'', ''application/json''), (''X-API-Key'', raw)], req_Body = ''''\<rparr>"
  have hs: "req_Headers req = [(''Accept'', ''application/json''), (''X-API-Key'', raw)]" by (simp add: req_def)
  obtain r s1 where run: "ae_Do ae (ac_Timeout c) req s = (r, s1)" by fastforce
  have r: "r = fst (auth_server encode lib u (ac_Timeout c) req s)" using run unfolding assms(2) by simp
  note client = client_ValidateAPIKey_def assms(1)
  show ?thesis
  proof (cases "fst (ValidateAPIKey u (TrimSpace raw) s)")
    case (Inl err)
    have "as_Status (auth_handleError ''validate api key'' err :: auth_body ApiResponse) \<noteq> 200"
      using auth_handleError_status [of "''validate api key''" err, where 'a = auth_body] by linarith
    then show ?thesis
      by (auto simp: client run r auth_server_validates [OF hs] Inl Let_def split: sum.splits simp flip: req_def)
  next
    case (Inr p)
    with assms(3) have "principal_carried encode ae p" by blast
    then show ?thesis
      by (auto simp: client run r auth_server_validates [OF hs] Inr principal_carried_def limited_error_def
          auth_ensureJSONEOF_def gateway_principal_def Let_def split: sum.splits if_splits simp flip: req_def)
  qed
qed

text \<open>Authentication only reads, and takes time.\<close>

lemma AuthenticateAccessToken_reach:
  assumes "AuthenticateAccessToken (pg_usecase env libs h ts ttl) raw s = (Inr p, s')" and "interleaved env libs ts"
  shows "auth_reach env s s'"
proof -
  obtain now s1 where ck: "lib_clock libs s = (now, s1)" by fastforce
  with assms(1) obtain p0 user where "repo_GetUserByID env p0 s1 = (Inr user, s')"
    by (auto simp: AuthenticateAccessToken_def pg_port_defs Let_def split: if_splits sum.splits prod.splits)
  with GetUserByID_Inr have "pg_db s' = pg_db s1" by blast
  with interleavedD(1) [OF assms(2) ck] show ?thesis by (rule auth_reach.reach_other)
qed

lemma revoke_answered:
  assumes "auth_wf (pg_db s)" and "interleaved env libs ts"
    and "auth_handle lib (pg_usecase env libs h ts ttl) AuRevokeKey c s = (resp, s1)" and "as_Status resp = 204"
  shows "\<exists>s0. auth_wf (pg_db s0) \<and>
    RevokeAPIKey (pg_usecase env libs h ts ttl) (aq_Param c ''project_id'') (aq_Param c ''api_key_id'') s0 = (None, s1)"
proof -
  have "requireAccessToken (pg_usecase env libs h ts ttl) (revokeAPIKey_handler (pg_usecase env libs h ts ttl)) c s =
      (resp, s1)" "as_Status resp < 400" using assms(3,4) by simp_all
  from requireAccessToken_passed [OF this] obtain raw p s0 where
    a: "AuthenticateAccessToken (pg_usecase env libs h ts ttl) raw s = (Inr p, s0)"
    and v: "revokeAPIKey_handler (pg_usecase env libs h ts ttl) c s0 = (resp, s1)" by blast
  have "auth_wf (pg_db s0)" by (rule pg_tokens.reach_ok [OF assms(1) AuthenticateAccessToken_reach [OF a assms(2)]])
  moreover have "\<not> as_Status (auth_handleError ''revoke api key'' err :: auth_body ApiResponse) = 204" for err
    using auth_handleError_status [of "''revoke api key''" err, where 'a = auth_body] by linarith
  then have "RevokeAPIKey (pg_usecase env libs h ts ttl) (aq_Param c ''project_id'') (aq_Param c ''api_key_id'') s0 = (None, s1)"
    using v assms(4) by (auto simp: revokeAPIKey_handler_def auth_reply_unit_def split: prod.splits option.splits)
  ultimately show ?thesis by blast
qed

section \<open>A concrete pair of services\<close>

definition demo_short_libs :: "(auth_db pg) auth_libs" where
  "demo_short_libs = demo_libs\<lparr>lib_sha := (\<lambda>_. ''s'')\<rparr>"

definition demo_gate_usecase :: "(auth_db pg) AuthUsecase" where
  "demo_gate_usecase = pg_usecase calm_env demo_short_libs \<lparr>ph_cost = 10\<rparr> demo_ts 0"

definition demo_two_keys :: "auth_db pg" where
  "demo_two_keys = \<lparr>pg_db = \<lparr>db_users = [toy_user], db_tokens = [],
      db_keys = [\<lparr>ak_ID = ''k1'', ak_ProjectID = ''p1'', ak_Name = ''first'', ak_KeyPrefix = ''ff'',
         ak_KeyHash = ''00'', ak_Enabled = True, ak_ExpiresAt = None, ak_LastUsedAt = None, ak_CreatedAt = 0, ak_UpdatedAt = 0\<rparr>,
        \<lparr>ak_ID = ''k2'', ak_ProjectID = ''p1'', ak_Name = ''second'', ak_KeyPrefix = ''0011223344556677'',
         ak_KeyHash = ''73'' @ replicate 62 (CHR ''0''), ak_Enabled = True, ak_ExpiresAt = None, ak_LastUsedAt = None, ak_CreatedAt = 0, ak_UpdatedAt = 0\<rparr>],
      db_projects = [''p1'']\<rparr>, pg_tick = 0\<rparr>"

definition demo_key_text :: string where
  "demo_key_text = ''eg_live_0011223344556677_'' @ replicate 43 (CHR ''A'')"

definition demo_revoked :: "auth_body ApiResponse \<times> auth_db pg" where
  "demo_revoked = auth_handle demo_auth_json demo_gate_usecase AuRevokeKey (demo_key_request ''bearer t'') demo_two_keys"

definition demo_auth_link :: "(auth_db pg) auth_env" where
  "demo_auth_link =
     \<lparr>ae_NewRequest = (\<lambda>_ _. None), ae_Do = auth_server (\<lambda>_. ''{}'') demo_auth_json demo_gate_usecase,
      ae_Decode = (\<lambda>_ _. Inr (\<lparr>var_APIKeyID = ''k2'', var_ProjectID = ''p1''\<rparr>, '''')),
      ae_DecodeNext = (\<lambda>_ _. JsonEOF)\<rparr>"

lemma demo_two_keys_wf: "auth_wf (pg_db demo_two_keys)"
  by (simp add: auth_wf_def demo_two_keys_def)

lemma demo_short_interleaved: "interleaved calm_env demo_short_libs demo_ts"
  using demo_interleaved by (simp add: interleaved_def demo_short_libs_def)

definition demo_one_key :: "auth_db pg" where
  "demo_one_key = demo_two_keys\<lparr>pg_tick := 2, pg_db := (pg_db demo_two_keys)\<lparr>db_keys :=
     (hd (db_keys (pg_db demo_two_keys)))\<lparr>ak_Enabled := False, ak_UpdatedAt := 60000000000\<rparr> # tl (db_keys (pg_db demo_two_keys))\<rparr>\<rparr>"

lemma demo_revoked_eq: "demo_revoked = (api_NoContent 204, demo_one_key)"
  by code_simp

lemma demo_revoked_204: "as_Status (fst demo_revoked) = 204"
  by (simp add: demo_revoked_eq api_NoContent_def)

lemma demo_ids_plain: "\<forall>k\<in>set (db_keys (pg_db (snd demo_revoked))). TrimSpace (ak_ID k) = ak_ID k"
  unfolding demo_revoked_eq by code_simp

lemma demo_second_valid:
  "fst (ValidateAPIKey demo_gate_usecase (TrimSpace demo_key_text) (snd demo_revoked)) = Inr \<lparr>akp_APIKeyID = ''k2'', akp_ProjectID = ''p1''\<rparr>"
  unfolding demo_revoked_eq by code_simp

end
