(* ===== verification/Spec2Isabelle.thy ===== *)
theory Spec2Isabelle
  imports Gateway_App Worker_Cleanup Worker_Report Worker_Usecase Worker_Webhook Jobs_Http Analytics_Http Demo_Orders
    System_Routes System_Auth
begin

text \<open>
  A verification development of EdgeGuard: an API gateway with a control plane, an auth service, an analytics
  service, a jobs API with its notification worker, and a demo backend, written in Go (\<open>src/internal\<close>).

  \<^bold>\<open>The program.\<close> The gateway resolves a request to the route with the longest matching prefix, has the auth service
  check the API key, counts the request in Redis, forwards it upstream and publishes an access event to Kafka. Its
  routes come from a YAML file and, periodically, from the control plane, which keeps projects, services and routes
  in PostgreSQL. The auth service keeps users, refresh tokens and API keys there. The analytics service stores the
  access events and hourly statistics. Jobs (webhooks, reports, clean-up) are stored, published to RabbitMQ with
  confirms, and carried out by the worker with retries and dead-lettering.

  \<^bold>\<open>Conventions.\<close> A Go function returning \<open>(T, error)\<close> gives \<open>'e goerr + T\<close>; \<open>goerr\<close> keeps the wrapping structure, so
  \<open>errors.Is\<close> and \<open>errors.As\<close> are functions on it. An interface is a record of state-passing functions over a state
  \<open>'s\<close>, a value that may be nil an option. Integers are \<open>int\<close> with \<open>wrap64\<close> and \<open>wrap32\<close> where the code can overflow; a
  time is its number of nanoseconds; strings are byte lists. Concurrent requests are sequences of atomic steps: one
  SQL statement or transaction, one call on a mutex-protected repository, one Redis script. Every SQL statement may
  fail, before or after it took effect (\<open>Platform_Postgres\<close>).

  \<^bold>\<open>The theories.\<close>
  \<^item> \<open>Go_Base\<close>, \<open>Go_Strings\<close>, \<open>Go_Encoding\<close>, \<open>Go_Path\<close>: the prelude. Errors, wrap-around, times; \<open>strings\<close>, \<open>strconv\<close>,
    hexadecimal and base64, \<open>filepath\<close>, and the lemmas on them that the components share.
  \<^item> \<open>Platform_Postgres\<close>, \<open>Platform_Http\<close>, \<open>Platform_Api\<close>: statements with faults; headers, response writers and the two
    response recorders (\<open>platform/httpresponse\<close>); the JSON handler layer. \<open>Platform_Events\<close>, \<open>Platform_Jobs\<close>: the access
    event and the job envelope. \<open>Platform_Observability\<close>: readiness, metrics and tracing middleware.
  \<^item> \<open>Gateway_Domain\<close>, \<open>Gateway_Usecase\<close>, \<open>Gateway_Sources\<close>, \<open>Gateway_RateLimit\<close>, \<open>Gateway_AuthClient\<close>, \<open>Gateway_Http\<close>,
    \<open>Gateway_Kafka\<close>, \<open>Gateway_App\<close>: \<open>internal/gateway\<close>, from matching to the composed application.
  \<^item> \<open>Auth_Domain\<close>, \<open>Auth_Security\<close>, \<open>Auth_Store\<close>, \<open>Auth_Usecase\<close>, \<open>Auth_Http\<close>: \<open>internal/auth\<close>.
  \<^item> \<open>Control_Domain\<close>, \<open>Control_Store\<close>, \<open>Control_Usecase\<close>, \<open>Control_Http\<close>: \<open>internal/controlplane\<close>.
  \<^item> \<open>Analytics_Store\<close>, \<open>Analytics_Usecase\<close>, \<open>Analytics_Kafka\<close>, \<open>Analytics_Http\<close>: \<open>internal/analytics\<close>.
  \<^item> \<open>Jobs_Domain\<close>, \<open>Jobs_Store\<close>, \<open>Jobs_Amqp\<close>, \<open>Jobs_Usecase\<close>, \<open>Jobs_Http\<close>: \<open>internal/jobs\<close>. \<open>Worker_Webhook\<close>, \<open>Worker_Report\<close>,
    \<open>Worker_Cleanup\<close>, \<open>Worker_Usecase\<close>, \<open>Worker_Consumer\<close>: \<open>internal/jobworker\<close>.
  \<^item> \<open>Service_Config\<close>, \<open>Service_Run\<close>: the configurations of the services, the pool and the tracing provider, and \<open>Run\<close>
    of every service other than the gateway. \<open>Demo_Orders\<close>: \<open>internal/demo\<close>.
  \<^item> \<open>System_Routes\<close>, \<open>System_Auth\<close> and this theory: the gateway's clients against the servers they talk to.

  \<^bold>\<open>What is shown.\<close> Gateway: only authorised requests are forwarded, without the credential; resolution is by longest
  prefix and independent of the order of a snapshot; refreshes replace the routes completely or not at all; exactly
  the configured number of requests passes a window; each proxied request publishes one valid access event; a Redis
  outage lets traffic through, while a missing Redis configuration makes the limit check panic. Auth: refresh tokens are single-use
  under any interleaving, logout and revocation are final, a revoked key is rejected through the gateway, tokens
  and keys round-trip. Control plane: its tables stay well-formed, and the routes it publishes are accepted by
  the gateway exactly under the stated condition. Analytics: offsets are committed only for stored events, the
  statistics are exact sums, queries agree with the stored events, the retry loop ends. Jobs: the table refines the life
  cycle of a job, a receipt implies a confirmed message, every job is settled within its attempts, webhooks dial
  only checked addresses, reports are published atomically. The worker and the control plane give back all handles; readiness reports
  exactly whether a mandatory check fails. Interfaces whose clients are verified against a contract are locales
  (\<open>route_repository\<close>, \<open>rate_limiter\<close>, \<open>api_key_service\<close>, \<open>refresh_token_repository\<close>, \<open>status_store\<close>, \<open>order_store\<close>),
  each interpreted on the definitions that implement it.

  \<^bold>\<open>Parameters.\<close> Code outside the repository is an argument of the definitions: the Redis commands, the Kafka, AMQP, HTTP
  and JWT libraries, bcrypt and SHA-256, JSON and YAML codecs, URL parsing, DNS, the clock, randomness and the file
  system. What is assumed of them are named predicates such as \<open>redis_behaves\<close>, \<open>kafka_contract\<close>, \<open>os_contract\<close>,
  \<open>json_carries\<close>, \<open>libs_account\<close> and \<open>amqp_account\<close>, and each is met by the concrete instance of a witness.

  \<^bold>\<open>Bounds and fuel.\<close> Loops over \<open>select\<close> take the list of events that the select sees, so a run is a finite prefix of an
  execution; the retry loop of the analytics consumer is a total function with a termination proof, bounded by the
  configured attempts; policy installation ends because its context has a deadline (\<open>installPolicy_returns\<close>).
  \<open>sort.Slice\<close> is modelled for up to twelve elements, where it is an insertion sort; a service has at most four checks.

  \<^bold>\<open>Not modelled.\<close> Log lines (\<open>platform/logger\<close>), the registration and text export of Prometheus collectors, the
  propagation of trace headers, and the \<open>main\<close> packages, which only call \<open>Run\<close>: they call libraries and change no
  state of the program. Echo's router and the HTTP server loop are libraries: the handlers are composed as the code
  registers them, and what happens while a service runs is the parameter \<open>serve\<close> of its \<open>Run\<close>. Panics other than that of the limiter, data races inside libraries and the real-time behaviour
  of timeouts are not modelled; a timeout is an error that the called operation may return. Floating-point averages
  are exact quotients. SQL migrations are represented by the constraints that the tables' statements enforce.
\<close>

section \<open>Published routes\<close>

text \<open>C14. The gateway accepts the routes that the control plane publishes exactly when the query succeeds, every
  enabled route has an http or https upstream and a path prefix that is not only slashes (or is a single slash),
  and no two enabled routes have the same prefix up to trailing slashes; it then holds exactly the enabled
  routes, each with the fields of its row. Everything else the gateway checks is guaranteed by the control plane.
  The identifiers of the database are assumed not to be blank, and the JSON codec to carry the answer.
\<close>

theorem snapshot_accepted_iff:
  assumes "control_ok (scheme_host_of P) (pg_db s)" and "\<forall>p\<in>set (db_cprojects (pg_db s)). TrimSpace (pj_ID p) \<noteq> ''''"
    and "he_NewRequest he ''GET'' (cl_routesURL c) = None"
    and "he_Do he = control_server encode lib (pg_control env ord) q"
    and "json_carries encode he (gateway_snapshot ord (pg_db s))"
  shows "fst (client_ListRoutes P he c s) = Inr rs \<longleftrightarrow> pe_fault env (pg_tick s) = NoFault \<and>
      (\<forall>r\<in>set (gateway_snapshot ord (pg_db s)). routable P r) \<and>
      distinct (map (normalizePathPrefix \<circ> grt_PathPrefix) (gateway_snapshot ord (pg_db s))) \<and>
      rs = map gateway_route (gateway_snapshot ord (pg_db s))"
  by (rule client_accepts_iff [OF assms])

theorem snapshot_accepted_iff_witness:
  "fst (client_ListRoutes (\<lambda>_. Inr demo_upstream) (demo_routes_env ''/a'') \<lparr>cl_routesURL = ''u'', cl_Timeout = 1\<rparr> (snd (demo_created ''/a''))) =
     Inr (map gateway_route (gateway_snapshot demo_text_order (pg_db (snd (demo_created ''/a''))))) \<and>
   map grt_PathPrefix (gateway_snapshot demo_text_order (pg_db (snd (demo_created ''/a'')))) = [''/a'']"
proof -
  have ids: "\<forall>p\<in>set (db_cprojects (pg_db (snd (demo_created ''/a'')))). TrimSpace (pj_ID p) \<noteq> ''''" by code_simp
  have snap: "map (\<lambda>r. (grt_PathPrefix r, grt_UpstreamURL r)) (gateway_snapshot demo_text_order (pg_db (snd (demo_created ''/a'')))) = [(''/a'', ''http://h'')]"
    by code_simp
  have "normalizePathPrefix ''/a'' = ''/a''" by code_simp
  with snap have "\<forall>r\<in>set (gateway_snapshot demo_text_order (pg_db (snd (demo_created ''/a'')))). routable (\<lambda>_. Inr demo_upstream) r"
    by (auto simp: routable_def demo_upstream_def map_eq_Cons_conv)
  moreover from snap have "distinct (map (normalizePathPrefix \<circ> grt_PathPrefix) (gateway_snapshot demo_text_order (pg_db (snd (demo_created ''/a'')))))"
    by (auto simp: map_eq_Cons_conv)
  moreover have "map grt_PathPrefix (gateway_snapshot demo_text_order (pg_db (snd (demo_created ''/a'')))) = [''/a'']"
    using snap by (auto simp: map_eq_Cons_conv)
  ultimately show ?thesis
    using snapshot_accepted_iff [OF demo_created_ok ids demo_published] by (simp add: demo_control_env_def)
qed



section \<open>Revoked keys\<close>

text \<open>C2. Revocation reaches the gateway: once the auth service has answered the deletion of a key with 204, the
  gateway's client never again obtains this key's principal, for whatever key text and at whatever later time, under
  any interleaving of other requests. Key identifiers of the database are assumed to be free of blanks at their
  ends, and the JSON codec to carry the principal.\<close>

theorem revoked_key_rejected_by_gateway:
  assumes "auth_wf (pg_db s)" and "interleaved env libs ts"
    and "auth_handle lib (pg_usecase env libs h ts ttl) AuRevokeKey c s = (resp, s1)" and "as_Status resp = 204"
    and "pe_uuid env (TrimSpace (aq_Param c ''api_key_id'')) = Some kid" and "auth_reach env s1 s2"
    and "\<forall>k\<in>set (db_keys (pg_db s2)). TrimSpace (ak_ID k) = ak_ID k"
    and "ae_NewRequest ae ''POST'' (ac_validateURL ac) = None" and "ae_Do ae = auth_server encode lib (pg_usecase env libs h ts ttl)"
    and "\<forall>p. fst (ValidateAPIKey (pg_usecase env libs h ts ttl) (TrimSpace raw) s2) = Inr p \<longrightarrow> principal_carried encode ae p"
    and "fst (client_ValidateAPIKey ae ac raw s2) = Inr q"
  shows "pr_APIKeyID q \<noteq> kid"
proof -
  let ?u = "pg_usecase env libs h ts ttl"
  from revoke_answered [OF assms(1-4)] obtain s0 where
    s0: "auth_wf (pg_db s0)" "RevokeAPIKey ?u (aq_Param c ''project_id'') (aq_Param c ''api_key_id'') s0 = (None, s1)" by blast
  from client_agrees [OF assms(8,9), of raw s2 q] assms(10,11) obtain p where
    p: "fst (ValidateAPIKey ?u (TrimSpace raw) s2) = Inr p" "q = gateway_principal p" by blast
  from p(1) obtain s3 where "ValidateAPIKey ?u (TrimSpace raw) s2 = (Inr p, s3)" by (metis prod.collapse)
  from ValidateAPIKey_Inr [OF this assms(2)] obtain k where "k \<in> set (db_keys (pg_db s2))" "akp_APIKeyID p = ak_ID k"
    by (metis AuthKeyPrincipal.select_convs(1))
  with assms(7) p(2) have "pr_APIKeyID q = akp_APIKeyID p" by (simp add: gateway_principal_def)
  with revoked_key_rejected [OF s0(1) assms(2) s0(2) assms(6,5) p(1)] show ?thesis by simp
qed

theorem revoked_key_rejected_by_gateway_witness:
  "\<exists>q. fst (client_ValidateAPIKey demo_auth_link \<lparr>ac_validateURL = ''u'', ac_Timeout = 1\<rparr> demo_key_text (snd demo_revoked)) = Inr q \<and>
     pr_APIKeyID q \<noteq> ''k1''"
proof -
  let ?u = "pg_usecase calm_env demo_short_libs \<lparr>ph_cost = 10\<rparr> demo_ts 0" and ?c = "\<lparr>ac_validateURL = ''u'', ac_Timeout = 1\<rparr>"
  have run: "auth_handle demo_auth_json ?u AuRevokeKey (demo_key_request ''bearer t'') demo_two_keys =
      (fst demo_revoked, snd demo_revoked)" by (simp add: demo_revoked_def demo_gate_usecase_def)
  have uuid: "pe_uuid calm_env (TrimSpace (aq_Param (demo_key_request ''bearer t'') ''api_key_id'')) = Some ''k1''" by code_simp
  have new: "ae_NewRequest demo_auth_link ''POST'' (ac_validateURL ?c) = None" by (simp add: demo_auth_link_def)
  have do: "ae_Do demo_auth_link = auth_server (\<lambda>_. ''{}'') demo_auth_json ?u"
    by (simp add: demo_auth_link_def demo_gate_usecase_def)
  note valid = demo_second_valid [unfolded demo_gate_usecase_def]
  have carried: "\<forall>p. fst (ValidateAPIKey ?u (TrimSpace demo_key_text) (snd demo_revoked)) = Inr p \<longrightarrow>
      principal_carried (\<lambda>_. ''{}'') demo_auth_link p"
    unfolding valid by (simp add: principal_carried_def demo_auth_link_def auth_maxResponseSize_def)
  have "TrimSpace ''k2'' = ''k2''" "TrimSpace ''p1'' = ''p1''" by code_simp+
  then have q: "fst (client_ValidateAPIKey demo_auth_link ?c demo_key_text (snd demo_revoked)) =
      Inr \<lparr>pr_APIKeyID = ''k2'', pr_ProjectID = ''p1''\<rparr>"
    using client_agrees [OF new do, of demo_key_text "snd demo_revoked"] carried valid by (simp add: gateway_principal_def)
  show ?thesis
    using q revoked_key_rejected_by_gateway [OF demo_two_keys_wf demo_short_interleaved run demo_revoked_204 uuid
      auth_reach.reach_refl demo_ids_plain new do carried q] by blast
qed

end
